(* ===== verification/Prelude.thy ===== *)
theory Prelude
  imports "HOL-Library.Word"
begin

text \<open>
  What the components share.  Machine integers are words; a Rust \<^verbatim>\<open>Result<T, E>\<close> is a sum
  \<open>'e + 'a\<close> with the error on the left; a computation that can unwind or abort returns an
  \<open>outcome\<close>.  A stateful operation is a function \<open>'w \<Rightarrow> 'a outcome \<times> 'w\<close> from the world to
  an outcome and the new world, sequenced by \<open>bnd\<close>; \<open>unwind\<close> runs the drop glue of the
  values a panic passes.  The locale \<open>bounded_poll\<close> is the interface of every bounded
  completion loop of the crate, with the closed description \<open>spin\<close> of what such a loop does.
\<close>

unbundle bit_operations_syntax

type_synonym u8 = "8 word"
type_synonym u16 = "16 word"
type_synonym u32 = "32 word"
type_synonym i32 = "32 word"
type_synonym u64 = "64 word"
type_synonym usize = "64 word"
type_synonym ptr = "64 word"
type_synonym bytes = "u8 list"

named_theorems world_simps \<open>how an operation changes the fields of the world\<close>
named_theorems ffi_defs \<open>the definitions that wrap one foreign call\<close>

subsection \<open>Outcomes: returning, unwinding, aborting\<close>

datatype 'a outcome = Ret 'a | Panic string | Abort

type_synonym ('w, 'a) prog = "'w \<Rightarrow> 'a outcome \<times> 'w"

definition bnd :: "('w, 'a) prog \<Rightarrow> ('a \<Rightarrow> ('w, 'b) prog) \<Rightarrow> ('w, 'b) prog" where
  "bnd m f w = (case m w of
      (Ret x, w1) \<Rightarrow> f x w1
    | (Panic s, w1) \<Rightarrow> (Panic s, w1)
    | (Abort, w1) \<Rightarrow> (Abort, w1))"

definition unwind :: "('w \<Rightarrow> 'w) \<Rightarrow> ('w, 'a) prog \<Rightarrow> ('w, 'a) prog" where
  "unwind glue m w = (case m w of
      (Panic s, w1) \<Rightarrow> (Panic s, glue w1)
    | r \<Rightarrow> r)"

lemma bnd_Ret [simp]: "m w = (Ret x, w1) \<Longrightarrow> bnd m f w = f x w1"
  by (simp add: bnd_def)

lemma bnd_Panic [simp]: "m w = (Panic s, w1) \<Longrightarrow> bnd m f w = (Panic s, w1)"
  by (simp add: bnd_def)

lemma bnd_Abort [simp]: "m w = (Abort, w1) \<Longrightarrow> bnd m f w = (Abort, w1)"
  by (simp add: bnd_def)

lemma unwind_Ret [simp]: "m w = (Ret x, w1) \<Longrightarrow> unwind g m w = (Ret x, w1)"
  by (simp add: unwind_def)

lemma unwind_Abort [simp]: "m w = (Abort, w1) \<Longrightarrow> unwind g m w = (Abort, w1)"
  by (simp add: unwind_def)

lemma unwind_Panic [simp]: "m w = (Panic s, w1) \<Longrightarrow> unwind g m w = (Panic s, g w1)"
  by (simp add: unwind_def)

definition map_ok :: "('a \<Rightarrow> 'b) \<Rightarrow> ('e + 'a) outcome \<Rightarrow> ('e + 'b) outcome" where
  "map_ok f = map_outcome (map_sum id f)"

lemma map_ok_simps [simp]:
  "map_ok f (Ret (Inr x)) = Ret (Inr (f x))"
  "map_ok f (Ret (Inl e)) = Ret (Inl e)"
  "map_ok f (Panic s) = Panic s"
  "map_ok f Abort = Abort"
  by (simp_all add: map_ok_def)

lemma map_ok_Ret_Inr: "map_ok f r = Ret (Inr y) \<longleftrightarrow> (\<exists>x. r = Ret (Inr x) \<and> y = f x)"
  by (cases r; force simp: map_ok_def map_sum_def split: sum.splits)

text \<open>\<^verbatim>\<open>Result::map\<close> and \<^verbatim>\<open>bool::then_some\<close>.\<close>

definition result_map :: "('a \<Rightarrow> 'b) \<Rightarrow> 'e + 'a \<Rightarrow> 'e + 'b" where
  "result_map f r = (case r of Inl e \<Rightarrow> Inl e | Inr x \<Rightarrow> Inr (f x))"

lemma result_map_simps [simp]:
  "result_map f (Inl e) = Inl e" "result_map f (Inr x) = Inr (f x)"
  by (simp_all add: result_map_def)

definition then_some :: "bool \<Rightarrow> 'a \<Rightarrow> 'a option" where
  "then_some b x = (if b then Some x else None)"

lemma then_some_simps [simp]: "then_some True x = Some x" "then_some False x = None"
  by (simp_all add: then_some_def)

lemma then_some_None [simp]: "then_some b x = None \<longleftrightarrow> \<not> b"
  by (simp add: then_some_def)

subsection \<open>Bounded polling loops\<close>

text \<open>
  Every completion loop of the crate polls \<open>check\<close> (a request's \<^verbatim>\<open>check_finished\<close>) at most a
  fixed number of times and runs \<open>step\<close> (\<^verbatim>\<open>Worker::progress\<close>) after each \<^verbatim>\<open>Ok(false)\<close>.
  \<open>spin\<close> is that loop with its three ends as data; \<open>rounds k\<close> is the world after \<open>k\<close>
  rounds that all found the request pending.
\<close>

datatype 'e poll_end = Finished | Failed 'e | Exhausted

fun spin :: "('w \<Rightarrow> ('e + bool) \<times> 'w) \<Rightarrow> ('w, 's) prog \<Rightarrow> nat \<Rightarrow> ('w, 'e poll_end) prog" where
  "spin check step 0 w = (Ret Exhausted, w)"
| "spin check step (Suc n) w = (case check w of
      (Inl e, w1) \<Rightarrow> (Ret (Failed e), w1)
    | (Inr b, w1) \<Rightarrow>
        if b then (Ret Finished, w1) else bnd step (\<lambda>_. spin check step n) w1)"

fun rounds :: "('w \<Rightarrow> ('e + bool) \<times> 'w) \<Rightarrow> ('w, 's) prog \<Rightarrow> nat \<Rightarrow> 'w \<Rightarrow> 'w option" where
  "rounds check step 0 w = Some w"
| "rounds check step (Suc k) w = (case check w of
      (Inr False, w1) \<Rightarrow> (case step w1 of (Ret _, w2) \<Rightarrow> rounds check step k w2 | _ \<Rightarrow> None)
    | _ \<Rightarrow> None)"

lemma spin_Finished_iff:
  "spin check step n w = (Ret Finished, w') \<longleftrightarrow>
     (\<exists>k<n. \<exists>v. rounds check step k w = Some v \<and> check v = (Inr True, w'))"
proof (induction n arbitrary: w)
  case 0
  then show ?case by simp
next
  case (Suc n)
  show ?case
    by (subst Ex_less_Suc2)
      (auto simp: Suc bnd_def split: prod.splits sum.splits outcome.splits bool.splits)
qed

lemma spin_Failed_iff:
  "spin check step n w = (Ret (Failed e), w') \<longleftrightarrow>
     (\<exists>k<n. \<exists>v. rounds check step k w = Some v \<and> check v = (Inl e, w'))"
proof (induction n arbitrary: w)
  case 0
  then show ?case by simp
next
  case (Suc n)
  show ?case
    by (subst Ex_less_Suc2)
      (auto simp: Suc bnd_def split: prod.splits sum.splits outcome.splits bool.splits)
qed

lemma spin_Exhausted_iff:
  "spin check step n w = (Ret Exhausted, w') \<longleftrightarrow> rounds check step n w = Some w'"
  by (induction n arbitrary: w)
    (auto simp: bnd_def split: prod.splits sum.splits outcome.splits bool.splits)

lemma spin_invariant:
  assumes "\<And>w r w1. check w = (r, w1) \<Longrightarrow> P w \<Longrightarrow> P w1"
    and "\<And>w r w1. step w = (r, w1) \<Longrightarrow> P w \<Longrightarrow> P w1"
    and "P w"
  shows "P (snd (spin check step n w))"
  using assms(3)
proof (induction n arbitrary: w)
  case 0
  then show ?case by simp
next
  case (Suc n)
  then show ?case
    by (auto simp: bnd_def split: prod.splits sum.splits outcome.splits bool.splits
        dest!: assms(1) dest: assms(2))
qed

lemma spin_no_panic:
  assumes "\<And>w s w1. step w \<noteq> (Panic s, w1)" and "\<And>w w1. step w \<noteq> (Abort, w1)"
  shows "\<exists>e. fst (spin check step n w) = Ret e"
proof (induction n arbitrary: w)
  case 0
  then show ?case by simp
next
  case (Suc n)
  show ?case
    using assms Suc
    by (auto simp: bnd_def split: prod.splits sum.splits outcome.splits)
qed

locale bounded_poll =
  fixes check :: "'w \<Rightarrow> ('e + bool) \<times> 'w"
    and step :: "('w, 's) prog"
    and glue :: "'w \<Rightarrow> 'w"
    and on_done :: "('w, 'r) prog"
    and on_err :: "'e \<Rightarrow> ('w, 'r) prog"
    and on_timeout :: "('w, 'r) prog"
    and loop :: "nat \<Rightarrow> ('w, 'r) prog"
  assumes loop_0: "loop 0 w = on_timeout w"
    and loop_Suc: "loop (Suc n) w = (case check w of
        (Inl e, w1) \<Rightarrow> on_err e w1
      | (Inr b, w1) \<Rightarrow> if b then on_done w1 else bnd (unwind glue step) (\<lambda>_. loop n) w1)"
begin

definition finish :: "'e poll_end outcome \<times> 'w \<Rightarrow> 'r outcome \<times> 'w" where
  "finish p = (case p of
      (Ret Finished, w1) \<Rightarrow> on_done w1
    | (Ret (Failed e), w1) \<Rightarrow> on_err e w1
    | (Ret Exhausted, w1) \<Rightarrow> on_timeout w1
    | (Panic s, w1) \<Rightarrow> (Panic s, glue w1)
    | (Abort, w1) \<Rightarrow> (Abort, w1))"

lemma loop_is_spin: "loop n w = finish (spin check step n w)"
proof (induction n arbitrary: w)
  case 0
  then show ?case by (simp add: loop_0 finish_def)
next
  case (Suc n)
  obtain r w1 where c: "check w = (r, w1)" by fastforce
  obtain t w2 where s: "step w1 = (t, w2)" by fastforce
  show ?case
    by (cases r; cases t) (auto simp: loop_Suc c s finish_def bnd_def unwind_def Suc)
qed

lemma loop_done:
  assumes "k < n" and "rounds check step k w = Some v" and "check v = (Inr True, w')"
  shows "loop n w = on_done w'"
proof -
  have "spin check step n w = (Ret Finished, w')"
    using assms by (auto simp: spin_Finished_iff)
  then show ?thesis by (simp add: loop_is_spin finish_def)
qed

lemma loop_err:
  assumes "k < n" and "rounds check step k w = Some v" and "check v = (Inl e, w')"
  shows "loop n w = on_err e w'"
proof -
  have "spin check step n w = (Ret (Failed e), w')"
    using assms by (auto simp: spin_Failed_iff)
  then show ?thesis by (simp add: loop_is_spin finish_def)
qed

lemma loop_timeout:
  assumes "rounds check step n w = Some w'"
  shows "loop n w = on_timeout w'"
proof -
  have "spin check step n w = (Ret Exhausted, w')"
    using assms by (simp add: spin_Exhausted_iff)
  then show ?thesis by (simp add: loop_is_spin finish_def)
qed

text \<open>The ways a loop can end, as an elimination rule for the client's case analysis.\<close>

lemma loop_cases:
  obtains (Done) k v w' where "k < n" "rounds check step k w = Some v"
      "check v = (Inr True, w')" "loop n w = on_done w'"
    | (Err) k v e w' where "k < n" "rounds check step k w = Some v"
      "check v = (Inl e, w')" "loop n w = on_err e w'"
    | (Timeout) w' where "rounds check step n w = Some w'" "loop n w = on_timeout w'"
    | (Panicked) s w' where "spin check step n w = (Panic s, w')" "loop n w = (Panic s, glue w')"
    | (Aborted) w' where "spin check step n w = (Abort, w')" "loop n w = (Abort, w')"
proof -
  obtain r w' where sp: "spin check step n w = (r, w')" by fastforce
  have l: "loop n w = finish (r, w')" by (simp add: loop_is_spin sp)
  show ?thesis
  proof (cases r)
    case (Ret p)
    show ?thesis
    proof (cases p)
      case Finished
      with sp Ret Done l show ?thesis by (auto simp: spin_Finished_iff finish_def)
    next
      case (Failed e)
      with sp Ret Err l show ?thesis by (auto simp: spin_Failed_iff finish_def)
    next
      case Exhausted
      with sp Ret Timeout l show ?thesis by (auto simp: spin_Exhausted_iff finish_def)
    qed
  next
    case (Panic s)
    with sp Panicked l show ?thesis by (auto simp: finish_def)
  next
    case Abort
    with sp Aborted l show ?thesis by (auto simp: finish_def)
  qed
qed

end

subsection \<open>Little-endian byte sequences\<close>

text \<open>\<^verbatim>\<open>to_le_bytes\<close> and \<^verbatim>\<open>from_le_bytes\<close> of the unsigned integer types.\<close>

fun to_le :: "nat \<Rightarrow> 'a::len word \<Rightarrow> bytes" where
  "to_le 0 x = []"
| "to_le (Suc n) x = ucast x # to_le n (drop_bit 8 x)"

fun from_le :: "bytes \<Rightarrow> 'a::len word" where
  "from_le [] = 0"
| "from_le (b # bs) = ucast b OR push_bit 8 (from_le bs)"

lemma length_to_le [simp]: "length (to_le n x) = n"
  by (induction n arbitrary: x) auto

lemma from_le_to_le: "from_le (to_le n x) = take_bit (8 * n) (x :: 'a::len word)"
proof (induction n arbitrary: x)
  case 0
  then show ?case by simp
next
  case (Suc n)
  show ?case
    by (rule bit_word_eqI)
      (auto simp: Suc bit_simps dest: bit_imp_le_length)
qed

lemma bit_from_le: "bit (from_le bs :: 'a::len word) i \<Longrightarrow> i < 8 * length bs"
proof (induction bs arbitrary: i)
  case Nil
  then show ?case by simp
next
  case (Cons b bs)
  from Cons.prems consider "bit b i" | "8 \<le> i" "bit (from_le bs :: 'a word) (i - 8)"
    by (auto simp: bit_simps)
  then show ?case
  proof cases
    case 1
    then have "i < 8" by (auto dest: bit_imp_le_length)
    then show ?thesis by simp
  next
    case 2
    then show ?thesis using Cons.IH [of "i - 8"] by simp
  qed
qed

lemma to_le_from_le:
  assumes "8 * length bs \<le> LENGTH('a::len)"
  shows "to_le (length bs) (from_le bs :: 'a word) = bs"
  using assms
proof (induction bs)
  case Nil
  then show ?case by simp
next
  case (Cons b bs)
  let ?r = "from_le bs :: 'a word"
  have len: "8 + 8 * length bs \<le> LENGTH('a)" using Cons.prems by simp
  have hd: "(ucast (ucast b OR push_bit 8 ?r) :: u8) = b"
    using len by (intro bit_word_eqI) (auto simp: bit_simps dest: bit_imp_le_length)
  have tl: "drop_bit 8 (ucast b OR push_bit 8 ?r) = ?r"
  proof (rule bit_word_eqI)
    fix n
    have "\<not> bit b (8 + n)" by (auto dest: bit_imp_le_length)
    then show "bit (drop_bit 8 (ucast b OR push_bit 8 ?r)) n \<longleftrightarrow> bit ?r n"
      using len bit_from_le [of bs n, where 'a = 'a] by (auto simp: bit_simps)
  qed
  show ?case using Cons.IH len by (simp del: drop_bit_or add: hd tl)
qed

lemma from_le_32 [simp]: "from_le (to_le 4 x) = (x :: u32)"
  by (simp add: from_le_to_le take_bit_word_eq_self)

lemma from_le_64 [simp]: "from_le (to_le 8 x) = (x :: u64)"
  by (simp add: from_le_to_le take_bit_word_eq_self)

end
