(* ===== verification/Layout.thy ===== *)
theory Layout
  imports Prelude
begin

text \<open>
  The memory layout of the structures of \<^verbatim>\<open>src/bindings.rs\<close> that cross the foreign boundary.  The
  bindings assert at compile time the size, the alignment and the offset of every field that the
  C compiler gave them; Rust lays the \<^verbatim>\<open>#[repr(C)]\<close> declarations out by the algorithm below.  A
  wrong field order or type in the bindings would make UCX read other bytes than Rust wrote.
\<close>

subsection \<open>The layout of \<^verbatim>\<open>repr(C)\<close>\<close>

text \<open>A scalar is aligned to its size; the enums are \<^verbatim>\<open>repr(u32)\<close>, but for the \<^verbatim>\<open>repr(i8)\<close> status.\<close>

datatype cscalar = C_char | C_short | C_int | C_long | C_double | C_pointer | C_enum | C_enum_i8 | C_u128

fun scalar_bytes :: "cscalar \<Rightarrow> nat" where
  "scalar_bytes C_char = 1"
| "scalar_bytes C_short = 2"
| "scalar_bytes C_int = 4"
| "scalar_bytes C_long = 8"
| "scalar_bytes C_double = 8"
| "scalar_bytes C_pointer = 8"
| "scalar_bytes C_enum = 4"
| "scalar_bytes C_enum_i8 = 1"
| "scalar_bytes C_u128 = 16"

datatype ctype = C_scalar cscalar | C_array nat ctype | C_struct "ctype list" | C_union "ctype list"

definition round_up :: "nat \<Rightarrow> nat \<Rightarrow> nat" where
  "round_up n a = (n + a - 1) div a * a"

text \<open>Where fields of given sizes and alignments go, one after the other from an offset on.\<close>

fun offsets :: "nat \<Rightarrow> (nat \<times> nat) list \<Rightarrow> nat list" where
  "offsets n [] = []"
| "offsets n ((s, a) # fs) = round_up n a # offsets (round_up n a + s) fs"

fun end_of :: "nat \<Rightarrow> (nat \<times> nat) list \<Rightarrow> nat" where
  "end_of n [] = n"
| "end_of n ((s, a) # fs) = end_of (round_up n a + s) fs"

definition max_of :: "nat list \<Rightarrow> nat" where
  "max_of ns = foldr max ns 1"

primrec align_of :: "ctype \<Rightarrow> nat" where
  "align_of (C_scalar c) = scalar_bytes c"
| "align_of (C_array n t) = align_of t"
| "align_of (C_struct ts) = max_of (map align_of ts)"
| "align_of (C_union ts) = max_of (map align_of ts)"

primrec size_of :: "ctype \<Rightarrow> nat" where
  "size_of (C_scalar c) = scalar_bytes c"
| "size_of (C_array n t) = n * size_of t"
| "size_of (C_struct ts) =
     round_up (end_of 0 (zip (map size_of ts) (map align_of ts))) (max_of (map align_of ts))"
| "size_of (C_union ts) =
     round_up (foldr max (map size_of ts) 0) (max_of (map align_of ts))"

definition field_offsets :: "ctype list \<Rightarrow> nat list" where
  "field_offsets ts = offsets 0 (zip (map size_of ts) (map align_of ts))"

text \<open>What an assertion block of the bindings states: size, alignment, offsets by field name.\<close>

type_synonym asserted = "nat \<times> nat \<times> (string \<times> nat) list"

definition struct_layout :: "(string \<times> ctype) list \<Rightarrow> asserted" where
  "struct_layout fs = (size_of (C_struct (map snd fs)), align_of (C_struct (map snd fs)),
     zip (map fst fs) (field_offsets (map snd fs)))"

definition union_layout :: "(string \<times> ctype) list \<Rightarrow> asserted" where
  "union_layout fs = (size_of (C_union (map snd fs)), align_of (C_union (map snd fs)),
     map (\<lambda>(f, _). (f, 0)) fs)"

subsection \<open>The algorithm's guarantees\<close>

lemma max_of_ge: "x \<in> set ns \<Longrightarrow> x \<le> max_of ns"
  unfolding max_of_def by (induction ns) (auto simp: le_max_iff_disj)

lemma max_of_pos [simp]: "0 < max_of ns"
  unfolding max_of_def by (induction ns) auto

lemma align_of_pos [simp]: "0 < align_of t"
proof (induction t)
  case (C_scalar c)
  then show ?case by (cases c) simp_all
qed simp_all

lemma round_up_ge:
  assumes "0 < a"
  shows "n \<le> round_up n a"
proof -
  have "(n + a - 1) div a * a + (n + a - 1) mod a = n + a - 1" by simp
  moreover have "(n + a - 1) mod a < a" using assms by simp
  ultimately show ?thesis using assms unfolding round_up_def by linarith
qed

lemma round_up_dvd: "a dvd round_up n a"
  by (simp add: round_up_def)

lemma length_offsets [simp]: "length (offsets n fs) = length fs"
  by (induction n fs rule: offsets.induct) simp_all

text \<open>Fields in order, none starting before an earlier one ends, all within the struct.\<close>

definition apart :: "nat \<times> nat \<Rightarrow> nat \<times> nat \<Rightarrow> bool" where
  "apart f g \<longleftrightarrow> fst f + snd f \<le> fst g"

lemma offsets_bounds:
  "\<forall>(s, a)\<in>set fs. 0 < a \<Longrightarrow>
     list_all (\<lambda>(k, s). n \<le> k \<and> k + s \<le> end_of n fs) (zip (offsets n fs) (map fst fs)) \<and>
     n \<le> end_of n fs"
proof (induction n fs rule: offsets.induct)
  case (1 n)
  then show ?case by simp
next
  case (2 n s a fs)
  have n: "n \<le> round_up n a" using 2 by (simp add: round_up_ge)
  with 2 show ?case by (fastforce simp: list_all_iff)
qed

lemma offsets_apart:
  "\<forall>(s, a)\<in>set fs. 0 < a \<Longrightarrow> sorted_wrt apart (zip (offsets n fs) (map fst fs))"
proof (induction n fs rule: offsets.induct)
  case (2 n s a fs)
  have "list_all (\<lambda>(k, s'). round_up n a + s \<le> k \<and> k + s' \<le> end_of (round_up n a + s) fs)
      (zip (offsets (round_up n a + s) fs) (map fst fs))"
    using offsets_bounds [of fs "round_up n a + s"] 2 by simp
  with 2 show ?case by (auto simp: apart_def list_all_iff)
qed simp

lemma offsets_aligned: "list_all2 (\<lambda>k (s, a). a dvd k) (offsets n fs) fs"
  by (induction n fs rule: offsets.induct) (simp_all add: round_up_dvd)

lemma struct_fields:
  "sorted_wrt apart (zip (field_offsets ts) (map size_of ts)) \<and>
   list_all (\<lambda>(k, s). k + s \<le> size_of (C_struct ts)) (zip (field_offsets ts) (map size_of ts)) \<and>
   list_all2 (\<lambda>k t. align_of t dvd k) (field_offsets ts) ts \<and>
   align_of (C_struct ts) dvd size_of (C_struct ts)"
proof -
  let ?fs = "zip (map size_of ts) (map align_of ts)"
  have pos: "\<forall>(s, a)\<in>set ?fs. 0 < a" by (auto dest!: set_zip_rightD)
  have "0 < align_of (C_struct ts)" by (rule align_of_pos)
  then have e: "end_of 0 ?fs \<le> size_of (C_struct ts)" by (simp add: round_up_ge)
  have b: "list_all (\<lambda>(k, s). k + s \<le> size_of (C_struct ts)) (zip (offsets 0 ?fs) (map fst ?fs))"
    using offsets_bounds [OF pos, of 0] e by (fastforce simp: list_all_iff)
  have al: "list_all2 (\<lambda>k t. align_of t dvd k) (field_offsets ts) ts"
    using offsets_aligned [of 0 ?fs] by (simp add: field_offsets_def list_all2_conv_all_nth)
  show ?thesis using offsets_apart [OF pos, of 0] b al
    by (simp add: field_offsets_def round_up_dvd)
qed

subsection \<open>Reading and writing a field\<close>

text \<open>An object is its bytes; a field is read and written at an offset.\<close>

definition load :: "nat \<Rightarrow> nat \<Rightarrow> bytes \<Rightarrow> bytes" where
  "load k n b = take n (drop k b)"

definition store :: "nat \<Rightarrow> bytes \<Rightarrow> bytes \<Rightarrow> bytes" where
  "store k x b = take k b @ x @ drop (k + length x) b"

lemma length_store [simp]: "k + length x \<le> length b \<Longrightarrow> length (store k x b) = length b"
  by (simp add: store_def)

lemma load_store_same: "k + length x \<le> length b \<Longrightarrow> load k (length x) (store k x b) = x"
  by (simp add: load_def store_def)

lemma load_store_apart:
  assumes "apart (k, length x) (j, n) \<or> apart (j, n) (k, length x)"
    and "k + length x \<le> length b" and "j + n \<le> length b"
  shows "load j n (store k x b) = load j n b"
proof (rule nth_equalityI)
  show "length (load j n (store k x b)) = length (load j n b)"
    using assms(2) by (simp add: load_def)
  fix i
  assume "i < length (load j n (store k x b))"
  then have i: "i < n" "j + i < length b" using assms(2,3) by (simp_all add: load_def)
  have "store k x b ! (j + i) = b ! (j + i)"
    using assms i by (auto simp: store_def nth_append apart_def)
  then show "load j n (store k x b) ! i = load j n b ! i"
    using i assms(2) by (simp add: load_def)
qed

text \<open>Fields by name.  An \<^verbatim>\<open>align\<close> attribute can raise the alignment of a struct, and so its size.\<close>

datatype decl =
    Struct_decl "(string \<times> ctype) list"
  | Aligned_decl nat "(string \<times> ctype) list"
  | Union_decl "(string \<times> ctype) list"

fun decl_fields :: "decl \<Rightarrow> (string \<times> ctype) list" where
  "decl_fields (Struct_decl fs) = fs"
| "decl_fields (Aligned_decl a fs) = fs"
| "decl_fields (Union_decl fs) = fs"

fun layout_of :: "decl \<Rightarrow> asserted" where
  "layout_of (Struct_decl fs) = struct_layout fs"
| "layout_of (Aligned_decl a fs) = (case struct_layout fs of (n, al, os) \<Rightarrow>
     (round_up n (max a al), max a al, os))"
| "layout_of (Union_decl fs) = union_layout fs"

text \<open>Rust's side of an access: at the offset of the declaration's layout.\<close>

definition rust_offset :: "decl \<Rightarrow> string \<Rightarrow> nat" where
  "rust_offset d f = the (map_of (snd (snd (layout_of d))) f)"

definition rust_load :: "decl \<Rightarrow> string \<Rightarrow> ctype \<Rightarrow> bytes \<Rightarrow> bytes" where
  "rust_load d f t = load (rust_offset d f) (size_of t)"

definition rust_store :: "decl \<Rightarrow> string \<Rightarrow> bytes \<Rightarrow> bytes \<Rightarrow> bytes" where
  "rust_store d f = store (rust_offset d f)"

lemma map_of_zip_fields:
  "length os = length fs \<Longrightarrow> map_of fs f = Some t \<Longrightarrow>
     \<exists>i<length fs. fs ! i = (f, t) \<and> map_of (zip (map fst fs) os) f = Some (os ! i)"
proof (induction fs arbitrary: os)
  case (Cons p fs)
  obtain k ks where os: "os = k # ks" using Cons.prems(1) by (cases os) simp_all
  show ?case
  proof (cases "fst p = f")
    case True
    then show ?thesis using Cons.prems os by (intro exI [of _ 0]) (cases p, simp)
  next
    case False
    then obtain i where "i < length fs" "fs ! i = (f, t)" "map_of (zip (map fst fs) ks) f = Some (ks ! i)"
      using Cons.prems Cons.IH [of ks] os by (cases p) auto
    then show ?thesis using False os by (intro exI [of _ "Suc i"]) (cases p, auto)
  qed
qed simp

text \<open>The fields of a struct: inside it, aligned, and apart from each other.\<close>

lemma struct_field:
  assumes "map_of fs f = Some t"
  obtains i where "i < length fs" "fs ! i = (f, t)"
    "map_of (snd (snd (struct_layout fs))) f = Some (field_offsets (map snd fs) ! i)"
proof -
  have "length (field_offsets (map snd fs)) = length fs" by (simp add: field_offsets_def)
  from map_of_zip_fields [OF this assms] that show ?thesis by (auto simp: struct_layout_def)
qed

lemma struct_field_inside:
  assumes "map_of fs f = Some t" and "map_of (snd (snd (struct_layout fs))) f = Some k"
  shows "k + size_of t \<le> fst (struct_layout fs)" and "align_of t dvd k"
proof -
  obtain i where i: "i < length fs" "fs ! i = (f, t)" "k = field_offsets (map snd fs) ! i"
    using struct_field [OF assms(1)] assms(2) by auto
  have l: "length (field_offsets (map snd fs)) = length fs" by (simp add: field_offsets_def)
  let ?z = "zip (field_offsets (map snd fs)) (map size_of (map snd fs))"
  have "?z ! i \<in> set ?z" using i l by (intro nth_mem) simp
  then show "k + size_of t \<le> fst (struct_layout fs)"
    using struct_fields [of "map snd fs"] i l by (auto simp: list_all_iff struct_layout_def)
  have "list_all2 (\<lambda>k t. align_of t dvd k) (field_offsets (map snd fs)) (map snd fs)"
    using struct_fields by blast
  from list_all2_nthD [OF this, of i] show "align_of t dvd k" using i l by simp
qed

lemma struct_fields_apart:
  assumes "map_of fs f = Some t" and "map_of (snd (snd (struct_layout fs))) f = Some k"
    and "map_of fs g = Some u" and "map_of (snd (snd (struct_layout fs))) g = Some j" and "f \<noteq> g"
  shows "apart (k, size_of t) (j, size_of u) \<or> apart (j, size_of u) (k, size_of t)"
proof -
  obtain i where i: "i < length fs" "fs ! i = (f, t)" "k = field_offsets (map snd fs) ! i"
    using struct_field [OF assms(1)] assms(2) by auto
  obtain h where h: "h < length fs" "fs ! h = (g, u)" "j = field_offsets (map snd fs) ! h"
    using struct_field [OF assms(3)] assms(4) by auto
  have l: "length (field_offsets (map snd fs)) = length fs" by (simp add: field_offsets_def)
  have s: "sorted_wrt apart (zip (field_offsets (map snd fs)) (map size_of (map snd fs)))"
    using struct_fields by blast
  have "i \<noteq> h" using i h assms(5) by auto
  then consider "i < h" | "h < i" by linarith
  then show ?thesis
  proof cases
    case 1
    from sorted_wrt_nth_less [OF s this] show ?thesis using i h l by simp
  next
    case 2
    from sorted_wrt_nth_less [OF s this] show ?thesis using i h l by simp
  qed
qed

lemma union_field:
  assumes "map_of fs f = Some t" and "map_of (snd (snd (union_layout fs))) f = Some k"
  shows "k + size_of t \<le> fst (union_layout fs)" and "align_of t dvd k"
proof -
  have k: "k = 0" using assms(2) by (auto simp: union_layout_def dest!: map_of_SomeD)
  have "t \<in> set (map snd fs)" using map_of_SomeD [OF assms(1)] by force
  then have "size_of t \<le> foldr max (map size_of (map snd fs)) 0"
    by (induction fs) (auto simp: le_max_iff_disj)
  also have "\<dots> \<le> fst (union_layout fs)" by (simp add: union_layout_def round_up_ge)
  finally show "k + size_of t \<le> fst (union_layout fs)" "align_of t dvd k" using k by simp_all
qed

lemma decl_field:
  assumes "map_of (decl_fields d) f = Some t" and "map_of (snd (snd (layout_of d))) f = Some k"
  shows "k + size_of t \<le> fst (layout_of d)" and "align_of t dvd k"
proof -
  have "k + size_of t \<le> fst (layout_of d) \<and> align_of t dvd k"
  proof (cases d)
    case (Aligned_decl a fs)
    obtain n al os where l: "struct_layout fs = (n, al, os)" by (cases "struct_layout fs")
    then have "0 < al" using align_of_pos [of "C_struct (map snd fs)"] by (auto simp: struct_layout_def)
    then have "n \<le> round_up n (max a al)" by (intro round_up_ge) simp
    then show ?thesis
      using struct_field_inside [of fs f t k] assms Aligned_decl l by auto
  qed (use assms struct_field_inside union_field in auto)
  then show "k + size_of t \<le> fst (layout_of d)" "align_of t dvd k" by simp_all
qed

lemma decl_fields_apart:
  assumes "map_of (decl_fields d) f = Some t" and "map_of (snd (snd (layout_of d))) f = Some k"
    and "map_of (decl_fields d) g = Some u" and "map_of (snd (snd (layout_of d))) g = Some j"
    and "f \<noteq> g" and "\<And>fs. d \<noteq> Union_decl fs"
  shows "apart (k, size_of t) (j, size_of u) \<or> apart (j, size_of u) (k, size_of t)"
  using assms struct_fields_apart by (cases d) (auto split: prod.splits)

text \<open>An assertion block holds of a layout when its size and alignment are those of the layout and
  so is the offset of every field it lists.\<close>

definition asserted_holds :: "asserted \<Rightarrow> asserted \<Rightarrow> bool" where
  "asserted_holds layout asserted = (case (layout, asserted) of ((s, a, os), (s', a', os')) \<Rightarrow>
     s = s' \<and> a = a' \<and> list_all (\<lambda>(f, k). map_of os f = Some k) os')"

subsection \<open>The structures and what is asserted of them\<close>

definition sockaddr_storage_fields :: "(string \<times> ctype) list" where
  "sockaddr_storage_fields =
     [(''ss_family'', C_scalar C_short), (''__ss_padding'', C_array 118 (C_scalar C_char)),
      (''__ss_align'', C_scalar C_long)]"

definition sockaddr_storage_asserted :: asserted where
  "sockaddr_storage_asserted = (128, 8,
     [(''ss_family'', 0), (''__ss_padding'', 2), (''__ss_align'', 120)])"

definition ucs_config_names_array_t_fields :: "(string \<times> ctype) list" where
  "ucs_config_names_array_t_fields =
     [(''names'', C_scalar C_pointer), (''count'', C_scalar C_int), (''pad'', C_scalar C_int)]"

definition ucs_config_names_array_t_asserted :: asserted where
  "ucs_config_names_array_t_asserted = (16, 8,
     [(''names'', 0), (''count'', 8), (''pad'', 12)])"

definition ucs_config_allow_list_t_fields :: "(string \<times> ctype) list" where
  "ucs_config_allow_list_t_fields =
     [(''array'', C_struct (map snd ucs_config_names_array_t_fields)),
      (''mode'', C_scalar C_enum)]"

definition ucs_config_allow_list_t_asserted :: asserted where
  "ucs_config_allow_list_t_asserted = (24, 8,
     [(''array'', 0), (''mode'', 16)])"

definition ucs_sock_addr_fields :: "(string \<times> ctype) list" where
  "ucs_sock_addr_fields =
     [(''addr'', C_scalar C_pointer), (''addrlen'', C_scalar C_int)]"

definition ucs_sock_addr_asserted :: asserted where
  "ucs_sock_addr_asserted = (16, 8,
     [(''addr'', 0), (''addrlen'', 8)])"

definition ucs_log_component_config_fields :: "(string \<times> ctype) list" where
  "ucs_log_component_config_fields =
     [(''log_level'', C_scalar C_enum), (''name'', C_array 16 (C_scalar C_char)),
      (''file_filter'', C_scalar C_pointer)]"

definition ucs_log_component_config_asserted :: asserted where
  "ucs_log_component_config_asserted = (32, 8,
     [(''log_level'', 0), (''name'', 4), (''file_filter'', 24)])"

definition ucp_mem_attr_fields :: "(string \<times> ctype) list" where
  "ucp_mem_attr_fields =
     [(''field_mask'', C_scalar C_long), (''address'', C_scalar C_pointer),
      (''length'', C_scalar C_long), (''mem_type'', C_scalar C_enum)]"

definition ucp_mem_attr_asserted :: asserted where
  "ucp_mem_attr_asserted = (32, 8,
     [(''field_mask'', 0), (''address'', 8), (''length'', 16), (''mem_type'', 24)])"

definition ucp_err_handler_fields :: "(string \<times> ctype) list" where
  "ucp_err_handler_fields =
     [(''cb'', C_scalar C_pointer), (''arg'', C_scalar C_pointer)]"

definition ucp_err_handler_asserted :: asserted where
  "ucp_err_handler_asserted = (16, 8,
     [(''cb'', 0), (''arg'', 8)])"

definition ucp_listener_conn_handler_fields :: "(string \<times> ctype) list" where
  "ucp_listener_conn_handler_fields =
     [(''cb'', C_scalar C_pointer), (''arg'', C_scalar C_pointer)]"

definition ucp_listener_conn_handler_asserted :: asserted where
  "ucp_listener_conn_handler_asserted = (16, 8,
     [(''cb'', 0), (''arg'', 8)])"

definition ucp_ep_params_fields :: "(string \<times> ctype) list" where
  "ucp_ep_params_fields =
     [(''field_mask'', C_scalar C_long), (''address'', C_scalar C_pointer),
      (''err_mode'', C_scalar C_enum),
      (''err_handler'', C_struct (map snd ucp_err_handler_fields)),
      (''user_data'', C_scalar C_pointer), (''flags'', C_scalar C_int),
      (''sockaddr'', C_struct (map snd ucs_sock_addr_fields)),
      (''conn_request'', C_scalar C_pointer), (''name'', C_scalar C_pointer),
      (''local_sockaddr'', C_struct (map snd ucs_sock_addr_fields))]"

definition ucp_ep_params_asserted :: asserted where
  "ucp_ep_params_asserted = (104, 8,
     [(''field_mask'', 0), (''address'', 8), (''err_mode'', 16), (''err_handler'', 24),
      (''user_data'', 40), (''flags'', 48), (''sockaddr'', 56), (''conn_request'', 72),
      (''name'', 80), (''local_sockaddr'', 88)])"

definition ucp_transport_entry_t_fields :: "(string \<times> ctype) list" where
  "ucp_transport_entry_t_fields =
     [(''transport_name'', C_scalar C_pointer), (''device_name'', C_scalar C_pointer)]"

definition ucp_transport_entry_t_asserted :: asserted where
  "ucp_transport_entry_t_asserted = (16, 8,
     [(''transport_name'', 0), (''device_name'', 8)])"

definition ucp_transports_t_fields :: "(string \<times> ctype) list" where
  "ucp_transports_t_fields =
     [(''entries'', C_scalar C_pointer), (''num_entries'', C_scalar C_int),
      (''entry_size'', C_scalar C_long)]"

definition ucp_transports_t_asserted :: asserted where
  "ucp_transports_t_asserted = (24, 8,
     [(''entries'', 0), (''num_entries'', 8), (''entry_size'', 16)])"

definition ucp_listener_accept_handler_fields :: "(string \<times> ctype) list" where
  "ucp_listener_accept_handler_fields =
     [(''cb'', C_scalar C_pointer), (''arg'', C_scalar C_pointer)]"

definition ucp_listener_accept_handler_asserted :: asserted where
  "ucp_listener_accept_handler_asserted = (16, 8,
     [(''cb'', 0), (''arg'', 8)])"

definition ucs_cpu_set_t_fields :: "(string \<times> ctype) list" where
  "ucs_cpu_set_t_fields =
     [(''ucs_bits'', C_array 16 (C_scalar C_long))]"

definition ucs_cpu_set_t_asserted :: asserted where
  "ucs_cpu_set_t_asserted = (128, 8,
     [(''ucs_bits'', 0)])"

definition ucp_dt_iov_fields :: "(string \<times> ctype) list" where
  "ucp_dt_iov_fields =
     [(''buffer'', C_scalar C_pointer), (''length'', C_scalar C_long)]"

definition ucp_dt_iov_asserted :: asserted where
  "ucp_dt_iov_asserted = (16, 8,
     [(''buffer'', 0), (''length'', 8)])"

definition ucp_generic_dt_ops_fields :: "(string \<times> ctype) list" where
  "ucp_generic_dt_ops_fields =
     [(''start_pack'', C_scalar C_pointer), (''start_unpack'', C_scalar C_pointer),
      (''packed_size'', C_scalar C_pointer), (''pack'', C_scalar C_pointer),
      (''unpack'', C_scalar C_pointer), (''finish'', C_scalar C_pointer)]"

definition ucp_generic_dt_ops_asserted :: asserted where
  "ucp_generic_dt_ops_asserted = (48, 8,
     [(''start_pack'', 0), (''start_unpack'', 8), (''packed_size'', 16), (''pack'', 24),
      (''unpack'', 32), (''finish'', 40)])"

definition ucp_datatype_attr_fields :: "(string \<times> ctype) list" where
  "ucp_datatype_attr_fields =
     [(''field_mask'', C_scalar C_long), (''packed_size'', C_scalar C_long),
      (''buffer'', C_scalar C_pointer), (''count'', C_scalar C_long)]"

definition ucp_datatype_attr_asserted :: asserted where
  "ucp_datatype_attr_asserted = (32, 8,
     [(''field_mask'', 0), (''packed_size'', 8), (''buffer'', 16), (''count'', 24)])"

definition ucp_params_fields :: "(string \<times> ctype) list" where
  "ucp_params_fields =
     [(''field_mask'', C_scalar C_long), (''features'', C_scalar C_long),
      (''request_size'', C_scalar C_long), (''request_init'', C_scalar C_pointer),
      (''request_cleanup'', C_scalar C_pointer), (''tag_sender_mask'', C_scalar C_long),
      (''mt_workers_shared'', C_scalar C_int), (''estimated_num_eps'', C_scalar C_long),
      (''estimated_num_ppn'', C_scalar C_long), (''name'', C_scalar C_pointer)]"

definition ucp_params_asserted :: asserted where
  "ucp_params_asserted = (80, 8,
     [(''field_mask'', 0), (''features'', 8), (''request_size'', 16), (''request_init'', 24),
      (''request_cleanup'', 32), (''tag_sender_mask'', 40), (''mt_workers_shared'', 48),
      (''estimated_num_eps'', 56), (''estimated_num_ppn'', 64), (''name'', 72)])"

definition ucp_lib_attr_fields :: "(string \<times> ctype) list" where
  "ucp_lib_attr_fields =
     [(''field_mask'', C_scalar C_long), (''max_thread_level'', C_scalar C_enum)]"

definition ucp_lib_attr_asserted :: asserted where
  "ucp_lib_attr_asserted = (16, 8,
     [(''field_mask'', 0), (''max_thread_level'', 8)])"

definition ucp_context_attr_fields :: "(string \<times> ctype) list" where
  "ucp_context_attr_fields =
     [(''field_mask'', C_scalar C_long), (''request_size'', C_scalar C_long),
      (''thread_mode'', C_scalar C_enum), (''memory_types'', C_scalar C_long),
      (''name'', C_array 32 (C_scalar C_char))]"

definition ucp_context_attr_asserted :: asserted where
  "ucp_context_attr_asserted = (64, 8,
     [(''field_mask'', 0), (''request_size'', 8), (''thread_mode'', 16),
      (''memory_types'', 24), (''name'', 32)])"

definition ucp_worker_attr_fields :: "(string \<times> ctype) list" where
  "ucp_worker_attr_fields =
     [(''field_mask'', C_scalar C_long), (''thread_mode'', C_scalar C_enum),
      (''address_flags'', C_scalar C_int), (''address'', C_scalar C_pointer),
      (''address_length'', C_scalar C_long), (''max_am_header'', C_scalar C_long),
      (''name'', C_array 32 (C_scalar C_char)), (''max_debug_string'', C_scalar C_long)]"

definition ucp_worker_attr_asserted :: asserted where
  "ucp_worker_attr_asserted = (80, 8,
     [(''field_mask'', 0), (''thread_mode'', 8), (''address_flags'', 12), (''address'', 16),
      (''address_length'', 24), (''max_am_header'', 32), (''name'', 40),
      (''max_debug_string'', 72)])"

definition ucp_rkey_compare_params_fields :: "(string \<times> ctype) list" where
  "ucp_rkey_compare_params_fields =
     [(''field_mask'', C_scalar C_long)]"

definition ucp_rkey_compare_params_asserted :: asserted where
  "ucp_rkey_compare_params_asserted = (8, 8,
     [(''field_mask'', 0)])"

definition ucp_worker_params_fields :: "(string \<times> ctype) list" where
  "ucp_worker_params_fields =
     [(''field_mask'', C_scalar C_long), (''thread_mode'', C_scalar C_enum),
      (''cpu_mask'', C_struct (map snd ucs_cpu_set_t_fields)), (''events'', C_scalar C_int),
      (''user_data'', C_scalar C_pointer), (''event_fd'', C_scalar C_int),
      (''flags'', C_scalar C_long), (''name'', C_scalar C_pointer),
      (''am_alignment'', C_scalar C_long), (''client_id'', C_scalar C_long)]"

definition ucp_worker_params_asserted :: asserted where
  "ucp_worker_params_asserted = (200, 8,
     [(''field_mask'', 0), (''thread_mode'', 8), (''cpu_mask'', 16), (''events'', 144),
      (''user_data'', 152), (''event_fd'', 160), (''flags'', 168), (''name'', 176),
      (''am_alignment'', 184), (''client_id'', 192)])"

definition ucp_worker_address_attr_fields :: "(string \<times> ctype) list" where
  "ucp_worker_address_attr_fields =
     [(''field_mask'', C_scalar C_long), (''worker_uid'', C_scalar C_long)]"

definition ucp_worker_address_attr_asserted :: asserted where
  "ucp_worker_address_attr_asserted = (16, 8,
     [(''field_mask'', 0), (''worker_uid'', 8)])"

definition ucp_ep_evaluate_perf_param_t_fields :: "(string \<times> ctype) list" where
  "ucp_ep_evaluate_perf_param_t_fields =
     [(''field_mask'', C_scalar C_long), (''message_size'', C_scalar C_long)]"

definition ucp_ep_evaluate_perf_param_t_asserted :: asserted where
  "ucp_ep_evaluate_perf_param_t_asserted = (16, 8,
     [(''field_mask'', 0), (''message_size'', 8)])"

definition ucp_ep_evaluate_perf_attr_t_fields :: "(string \<times> ctype) list" where
  "ucp_ep_evaluate_perf_attr_t_fields =
     [(''field_mask'', C_scalar C_long), (''estimated_time'', C_scalar C_double)]"

definition ucp_ep_evaluate_perf_attr_t_asserted :: asserted where
  "ucp_ep_evaluate_perf_attr_t_asserted = (16, 8,
     [(''field_mask'', 0), (''estimated_time'', 8)])"

definition ucp_listener_attr_fields :: "(string \<times> ctype) list" where
  "ucp_listener_attr_fields =
     [(''field_mask'', C_scalar C_long),
      (''sockaddr'', C_struct (map snd sockaddr_storage_fields))]"

definition ucp_listener_attr_asserted :: asserted where
  "ucp_listener_attr_asserted = (136, 8,
     [(''field_mask'', 0), (''sockaddr'', 8)])"

definition ucp_conn_request_attr_fields :: "(string \<times> ctype) list" where
  "ucp_conn_request_attr_fields =
     [(''field_mask'', C_scalar C_long),
      (''client_address'', C_struct (map snd sockaddr_storage_fields)),
      (''client_id'', C_scalar C_long)]"

definition ucp_conn_request_attr_asserted :: asserted where
  "ucp_conn_request_attr_asserted = (144, 8,
     [(''field_mask'', 0), (''client_address'', 8), (''client_id'', 136)])"

definition ucp_listener_params_fields :: "(string \<times> ctype) list" where
  "ucp_listener_params_fields =
     [(''field_mask'', C_scalar C_long),
      (''sockaddr'', C_struct (map snd ucs_sock_addr_fields)),
      (''accept_handler'', C_struct (map snd ucp_listener_accept_handler_fields)),
      (''conn_handler'', C_struct (map snd ucp_listener_conn_handler_fields))]"

definition ucp_listener_params_asserted :: asserted where
  "ucp_listener_params_asserted = (56, 8,
     [(''field_mask'', 0), (''sockaddr'', 8), (''accept_handler'', 24), (''conn_handler'', 40)])"

definition ucp_stream_poll_ep_fields :: "(string \<times> ctype) list" where
  "ucp_stream_poll_ep_fields =
     [(''ep'', C_scalar C_pointer), (''user_data'', C_scalar C_pointer),
      (''flags'', C_scalar C_int), (''reserved'', C_array 16 (C_scalar C_char))]"

definition ucp_stream_poll_ep_asserted :: asserted where
  "ucp_stream_poll_ep_asserted = (40, 8,
     [(''ep'', 0), (''user_data'', 8), (''flags'', 16), (''reserved'', 20)])"

definition ucp_mem_map_params_fields :: "(string \<times> ctype) list" where
  "ucp_mem_map_params_fields =
     [(''field_mask'', C_scalar C_long), (''address'', C_scalar C_pointer),
      (''length'', C_scalar C_long), (''flags'', C_scalar C_int), (''prot'', C_scalar C_int),
      (''memory_type'', C_scalar C_enum), (''exported_memh_buffer'', C_scalar C_pointer)]"

definition ucp_mem_map_params_asserted :: asserted where
  "ucp_mem_map_params_asserted = (48, 8,
     [(''field_mask'', 0), (''address'', 8), (''length'', 16), (''flags'', 24), (''prot'', 28),
      (''memory_type'', 32), (''exported_memh_buffer'', 40)])"

definition ucp_tag_recv_info_fields :: "(string \<times> ctype) list" where
  "ucp_tag_recv_info_fields =
     [(''sender_tag'', C_scalar C_long), (''length'', C_scalar C_long)]"

definition ucp_tag_recv_info_asserted :: asserted where
  "ucp_tag_recv_info_asserted = (16, 8,
     [(''sender_tag'', 0), (''length'', 8)])"

definition ucp_request_param_t__bindgen_ty_1_fields :: "(string \<times> ctype) list" where
  "ucp_request_param_t__bindgen_ty_1_fields =
     [(''send'', C_scalar C_pointer), (''recv'', C_scalar C_pointer),
      (''recv_stream'', C_scalar C_pointer), (''recv_am'', C_scalar C_pointer)]"

definition ucp_request_param_t__bindgen_ty_1_asserted :: asserted where
  "ucp_request_param_t__bindgen_ty_1_asserted = (8, 8,
     [(''send'', 0), (''recv'', 0), (''recv_stream'', 0), (''recv_am'', 0)])"

definition ucp_request_param_t__bindgen_ty_2_fields :: "(string \<times> ctype) list" where
  "ucp_request_param_t__bindgen_ty_2_fields =
     [(''length'', C_scalar C_pointer), (''tag_info'', C_scalar C_pointer)]"

definition ucp_request_param_t__bindgen_ty_2_asserted :: asserted where
  "ucp_request_param_t__bindgen_ty_2_asserted = (8, 8,
     [(''length'', 0), (''tag_info'', 0)])"

definition ucp_request_param_t_fields :: "(string \<times> ctype) list" where
  "ucp_request_param_t_fields =
     [(''op_attr_mask'', C_scalar C_int), (''flags'', C_scalar C_int),
      (''request'', C_scalar C_pointer),
      (''cb'', C_union (map snd ucp_request_param_t__bindgen_ty_1_fields)),
      (''datatype'', C_scalar C_long), (''user_data'', C_scalar C_pointer),
      (''reply_buffer'', C_scalar C_pointer), (''memory_type'', C_scalar C_enum),
      (''recv_info'', C_union (map snd ucp_request_param_t__bindgen_ty_2_fields)),
      (''memh'', C_scalar C_pointer)]"

definition ucp_request_param_t_asserted :: asserted where
  "ucp_request_param_t_asserted = (72, 8,
     [(''op_attr_mask'', 0), (''flags'', 4), (''request'', 8), (''cb'', 16),
      (''datatype'', 24), (''user_data'', 32), (''reply_buffer'', 40), (''memory_type'', 48),
      (''recv_info'', 56), (''memh'', 64)])"

definition ucp_request_attr_t_fields :: "(string \<times> ctype) list" where
  "ucp_request_attr_t_fields =
     [(''field_mask'', C_scalar C_long), (''debug_string'', C_scalar C_pointer),
      (''debug_string_size'', C_scalar C_long), (''status'', C_scalar C_enum_i8),
      (''mem_type'', C_scalar C_enum)]"

definition ucp_request_attr_t_asserted :: asserted where
  "ucp_request_attr_t_asserted = (32, 8,
     [(''field_mask'', 0), (''debug_string'', 8), (''debug_string_size'', 16),
      (''status'', 24), (''mem_type'', 28)])"

definition ucp_am_handler_param_fields :: "(string \<times> ctype) list" where
  "ucp_am_handler_param_fields =
     [(''field_mask'', C_scalar C_long), (''id'', C_scalar C_int), (''flags'', C_scalar C_int),
      (''cb'', C_scalar C_pointer), (''arg'', C_scalar C_pointer)]"

definition ucp_am_handler_param_asserted :: asserted where
  "ucp_am_handler_param_asserted = (32, 8,
     [(''field_mask'', 0), (''id'', 8), (''flags'', 12), (''cb'', 16), (''arg'', 24)])"

definition ucp_am_recv_param_fields :: "(string \<times> ctype) list" where
  "ucp_am_recv_param_fields =
     [(''recv_attr'', C_scalar C_long), (''reply_ep'', C_scalar C_pointer)]"

definition ucp_am_recv_param_asserted :: asserted where
  "ucp_am_recv_param_asserted = (16, 8,
     [(''recv_attr'', 0), (''reply_ep'', 8)])"

definition ucp_mem_advise_params_fields :: "(string \<times> ctype) list" where
  "ucp_mem_advise_params_fields =
     [(''field_mask'', C_scalar C_long), (''address'', C_scalar C_pointer),
      (''length'', C_scalar C_long), (''advice'', C_scalar C_enum)]"

definition ucp_mem_advise_params_asserted :: asserted where
  "ucp_mem_advise_params_asserted = (32, 8,
     [(''field_mask'', 0), (''address'', 8), (''length'', 16), (''advice'', 24)])"

definition ucp_memh_pack_params_fields :: "(string \<times> ctype) list" where
  "ucp_memh_pack_params_fields =
     [(''field_mask'', C_scalar C_long), (''flags'', C_scalar C_long)]"

definition ucp_memh_pack_params_asserted :: asserted where
  "ucp_memh_pack_params_asserted = (16, 8,
     [(''field_mask'', 0), (''flags'', 8)])"

definition ucp_memh_buffer_release_params_fields :: "(string \<times> ctype) list" where
  "ucp_memh_buffer_release_params_fields =
     [(''field_mask'', C_scalar C_long)]"

definition ucp_memh_buffer_release_params_asserted :: asserted where
  "ucp_memh_buffer_release_params_asserted = (8, 8,
     [(''field_mask'', 0)])"

definition ucp_ep_attr_fields :: "(string \<times> ctype) list" where
  "ucp_ep_attr_fields =
     [(''field_mask'', C_scalar C_long), (''name'', C_array 32 (C_scalar C_char)),
      (''local_sockaddr'', C_struct (map snd sockaddr_storage_fields)),
      (''remote_sockaddr'', C_struct (map snd sockaddr_storage_fields)),
      (''transports'', C_struct (map snd ucp_transports_t_fields)),
      (''user_data'', C_scalar C_pointer)]"

definition ucp_ep_attr_asserted :: asserted where
  "ucp_ep_attr_asserted = (328, 8,
     [(''field_mask'', 0), (''name'', 8), (''local_sockaddr'', 40), (''remote_sockaddr'', 168),
      (''transports'', 296), (''user_data'', 320)])"

subsection \<open>All of them\<close>

definition struct_assertions :: "((string \<times> ctype) list \<times> asserted) list" where
  "struct_assertions =
     [(sockaddr_storage_fields, sockaddr_storage_asserted),
      (ucs_config_names_array_t_fields, ucs_config_names_array_t_asserted),
      (ucs_config_allow_list_t_fields, ucs_config_allow_list_t_asserted),
      (ucs_sock_addr_fields, ucs_sock_addr_asserted),
      (ucs_log_component_config_fields, ucs_log_component_config_asserted),
      (ucp_mem_attr_fields, ucp_mem_attr_asserted),
      (ucp_err_handler_fields, ucp_err_handler_asserted),
      (ucp_listener_conn_handler_fields, ucp_listener_conn_handler_asserted),
      (ucp_ep_params_fields, ucp_ep_params_asserted),
      (ucp_transport_entry_t_fields, ucp_transport_entry_t_asserted),
      (ucp_transports_t_fields, ucp_transports_t_asserted),
      (ucp_listener_accept_handler_fields, ucp_listener_accept_handler_asserted),
      (ucs_cpu_set_t_fields, ucs_cpu_set_t_asserted), (ucp_dt_iov_fields, ucp_dt_iov_asserted),
      (ucp_generic_dt_ops_fields, ucp_generic_dt_ops_asserted),
      (ucp_datatype_attr_fields, ucp_datatype_attr_asserted),
      (ucp_params_fields, ucp_params_asserted), (ucp_lib_attr_fields, ucp_lib_attr_asserted),
      (ucp_context_attr_fields, ucp_context_attr_asserted),
      (ucp_worker_attr_fields, ucp_worker_attr_asserted),
      (ucp_rkey_compare_params_fields, ucp_rkey_compare_params_asserted),
      (ucp_worker_params_fields, ucp_worker_params_asserted),
      (ucp_worker_address_attr_fields, ucp_worker_address_attr_asserted),
      (ucp_ep_evaluate_perf_param_t_fields, ucp_ep_evaluate_perf_param_t_asserted),
      (ucp_ep_evaluate_perf_attr_t_fields, ucp_ep_evaluate_perf_attr_t_asserted),
      (ucp_listener_attr_fields, ucp_listener_attr_asserted),
      (ucp_conn_request_attr_fields, ucp_conn_request_attr_asserted),
      (ucp_listener_params_fields, ucp_listener_params_asserted),
      (ucp_stream_poll_ep_fields, ucp_stream_poll_ep_asserted),
      (ucp_mem_map_params_fields, ucp_mem_map_params_asserted),
      (ucp_tag_recv_info_fields, ucp_tag_recv_info_asserted),
      (ucp_request_param_t_fields, ucp_request_param_t_asserted),
      (ucp_request_attr_t_fields, ucp_request_attr_t_asserted),
      (ucp_am_handler_param_fields, ucp_am_handler_param_asserted),
      (ucp_am_recv_param_fields, ucp_am_recv_param_asserted),
      (ucp_mem_advise_params_fields, ucp_mem_advise_params_asserted),
      (ucp_memh_pack_params_fields, ucp_memh_pack_params_asserted),
      (ucp_memh_buffer_release_params_fields, ucp_memh_buffer_release_params_asserted),
      (ucp_ep_attr_fields, ucp_ep_attr_asserted)]"

definition union_assertions :: "((string \<times> ctype) list \<times> asserted) list" where
  "union_assertions =
     [(ucp_request_param_t__bindgen_ty_1_fields, ucp_request_param_t__bindgen_ty_1_asserted),
      (ucp_request_param_t__bindgen_ty_2_fields, ucp_request_param_t__bindgen_ty_2_asserted)]"

lemmas layout_data =
  sockaddr_storage_fields_def ucs_config_names_array_t_fields_def
  ucs_config_allow_list_t_fields_def ucs_sock_addr_fields_def
  ucs_log_component_config_fields_def ucp_mem_attr_fields_def ucp_err_handler_fields_def
  ucp_listener_conn_handler_fields_def ucp_ep_params_fields_def
  ucp_transport_entry_t_fields_def ucp_transports_t_fields_def
  ucp_listener_accept_handler_fields_def ucs_cpu_set_t_fields_def ucp_dt_iov_fields_def
  ucp_generic_dt_ops_fields_def ucp_datatype_attr_fields_def ucp_params_fields_def
  ucp_lib_attr_fields_def ucp_context_attr_fields_def ucp_worker_attr_fields_def
  ucp_rkey_compare_params_fields_def ucp_worker_params_fields_def
  ucp_worker_address_attr_fields_def ucp_ep_evaluate_perf_param_t_fields_def
  ucp_ep_evaluate_perf_attr_t_fields_def ucp_listener_attr_fields_def
  ucp_conn_request_attr_fields_def ucp_listener_params_fields_def
  ucp_stream_poll_ep_fields_def ucp_mem_map_params_fields_def ucp_tag_recv_info_fields_def
  ucp_request_param_t__bindgen_ty_1_fields_def ucp_request_param_t__bindgen_ty_2_fields_def
  ucp_request_param_t_fields_def ucp_request_attr_t_fields_def
  ucp_am_handler_param_fields_def ucp_am_recv_param_fields_def
  ucp_mem_advise_params_fields_def ucp_memh_pack_params_fields_def
  ucp_memh_buffer_release_params_fields_def ucp_ep_attr_fields_def
  sockaddr_storage_asserted_def ucs_config_names_array_t_asserted_def
  ucs_config_allow_list_t_asserted_def ucs_sock_addr_asserted_def
  ucs_log_component_config_asserted_def ucp_mem_attr_asserted_def
  ucp_err_handler_asserted_def ucp_listener_conn_handler_asserted_def
  ucp_ep_params_asserted_def ucp_transport_entry_t_asserted_def
  ucp_transports_t_asserted_def ucp_listener_accept_handler_asserted_def
  ucs_cpu_set_t_asserted_def ucp_dt_iov_asserted_def ucp_generic_dt_ops_asserted_def
  ucp_datatype_attr_asserted_def ucp_params_asserted_def ucp_lib_attr_asserted_def
  ucp_context_attr_asserted_def ucp_worker_attr_asserted_def
  ucp_rkey_compare_params_asserted_def ucp_worker_params_asserted_def
  ucp_worker_address_attr_asserted_def ucp_ep_evaluate_perf_param_t_asserted_def
  ucp_ep_evaluate_perf_attr_t_asserted_def ucp_listener_attr_asserted_def
  ucp_conn_request_attr_asserted_def ucp_listener_params_asserted_def
  ucp_stream_poll_ep_asserted_def ucp_mem_map_params_asserted_def
  ucp_tag_recv_info_asserted_def ucp_request_param_t__bindgen_ty_1_asserted_def
  ucp_request_param_t__bindgen_ty_2_asserted_def ucp_request_param_t_asserted_def
  ucp_request_attr_t_asserted_def ucp_am_handler_param_asserted_def
  ucp_am_recv_param_asserted_def ucp_mem_advise_params_asserted_def
  ucp_memh_pack_params_asserted_def ucp_memh_buffer_release_params_asserted_def
  ucp_ep_attr_asserted_def

text \<open>Every assertion holds of the declared fields.\<close>

lemma struct_assertions_hold:
  "list_all (\<lambda>(fs, asserted). asserted_holds (struct_layout fs) asserted) struct_assertions"
  unfolding struct_assertions_def
  by (simp add: layout_data asserted_holds_def struct_layout_def field_offsets_def round_up_def max_of_def)

lemma union_assertions_hold:
  "list_all (\<lambda>(fs, asserted). asserted_holds (union_layout fs) asserted) union_assertions"
  unfolding union_assertions_def
  by (simp add: layout_data asserted_holds_def union_layout_def round_up_def max_of_def)

end
