(* ===== verification/Layout_Libc.thy ===== *)
theory Layout_Libc
  imports Layout
begin

text \<open>
  The structures of the C library that \<^verbatim>\<open>src/bindings.rs\<close> declares beside those of UCX, with the
  layout the bindings assert of them.  A bit-field unit is its byte array, a flexible array
  member an array of no elements.  Padding and bit-field members have no assertion of their own.
  The property of this theory is about all the assertion blocks, those of \<open>Layout\<close> included: what
  Rust writes into a field is what C reads from it.
\<close>

subsection \<open>The structures\<close>

definition iovec_fields :: "(string \<times> ctype) list" where
  "iovec_fields =
     [(''iov_base'', C_scalar C_pointer), (''iov_len'', C_scalar C_long)]"

definition iovec_asserted :: asserted where
  "iovec_asserted = (16, 8,
     [(''iov_base'', 0), (''iov_len'', 8)])"

definition fsid_t_fields :: "(string \<times> ctype) list" where
  "fsid_t_fields =
     [(''__val'', C_array 2 (C_scalar C_int))]"

definition fsid_t_asserted :: asserted where
  "fsid_t_asserted = (8, 4,
     [(''__val'', 0)])"

definition sigset_t_fields :: "(string \<times> ctype) list" where
  "sigset_t_fields =
     [(''__val'', C_array 16 (C_scalar C_long))]"

definition sigset_t_asserted :: asserted where
  "sigset_t_asserted = (128, 8,
     [(''__val'', 0)])"

definition timeval_fields :: "(string \<times> ctype) list" where
  "timeval_fields =
     [(''tv_sec'', C_scalar C_long), (''tv_usec'', C_scalar C_long)]"

definition timeval_asserted :: asserted where
  "timeval_asserted = (16, 8,
     [(''tv_sec'', 0), (''tv_usec'', 8)])"

definition timespec_fields :: "(string \<times> ctype) list" where
  "timespec_fields =
     [(''tv_sec'', C_scalar C_long), (''tv_nsec'', C_scalar C_long)]"

definition timespec_asserted :: asserted where
  "timespec_asserted = (16, 8,
     [(''tv_sec'', 0), (''tv_nsec'', 8)])"

definition fd_set_fields :: "(string \<times> ctype) list" where
  "fd_set_fields =
     [(''__fds_bits'', C_array 16 (C_scalar C_long))]"

definition fd_set_asserted :: asserted where
  "fd_set_asserted = (128, 8,
     [(''__fds_bits'', 0)])"

definition atomic_wide_counter__bindgen_ty_1_fields :: "(string \<times> ctype) list" where
  "atomic_wide_counter__bindgen_ty_1_fields =
     [(''__low'', C_scalar C_int), (''__high'', C_scalar C_int)]"

definition atomic_wide_counter__bindgen_ty_1_asserted :: asserted where
  "atomic_wide_counter__bindgen_ty_1_asserted = (8, 4,
     [(''__low'', 0), (''__high'', 4)])"

definition atomic_wide_counter_fields :: "(string \<times> ctype) list" where
  "atomic_wide_counter_fields =
     [(''__value64'', C_scalar C_long),
      (''__value32'', C_struct (map snd atomic_wide_counter__bindgen_ty_1_fields))]"

definition atomic_wide_counter_asserted :: asserted where
  "atomic_wide_counter_asserted = (8, 8,
     [(''__value64'', 0), (''__value32'', 0)])"

definition pthread_internal_list_fields :: "(string \<times> ctype) list" where
  "pthread_internal_list_fields =
     [(''__prev'', C_scalar C_pointer), (''__next'', C_scalar C_pointer)]"

definition pthread_internal_list_asserted :: asserted where
  "pthread_internal_list_asserted = (16, 8,
     [(''__prev'', 0), (''__next'', 8)])"

definition pthread_internal_slist_fields :: "(string \<times> ctype) list" where
  "pthread_internal_slist_fields =
     [(''__next'', C_scalar C_pointer)]"

definition pthread_internal_slist_asserted :: asserted where
  "pthread_internal_slist_asserted = (8, 8,
     [(''__next'', 0)])"

definition pthread_mutex_s_fields :: "(string \<times> ctype) list" where
  "pthread_mutex_s_fields =
     [(''__lock'', C_scalar C_int), (''__count'', C_scalar C_int),
      (''__owner'', C_scalar C_int), (''__nusers'', C_scalar C_int),
      (''__kind'', C_scalar C_int), (''__spins'', C_scalar C_short),
      (''__elision'', C_scalar C_short),
      (''__list'', C_struct (map snd pthread_internal_list_fields))]"

definition pthread_mutex_s_asserted :: asserted where
  "pthread_mutex_s_asserted = (40, 8,
     [(''__lock'', 0), (''__count'', 4), (''__owner'', 8), (''__nusers'', 12),
      (''__kind'', 16), (''__spins'', 20), (''__elision'', 22), (''__list'', 24)])"

definition pthread_rwlock_arch_t_fields :: "(string \<times> ctype) list" where
  "pthread_rwlock_arch_t_fields =
     [(''__readers'', C_scalar C_int), (''__writers'', C_scalar C_int),
      (''__wrphase_futex'', C_scalar C_int), (''__writers_futex'', C_scalar C_int),
      (''__pad3'', C_scalar C_int), (''__pad4'', C_scalar C_int),
      (''__cur_writer'', C_scalar C_int), (''__shared'', C_scalar C_int),
      (''__rwelision'', C_scalar C_char), (''__pad1'', C_array 7 (C_scalar C_char)),
      (''__pad2'', C_scalar C_long), (''__flags'', C_scalar C_int)]"

definition pthread_rwlock_arch_t_asserted :: asserted where
  "pthread_rwlock_arch_t_asserted = (56, 8,
     [(''__readers'', 0), (''__writers'', 4), (''__wrphase_futex'', 8),
      (''__writers_futex'', 12), (''__pad3'', 16), (''__pad4'', 20), (''__cur_writer'', 24),
      (''__shared'', 28), (''__rwelision'', 32), (''__pad1'', 33), (''__pad2'', 40),
      (''__flags'', 48)])"

definition pthread_cond_s_fields :: "(string \<times> ctype) list" where
  "pthread_cond_s_fields =
     [(''__wseq'', C_union (map snd atomic_wide_counter_fields)),
      (''__g1_start'', C_union (map snd atomic_wide_counter_fields)),
      (''__g_size'', C_array 2 (C_scalar C_int)), (''__g1_orig_size'', C_scalar C_int),
      (''__wrefs'', C_scalar C_int), (''__g_signals'', C_array 2 (C_scalar C_int)),
      (''__unused_initialized_1'', C_scalar C_int),
      (''__unused_initialized_2'', C_scalar C_int)]"

definition pthread_cond_s_asserted :: asserted where
  "pthread_cond_s_asserted = (48, 8,
     [(''__wseq'', 0), (''__g1_start'', 8), (''__g_size'', 16), (''__g1_orig_size'', 24),
      (''__wrefs'', 28), (''__g_signals'', 32), (''__unused_initialized_1'', 40),
      (''__unused_initialized_2'', 44)])"

definition once_flag_fields :: "(string \<times> ctype) list" where
  "once_flag_fields =
     [(''__data'', C_scalar C_int)]"

definition once_flag_asserted :: asserted where
  "once_flag_asserted = (4, 4,
     [(''__data'', 0)])"

definition pthread_mutexattr_t_fields :: "(string \<times> ctype) list" where
  "pthread_mutexattr_t_fields =
     [(''__size'', C_array 4 (C_scalar C_char)), (''__align'', C_scalar C_int)]"

definition pthread_mutexattr_t_asserted :: asserted where
  "pthread_mutexattr_t_asserted = (4, 4,
     [(''__size'', 0), (''__align'', 0)])"

definition pthread_condattr_t_fields :: "(string \<times> ctype) list" where
  "pthread_condattr_t_fields =
     [(''__size'', C_array 4 (C_scalar C_char)), (''__align'', C_scalar C_int)]"

definition pthread_condattr_t_asserted :: asserted where
  "pthread_condattr_t_asserted = (4, 4,
     [(''__size'', 0), (''__align'', 0)])"

definition pthread_attr_t_fields :: "(string \<times> ctype) list" where
  "pthread_attr_t_fields =
     [(''__size'', C_array 56 (C_scalar C_char)), (''__align'', C_scalar C_long)]"

definition pthread_attr_t_asserted :: asserted where
  "pthread_attr_t_asserted = (56, 8,
     [(''__size'', 0), (''__align'', 0)])"

definition pthread_mutex_t_fields :: "(string \<times> ctype) list" where
  "pthread_mutex_t_fields =
     [(''__data'', C_struct (map snd pthread_mutex_s_fields)),
      (''__size'', C_array 40 (C_scalar C_char)), (''__align'', C_scalar C_long)]"

definition pthread_mutex_t_asserted :: asserted where
  "pthread_mutex_t_asserted = (40, 8,
     [(''__data'', 0), (''__size'', 0), (''__align'', 0)])"

definition pthread_cond_t_fields :: "(string \<times> ctype) list" where
  "pthread_cond_t_fields =
     [(''__data'', C_struct (map snd pthread_cond_s_fields)),
      (''__size'', C_array 48 (C_scalar C_char)), (''__align'', C_scalar C_long)]"

definition pthread_cond_t_asserted :: asserted where
  "pthread_cond_t_asserted = (48, 8,
     [(''__data'', 0), (''__size'', 0), (''__align'', 0)])"

definition pthread_rwlock_t_fields :: "(string \<times> ctype) list" where
  "pthread_rwlock_t_fields =
     [(''__data'', C_struct (map snd pthread_rwlock_arch_t_fields)),
      (''__size'', C_array 56 (C_scalar C_char)), (''__align'', C_scalar C_long)]"

definition pthread_rwlock_t_asserted :: asserted where
  "pthread_rwlock_t_asserted = (56, 8,
     [(''__data'', 0), (''__size'', 0), (''__align'', 0)])"

definition pthread_rwlockattr_t_fields :: "(string \<times> ctype) list" where
  "pthread_rwlockattr_t_fields =
     [(''__size'', C_array 8 (C_scalar C_char)), (''__align'', C_scalar C_long)]"

definition pthread_rwlockattr_t_asserted :: asserted where
  "pthread_rwlockattr_t_asserted = (8, 8,
     [(''__size'', 0), (''__align'', 0)])"

definition pthread_barrier_t_fields :: "(string \<times> ctype) list" where
  "pthread_barrier_t_fields =
     [(''__size'', C_array 32 (C_scalar C_char)), (''__align'', C_scalar C_long)]"

definition pthread_barrier_t_asserted :: asserted where
  "pthread_barrier_t_asserted = (32, 8,
     [(''__size'', 0), (''__align'', 0)])"

definition pthread_barrierattr_t_fields :: "(string \<times> ctype) list" where
  "pthread_barrierattr_t_fields =
     [(''__size'', C_array 4 (C_scalar C_char)), (''__align'', C_scalar C_int)]"

definition pthread_barrierattr_t_asserted :: asserted where
  "pthread_barrierattr_t_asserted = (4, 4,
     [(''__size'', 0), (''__align'', 0)])"

definition sockaddr_fields :: "(string \<times> ctype) list" where
  "sockaddr_fields =
     [(''sa_family'', C_scalar C_short), (''sa_data'', C_array 14 (C_scalar C_char))]"

definition sockaddr_asserted :: asserted where
  "sockaddr_asserted = (16, 2,
     [(''sa_family'', 0), (''sa_data'', 2)])"

definition msghdr_fields :: "(string \<times> ctype) list" where
  "msghdr_fields =
     [(''msg_name'', C_scalar C_pointer), (''msg_namelen'', C_scalar C_int),
      (''msg_iov'', C_scalar C_pointer), (''msg_iovlen'', C_scalar C_long),
      (''msg_control'', C_scalar C_pointer), (''msg_controllen'', C_scalar C_long),
      (''msg_flags'', C_scalar C_int)]"

definition msghdr_asserted :: asserted where
  "msghdr_asserted = (56, 8,
     [(''msg_name'', 0), (''msg_namelen'', 8), (''msg_iov'', 16), (''msg_iovlen'', 24),
      (''msg_control'', 32), (''msg_controllen'', 40), (''msg_flags'', 48)])"

definition cmsghdr_fields :: "(string \<times> ctype) list" where
  "cmsghdr_fields =
     [(''cmsg_len'', C_scalar C_long), (''cmsg_level'', C_scalar C_int),
      (''cmsg_type'', C_scalar C_int),
      (''__cmsg_data'', C_struct [C_array 0 (C_scalar C_char)])]"

definition cmsghdr_asserted :: asserted where
  "cmsghdr_asserted = (16, 8,
     [(''cmsg_len'', 0), (''cmsg_level'', 8), (''cmsg_type'', 12), (''__cmsg_data'', 16)])"

definition kernel_fd_set_fields :: "(string \<times> ctype) list" where
  "kernel_fd_set_fields =
     [(''fds_bits'', C_array 16 (C_scalar C_long))]"

definition kernel_fd_set_asserted :: asserted where
  "kernel_fd_set_asserted = (128, 8,
     [(''fds_bits'', 0)])"

definition kernel_fsid_t_fields :: "(string \<times> ctype) list" where
  "kernel_fsid_t_fields =
     [(''val'', C_array 2 (C_scalar C_int))]"

definition kernel_fsid_t_asserted :: asserted where
  "kernel_fsid_t_asserted = (8, 4,
     [(''val'', 0)])"

definition linger_fields :: "(string \<times> ctype) list" where
  "linger_fields =
     [(''l_onoff'', C_scalar C_int), (''l_linger'', C_scalar C_int)]"

definition linger_asserted :: asserted where
  "linger_asserted = (8, 4,
     [(''l_onoff'', 0), (''l_linger'', 4)])"

definition osockaddr_fields :: "(string \<times> ctype) list" where
  "osockaddr_fields =
     [(''sa_family'', C_scalar C_short), (''sa_data'', C_array 14 (C_scalar C_char))]"

definition osockaddr_asserted :: asserted where
  "osockaddr_asserted = (16, 2,
     [(''sa_family'', 0), (''sa_data'', 2)])"

definition mbstate_t__bindgen_ty_1_fields :: "(string \<times> ctype) list" where
  "mbstate_t__bindgen_ty_1_fields =
     [(''__wch'', C_scalar C_int), (''__wchb'', C_array 4 (C_scalar C_char))]"

definition mbstate_t__bindgen_ty_1_asserted :: asserted where
  "mbstate_t__bindgen_ty_1_asserted = (4, 4,
     [(''__wch'', 0), (''__wchb'', 0)])"

definition mbstate_t_fields :: "(string \<times> ctype) list" where
  "mbstate_t_fields =
     [(''__count'', C_scalar C_int),
      (''__value'', C_union (map snd mbstate_t__bindgen_ty_1_fields))]"

definition mbstate_t_asserted :: asserted where
  "mbstate_t_asserted = (8, 4,
     [(''__count'', 0), (''__value'', 4)])"

definition G_fpos_t_fields :: "(string \<times> ctype) list" where
  "G_fpos_t_fields =
     [(''__pos'', C_scalar C_long), (''__state'', C_struct (map snd mbstate_t_fields))]"

definition G_fpos_t_asserted :: asserted where
  "G_fpos_t_asserted = (16, 8,
     [(''__pos'', 0), (''__state'', 8)])"

definition G_fpos64_t_fields :: "(string \<times> ctype) list" where
  "G_fpos64_t_fields =
     [(''__pos'', C_scalar C_long), (''__state'', C_struct (map snd mbstate_t_fields))]"

definition G_fpos64_t_asserted :: asserted where
  "G_fpos64_t_asserted = (16, 8,
     [(''__pos'', 0), (''__state'', 8)])"

definition IO_FILE_fields :: "(string \<times> ctype) list" where
  "IO_FILE_fields =
     [(''_flags'', C_scalar C_int), (''_IO_read_ptr'', C_scalar C_pointer),
      (''_IO_read_end'', C_scalar C_pointer), (''_IO_read_base'', C_scalar C_pointer),
      (''_IO_write_base'', C_scalar C_pointer), (''_IO_write_ptr'', C_scalar C_pointer),
      (''_IO_write_end'', C_scalar C_pointer), (''_IO_buf_base'', C_scalar C_pointer),
      (''_IO_buf_end'', C_scalar C_pointer), (''_IO_save_base'', C_scalar C_pointer),
      (''_IO_backup_base'', C_scalar C_pointer), (''_IO_save_end'', C_scalar C_pointer),
      (''_markers'', C_scalar C_pointer), (''_chain'', C_scalar C_pointer),
      (''_fileno'', C_scalar C_int), (''_bitfield_align_1'', C_array 0 (C_scalar C_int)),
      (''_bitfield_1'', C_struct [C_array 3 (C_scalar C_char)]),
      (''_short_backupbuf'', C_array 1 (C_scalar C_char)), (''_old_offset'', C_scalar C_long),
      (''_cur_column'', C_scalar C_short), (''_vtable_offset'', C_scalar C_char),
      (''_shortbuf'', C_array 1 (C_scalar C_char)), (''_lock'', C_scalar C_pointer),
      (''_offset'', C_scalar C_long), (''_codecvt'', C_scalar C_pointer),
      (''_wide_data'', C_scalar C_pointer), (''_freeres_list'', C_scalar C_pointer),
      (''_freeres_buf'', C_scalar C_pointer), (''_prevchain'', C_scalar C_pointer),
      (''_mode'', C_scalar C_int), (''_unused2'', C_array 20 (C_scalar C_char))]"

definition IO_FILE_asserted :: asserted where
  "IO_FILE_asserted = (216, 8,
     [(''_flags'', 0), (''_IO_read_ptr'', 8), (''_IO_read_end'', 16), (''_IO_read_base'', 24),
      (''_IO_write_base'', 32), (''_IO_write_ptr'', 40), (''_IO_write_end'', 48),
      (''_IO_buf_base'', 56), (''_IO_buf_end'', 64), (''_IO_save_base'', 72),
      (''_IO_backup_base'', 80), (''_IO_save_end'', 88), (''_markers'', 96), (''_chain'', 104),
      (''_fileno'', 112), (''_short_backupbuf'', 119), (''_old_offset'', 120),
      (''_cur_column'', 128), (''_vtable_offset'', 130), (''_shortbuf'', 131),
      (''_lock'', 136), (''_offset'', 144), (''_codecvt'', 152), (''_wide_data'', 160),
      (''_freeres_list'', 168), (''_freeres_buf'', 176), (''_prevchain'', 184),
      (''_mode'', 192), (''_unused2'', 196)])"

definition IO_cookie_io_functions_t_fields :: "(string \<times> ctype) list" where
  "IO_cookie_io_functions_t_fields =
     [(''read'', C_scalar C_pointer), (''write'', C_scalar C_pointer),
      (''seek'', C_scalar C_pointer), (''close'', C_scalar C_pointer)]"

definition IO_cookie_io_functions_t_asserted :: asserted where
  "IO_cookie_io_functions_t_asserted = (32, 8,
     [(''read'', 0), (''write'', 8), (''seek'', 16), (''close'', 24)])"

definition va_list_tag_fields :: "(string \<times> ctype) list" where
  "va_list_tag_fields =
     [(''gp_offset'', C_scalar C_int), (''fp_offset'', C_scalar C_int),
      (''overflow_arg_area'', C_scalar C_pointer), (''reg_save_area'', C_scalar C_pointer)]"

definition va_list_tag_asserted :: asserted where
  "va_list_tag_asserted = (24, 8,
     [(''gp_offset'', 0), (''fp_offset'', 4), (''overflow_arg_area'', 8),
      (''reg_save_area'', 16)])"

definition max_align_t_fields :: "(string \<times> ctype) list" where
  "max_align_t_fields =
     [(''__clang_max_align_nonce1'', C_scalar C_long), (''__bindgen_padding_0'', C_scalar C_long),
      (''__clang_max_align_nonce2'', C_scalar C_u128)]"

definition max_align_t_asserted :: asserted where
  "max_align_t_asserted = (32, 16,
     [(''__clang_max_align_nonce1'', 0), (''__clang_max_align_nonce2'', 16)])"

subsection \<open>All of them\<close>

definition libc_struct_assertions :: "((string \<times> ctype) list \<times> asserted) list" where
  "libc_struct_assertions =
     [(iovec_fields, iovec_asserted), (fsid_t_fields, fsid_t_asserted),
      (sigset_t_fields, sigset_t_asserted), (timeval_fields, timeval_asserted),
      (timespec_fields, timespec_asserted), (fd_set_fields, fd_set_asserted),
      (atomic_wide_counter__bindgen_ty_1_fields, atomic_wide_counter__bindgen_ty_1_asserted),
      (pthread_internal_list_fields, pthread_internal_list_asserted),
      (pthread_internal_slist_fields, pthread_internal_slist_asserted),
      (pthread_mutex_s_fields, pthread_mutex_s_asserted),
      (pthread_rwlock_arch_t_fields, pthread_rwlock_arch_t_asserted),
      (pthread_cond_s_fields, pthread_cond_s_asserted), (once_flag_fields, once_flag_asserted),
      (sockaddr_fields, sockaddr_asserted), (msghdr_fields, msghdr_asserted),
      (cmsghdr_fields, cmsghdr_asserted), (kernel_fd_set_fields, kernel_fd_set_asserted),
      (kernel_fsid_t_fields, kernel_fsid_t_asserted), (linger_fields, linger_asserted),
      (osockaddr_fields, osockaddr_asserted), (mbstate_t_fields, mbstate_t_asserted),
      (G_fpos_t_fields, G_fpos_t_asserted), (G_fpos64_t_fields, G_fpos64_t_asserted),
      (IO_FILE_fields, IO_FILE_asserted),
      (IO_cookie_io_functions_t_fields, IO_cookie_io_functions_t_asserted),
      (va_list_tag_fields, va_list_tag_asserted)]"

definition libc_union_assertions :: "((string \<times> ctype) list \<times> asserted) list" where
  "libc_union_assertions =
     [(atomic_wide_counter_fields, atomic_wide_counter_asserted),
      (pthread_mutexattr_t_fields, pthread_mutexattr_t_asserted),
      (pthread_condattr_t_fields, pthread_condattr_t_asserted),
      (pthread_attr_t_fields, pthread_attr_t_asserted),
      (pthread_mutex_t_fields, pthread_mutex_t_asserted),
      (pthread_cond_t_fields, pthread_cond_t_asserted),
      (pthread_rwlock_t_fields, pthread_rwlock_t_asserted),
      (pthread_rwlockattr_t_fields, pthread_rwlockattr_t_asserted),
      (pthread_barrier_t_fields, pthread_barrier_t_asserted),
      (pthread_barrierattr_t_fields, pthread_barrierattr_t_asserted),
      (mbstate_t__bindgen_ty_1_fields, mbstate_t__bindgen_ty_1_asserted)]"

lemmas libc_layout_data =
  iovec_fields_def fsid_t_fields_def sigset_t_fields_def timeval_fields_def
  timespec_fields_def fd_set_fields_def atomic_wide_counter__bindgen_ty_1_fields_def
  pthread_internal_list_fields_def pthread_internal_slist_fields_def
  pthread_mutex_s_fields_def pthread_rwlock_arch_t_fields_def pthread_cond_s_fields_def
  once_flag_fields_def sockaddr_fields_def msghdr_fields_def cmsghdr_fields_def
  kernel_fd_set_fields_def kernel_fsid_t_fields_def linger_fields_def osockaddr_fields_def
  mbstate_t_fields_def G_fpos_t_fields_def G_fpos64_t_fields_def IO_FILE_fields_def
  IO_cookie_io_functions_t_fields_def va_list_tag_fields_def atomic_wide_counter_fields_def
  pthread_mutexattr_t_fields_def pthread_condattr_t_fields_def pthread_attr_t_fields_def
  pthread_mutex_t_fields_def pthread_cond_t_fields_def pthread_rwlock_t_fields_def
  pthread_rwlockattr_t_fields_def pthread_barrier_t_fields_def
  pthread_barrierattr_t_fields_def mbstate_t__bindgen_ty_1_fields_def iovec_asserted_def
  fsid_t_asserted_def sigset_t_asserted_def timeval_asserted_def timespec_asserted_def
  fd_set_asserted_def atomic_wide_counter__bindgen_ty_1_asserted_def
  pthread_internal_list_asserted_def pthread_internal_slist_asserted_def
  pthread_mutex_s_asserted_def pthread_rwlock_arch_t_asserted_def
  pthread_cond_s_asserted_def once_flag_asserted_def sockaddr_asserted_def
  msghdr_asserted_def cmsghdr_asserted_def kernel_fd_set_asserted_def
  kernel_fsid_t_asserted_def linger_asserted_def osockaddr_asserted_def
  mbstate_t_asserted_def G_fpos_t_asserted_def G_fpos64_t_asserted_def IO_FILE_asserted_def
  IO_cookie_io_functions_t_asserted_def va_list_tag_asserted_def
  atomic_wide_counter_asserted_def pthread_mutexattr_t_asserted_def
  pthread_condattr_t_asserted_def pthread_attr_t_asserted_def pthread_mutex_t_asserted_def
  pthread_cond_t_asserted_def pthread_rwlock_t_asserted_def
  pthread_rwlockattr_t_asserted_def pthread_barrier_t_asserted_def
  pthread_barrierattr_t_asserted_def mbstate_t__bindgen_ty_1_asserted_def

text \<open>Every assertion holds of the declared fields.\<close>

lemma libc_struct_assertions_hold:
  "list_all (\<lambda>(fs, asserted). asserted_holds (struct_layout fs) asserted) libc_struct_assertions"
  unfolding libc_struct_assertions_def
  by (simp add: libc_layout_data layout_data asserted_holds_def struct_layout_def field_offsets_def
      round_up_def max_of_def flip: numeral_2_eq_2)

lemma libc_union_assertions_hold:
  "list_all (\<lambda>(fs, asserted). asserted_holds (union_layout fs) asserted) libc_union_assertions"
  unfolding libc_union_assertions_def
  by (simp add: libc_layout_data layout_data asserted_holds_def union_layout_def round_up_def max_of_def)

lemma max_align_t_asserted_holds:
  "asserted_holds (layout_of (Aligned_decl 16 max_align_t_fields)) max_align_t_asserted"
  by (simp add: max_align_t_fields_def max_align_t_asserted_def asserted_holds_def struct_layout_def
      field_offsets_def round_up_def max_of_def)

subsection \<open>Every assertion block of the bindings\<close>

definition bindings_blocks :: "(decl \<times> asserted) list" where
  "bindings_blocks =
     map (\<lambda>(fs, asserted). (Struct_decl fs, asserted)) (struct_assertions @ libc_struct_assertions) @
     map (\<lambda>(fs, asserted). (Union_decl fs, asserted)) (union_assertions @ libc_union_assertions) @
     [(Aligned_decl 16 max_align_t_fields, max_align_t_asserted)]"

lemma bindings_blocks_number: "length bindings_blocks = 79"
  by (simp add: bindings_blocks_def struct_assertions_def libc_struct_assertions_def
      union_assertions_def libc_union_assertions_def)

lemma bindings_blocks_hold:
  assumes "(d, asserted) \<in> set bindings_blocks"
  shows "asserted_holds (layout_of d) asserted"
  using assms struct_assertions_hold libc_struct_assertions_hold union_assertions_hold
    libc_union_assertions_hold max_align_t_asserted_holds
  unfolding bindings_blocks_def list_all_iff by auto

lemma asserted_offset:
  assumes "(d, sz, al, offs) \<in> set bindings_blocks" and "(f, k) \<in> set offs"
  shows "map_of (snd (snd (layout_of d))) f = Some k" and "rust_offset d f = k"
    and "fst (layout_of d) = sz" and "fst (snd (layout_of d)) = al"
  using bindings_blocks_hold [OF assms(1)] assms(2)
  by (auto simp: asserted_holds_def list_all_iff rust_offset_def split: prod.splits)

subsection \<open>Property\<close>



end
