(* ===== verification/Bitfield.thy ===== *)
theory Bitfield
  imports Prelude
begin

text \<open>
  The storage unit of C bit fields in \<^verbatim>\<open>src/bindings.rs\<close>, \<^verbatim>\<open>__BindgenBitfieldUnit\<close>: fields of
  up to 64 bits at any bit offset of a byte array.  Its methods are modelled for both byte orders
  (\<^verbatim>\<open>cfg!(target_endian = "big")\<close> is the parameter \<open>be\<close>) and both builds; the array's bounds
  check panics in either.  Bit positions are natural numbers, since their sums stay below the
  size of the storage in bits.
\<close>

type_synonym storage = "u8 list"

definition bit_index :: "bool \<Rightarrow> nat \<Rightarrow> nat" where
  "bit_index be index = (if be then 7 - index mod 8 else index mod 8)"

definition unit_get_bit :: "bool \<Rightarrow> storage \<Rightarrow> nat \<Rightarrow> bool outcome" where
  "unit_get_bit be st index =
     (let byte_index = index div 8
      in if byte_index < length st
         then let byte = st ! byte_index; msk = push_bit (bit_index be index) 1
              in Ret (byte AND msk = msk)
         else Panic ''index out of bounds'')"

definition unit_set_bit :: "bool \<Rightarrow> nat \<Rightarrow> bool \<Rightarrow> storage \<Rightarrow> storage outcome" where
  "unit_set_bit be index val st =
     (let byte_index = index div 8
      in if byte_index < length st
         then let byte = st ! byte_index; msk = push_bit (bit_index be index) 1
              in Ret (st[byte_index := if val then byte OR msk else byte AND NOT msk])
         else Panic ''index out of bounds'')"

text \<open>The place in the value of the \<open>i\<close>-th bit of a field.  The release build masks a shift amount.\<close>

definition field_index :: "bool \<Rightarrow> nat \<Rightarrow> nat \<Rightarrow> nat" where
  "field_index be bit_width i = (if be then bit_width - 1 - i else i)"

fun get_loop :: "bool \<Rightarrow> storage \<Rightarrow> nat \<Rightarrow> nat \<Rightarrow> nat list \<Rightarrow> u64 \<Rightarrow> u64 outcome" where
  "get_loop be st bit_offset bit_width [] val = Ret val"
| "get_loop be st bit_offset bit_width (i # is) val = (case unit_get_bit be st (i + bit_offset) of
      Ret b \<Rightarrow> get_loop be st bit_offset bit_width is
        (if b then val OR push_bit (field_index be bit_width i mod 64) 1 else val)
    | Panic s \<Rightarrow> Panic s
    | Abort \<Rightarrow> Abort)"

fun set_loop :: "bool \<Rightarrow> nat \<Rightarrow> nat \<Rightarrow> u64 \<Rightarrow> nat list \<Rightarrow> storage \<Rightarrow> storage outcome" where
  "set_loop be bit_offset bit_width val [] st = Ret st"
| "set_loop be bit_offset bit_width val (i # is) st =
     (let msk = push_bit (i mod 64) 1
      in case unit_set_bit be (field_index be bit_width i + bit_offset) (val AND msk = msk) st of
           Ret st1 \<Rightarrow> set_loop be bit_offset bit_width val is st1
         | Panic s \<Rightarrow> Panic s
         | Abort \<Rightarrow> Abort)"

definition field_asserts :: "storage \<Rightarrow> nat \<Rightarrow> u8 \<Rightarrow> bool" where
  "field_asserts st bit_offset bit_width \<longleftrightarrow> unat bit_width \<le> 64 \<and> bit_offset div 8 < length st \<and>
     (bit_offset + unat bit_width) div 8 \<le> length st"

definition bitfield_get :: "bool \<Rightarrow> bool \<Rightarrow> storage \<Rightarrow> nat \<Rightarrow> u8 \<Rightarrow> u64 outcome" where
  "bitfield_get debug be st bit_offset bit_width =
     (if debug \<and> \<not> field_asserts st bit_offset bit_width then Panic ''assertion failed''
      else get_loop be st bit_offset (unat bit_width) [0..<unat bit_width] 0)"

definition bitfield_set :: "bool \<Rightarrow> bool \<Rightarrow> nat \<Rightarrow> u8 \<Rightarrow> u64 \<Rightarrow> storage \<Rightarrow> storage outcome" where
  "bitfield_set debug be bit_offset bit_width val st =
     (if debug \<and> \<not> field_asserts st bit_offset bit_width then Panic ''assertion failed''
      else set_loop be bit_offset (unat bit_width) val [0..<unat bit_width] st)"

subsection \<open>Single bits\<close>

text \<open>The storage as a sequence of bits.\<close>

definition bit_at :: "bool \<Rightarrow> storage \<Rightarrow> nat \<Rightarrow> bool" where
  "bit_at be st j \<longleftrightarrow> bit (st ! (j div 8)) (bit_index be j)"

lemma mask_test [simp]: "n < LENGTH('a) \<Longrightarrow> (x :: 'a::len word) AND 2 ^ n = 2 ^ n \<longleftrightarrow> bit x n"
proof
  assume "n < LENGTH('a)" and "x AND 2 ^ n = 2 ^ n"
  then have "bit (x AND 2 ^ n) n" by (simp add: bit_exp_iff)
  then show "bit x n" by (simp add: bit_and_iff)
next
  assume "bit x n"
  then show "x AND 2 ^ n = 2 ^ n" by (intro bit_word_eqI) (auto simp: bit_and_iff bit_exp_iff)
qed

lemma bit_index_less [simp]: "bit_index be j < 8"
  by (auto simp: bit_index_def intro: le_less_trans [of _ 7])

lemma bit_index_inj: "j div 8 = k div 8 \<Longrightarrow> bit_index be j = bit_index be k \<longleftrightarrow> j = k"
proof -
  assume d: "j div 8 = k div 8"
  have "bit_index be j = bit_index be k \<longleftrightarrow> j mod 8 = k mod 8"
    using mod_less_divisor [of 8 j] mod_less_divisor [of 8 k] by (auto simp: bit_index_def)
  then show ?thesis using d by (metis div_mult_mod_eq)
qed

lemma get_bit_at: "j < 8 * length st \<Longrightarrow> unit_get_bit be st j = Ret (bit_at be st j)"
  by (simp add: unit_get_bit_def Let_def bit_at_def div_less_iff_less_mult mult.commute)

lemma set_bit_at:
  assumes "k < 8 * length st"
  obtains st1 where "unit_set_bit be k v st = Ret st1" and "length st1 = length st"
    and "\<And>j. j < 8 * length st \<Longrightarrow> bit_at be st1 j = (if j = k then v else bit_at be st j)"
proof -
  let ?m = "push_bit (bit_index be k) 1 :: u8"
  let ?b = "st ! (k div 8)"
  let ?st = "st[k div 8 := if v then ?b OR ?m else ?b AND NOT ?m]"
  have k: "k div 8 < length st" using assms by (simp add: div_less_iff_less_mult mult.commute)
  have "bit_at be ?st j = (if j = k then v else bit_at be st j)" if "j < 8 * length st" for j
  proof (cases "j div 8 = k div 8")
    case True
    then show ?thesis using k bit_index_inj [OF True, of be] bit_index_less [of be j]
      by (auto simp: bit_at_def bit_or_iff bit_and_iff bit_not_iff bit_exp_iff)
  next
    case False
    then show ?thesis by (auto simp: bit_at_def)
  qed
  then show thesis using that [of ?st] k by (simp add: unit_set_bit_def Let_def)
qed

subsection \<open>Fields\<close>

lemma field_index_less: "i < w \<Longrightarrow> field_index be w i < w"
  by (auto simp: field_index_def)

lemma field_index_inv [simp]: "i < w \<Longrightarrow> field_index be w (field_index be w i) = i"
  by (auto simp: field_index_def)

lemma get_loop_bits:
  assumes "off + w \<le> 8 * length st" and "w \<le> 64" and "\<forall>i\<in>set is. i < w"
  shows "\<exists>x. get_loop be st off w is val = Ret x \<and>
    (\<forall>m<64. bit x m \<longleftrightarrow> bit val m \<or> (\<exists>i\<in>set is. field_index be w i = m \<and> bit_at be st (i + off)))"
  using assms(3)
proof (induction "is" arbitrary: val)
  case Nil
  then show ?case by simp
next
  case (Cons i "is")
  then have i: "i + off < 8 * length st" using assms(1) by simp
  let ?val = "if bit_at be st (i + off) then val OR push_bit (field_index be w i mod 64) 1 else val"
  have f: "field_index be w i < 64" using field_index_less [of i w be] Cons.prems assms(2) by simp
  obtain x where x: "get_loop be st off w is ?val = Ret x"
    "\<forall>m<64. bit x m \<longleftrightarrow> bit ?val m \<or> (\<exists>i\<in>set is. field_index be w i = m \<and> bit_at be st (i + off))"
    using Cons.IH [of ?val] Cons.prems by auto
  have "bit ?val m \<longleftrightarrow> bit val m \<or> (field_index be w i = m \<and> bit_at be st (i + off))" if "m < 64" for m
    using f that by (auto simp: bit_or_iff bit_exp_iff)
  then show ?case using x by (auto simp: get_bit_at [OF i])
qed

lemma set_loop_bits:
  assumes "off + w \<le> 8 * length st" and "w \<le> 64" and "\<forall>i\<in>set is. i < w" and "distinct is"
  shows "\<exists>st1. set_loop be off w val is st = Ret st1 \<and> length st1 = length st \<and>
    (\<forall>i\<in>set is. bit_at be st1 (field_index be w i + off) = bit val i) \<and>
    (\<forall>j<8 * length st. (\<forall>i\<in>set is. j \<noteq> field_index be w i + off) \<longrightarrow> bit_at be st1 j = bit_at be st j)"
  using assms
proof (induction "is" arbitrary: st)
  case Nil
  then show ?case by simp
next
  case (Cons i "is")
  let ?k = "field_index be w i + off"
  have k: "?k < 8 * length st" using field_index_less [of i w be] Cons.prems by simp
  have i: "i < 64" "i mod 64 = i" using Cons.prems by simp_all
  obtain st1 where st1: "unit_set_bit be ?k (bit val i) st = Ret st1" "length st1 = length st"
    "\<And>j. j < 8 * length st \<Longrightarrow> bit_at be st1 j = (if j = ?k then bit val i else bit_at be st j)"
    using set_bit_at [OF k] by blast
  obtain st2 where st2: "set_loop be off w val is st1 = Ret st2" "length st2 = length st1"
    "\<forall>i\<in>set is. bit_at be st2 (field_index be w i + off) = bit val i"
    "\<forall>j<8 * length st1. (\<forall>i\<in>set is. j \<noteq> field_index be w i + off) \<longrightarrow> bit_at be st2 j = bit_at be st1 j"
    using Cons.IH [of st1] Cons.prems st1(2) by auto
  have ne: "field_index be w i' \<noteq> field_index be w i" if "i' \<in> set is" for i'
  proof
    assume "field_index be w i' = field_index be w i"
    then have "i' = i"
      using Cons.prems that field_index_inv [of i w be] field_index_inv [of i' w be] by simp
    then show False using Cons.prems that by simp
  qed
  have "bit_at be st2 ?k = bit_at be st1 ?k"
    using st2(4) [rule_format, of ?k] st1(2) k ne by fastforce
  then have "bit_at be st2 ?k = bit val i" using st1(3) [OF k] by simp
  moreover have "bit_at be st2 j = bit_at be st j"
    if "j < 8 * length st" "\<forall>i'\<in>set (i # is). j \<noteq> field_index be w i' + off" for j
    using st2(4) [rule_format, of j] st1(2) st1(3) [of j] that by simp
  ultimately show ?case using st1(1,2) st2(1-3) i by auto
qed

text \<open>A field set is read back, and no bit outside it changes.\<close>

lemma bitfield_stored:
  assumes "unat bit_width \<le> 64" and "bit_offset < 8 * length st"
    and "bit_offset + unat bit_width \<le> 8 * length st"
  shows "\<exists>st1. bitfield_set debug be bit_offset bit_width val st = Ret st1 \<and> length st1 = length st \<and>
    bitfield_get debug be st1 bit_offset bit_width = Ret (take_bit (unat bit_width) val) \<and>
    (\<forall>j<8 * length st. j < bit_offset \<or> bit_offset + unat bit_width \<le> j \<longrightarrow>
       bit_at be st1 j = bit_at be st j)"
proof -
  let ?w = "unat bit_width"
  have ok: "field_asserts s bit_offset bit_width" if "length s = length st" for s
    using assms that by (auto simp: field_asserts_def div_less_iff_less_mult mult.commute
        intro: le_trans [OF div_le_mono [OF assms(3)]])
  obtain st1 where st1: "set_loop be bit_offset ?w val [0..<?w] st = Ret st1" "length st1 = length st"
    "\<forall>i<?w. bit_at be st1 (field_index be ?w i + bit_offset) = bit val i"
    "\<forall>j<8 * length st. (\<forall>i<?w. j \<noteq> field_index be ?w i + bit_offset) \<longrightarrow> bit_at be st1 j = bit_at be st j"
    using set_loop_bits [OF assms(3,1), of "[0..<?w]" be val] by auto
  obtain x where x: "get_loop be st1 bit_offset ?w [0..<?w] 0 = Ret x"
    "\<forall>m<64. bit x m \<longleftrightarrow> (\<exists>i<?w. field_index be ?w i = m \<and> bit_at be st1 (i + bit_offset))"
    using get_loop_bits [of bit_offset ?w st1 "[0..<?w]" be 0] assms st1(2) by (auto simp: Bex_def)
  have at: "bit_at be st1 (i + bit_offset) = bit val (field_index be ?w i)" if "i < ?w" for i
    using st1(3) [rule_format, of "field_index be ?w i"] field_index_less [OF that, of be] that by simp
  have "bit x m \<longleftrightarrow> m < ?w \<and> bit val m" if m: "m < 64" for m
  proof
    assume "bit x m"
    then obtain i where "i < ?w" "field_index be ?w i = m" "bit_at be st1 (i + bit_offset)"
      using x(2) m by blast
    then show "m < ?w \<and> bit val m" using at field_index_less [of i ?w be] by auto
  next
    assume "m < ?w \<and> bit val m"
    then show "bit x m" using x(2) m at [of "field_index be ?w m"] field_index_less [of m ?w be]
      by (auto intro!: exI [of _ "field_index be ?w m"])
  qed
  then have "x = take_bit ?w val" by (intro bit_word_eqI) (simp add: bit_take_bit_iff)
  moreover have "bit_at be st1 j = bit_at be st j"
    if "j < 8 * length st" "j < bit_offset \<or> bit_offset + ?w \<le> j" for j
  proof -
    have "\<forall>i<?w. j \<noteq> field_index be ?w i + bit_offset"
      using that(2) field_index_less [of _ ?w be] by fastforce
    then show ?thesis using st1(4) that(1) by blast
  qed
  ultimately show ?thesis using st1(1,2) x(1) ok [of st] ok [of st1]
    by (auto simp: bitfield_set_def bitfield_get_def)
qed

lemma get_loop_cong:
  assumes "length s = length t" and "off + w \<le> 8 * length t" and "\<forall>i\<in>set is. i < w"
    and "\<And>j. off \<le> j \<Longrightarrow> j < off + w \<Longrightarrow> bit_at be s j = bit_at be t j"
  shows "get_loop be s off w is val = get_loop be t off w is val"
  using assms(3)
proof (induction "is" arbitrary: val)
  case (Cons i "is")
  then have "i + off < 8 * length s" "i + off < 8 * length t" using assms(1,2) by simp_all
  then show ?case using Cons assms(4) [of "i + off"] by (simp add: get_bit_at)
qed simp

lemma bitfield_get_cong:
  assumes "length s = length t" and "off + unat w \<le> 8 * length t"
    and "\<And>j. off \<le> j \<Longrightarrow> j < off + unat w \<Longrightarrow> bit_at be s j = bit_at be t j"
  shows "bitfield_get debug be s off w = bitfield_get debug be t off w"
  using get_loop_cong [OF assms(1,2), of "[0..<unat w]" be 0] assms(1,3)
  by (auto simp: bitfield_get_def field_asserts_def)

subsection \<open>The bit field of \<^verbatim>\<open>_IO_FILE\<close>\<close>

definition IO_FILE_flags2 :: "bool \<Rightarrow> bool \<Rightarrow> storage \<Rightarrow> i32 outcome" where
  "IO_FILE_flags2 debug be bitfield_1 = (case bitfield_get debug be bitfield_1 0 24 of
      Ret v \<Rightarrow> Ret (ucast v)
    | Panic s \<Rightarrow> Panic s
    | Abort \<Rightarrow> Abort)"

definition IO_FILE_set_flags2 :: "bool \<Rightarrow> bool \<Rightarrow> i32 \<Rightarrow> storage \<Rightarrow> storage outcome" where
  "IO_FILE_set_flags2 debug be val bitfield_1 = bitfield_set debug be 0 24 (ucast val) bitfield_1"

definition IO_FILE_new_bitfield_1 :: "bool \<Rightarrow> bool \<Rightarrow> i32 \<Rightarrow> storage outcome" where
  "IO_FILE_new_bitfield_1 debug be flags2 = bitfield_set debug be 0 24 (ucast flags2) (replicate 3 0)"

lemma flags2_round_trip:
  "\<exists>st. IO_FILE_new_bitfield_1 debug be val = Ret st \<and>
     IO_FILE_flags2 debug be st = Ret (take_bit 24 val)"
proof -
  obtain st where "bitfield_set debug be 0 24 (ucast val) (replicate 3 0) = Ret st"
    "bitfield_get debug be st 0 24 = Ret (take_bit (unat (24 :: u8)) (ucast val))"
    using bitfield_stored [of 24 0 "replicate 3 0" debug be "ucast val"] by auto
  moreover have "(ucast (take_bit 24 (ucast val :: u64)) :: i32) = take_bit 24 val"
    by (rule bit_word_eqI) (auto simp: bit_take_bit_iff bit_ucast_iff)
  ultimately show ?thesis by (simp add: IO_FILE_new_bitfield_1_def IO_FILE_flags2_def)
qed

subsection \<open>Property\<close>

text \<open>C39: Bit fields that share a storage unit are independent and keep what is stored, in both byte
  orders and both builds.  For two disjoint fields of at most 64 bits inside the storage, setting
  one and then the other does not panic, \<^verbatim>\<open>get\<close> gives back the low bits of each value, the
  storage keeps its size, and no bit outside the two fields has changed.\<close>

theorem bitfields_independent:
  assumes "unat width1 \<le> 64" and "offset1 < 8 * length st" and "offset1 + unat width1 \<le> 8 * length st"
    and "unat width2 \<le> 64" and "offset2 < 8 * length st" and "offset2 + unat width2 \<le> 8 * length st"
    and "offset1 + unat width1 \<le> offset2 \<or> offset2 + unat width2 \<le> offset1"
  shows "\<exists>st1 st2. bitfield_set debug be offset1 width1 x st = Ret st1 \<and>
    bitfield_set debug be offset2 width2 y st1 = Ret st2 \<and> length st2 = length st \<and>
    bitfield_get debug be st2 offset1 width1 = Ret (take_bit (unat width1) x) \<and>
    bitfield_get debug be st2 offset2 width2 = Ret (take_bit (unat width2) y) \<and>
    (\<forall>j<8 * length st. j \<notin> {offset1..<offset1 + unat width1} \<and> j \<notin> {offset2..<offset2 + unat width2} \<longrightarrow>
       bit_at be st2 j = bit_at be st j)"
proof -
  obtain st1 where st1: "bitfield_set debug be offset1 width1 x st = Ret st1" "length st1 = length st"
    "bitfield_get debug be st1 offset1 width1 = Ret (take_bit (unat width1) x)"
    "\<forall>j<8 * length st. j < offset1 \<or> offset1 + unat width1 \<le> j \<longrightarrow> bit_at be st1 j = bit_at be st j"
    using bitfield_stored [OF assms(1-3)] by blast
  obtain st2 where st2: "bitfield_set debug be offset2 width2 y st1 = Ret st2" "length st2 = length st1"
    "bitfield_get debug be st2 offset2 width2 = Ret (take_bit (unat width2) y)"
    "\<forall>j<8 * length st1. j < offset2 \<or> offset2 + unat width2 \<le> j \<longrightarrow> bit_at be st2 j = bit_at be st1 j"
    using bitfield_stored [of width2 offset2 st1 debug be y] assms(4-6) st1(2) by auto
  have "bitfield_get debug be st2 offset1 width1 = bitfield_get debug be st1 offset1 width1"
    using st2(2,4) st1(2) assms(3,7) by (intro bitfield_get_cong) auto
  moreover have "bit_at be st2 j = bit_at be st j"
    if "j < 8 * length st" "j \<notin> {offset1..<offset1 + unat width1}" "j \<notin> {offset2..<offset2 + unat width2}" for j
    using that st1(2,4) st2(4) by auto
  ultimately show ?thesis using st1 st2 by auto
qed

theorem bitfields_independent_witness:
  "\<exists>st1 st2. bitfield_set True False 6 5 21 [0xFF, 0] = Ret st1 \<and>
     bitfield_set True False 11 3 7 st1 = Ret st2 \<and>
     bitfield_get True False st2 6 5 = Ret 21 \<and> bitfield_get True False st2 11 3 = Ret 7"
proof -
  obtain st1 st2 where "bitfield_set True False 6 5 21 [0xFF, 0] = Ret st1"
    "bitfield_set True False 11 3 7 st1 = Ret st2"
    "bitfield_get True False st2 6 5 = Ret (take_bit (unat (5 :: u8)) 21)"
    "bitfield_get True False st2 11 3 = Ret (take_bit (unat (3 :: u8)) 7)"
    using bitfields_independent [of 5 6 "[0xFF, 0]" 3 11 True False 21 7] by auto
  moreover have "take_bit (unat (5 :: u8)) (21 :: u64) = 21" "take_bit (unat (3 :: u8)) (7 :: u64) = 7"
    by simp_all
  ultimately show ?thesis by auto
qed

end
