(* ===== verification/Status.thy ===== *)
theory Status
  imports Prelude
begin

text \<open>
  \<^verbatim>\<open>src/status.rs\<close> and the status helpers of \<^verbatim>\<open>src/request.rs\<close>: the raw status enum of the
  bindings (a \<^verbatim>\<open>#[repr(i8)]\<close> enum), its discriminants and casts, the public \<^verbatim>\<open>Status\<close> wrapper
  with its constants, and the decoder of UCX's tagged status pointers.  A status pointer is a
  64-bit word: \<open>0\<close> and \<open>1\<close> are the immediate statuses, the topmost 100 addresses are the
  error codes, everything between is the address of a request.
\<close>

subsection \<open>The raw status and its casts\<close>

datatype ucs_status_t =
    UCS_OK
  | UCS_INPROGRESS
  | UCS_ERR_NO_MESSAGE
  | UCS_ERR_NO_RESOURCE
  | UCS_ERR_IO_ERROR
  | UCS_ERR_NO_MEMORY
  | UCS_ERR_INVALID_PARAM
  | UCS_ERR_UNREACHABLE
  | UCS_ERR_INVALID_ADDR
  | UCS_ERR_NOT_IMPLEMENTED
  | UCS_ERR_MESSAGE_TRUNCATED
  | UCS_ERR_NO_PROGRESS
  | UCS_ERR_BUFFER_TOO_SMALL
  | UCS_ERR_NO_ELEM
  | UCS_ERR_SOME_CONNECTS_FAILED
  | UCS_ERR_NO_DEVICE
  | UCS_ERR_BUSY
  | UCS_ERR_CANCELED
  | UCS_ERR_SHMEM_SEGMENT
  | UCS_ERR_ALREADY_EXISTS
  | UCS_ERR_OUT_OF_RANGE
  | UCS_ERR_TIMED_OUT
  | UCS_ERR_EXCEEDS_LIMIT
  | UCS_ERR_UNSUPPORTED
  | UCS_ERR_REJECTED
  | UCS_ERR_NOT_CONNECTED
  | UCS_ERR_CONNECTION_RESET
  | UCS_ERR_FIRST_LINK_FAILURE
  | UCS_ERR_LAST_LINK_FAILURE
  | UCS_ERR_FIRST_ENDPOINT_FAILURE
  | UCS_ERR_ENDPOINT_TIMEOUT
  | UCS_ERR_LAST_ENDPOINT_FAILURE
  | UCS_ERR_LAST

text \<open>The discriminant, and the casts \<^verbatim>\<open>status as i8\<close> and \<^verbatim>\<open>status as isize as usize\<close>.\<close>

fun disc :: "ucs_status_t \<Rightarrow> int" where
  "disc UCS_OK = 0"
| "disc UCS_INPROGRESS = 1"
| "disc UCS_ERR_NO_MESSAGE = - 1"
| "disc UCS_ERR_NO_RESOURCE = - 2"
| "disc UCS_ERR_IO_ERROR = - 3"
| "disc UCS_ERR_NO_MEMORY = - 4"
| "disc UCS_ERR_INVALID_PARAM = - 5"
| "disc UCS_ERR_UNREACHABLE = - 6"
| "disc UCS_ERR_INVALID_ADDR = - 7"
| "disc UCS_ERR_NOT_IMPLEMENTED = - 8"
| "disc UCS_ERR_MESSAGE_TRUNCATED = - 9"
| "disc UCS_ERR_NO_PROGRESS = - 10"
| "disc UCS_ERR_BUFFER_TOO_SMALL = - 11"
| "disc UCS_ERR_NO_ELEM = - 12"
| "disc UCS_ERR_SOME_CONNECTS_FAILED = - 13"
| "disc UCS_ERR_NO_DEVICE = - 14"
| "disc UCS_ERR_BUSY = - 15"
| "disc UCS_ERR_CANCELED = - 16"
| "disc UCS_ERR_SHMEM_SEGMENT = - 17"
| "disc UCS_ERR_ALREADY_EXISTS = - 18"
| "disc UCS_ERR_OUT_OF_RANGE = - 19"
| "disc UCS_ERR_TIMED_OUT = - 20"
| "disc UCS_ERR_EXCEEDS_LIMIT = - 21"
| "disc UCS_ERR_UNSUPPORTED = - 22"
| "disc UCS_ERR_REJECTED = - 23"
| "disc UCS_ERR_NOT_CONNECTED = - 24"
| "disc UCS_ERR_CONNECTION_RESET = - 25"
| "disc UCS_ERR_FIRST_LINK_FAILURE = - 40"
| "disc UCS_ERR_LAST_LINK_FAILURE = - 59"
| "disc UCS_ERR_FIRST_ENDPOINT_FAILURE = - 60"
| "disc UCS_ERR_ENDPOINT_TIMEOUT = - 80"
| "disc UCS_ERR_LAST_ENDPOINT_FAILURE = - 89"
| "disc UCS_ERR_LAST = - 100"

definition status_as_i8 :: "ucs_status_t \<Rightarrow> u8" where
  "status_as_i8 s = word_of_int (disc s)"

definition status_as_usize :: "ucs_status_t \<Rightarrow> usize" where
  "status_as_usize s = word_of_int (disc s)"

definition status_value_is_err :: "ucs_status_t \<Rightarrow> bool" where
  "status_value_is_err s = (sint (status_as_i8 s) < 0)"

subsection \<open>The public wrapper\<close>

datatype Status = Status (raw_status: ucs_status_t)

definition Status_OK :: Status where [simp]: "Status_OK = Status UCS_OK"
definition Status_IN_PROGRESS :: Status where [simp]: "Status_IN_PROGRESS = Status UCS_INPROGRESS"
definition Status_NO_MESSAGE :: Status where [simp]: "Status_NO_MESSAGE = Status UCS_ERR_NO_MESSAGE"
definition Status_NO_RESOURCE :: Status where [simp]: "Status_NO_RESOURCE = Status UCS_ERR_NO_RESOURCE"
definition Status_IO_ERROR :: Status where [simp]: "Status_IO_ERROR = Status UCS_ERR_IO_ERROR"
definition Status_NO_MEMORY :: Status where [simp]: "Status_NO_MEMORY = Status UCS_ERR_NO_MEMORY"
definition Status_INVALID_PARAM :: Status where [simp]: "Status_INVALID_PARAM = Status UCS_ERR_INVALID_PARAM"
definition Status_UNREACHABLE :: Status where [simp]: "Status_UNREACHABLE = Status UCS_ERR_UNREACHABLE"
definition Status_INVALID_ADDR :: Status where [simp]: "Status_INVALID_ADDR = Status UCS_ERR_INVALID_ADDR"
definition Status_NOT_IMPLEMENTED :: Status where [simp]: "Status_NOT_IMPLEMENTED = Status UCS_ERR_NOT_IMPLEMENTED"
definition Status_MESSAGE_TRUNCATED :: Status where [simp]: "Status_MESSAGE_TRUNCATED = Status UCS_ERR_MESSAGE_TRUNCATED"
definition Status_NO_PROGRESS :: Status where [simp]: "Status_NO_PROGRESS = Status UCS_ERR_NO_PROGRESS"
definition Status_BUFFER_TOO_SMALL :: Status where [simp]: "Status_BUFFER_TOO_SMALL = Status UCS_ERR_BUFFER_TOO_SMALL"
definition Status_NO_ELEM :: Status where [simp]: "Status_NO_ELEM = Status UCS_ERR_NO_ELEM"
definition Status_SOME_CONNECTS_FAILED :: Status where [simp]: "Status_SOME_CONNECTS_FAILED = Status UCS_ERR_SOME_CONNECTS_FAILED"
definition Status_NO_DEVICE :: Status where [simp]: "Status_NO_DEVICE = Status UCS_ERR_NO_DEVICE"
definition Status_BUSY :: Status where [simp]: "Status_BUSY = Status UCS_ERR_BUSY"
definition Status_CANCELED :: Status where [simp]: "Status_CANCELED = Status UCS_ERR_CANCELED"
definition Status_SHMEM_SEGMENT :: Status where [simp]: "Status_SHMEM_SEGMENT = Status UCS_ERR_SHMEM_SEGMENT"
definition Status_ALREADY_EXISTS :: Status where [simp]: "Status_ALREADY_EXISTS = Status UCS_ERR_ALREADY_EXISTS"
definition Status_OUT_OF_RANGE :: Status where [simp]: "Status_OUT_OF_RANGE = Status UCS_ERR_OUT_OF_RANGE"
definition Status_TIMED_OUT :: Status where [simp]: "Status_TIMED_OUT = Status UCS_ERR_TIMED_OUT"
definition Status_EXCEEDS_LIMIT :: Status where [simp]: "Status_EXCEEDS_LIMIT = Status UCS_ERR_EXCEEDS_LIMIT"
definition Status_UNSUPPORTED :: Status where [simp]: "Status_UNSUPPORTED = Status UCS_ERR_UNSUPPORTED"
definition Status_REJECTED :: Status where [simp]: "Status_REJECTED = Status UCS_ERR_REJECTED"
definition Status_NOT_CONNECTED :: Status where [simp]: "Status_NOT_CONNECTED = Status UCS_ERR_NOT_CONNECTED"
definition Status_CONNECTION_RESET :: Status where [simp]: "Status_CONNECTION_RESET = Status UCS_ERR_CONNECTION_RESET"
definition Status_ENDPOINT_TIMEOUT :: Status where [simp]: "Status_ENDPOINT_TIMEOUT = Status UCS_ERR_ENDPOINT_TIMEOUT"

definition Status_is_err :: "Status \<Rightarrow> bool" where
  "Status_is_err st = (sint (status_as_i8 (raw_status st)) < 0)"

definition Status_from :: "ucs_status_t \<Rightarrow> Status" where
  "Status_from s = Status s"

text \<open>\<^verbatim>\<open>Display\<close> writes the derived \<^verbatim>\<open>Debug\<close> form of the raw status, its variant's name.\<close>

fun debug_status :: "ucs_status_t \<Rightarrow> string" where
  "debug_status UCS_OK = ''UCS_OK''"
| "debug_status UCS_INPROGRESS = ''UCS_INPROGRESS''"
| "debug_status UCS_ERR_NO_MESSAGE = ''UCS_ERR_NO_MESSAGE''"
| "debug_status UCS_ERR_NO_RESOURCE = ''UCS_ERR_NO_RESOURCE''"
| "debug_status UCS_ERR_IO_ERROR = ''UCS_ERR_IO_ERROR''"
| "debug_status UCS_ERR_NO_MEMORY = ''UCS_ERR_NO_MEMORY''"
| "debug_status UCS_ERR_INVALID_PARAM = ''UCS_ERR_INVALID_PARAM''"
| "debug_status UCS_ERR_UNREACHABLE = ''UCS_ERR_UNREACHABLE''"
| "debug_status UCS_ERR_INVALID_ADDR = ''UCS_ERR_INVALID_ADDR''"
| "debug_status UCS_ERR_NOT_IMPLEMENTED = ''UCS_ERR_NOT_IMPLEMENTED''"
| "debug_status UCS_ERR_MESSAGE_TRUNCATED = ''UCS_ERR_MESSAGE_TRUNCATED''"
| "debug_status UCS_ERR_NO_PROGRESS = ''UCS_ERR_NO_PROGRESS''"
| "debug_status UCS_ERR_BUFFER_TOO_SMALL = ''UCS_ERR_BUFFER_TOO_SMALL''"
| "debug_status UCS_ERR_NO_ELEM = ''UCS_ERR_NO_ELEM''"
| "debug_status UCS_ERR_SOME_CONNECTS_FAILED = ''UCS_ERR_SOME_CONNECTS_FAILED''"
| "debug_status UCS_ERR_NO_DEVICE = ''UCS_ERR_NO_DEVICE''"
| "debug_status UCS_ERR_BUSY = ''UCS_ERR_BUSY''"
| "debug_status UCS_ERR_CANCELED = ''UCS_ERR_CANCELED''"
| "debug_status UCS_ERR_SHMEM_SEGMENT = ''UCS_ERR_SHMEM_SEGMENT''"
| "debug_status UCS_ERR_ALREADY_EXISTS = ''UCS_ERR_ALREADY_EXISTS''"
| "debug_status UCS_ERR_OUT_OF_RANGE = ''UCS_ERR_OUT_OF_RANGE''"
| "debug_status UCS_ERR_TIMED_OUT = ''UCS_ERR_TIMED_OUT''"
| "debug_status UCS_ERR_EXCEEDS_LIMIT = ''UCS_ERR_EXCEEDS_LIMIT''"
| "debug_status UCS_ERR_UNSUPPORTED = ''UCS_ERR_UNSUPPORTED''"
| "debug_status UCS_ERR_REJECTED = ''UCS_ERR_REJECTED''"
| "debug_status UCS_ERR_NOT_CONNECTED = ''UCS_ERR_NOT_CONNECTED''"
| "debug_status UCS_ERR_CONNECTION_RESET = ''UCS_ERR_CONNECTION_RESET''"
| "debug_status UCS_ERR_FIRST_LINK_FAILURE = ''UCS_ERR_FIRST_LINK_FAILURE''"
| "debug_status UCS_ERR_LAST_LINK_FAILURE = ''UCS_ERR_LAST_LINK_FAILURE''"
| "debug_status UCS_ERR_FIRST_ENDPOINT_FAILURE = ''UCS_ERR_FIRST_ENDPOINT_FAILURE''"
| "debug_status UCS_ERR_ENDPOINT_TIMEOUT = ''UCS_ERR_ENDPOINT_TIMEOUT''"
| "debug_status UCS_ERR_LAST_ENDPOINT_FAILURE = ''UCS_ERR_LAST_ENDPOINT_FAILURE''"
| "debug_status UCS_ERR_LAST = ''UCS_ERR_LAST''"

definition Status_fmt :: "Status \<Rightarrow> string" where
  "Status_fmt st = ''UCX status '' @ debug_status (raw_status st)"

text \<open>The derived \<^verbatim>\<open>Debug\<close> form of the wrapper, as the diagnostics print it.\<close>

definition debug_Status :: "Status \<Rightarrow> string" where
  "debug_Status st = ''Status('' @ debug_status (raw_status st) @ '')''"

text \<open>The crate pins the decoder's literals to the bindings with compile-time assertions.\<close>

definition status_discriminants_pinned :: bool where
  "status_discriminants_pinned \<longleftrightarrow>
     disc UCS_ERR_NO_MESSAGE = - 1 \<and>
     disc UCS_ERR_NO_RESOURCE = - 2 \<and>
     disc UCS_ERR_IO_ERROR = - 3 \<and>
     disc UCS_ERR_NO_MEMORY = - 4 \<and>
     disc UCS_ERR_INVALID_PARAM = - 5 \<and>
     disc UCS_ERR_UNREACHABLE = - 6 \<and>
     disc UCS_ERR_INVALID_ADDR = - 7 \<and>
     disc UCS_ERR_NOT_IMPLEMENTED = - 8 \<and>
     disc UCS_ERR_MESSAGE_TRUNCATED = - 9 \<and>
     disc UCS_ERR_NO_PROGRESS = - 10 \<and>
     disc UCS_ERR_BUFFER_TOO_SMALL = - 11 \<and>
     disc UCS_ERR_NO_ELEM = - 12 \<and>
     disc UCS_ERR_SOME_CONNECTS_FAILED = - 13 \<and>
     disc UCS_ERR_NO_DEVICE = - 14 \<and>
     disc UCS_ERR_BUSY = - 15 \<and>
     disc UCS_ERR_CANCELED = - 16 \<and>
     disc UCS_ERR_SHMEM_SEGMENT = - 17 \<and>
     disc UCS_ERR_ALREADY_EXISTS = - 18 \<and>
     disc UCS_ERR_OUT_OF_RANGE = - 19 \<and>
     disc UCS_ERR_TIMED_OUT = - 20 \<and>
     disc UCS_ERR_EXCEEDS_LIMIT = - 21 \<and>
     disc UCS_ERR_UNSUPPORTED = - 22 \<and>
     disc UCS_ERR_REJECTED = - 23 \<and>
     disc UCS_ERR_NOT_CONNECTED = - 24 \<and>
     disc UCS_ERR_CONNECTION_RESET = - 25 \<and>
     disc UCS_ERR_FIRST_LINK_FAILURE = - 40 \<and>
     disc UCS_ERR_LAST_LINK_FAILURE = - 59 \<and>
     disc UCS_ERR_FIRST_ENDPOINT_FAILURE = - 60 \<and>
     disc UCS_ERR_ENDPOINT_TIMEOUT = - 80 \<and>
     disc UCS_ERR_LAST_ENDPOINT_FAILURE = - 89 \<and>
     disc UCS_ERR_LAST = - 100"

lemma status_discriminants_pinned: status_discriminants_pinned
  by (simp add: status_discriminants_pinned_def)

subsection \<open>Decoding\<close>

definition status_to_result :: "ucs_status_t \<Rightarrow> Status + unit" where
  "status_to_result s = (if status_value_is_err s then Inl (Status_from s) else Inr ())"

definition status_ptr_is_err :: "ptr \<Rightarrow> bool" where
  "status_ptr_is_err p \<longleftrightarrow> status_as_usize UCS_ERR_LAST \<le> p"

text \<open>\<^verbatim>\<open>ptr as isize as i32\<close> truncates to the low 32 bits, read as a signed number.\<close>

definition status_from_ptr :: "ptr \<Rightarrow> ucs_status_t" where
  "status_from_ptr p =
     (let s = sint (ucast p :: i32) in
      if s = - 1 then UCS_ERR_NO_MESSAGE
      else if s = - 2 then UCS_ERR_NO_RESOURCE
      else if s = - 3 then UCS_ERR_IO_ERROR
      else if s = - 4 then UCS_ERR_NO_MEMORY
      else if s = - 5 then UCS_ERR_INVALID_PARAM
      else if s = - 6 then UCS_ERR_UNREACHABLE
      else if s = - 7 then UCS_ERR_INVALID_ADDR
      else if s = - 8 then UCS_ERR_NOT_IMPLEMENTED
      else if s = - 9 then UCS_ERR_MESSAGE_TRUNCATED
      else if s = - 10 then UCS_ERR_NO_PROGRESS
      else if s = - 11 then UCS_ERR_BUFFER_TOO_SMALL
      else if s = - 12 then UCS_ERR_NO_ELEM
      else if s = - 13 then UCS_ERR_SOME_CONNECTS_FAILED
      else if s = - 14 then UCS_ERR_NO_DEVICE
      else if s = - 15 then UCS_ERR_BUSY
      else if s = - 16 then UCS_ERR_CANCELED
      else if s = - 17 then UCS_ERR_SHMEM_SEGMENT
      else if s = - 18 then UCS_ERR_ALREADY_EXISTS
      else if s = - 19 then UCS_ERR_OUT_OF_RANGE
      else if s = - 20 then UCS_ERR_TIMED_OUT
      else if s = - 21 then UCS_ERR_EXCEEDS_LIMIT
      else if s = - 22 then UCS_ERR_UNSUPPORTED
      else if s = - 23 then UCS_ERR_REJECTED
      else if s = - 24 then UCS_ERR_NOT_CONNECTED
      else if s = - 25 then UCS_ERR_CONNECTION_RESET
      else if s = - 40 then UCS_ERR_FIRST_LINK_FAILURE
      else if s = - 59 then UCS_ERR_LAST_LINK_FAILURE
      else if s = - 60 then UCS_ERR_FIRST_ENDPOINT_FAILURE
      else if s = - 80 then UCS_ERR_ENDPOINT_TIMEOUT
      else if s = - 89 then UCS_ERR_LAST_ENDPOINT_FAILURE
      else if s = - 100 then UCS_ERR_LAST
      else UCS_ERR_LAST)"

subsection \<open>Lemmas\<close>

lemma disc_bounds: "- 100 \<le> disc s" "disc s \<le> 1"
  by (cases s; simp)+

text \<open>
  The table of compile-time assertions that ties the decoder's literals to the discriminants of
  the bindings, and the statuses it lists.
\<close>

definition asserted_statuses :: "(ucs_status_t \<times> int) list" where
  "asserted_statuses =
     [(UCS_ERR_NO_MESSAGE, - 1), (UCS_ERR_NO_RESOURCE, - 2), (UCS_ERR_IO_ERROR, - 3),
      (UCS_ERR_NO_MEMORY, - 4), (UCS_ERR_INVALID_PARAM, - 5), (UCS_ERR_UNREACHABLE, - 6),
      (UCS_ERR_INVALID_ADDR, - 7), (UCS_ERR_NOT_IMPLEMENTED, - 8),
      (UCS_ERR_MESSAGE_TRUNCATED, - 9), (UCS_ERR_NO_PROGRESS, - 10),
      (UCS_ERR_BUFFER_TOO_SMALL, - 11), (UCS_ERR_NO_ELEM, - 12),
      (UCS_ERR_SOME_CONNECTS_FAILED, - 13), (UCS_ERR_NO_DEVICE, - 14), (UCS_ERR_BUSY, - 15),
      (UCS_ERR_CANCELED, - 16), (UCS_ERR_SHMEM_SEGMENT, - 17), (UCS_ERR_ALREADY_EXISTS, - 18),
      (UCS_ERR_OUT_OF_RANGE, - 19), (UCS_ERR_TIMED_OUT, - 20), (UCS_ERR_EXCEEDS_LIMIT, - 21),
      (UCS_ERR_UNSUPPORTED, - 22), (UCS_ERR_REJECTED, - 23), (UCS_ERR_NOT_CONNECTED, - 24),
      (UCS_ERR_CONNECTION_RESET, - 25), (UCS_ERR_FIRST_LINK_FAILURE, - 40),
      (UCS_ERR_LAST_LINK_FAILURE, - 59), (UCS_ERR_FIRST_ENDPOINT_FAILURE, - 60),
      (UCS_ERR_ENDPOINT_TIMEOUT, - 80), (UCS_ERR_LAST_ENDPOINT_FAILURE, - 89),
      (UCS_ERR_LAST, - 100)]"

definition status_assertions_hold :: bool where
  "status_assertions_hold \<longleftrightarrow> list_all (\<lambda>(s, k). disc s = k) asserted_statuses"

lemma asserted_statuses_all: "s \<in> fst ` set asserted_statuses \<longleftrightarrow> disc s < 0"
  by (cases s) (simp_all add: asserted_statuses_def)

lemma status_assertions: "status_assertions_hold"
  by (simp add: status_assertions_hold_def asserted_statuses_def)

lemma disc_inj: "disc s = disc t \<Longrightarrow> s = t"
  by (cases s; cases t; simp)

lemma sint_status_as_i8 [simp]: "sint (status_as_i8 s) = disc s"
  by (cases s) (simp_all add: status_as_i8_def)

lemma status_value_is_err_disc: "status_value_is_err s \<longleftrightarrow> disc s < 0"
  by (simp add: status_value_is_err_def)

lemma status_not_err [simp]: "status_value_is_err s \<longleftrightarrow> s \<noteq> UCS_OK \<and> s \<noteq> UCS_INPROGRESS"
  by (cases s) (simp_all add: status_value_is_err_disc)

lemma Status_is_err_iff [simp]:
  "Status_is_err (Status s) \<longleftrightarrow> s \<noteq> UCS_OK \<and> s \<noteq> UCS_INPROGRESS"
  by (cases s) (simp_all add: Status_is_err_def)

lemma status_to_result_simps [simp]:
  "status_to_result UCS_OK = Inr ()"
  "status_to_result UCS_INPROGRESS = Inr ()"
  by (simp_all add: status_to_result_def)

lemma status_to_result_err:
  "s \<noteq> UCS_OK \<Longrightarrow> s \<noteq> UCS_INPROGRESS \<Longrightarrow> status_to_result s = Inl (Status s)"
  by (simp add: status_to_result_def Status_from_def)

lemma uint_minus_one_64 [simp]: "uint (- 1 :: 64 word) = 2 ^ 64 - 1"
  by (simp add: unsigned_minus_1_eq_mask mask_eq_exp_minus_1)

lemma ucast_minus_one_32 [simp]: "(ucast (- 1 :: 64 word) :: 32 word) = - 1"
  by (rule bit_word_eqI) (simp add: bit_simps)

lemma status_ptr_is_err_iff: "status_ptr_is_err p \<longleftrightarrow> 2 ^ 64 - 100 \<le> uint p"
  by (simp add: status_ptr_is_err_def status_as_usize_def word_le_def)

lemma status_as_usize_is_err: "status_ptr_is_err (status_as_usize s) \<longleftrightarrow> disc s < 0"
  by (cases s) (simp_all add: status_ptr_is_err_iff status_as_usize_def)

lemma status_from_ptr_as_usize:
  "status_from_ptr (status_as_usize s) = (if disc s < 0 then s else UCS_ERR_LAST)"
  by (cases s) (simp_all add: status_from_ptr_def status_as_usize_def)

lemma status_from_ptr_is_err: "disc (status_from_ptr p) < 0"
  by (simp add: status_from_ptr_def Let_def)

lemma status_from_ptr_not_ok [simp]:
  "status_from_ptr p \<noteq> UCS_OK" "status_from_ptr p \<noteq> UCS_INPROGRESS"
  using status_from_ptr_is_err [of p] by auto

end
