(* ===== verification/Native_Enums.thy ===== *)
theory Native_Enums
  imports Prelude
begin

text \<open>
  The native enums and their conversions to and from the bindgen enums:
  \<^verbatim>\<open>src/thread_mode.rs\<close>, \<^verbatim>\<open>src/memory_type.rs\<close>, \<^verbatim>\<open>src/error_handler_mode.rs\<close>,
  \<^verbatim>\<open>AtomicOp\<close> of \<^verbatim>\<open>src/rma/atomic.rs\<close> and \<^verbatim>\<open>MemAdvice\<close> of \<^verbatim>\<open>src/memh.rs\<close>.  The locale
  \<open>enum_conversion\<close> is the contract the conversions share; the derived orders
  (\<^verbatim>\<open>#[derive(PartialOrd, Ord)]\<close>, by declaration order) are instances of \<open>linorder\<close>.
\<close>

subsection \<open>The raw enums of the bindings\<close>

datatype ucs_thread_mode_t =
    UCS_THREAD_MODE_SINGLE
  | UCS_THREAD_MODE_SERIALIZED
  | UCS_THREAD_MODE_MULTI
  | UCS_THREAD_MODE_LAST

text \<open>\<^verbatim>\<open>UCS_MEMORY_TYPE_UNKNOWN\<close> is an associated constant equal to \<^verbatim>\<open>UCS_MEMORY_TYPE_LAST\<close>.\<close>

datatype ucs_memory_type_t =
    
UCS_MEMORY_TYPE_HOST
  | UCS_MEMORY_TYPE_CUDA
  | UCS_MEMORY_TYPE_CUDA_MANAGED
  | UCS_MEMORY_TYPE_ROCM
  | UCS_MEMORY_TYPE_ROCM_MANAGED
  | UCS_MEMORY_TYPE_RDMA
  | UCS_MEMORY_TYPE_ZE_HOST
  | UCS_MEMORY_TYPE_ZE_DEVICE
  | UCS_MEMORY_TYPE_ZE_MANAGED
  | UCS_MEMORY_TYPE_LAST

definition UCS_MEMORY_TYPE_UNKNOWN :: ucs_memory_type_t where
  [simp]: "UCS_MEMORY_TYPE_UNKNOWN = UCS_MEMORY_TYPE_LAST"

datatype ucp_err_handling_mode_t = UCP_ERR_HANDLING_MODE_NONE | UCP_ERR_HANDLING_MODE_PEER

datatype ucp_atomic_op_t =
    UCP_ATOMIC_OP_ADD
  | UCP_ATOMIC_OP_SWAP
  | UCP_ATOMIC_OP_CSWAP
  | UCP_ATOMIC_OP_AND
  | UCP_ATOMIC_OP_OR
  | UCP_ATOMIC_OP_XOR
  | UCP_ATOMIC_OP_LAST

datatype ucp_mem_advice_t = UCP_MADV_NORMAL | UCP_MADV_WILLNEED

subsection \<open>The native enums and their conversions\<close>

datatype ThreadMode = TM_Single | TM_Serialized | TM_Multi | TM_Unknown

fun ThreadMode_to_ffi :: "ThreadMode \<Rightarrow> ucs_thread_mode_t" where
  "ThreadMode_to_ffi TM_Single = UCS_THREAD_MODE_SINGLE"
| "ThreadMode_to_ffi TM_Serialized = UCS_THREAD_MODE_SERIALIZED"
| "ThreadMode_to_ffi TM_Multi = UCS_THREAD_MODE_MULTI"
| "ThreadMode_to_ffi TM_Unknown = UCS_THREAD_MODE_MULTI"

fun ThreadMode_from_ffi :: "ucs_thread_mode_t \<Rightarrow> ThreadMode" where
  "ThreadMode_from_ffi UCS_THREAD_MODE_SINGLE = TM_Single"
| "ThreadMode_from_ffi UCS_THREAD_MODE_SERIALIZED = TM_Serialized"
| "ThreadMode_from_ffi UCS_THREAD_MODE_MULTI = TM_Multi"
| "ThreadMode_from_ffi _ = TM_Unknown"

datatype MemoryType =
    MT_Host
  | MT_Cuda
  | MT_CudaManaged
  | MT_Rocm
  | MT_RocmManaged
  | MT_Rdma
  | MT_ZeHost
  | MT_ZeDevice
  | MT_ZeManaged
  | MT_Unknown

fun MemoryType_to_ffi :: "MemoryType \<Rightarrow> ucs_memory_type_t" where
  "MemoryType_to_ffi MT_Host = UCS_MEMORY_TYPE_HOST"
| "MemoryType_to_ffi MT_Cuda = UCS_MEMORY_TYPE_CUDA"
| "MemoryType_to_ffi MT_CudaManaged = UCS_MEMORY_TYPE_CUDA_MANAGED"
| "MemoryType_to_ffi MT_Rocm = UCS_MEMORY_TYPE_ROCM"
| "MemoryType_to_ffi MT_RocmManaged = UCS_MEMORY_TYPE_ROCM_MANAGED"
| "MemoryType_to_ffi MT_Rdma = UCS_MEMORY_TYPE_RDMA"
| "MemoryType_to_ffi MT_ZeHost = UCS_MEMORY_TYPE_ZE_HOST"
| "MemoryType_to_ffi MT_ZeDevice = UCS_MEMORY_TYPE_ZE_DEVICE"
| "MemoryType_to_ffi MT_ZeManaged = UCS_MEMORY_TYPE_ZE_MANAGED"
| "MemoryType_to_ffi MT_Unknown = UCS_MEMORY_TYPE_UNKNOWN"

fun MemoryType_from_ffi :: "ucs_memory_type_t \<Rightarrow> MemoryType" where
  "MemoryType_from_ffi UCS_MEMORY_TYPE_HOST = MT_Host"
| "MemoryType_from_ffi UCS_MEMORY_TYPE_CUDA = MT_Cuda"
| "MemoryType_from_ffi UCS_MEMORY_TYPE_CUDA_MANAGED = MT_CudaManaged"
| "MemoryType_from_ffi UCS_MEMORY_TYPE_ROCM = MT_Rocm"
| "MemoryType_from_ffi UCS_MEMORY_TYPE_ROCM_MANAGED = MT_RocmManaged"
| "MemoryType_from_ffi UCS_MEMORY_TYPE_RDMA = MT_Rdma"
| "MemoryType_from_ffi UCS_MEMORY_TYPE_ZE_HOST = MT_ZeHost"
| "MemoryType_from_ffi UCS_MEMORY_TYPE_ZE_DEVICE = MT_ZeDevice"
| "MemoryType_from_ffi UCS_MEMORY_TYPE_ZE_MANAGED = MT_ZeManaged"
| "MemoryType_from_ffi _ = MT_Unknown"

datatype ErrorHandlerMode = EHM_None | EHM_Peer

fun ErrorHandlerMode_to_ffi :: "ErrorHandlerMode \<Rightarrow> ucp_err_handling_mode_t" where
  "ErrorHandlerMode_to_ffi EHM_None = UCP_ERR_HANDLING_MODE_NONE"
| "ErrorHandlerMode_to_ffi EHM_Peer = UCP_ERR_HANDLING_MODE_PEER"

definition ErrorHandlerMode_from_ffi :: "ucp_err_handling_mode_t \<Rightarrow> ErrorHandlerMode" where
  "ErrorHandlerMode_from_ffi raw =
     (if raw = UCP_ERR_HANDLING_MODE_PEER then EHM_Peer else EHM_None)"

datatype AtomicOp = AO_Add | AO_Swap | AO_CSwap | AO_And | AO_Or | AO_Xor

fun AtomicOp_to_ffi :: "AtomicOp \<Rightarrow> ucp_atomic_op_t" where
  "AtomicOp_to_ffi AO_Add = UCP_ATOMIC_OP_ADD"
| "AtomicOp_to_ffi AO_Swap = UCP_ATOMIC_OP_SWAP"
| "AtomicOp_to_ffi AO_CSwap = UCP_ATOMIC_OP_CSWAP"
| "AtomicOp_to_ffi AO_And = UCP_ATOMIC_OP_AND"
| "AtomicOp_to_ffi AO_Or = UCP_ATOMIC_OP_OR"
| "AtomicOp_to_ffi AO_Xor = UCP_ATOMIC_OP_XOR"

datatype MemAdvice = MA_Normal | MA_WillNeed

fun MemAdvice_to_ffi :: "MemAdvice \<Rightarrow> ucp_mem_advice_t" where
  "MemAdvice_to_ffi MA_Normal = UCP_MADV_NORMAL"
| "MemAdvice_to_ffi MA_WillNeed = UCP_MADV_WILLNEED"

subsection \<open>The derived orders\<close>

fun ThreadMode_index :: "ThreadMode \<Rightarrow> nat" where
  "ThreadMode_index TM_Single = 0"
| "ThreadMode_index TM_Serialized = 1"
| "ThreadMode_index TM_Multi = 2"
| "ThreadMode_index TM_Unknown = 3"

fun MemoryType_index :: "MemoryType \<Rightarrow> nat" where
  "MemoryType_index MT_Host = 0"
| "MemoryType_index MT_Cuda = 1"
| "MemoryType_index MT_CudaManaged = 2"
| "MemoryType_index MT_Rocm = 3"
| "MemoryType_index MT_RocmManaged = 4"
| "MemoryType_index MT_Rdma = 5"
| "MemoryType_index MT_ZeHost = 6"
| "MemoryType_index MT_ZeDevice = 7"
| "MemoryType_index MT_ZeManaged = 8"
| "MemoryType_index MT_Unknown = 9"

lemma ThreadMode_index_inj: "ThreadMode_index a = ThreadMode_index b \<Longrightarrow> a = b"
  by (cases a; cases b; simp)

lemma MemoryType_index_inj: "MemoryType_index a = MemoryType_index b \<Longrightarrow> a = b"
  by (cases a; cases b; simp)

instantiation ThreadMode :: linorder
begin

definition less_eq_ThreadMode_def: "a \<le> b \<longleftrightarrow> ThreadMode_index a \<le> ThreadMode_index b"

definition less_ThreadMode_def: "a < b \<longleftrightarrow> ThreadMode_index a < ThreadMode_index b"

instance
  by standard (auto simp: less_eq_ThreadMode_def less_ThreadMode_def dest: ThreadMode_index_inj)

end

instantiation MemoryType :: linorder
begin

definition less_eq_MemoryType_def: "a \<le> b \<longleftrightarrow> MemoryType_index a \<le> MemoryType_index b"

definition less_MemoryType_def: "a < b \<longleftrightarrow> MemoryType_index a < MemoryType_index b"

instance
  by standard (auto simp: less_eq_MemoryType_def less_MemoryType_def dest: MemoryType_index_inj)

end

subsection \<open>The contract of a conversion pair\<close>

locale enum_conversion =
  fixes to_ffi :: "'n \<Rightarrow> 'f"
    and from_ffi :: "'f \<Rightarrow> 'n"
    and known :: "'n \<Rightarrow> bool"
  assumes from_to: "known n \<Longrightarrow> from_ffi (to_ffi n) = n"
    and to_from: "known (from_ffi r) \<Longrightarrow> to_ffi (from_ffi r) = r"
begin

lemma to_ffi_inj: "known a \<Longrightarrow> known b \<Longrightarrow> to_ffi a = to_ffi b \<Longrightarrow> a = b"
  by (metis from_to)

lemma from_ffi_eq_iff: "known n \<Longrightarrow> from_ffi r = n \<longleftrightarrow> r = to_ffi n"
  by (metis from_to to_from)

end

definition ThreadMode_known :: "ThreadMode \<Rightarrow> bool" where
  "ThreadMode_known m \<longleftrightarrow> m \<noteq> TM_Unknown"

definition MemoryType_known :: "MemoryType \<Rightarrow> bool" where
  "MemoryType_known m \<longleftrightarrow> True"

definition ErrorHandlerMode_known :: "ErrorHandlerMode \<Rightarrow> bool" where
  "ErrorHandlerMode_known m \<longleftrightarrow> True"

interpretation thread_mode: enum_conversion ThreadMode_to_ffi ThreadMode_from_ffi ThreadMode_known
proof unfold_locales
  show "ThreadMode_known n \<Longrightarrow> ThreadMode_from_ffi (ThreadMode_to_ffi n) = n" for n
    by (cases n) (simp_all add: ThreadMode_known_def)
  show "ThreadMode_known (ThreadMode_from_ffi r) \<Longrightarrow>
      ThreadMode_to_ffi (ThreadMode_from_ffi r) = r" for r
    by (cases r) (simp_all add: ThreadMode_known_def)
qed

interpretation memory_type: enum_conversion MemoryType_to_ffi MemoryType_from_ffi MemoryType_known
proof unfold_locales
  show "MemoryType_known n \<Longrightarrow> MemoryType_from_ffi (MemoryType_to_ffi n) = n" for n
    by (cases n) simp_all
  show "MemoryType_known (MemoryType_from_ffi r) \<Longrightarrow>
      MemoryType_to_ffi (MemoryType_from_ffi r) = r" for r
    by (cases r) simp_all
qed

interpretation error_mode:
  enum_conversion ErrorHandlerMode_to_ffi ErrorHandlerMode_from_ffi ErrorHandlerMode_known
proof unfold_locales
  show "ErrorHandlerMode_known n \<Longrightarrow>
      ErrorHandlerMode_from_ffi (ErrorHandlerMode_to_ffi n) = n" for n
    by (cases n) (simp_all add: ErrorHandlerMode_from_ffi_def)
  show "ErrorHandlerMode_known (ErrorHandlerMode_from_ffi r) \<Longrightarrow>
      ErrorHandlerMode_to_ffi (ErrorHandlerMode_from_ffi r) = r" for r
    by (cases r) (simp_all add: ErrorHandlerMode_from_ffi_def)
qed

lemma AtomicOp_to_ffi_inj: "AtomicOp_to_ffi a = AtomicOp_to_ffi b \<Longrightarrow> a = b"
  by (cases a; cases b; simp)

lemma AtomicOp_to_ffi_not_LAST: "AtomicOp_to_ffi a \<noteq> UCP_ATOMIC_OP_LAST"
  by (cases a) simp_all

end
