(* ===== verification/Ffi_Types.thy ===== *)
theory Ffi_Types
  imports Status Native_Enums
begin

text \<open>
  The C structures of \<^verbatim>\<open>src/bindings.rs\<close> that cross the foreign boundary, field by field, and
  for each the all-zero value \<^verbatim>\<open>std::mem::zeroed()\<close> gives.  A handle or data pointer is a
  64-bit address (null is \<open>0\<close>).  A C function pointer names the code it points to.  A
  \<^verbatim>\<open>const char *\<close> and a \<^verbatim>\<open>const sockaddr *\<close> stand for the bytes they point to, which UCX reads
  during the call.  A C \<^verbatim>\<open>double\<close> is its bit pattern.
\<close>

type_synonym f64 = "64 word"
type_synonym c_str_ptr = "bytes option"
type_synonym sockaddr_storage = bytes
type_synonym ucp_transports_t = "ptr \<times> u32 \<times> usize"
type_synonym ucs_cpu_set_t = "1024 word"

text \<open>The code a function pointer can point to: the two trampolines, or a caller's function.\<close>

datatype code = Am_trampoline | Conn_trampoline | User_code ptr

type_synonym code_ptr = "code option"

record ucs_sock_addr_t =
  sa_addr :: "bytes option"
  sa_addrlen :: u32

definition zeroed_ucs_sock_addr_t :: ucs_sock_addr_t where
  "zeroed_ucs_sock_addr_t = \<lparr>sa_addr = None, sa_addrlen = 0\<rparr>"

record ucp_request_param_t =
  rp_op_attr_mask :: u32
  rp_flags :: u32
  rp_request :: ptr
  rp_cb_send :: code_ptr
  rp_datatype :: u64
  rp_user_data :: ptr
  rp_reply_buffer :: ptr
  rp_memory_type :: ucs_memory_type_t
  rp_recv_info :: ptr
  rp_memh :: ptr

definition zeroed_ucp_request_param_t :: ucp_request_param_t where
  "zeroed_ucp_request_param_t = \<lparr>rp_op_attr_mask = 0,
     rp_flags = 0,
     rp_request = 0,
     rp_cb_send = None,
     rp_datatype = 0,
     rp_user_data = 0,
     rp_reply_buffer = 0,
     rp_memory_type = UCS_MEMORY_TYPE_HOST,
     rp_recv_info = 0,
     rp_memh = 0\<rparr>"

record ucp_params_t =
  cp_field_mask :: u64
  cp_features :: u64
  cp_request_size :: usize
  cp_request_init :: code_ptr
  cp_request_cleanup :: code_ptr
  cp_tag_sender_mask :: u64
  cp_mt_workers_shared :: i32
  cp_estimated_num_eps :: usize
  cp_estimated_num_ppn :: usize
  cp_name :: c_str_ptr

definition zeroed_ucp_params_t :: ucp_params_t where
  "zeroed_ucp_params_t = \<lparr>cp_field_mask = 0,
     cp_features = 0,
     cp_request_size = 0,
     cp_request_init = None,
     cp_request_cleanup = None,
     cp_tag_sender_mask = 0,
     cp_mt_workers_shared = 0,
     cp_estimated_num_eps = 0,
     cp_estimated_num_ppn = 0,
     cp_name = None\<rparr>"

record ucp_worker_params_t =
  wp_field_mask :: u64
  wp_thread_mode :: ucs_thread_mode_t
  wp_cpu_mask :: ucs_cpu_set_t
  wp_events :: u32
  wp_user_data :: ptr
  wp_event_fd :: i32
  wp_flags :: u64
  wp_name :: c_str_ptr
  wp_am_alignment :: usize
  wp_client_id :: u64

definition zeroed_ucp_worker_params_t :: ucp_worker_params_t where
  "zeroed_ucp_worker_params_t = \<lparr>wp_field_mask = 0,
     wp_thread_mode = UCS_THREAD_MODE_SINGLE,
     wp_cpu_mask = 0,
     wp_events = 0,
     wp_user_data = 0,
     wp_event_fd = 0,
     wp_flags = 0,
     wp_name = None,
     wp_am_alignment = 0,
     wp_client_id = 0\<rparr>"

record ucp_ep_params_t =
  ep_field_mask :: u64
  ep_address :: ptr
  ep_err_mode :: ucp_err_handling_mode_t
  ep_err_handler_cb :: code_ptr
  ep_err_handler_arg :: ptr
  ep_user_data :: ptr
  ep_flags :: u32
  ep_sockaddr :: ucs_sock_addr_t
  ep_conn_request :: ptr
  ep_name :: c_str_ptr
  ep_local_sockaddr :: ucs_sock_addr_t

definition zeroed_ucp_ep_params_t :: ucp_ep_params_t where
  "zeroed_ucp_ep_params_t = \<lparr>ep_field_mask = 0,
     ep_address = 0,
     ep_err_mode = UCP_ERR_HANDLING_MODE_NONE,
     ep_err_handler_cb = None,
     ep_err_handler_arg = 0,
     ep_user_data = 0,
     ep_flags = 0,
     ep_sockaddr = zeroed_ucs_sock_addr_t,
     ep_conn_request = 0,
     ep_name = None,
     ep_local_sockaddr = zeroed_ucs_sock_addr_t\<rparr>"

record ucp_am_handler_param_t =
  hp_field_mask :: u64
  hp_id :: u32
  hp_flags :: u32
  hp_cb :: code_ptr
  hp_arg :: ptr

definition zeroed_ucp_am_handler_param_t :: ucp_am_handler_param_t where
  "zeroed_ucp_am_handler_param_t = \<lparr>hp_field_mask = 0,
     hp_id = 0,
     hp_flags = 0,
     hp_cb = None,
     hp_arg = 0\<rparr>"

record ucp_listener_params_t =
  lp_field_mask :: u64
  lp_sockaddr :: ucs_sock_addr_t
  lp_accept_cb :: code_ptr
  lp_accept_arg :: ptr
  lp_conn_cb :: code_ptr
  lp_conn_arg :: ptr

definition zeroed_ucp_listener_params_t :: ucp_listener_params_t where
  "zeroed_ucp_listener_params_t = \<lparr>lp_field_mask = 0,
     lp_sockaddr = zeroed_ucs_sock_addr_t,
     lp_accept_cb = None,
     lp_accept_arg = 0,
     lp_conn_cb = None,
     lp_conn_arg = 0\<rparr>"

record ucp_mem_map_params_t =
  mm_field_mask :: u64
  mm_address :: ptr
  mm_length :: usize
  mm_flags :: u32
  mm_prot :: u32
  mm_memory_type :: ucs_memory_type_t
  mm_exported_memh_buffer :: ptr

definition zeroed_ucp_mem_map_params_t :: ucp_mem_map_params_t where
  "zeroed_ucp_mem_map_params_t = \<lparr>mm_field_mask = 0,
     mm_address = 0,
     mm_length = 0,
     mm_flags = 0,
     mm_prot = 0,
     mm_memory_type = UCS_MEMORY_TYPE_HOST,
     mm_exported_memh_buffer = 0\<rparr>"

record ucp_mem_advise_params_t =
  ma_field_mask :: u64
  ma_address :: ptr
  ma_length :: usize
  ma_advice :: ucp_mem_advice_t

definition zeroed_ucp_mem_advise_params_t :: ucp_mem_advise_params_t where
  "zeroed_ucp_mem_advise_params_t = \<lparr>ma_field_mask = 0,
     ma_address = 0,
     ma_length = 0,
     ma_advice = UCP_MADV_NORMAL\<rparr>"

record ucp_memh_pack_params_t =
  mp_field_mask :: u64
  mp_flags :: u64

definition zeroed_ucp_memh_pack_params_t :: ucp_memh_pack_params_t where
  "zeroed_ucp_memh_pack_params_t = \<lparr>mp_field_mask = 0,
     mp_flags = 0\<rparr>"

record ucp_mem_attr_t =
  mattr_field_mask :: u64
  mattr_address :: ptr
  mattr_length :: usize
  mattr_mem_type :: ucs_memory_type_t

definition zeroed_ucp_mem_attr_t :: ucp_mem_attr_t where
  "zeroed_ucp_mem_attr_t = \<lparr>mattr_field_mask = 0,
     mattr_address = 0,
     mattr_length = 0,
     mattr_mem_type = UCS_MEMORY_TYPE_HOST\<rparr>"

record ucp_worker_attr =
  wattr_field_mask :: u64
  wattr_thread_mode :: ucs_thread_mode_t
  wattr_address_flags :: u32
  wattr_address :: ptr
  wattr_address_length :: usize
  wattr_max_am_header :: usize
  wattr_name :: bytes
  wattr_max_debug_string :: usize

definition zeroed_ucp_worker_attr :: ucp_worker_attr where
  "zeroed_ucp_worker_attr = \<lparr>wattr_field_mask = 0,
     wattr_thread_mode = UCS_THREAD_MODE_SINGLE,
     wattr_address_flags = 0,
     wattr_address = 0,
     wattr_address_length = 0,
     wattr_max_am_header = 0,
     wattr_name = replicate 32 0,
     wattr_max_debug_string = 0\<rparr>"

record ucp_ep_attr =
  eattr_field_mask :: u64
  eattr_name :: bytes
  eattr_local_sockaddr :: sockaddr_storage
  eattr_remote_sockaddr :: sockaddr_storage
  eattr_transports :: ucp_transports_t
  eattr_user_data :: ptr

definition zeroed_ucp_ep_attr :: ucp_ep_attr where
  "zeroed_ucp_ep_attr = \<lparr>eattr_field_mask = 0,
     eattr_name = replicate 32 0,
     eattr_local_sockaddr = replicate 128 0,
     eattr_remote_sockaddr = replicate 128 0,
     eattr_transports = (0, 0, 0),
     eattr_user_data = 0\<rparr>"

record ucp_context_attr =
  cattr_field_mask :: u64
  cattr_request_size :: usize
  cattr_thread_mode :: ucs_thread_mode_t
  cattr_memory_types :: u64
  cattr_name :: bytes

definition zeroed_ucp_context_attr :: ucp_context_attr where
  "zeroed_ucp_context_attr = \<lparr>cattr_field_mask = 0,
     cattr_request_size = 0,
     cattr_thread_mode = UCS_THREAD_MODE_SINGLE,
     cattr_memory_types = 0,
     cattr_name = replicate 32 0\<rparr>"

record ucp_lib_attr =
  libattr_field_mask :: u64
  libattr_max_thread_level :: ucs_thread_mode_t

definition zeroed_ucp_lib_attr :: ucp_lib_attr where
  "zeroed_ucp_lib_attr = \<lparr>libattr_field_mask = 0,
     libattr_max_thread_level = UCS_THREAD_MODE_SINGLE\<rparr>"

record ucp_datatype_attr =
  dattr_field_mask :: u64
  dattr_packed_size :: usize
  dattr_buffer :: ptr
  dattr_count :: usize

definition zeroed_ucp_datatype_attr :: ucp_datatype_attr where
  "zeroed_ucp_datatype_attr = \<lparr>dattr_field_mask = 0,
     dattr_packed_size = 0,
     dattr_buffer = 0,
     dattr_count = 0\<rparr>"

record ucp_request_attr_t =
  rattr_field_mask :: u64
  rattr_debug_string :: ptr
  rattr_debug_string_size :: usize
  rattr_status :: ucs_status_t
  rattr_mem_type :: ucs_memory_type_t

definition zeroed_ucp_request_attr_t :: ucp_request_attr_t where
  "zeroed_ucp_request_attr_t = \<lparr>rattr_field_mask = 0,
     rattr_debug_string = 0,
     rattr_debug_string_size = 0,
     rattr_status = UCS_OK,
     rattr_mem_type = UCS_MEMORY_TYPE_HOST\<rparr>"

record ucp_worker_address_attr =
  waattr_field_mask :: u64
  waattr_worker_uid :: u64

definition zeroed_ucp_worker_address_attr :: ucp_worker_address_attr where
  "zeroed_ucp_worker_address_attr = \<lparr>waattr_field_mask = 0,
     waattr_worker_uid = 0\<rparr>"

record ucp_tag_recv_info_t =
  tinfo_sender_tag :: u64
  tinfo_length :: usize

definition zeroed_ucp_tag_recv_info_t :: ucp_tag_recv_info_t where
  "zeroed_ucp_tag_recv_info_t = \<lparr>tinfo_sender_tag = 0,
     tinfo_length = 0\<rparr>"

record ucp_listener_attr =
  lattr_field_mask :: u64
  lattr_sockaddr :: sockaddr_storage

definition zeroed_ucp_listener_attr :: ucp_listener_attr where
  "zeroed_ucp_listener_attr = \<lparr>lattr_field_mask = 0,
     lattr_sockaddr = replicate 128 0\<rparr>"

record ucp_conn_request_attr =
  crattr_field_mask :: u64
  crattr_client_address :: sockaddr_storage
  crattr_client_id :: u64

definition zeroed_ucp_conn_request_attr :: ucp_conn_request_attr where
  "zeroed_ucp_conn_request_attr = \<lparr>crattr_field_mask = 0,
     crattr_client_address = replicate 128 0,
     crattr_client_id = 0\<rparr>"

record ucp_ep_evaluate_perf_param_t =
  pparam_field_mask :: u64
  pparam_message_size :: usize

definition zeroed_ucp_ep_evaluate_perf_param_t :: ucp_ep_evaluate_perf_param_t where
  "zeroed_ucp_ep_evaluate_perf_param_t = \<lparr>pparam_field_mask = 0,
     pparam_message_size = 0\<rparr>"

record ucp_ep_evaluate_perf_attr_t =
  pattr_field_mask :: u64
  pattr_estimated_time :: f64

definition zeroed_ucp_ep_evaluate_perf_attr_t :: ucp_ep_evaluate_perf_attr_t where
  "zeroed_ucp_ep_evaluate_perf_attr_t = \<lparr>pattr_field_mask = 0,
     pattr_estimated_time = 0\<rparr>"

record ucp_stream_poll_ep_t =
  spe_ep :: ptr
  spe_user_data :: ptr
  spe_flags :: u32
  spe_reserved :: bytes

definition zeroed_ucp_stream_poll_ep_t :: ucp_stream_poll_ep_t where
  "zeroed_ucp_stream_poll_ep_t = \<lparr>spe_ep = 0,
     spe_user_data = 0,
     spe_flags = 0,
     spe_reserved = replicate 16 0\<rparr>"

record ucp_am_recv_param_t =
  arp_recv_attr :: u64
  arp_reply_ep :: ptr

definition zeroed_ucp_am_recv_param_t :: ucp_am_recv_param_t where
  "zeroed_ucp_am_recv_param_t = \<lparr>arp_recv_attr = 0,
     arp_reply_ep = 0\<rparr>"

lemmas zeroed_defs =
  zeroed_ucs_sock_addr_t_def
  zeroed_ucp_request_param_t_def
  zeroed_ucp_params_t_def
  zeroed_ucp_worker_params_t_def
  zeroed_ucp_ep_params_t_def
  zeroed_ucp_am_handler_param_t_def
  zeroed_ucp_listener_params_t_def
  zeroed_ucp_mem_map_params_t_def
  zeroed_ucp_mem_advise_params_t_def
  zeroed_ucp_memh_pack_params_t_def
  zeroed_ucp_mem_attr_t_def
  zeroed_ucp_worker_attr_def
  zeroed_ucp_ep_attr_def
  zeroed_ucp_context_attr_def
  zeroed_ucp_lib_attr_def
  zeroed_ucp_datatype_attr_def
  zeroed_ucp_request_attr_t_def
  zeroed_ucp_worker_address_attr_def
  zeroed_ucp_tag_recv_info_t_def
  zeroed_ucp_listener_attr_def
  zeroed_ucp_conn_request_attr_def
  zeroed_ucp_ep_evaluate_perf_param_t_def
  zeroed_ucp_ep_evaluate_perf_attr_t_def
  zeroed_ucp_stream_poll_ep_t_def
  zeroed_ucp_am_recv_param_t_def

end
