(* ===== verification/Ffi.thy ===== *)
theory Ffi
  imports Ffi_Types
begin

text \<open>
  The boundary to UCX.  UCX and the C library are not part of the crate: they are a parameter
  \<open>lib\<close> of every operation, a function from a call, UCX's own state and the memory to the
  values the call returns and the state and memory it leaves.  A call is a value of
  \<open>ffi_call\<close>, its constructor named after the C function of \<^verbatim>\<open>src/bindings.rs\<close>, carrying the
  arguments; what the function returns and writes through its out-pointers is an \<open>ffi_ret\<close>,
  from which the caller reads the parts that function has.  The \<open>world\<close> an operation acts on
  holds UCX's state, the memory, the shared \<^verbatim>\<open>AtomicBool\<close> cells and listener states, and logs of the foreign
  calls made and of the lines written to standard error.
\<close>

subsection \<open>The foreign functions\<close>

text \<open>A buffer argument is an address, or the bytes of a local value a pointer is taken of.\<close>

datatype buffer = At ptr | Holding bytes

datatype request_call =
    ucp_request_check_status ptr
  | ucp_request_is_completed ptr
  | ucp_request_test ptr ucp_tag_recv_info_t
  | ucp_request_free ptr
  | ucp_request_release ptr
  | ucp_request_cancel ptr ptr
  | ucp_request_alloc ptr
  | ucp_request_query ptr ucp_request_attr_t
  | ucp_tag_recv_request_test ptr
  | ucp_stream_recv_request_test ptr usize

datatype worker_call =
    ucp_worker_create ptr ucp_worker_params_t
  | ucp_worker_destroy ptr
  | ucp_worker_query ptr ucp_worker_attr
  | ucp_worker_print_info ptr ptr
  | ucp_worker_get_address ptr
  | ucp_worker_release_address ptr ptr
  | ucp_worker_address_query ptr ucp_worker_address_attr
  | ucp_worker_progress ptr
  | ucp_worker_get_efd ptr i32
  | ucp_worker_wait ptr
  | ucp_worker_wait_mem ptr ptr
  | ucp_worker_arm ptr
  | ucp_worker_signal ptr
  | ucp_worker_fence ptr
  | ucp_worker_flush_nbx ptr ucp_request_param_t
  | ucp_worker_set_am_recv_handler ptr ucp_am_handler_param_t

datatype ep_call =
    ucp_ep_create ptr ucp_ep_params_t
  | ucp_ep_close_nbx ptr ucp_request_param_t
  | ucp_ep_destroy ptr
  | ucp_disconnect_nb ptr
  | ucp_ep_modify_nb ptr ucp_ep_params_t
  | ucp_ep_print_info ptr ptr
  | ucp_ep_flush_nbx ptr ucp_request_param_t
  | ucp_ep_evaluate_perf ptr ucp_ep_evaluate_perf_param_t ucp_ep_evaluate_perf_attr_t
  | ucp_ep_query ptr ucp_ep_attr
  | ucp_ep_rkey_unpack ptr buffer

text \<open>A null \<^verbatim>\<open>const ucp_request_param_t *\<close> is \<open>None\<close>.\<close>

datatype xfer_call =
    ucp_tag_send_nbx ptr ptr usize u64 ucp_request_param_t
  | ucp_tag_send_sync_nbx ptr ptr usize u64 "ucp_request_param_t option"
  | ucp_tag_recv_nbx ptr ptr usize u64 u64 ucp_request_param_t
  | ucp_tag_probe_nb ptr u64 u64 i32
  | ucp_tag_msg_recv_nbx ptr ptr usize ptr ucp_request_param_t
  | ucp_tag_msg_recv_nb ptr ptr usize u64 ptr code_ptr
  | ucp_stream_send_nbx ptr ptr usize ucp_request_param_t
  | ucp_stream_recv_nbx ptr ptr usize usize ucp_request_param_t
  | ucp_stream_recv_data_nb ptr usize
  | ucp_stream_data_release ptr ptr
  | ucp_stream_worker_poll ptr "ucp_stream_poll_ep_t list" usize u32
  | ucp_am_send_nbx ptr u32 ptr usize ptr usize ucp_request_param_t
  | ucp_am_recv_data_nbx ptr ptr ptr usize "ucp_request_param_t option"
  | ucp_am_data_release ptr ptr
  | ucp_put_nbx ptr ptr usize u64 ptr ucp_request_param_t
  | ucp_get_nbx ptr ptr usize u64 ptr ucp_request_param_t
  | ucp_atomic_op_nbx ptr ucp_atomic_op_t buffer usize u64 ptr ucp_request_param_t

datatype mem_call =
    ucp_mem_map ptr ucp_mem_map_params_t
  | ucp_mem_unmap ptr ptr
  | ucp_mem_query ptr ucp_mem_attr_t
  | ucp_mem_advise ptr ptr ucp_mem_advise_params_t
  | ucp_mem_print_info bytes ptr ptr
  | ucp_memh_pack ptr ucp_memh_pack_params_t
  | ucp_memh_buffer_release ptr
  | ucp_rkey_pack ptr ptr
  | ucp_rkey_buffer_release ptr
  | ucp_rkey_ptr ptr u64
  | ucp_rkey_compare ptr ptr ptr u64
  | ucp_rkey_destroy ptr

datatype listener_call =
    ucp_listener_create ptr ucp_listener_params_t
  | ucp_listener_destroy ptr
  | ucp_listener_query ptr ucp_listener_attr
  | ucp_listener_reject ptr ptr
  | ucp_conn_request_query ptr ucp_conn_request_attr

datatype context_call =
    ucp_config_read bytes bytes
  | ucp_config_release ptr
  | ucp_config_modify ptr bytes bytes
  | ucp_config_print ptr ptr bytes u32
  | ucp_init_version u32 u32 ucp_params_t ptr
  | ucp_cleanup ptr
  | ucp_context_query ptr ucp_context_attr
  | ucp_context_print_info ptr ptr
  | ucp_lib_query ucp_lib_attr
  | ucp_get_version
  | ucp_get_version_string
  | ucp_dt_create_generic ptr ptr
  | ucp_dt_destroy u64
  | ucp_dt_query u64 ucp_datatype_attr

datatype libc_call =
    libc_dup i32
  | libc_fdopen i32
  | libc_close i32
  | libc_fclose ptr

datatype ffi_call =
    ReqC request_call
  | WorkerC worker_call
  | EpC ep_call
  | XferC xfer_call
  | MemC mem_call
  | ListenerC listener_call
  | CtxC context_call
  | LibcC libc_call

subsection \<open>What a call gives back\<close>

record ffi_ret =
  ret_status :: ucs_status_t
  ret_ptr :: ptr
  ret_uint :: u32
  ret_int :: i32
  ret_isize :: "64 word"
  out_ptr :: ptr
  out_len :: usize
  out_int :: i32
  out_info :: ucp_tag_recv_info_t
  out_request_attr :: ucp_request_attr_t
  out_worker_attr :: ucp_worker_attr
  out_address_attr :: ucp_worker_address_attr
  out_ep_attr :: ucp_ep_attr
  out_perf_attr :: ucp_ep_evaluate_perf_attr_t
  out_context_attr :: ucp_context_attr
  out_lib_attr :: ucp_lib_attr
  out_datatype_attr :: ucp_datatype_attr
  out_mem_attr :: ucp_mem_attr_t
  out_listener_attr :: ucp_listener_attr
  out_conn_attr :: ucp_conn_request_attr
  out_poll_eps :: "ucp_stream_poll_ep_t list"
  out_version :: "u32 \<times> u32 \<times> u32"
  ret_str :: bytes

text \<open>The return of a function that returns zero or \<^verbatim>\<open>UCS_OK\<close> and writes nothing.\<close>

definition ffi_ret0 :: ffi_ret where
  "ffi_ret0 = \<lparr>ret_status = UCS_OK, ret_ptr = 0, ret_uint = 0, ret_int = 0, ret_isize = 0,
     out_ptr = 0, out_len = 0, out_int = 0,
     out_info = zeroed_ucp_tag_recv_info_t,
     out_request_attr = zeroed_ucp_request_attr_t,
     out_worker_attr = zeroed_ucp_worker_attr,
     out_address_attr = zeroed_ucp_worker_address_attr,
     out_ep_attr = zeroed_ucp_ep_attr,
     out_perf_attr = zeroed_ucp_ep_evaluate_perf_attr_t,
     out_context_attr = zeroed_ucp_context_attr,
     out_lib_attr = zeroed_ucp_lib_attr,
     out_datatype_attr = zeroed_ucp_datatype_attr,
     out_mem_attr = zeroed_ucp_mem_attr_t,
     out_listener_attr = zeroed_ucp_listener_attr,
     out_conn_attr = zeroed_ucp_conn_request_attr,
     out_poll_eps = [], out_version = (0, 0, 0), ret_str = []\<rparr>"

subsection \<open>The world and a foreign call\<close>

type_synonym memory = "ptr \<Rightarrow> u8"
type_synonym 'u lib = "ffi_call \<Rightarrow> 'u \<Rightarrow> memory \<Rightarrow> ffi_ret \<times> 'u \<times> memory"

text \<open>\<^verbatim>\<open>debug_assertions\<close> is the build flag that enables \<^verbatim>\<open>debug_assert!\<close> and the progress guard.\<close>

record 'u env =
  lib :: "'u lib"
  debug_assertions :: bool

text \<open>
  The shared state behind a listener, \<^verbatim>\<open>Arc<ListenerState>\<close>: its strong count, the handle and
  the connection handler, each under a mutex that can be poisoned.
\<close>

record listener_state =
  ls_strong :: nat
  ls_handle :: ptr
  ls_handle_poisoned :: bool
  ls_has_handler :: bool
  ls_handler_poisoned :: bool

record 'u world =
  ucx :: 'u
  mem :: memory
  atomics :: "nat \<Rightarrow> bool"
  next_cell :: nat
  listeners :: "nat \<Rightarrow> listener_state option"
  trace :: "ffi_call list"
  stderr :: "string list"

definition ffi :: "'u env \<Rightarrow> ffi_call \<Rightarrow> 'u world \<Rightarrow> ffi_ret \<times> 'u world" where
  "ffi E c w = (case lib E c (ucx w) (mem w) of (r, u, m) \<Rightarrow>
      (r, w\<lparr>ucx := u, mem := m, trace := trace w @ [c]\<rparr>))"

text \<open>A call whose result is ignored.\<close>

definition ffi_unit :: "'u env \<Rightarrow> ffi_call \<Rightarrow> 'u world \<Rightarrow> 'u world" where
  "ffi_unit E c w = snd (ffi E c w)"

text \<open>\<^verbatim>\<open>AtomicBool::new\<close>, \<^verbatim>\<open>store\<close> and \<^verbatim>\<open>load\<close> on the shared cells, and \<^verbatim>\<open>eprintln!\<close>.\<close>

definition atomic_new :: "bool \<Rightarrow> 'u world \<Rightarrow> nat \<times> 'u world" where
  "atomic_new b w = (next_cell w,
     w\<lparr>atomics := (atomics w)(next_cell w := b), next_cell := Suc (next_cell w)\<rparr>)"

definition atomic_store :: "nat \<Rightarrow> bool \<Rightarrow> 'u world \<Rightarrow> 'u world" where
  "atomic_store i b w = w\<lparr>atomics := (atomics w)(i := b)\<rparr>"

definition eprintln :: "string \<Rightarrow> 'u world \<Rightarrow> 'u world" where
  "eprintln s w = w\<lparr>stderr := stderr w @ [s]\<rparr>"

text \<open>The \<open>n\<close> bytes at an address, as \<^verbatim>\<open>slice::from_raw_parts\<close> reads them.\<close>

definition mem_read :: "memory \<Rightarrow> ptr \<Rightarrow> nat \<Rightarrow> bytes" where
  "mem_read m p n = map (\<lambda>i. m (p + of_nat i)) [0..<n]"

lemma length_mem_read [simp]: "length (mem_read m p n) = n"
  by (simp add: mem_read_def)

subsection \<open>What calls and stores change\<close>

lemma ffi_world [world_simps]:
  assumes "ffi E c w = (r, w1)"
  shows "atomics w1 = atomics w" "next_cell w1 = next_cell w" "trace w1 = trace w @ [c]"
    "stderr w1 = stderr w" "listeners w1 = listeners w"
  using assms by (auto simp: ffi_def split: prod.splits)

lemma snd_ffi_world [simp]:
  "atomics (snd (ffi E c w)) = atomics w" "next_cell (snd (ffi E c w)) = next_cell w"
  "trace (snd (ffi E c w)) = trace w @ [c]" "stderr (snd (ffi E c w)) = stderr w"
  "listeners (snd (ffi E c w)) = listeners w"
  by (auto simp: ffi_def split: prod.splits)

lemma ffi_unit_world [simp]:
  "atomics (ffi_unit E c w) = atomics w" "next_cell (ffi_unit E c w) = next_cell w"
  "trace (ffi_unit E c w) = trace w @ [c]" "stderr (ffi_unit E c w) = stderr w"
  "listeners (ffi_unit E c w) = listeners w"
  by (simp_all add: ffi_unit_def)

lemma atomic_store_world [simp]:
  "atomics (atomic_store i b w) = (atomics w)(i := b)"
  "trace (atomic_store i b w) = trace w" "stderr (atomic_store i b w) = stderr w"
  "next_cell (atomic_store i b w) = next_cell w" "listeners (atomic_store i b w) = listeners w"
  "ucx (atomic_store i b w) = ucx w" "mem (atomic_store i b w) = mem w"
  by (simp_all add: atomic_store_def)

lemma atomic_store_same [simp]: "atomics w i = b \<Longrightarrow> atomic_store i b w = w"
  by (auto simp: atomic_store_def fun_upd_idem)

lemma atomic_store_twice [simp]:
  "atomic_store i b (atomic_store i c w) = atomic_store i b w"
  by (simp add: atomic_store_def)

lemma eprintln_world [simp]:
  "atomics (eprintln s w) = atomics w" "trace (eprintln s w) = trace w"
  "stderr (eprintln s w) = stderr w @ [s]" "next_cell (eprintln s w) = next_cell w"
  "listeners (eprintln s w) = listeners w"
  "ucx (eprintln s w) = ucx w" "mem (eprintln s w) = mem w"
  by (simp_all add: eprintln_def)

end
