(* ===== verification/Contracts.thy ===== *)
theory Contracts
  imports Ffi
begin

text \<open>
  The contracts the components share.  \<open>mask_builder\<close> is that of every parameter builder.
  \<open>owned\<close> is the contract of the crate's owning wrappers.  A wrapper value holds a foreign handle or is
  inert; borrowing methods use the handle or take it out, and a last consuming method (or the
  drop glue) ends the value's life.  The locale states what each method does to the handle and to
  the log of foreign calls; its lemma is that the handle is released exactly once, by the last
  call that mentions it.
\<close>

subsection \<open>Parameter builders\<close>

text \<open>
  Every parameter builder of the crate accumulates a field mask: a setter stores its argument
  and ORs its bit into the mask.  A setter may refuse, with a panic or an error its caller's \<^verbatim>\<open>?\<close>
  propagates: then it is \<open>None\<close> and the chain of calls ends.
\<close>

fun ok_option :: "'e + 'a \<Rightarrow> 'a option" where
  "ok_option (Inr x) = Some x"
| "ok_option (Inl e) = None"

lemma ok_option_Some [simp]: "ok_option r = Some x \<longleftrightarrow> r = Inr x"
  by (cases r) auto

fun ret_option :: "'a outcome \<Rightarrow> 'a option" where
  "ret_option (Ret x) = Some x"
| "ret_option _ = None"

lemma ret_option_Some [simp]: "ret_option r = Some x \<longleftrightarrow> r = Ret x"
  by (cases r) auto

fun chain :: "('op \<Rightarrow> 'b \<Rightarrow> 'b option) \<Rightarrow> 'op list \<Rightarrow> 'b \<Rightarrow> 'b option" where
  "chain apply_op [] b = Some b"
| "chain apply_op (op # ops) b = Option.bind (apply_op op b) (chain apply_op ops)"

text \<open>
  Facts about any chain: when it is refused, if a setter's refusal does not depend on the
  builder; and what a field holds afterwards, the value of the last setter that sets it.
\<close>

lemma chain_None:
  assumes "\<And>op b. apply_op op b = None \<longleftrightarrow> bad op"
  shows "chain apply_op ops b = None \<longleftrightarrow> list_ex bad ops"
proof (induction ops arbitrary: b)
  case Nil
  then show ?case by simp
next
  case (Cons op ops)
  then show ?case using assms [of op b] by (cases "apply_op op b") auto
qed

fun last_set :: "('op \<Rightarrow> 'x option) \<Rightarrow> 'op list \<Rightarrow> 'x option" where
  "last_set f [] = None"
| "last_set f (op # ops) = (case last_set f ops of Some x \<Rightarrow> Some x | None \<Rightarrow> f op)"

lemma chain_last_set:
  assumes "\<And>op b b'. apply_op op b = Some b' \<Longrightarrow>
      get b' = (case f op of None \<Rightarrow> get b | Some x \<Rightarrow> conv x)"
    and "chain apply_op ops b = Some b'"
  shows "get b' = (case last_set f ops of None \<Rightarrow> get b | Some x \<Rightarrow> conv x)"
  using assms(2)
proof (induction ops arbitrary: b)
  case Nil
  then show ?case by simp
next
  case (Cons op ops)
  from Cons.prems obtain c where c: "apply_op op b = Some c" "chain apply_op ops c = Some b'"
    by (auto simp: bind_eq_Some_conv)
  show ?case using Cons.IH [OF c(2)] assms(1) [OF c(1)] by (auto split: option.splits)
qed

text \<open>A field no setter touches keeps its value.\<close>

lemma chain_unset:
  assumes "\<And>op b b'. apply_op op b = Some b' \<Longrightarrow> get b' = get b"
    and "chain apply_op ops b = Some b'"
  shows "get b' = get b"
  using assms(2)
proof (induction ops arbitrary: b)
  case Nil
  then show ?case by simp
next
  case (Cons op ops)
  then show ?case using assms(1) by (auto simp: bind_eq_Some_conv)
qed

locale mask_builder =
  fixes apply_op :: "'op \<Rightarrow> 'b \<Rightarrow> 'b option"
    and mask_of :: "'b \<Rightarrow> 'm::len word"
    and bit_of :: "'op \<Rightarrow> 'm word"
  assumes mask_apply: "apply_op op b = Some b' \<Longrightarrow> mask_of b' = mask_of b OR bit_of op"
begin

lemma mask_chain:
  "chain apply_op ops b = Some b' \<Longrightarrow> mask_of b' = fold (OR) (map bit_of ops) (mask_of b)"
proof (induction ops arbitrary: b)
  case Nil
  then show ?case by simp
next
  case (Cons op ops)
  from Cons.prems obtain c where c: "apply_op op b = Some c" "chain apply_op ops c = Some b'"
    by (auto simp: bind_eq_Some_conv)
  show ?case using Cons.IH [OF c(2)] mask_apply [OF c(1)] by (simp add: or.commute)
qed

lemma bit_mask_chain:
  assumes "chain apply_op ops b = Some b'"
  shows "bit (mask_of b') n \<longleftrightarrow> bit (mask_of b) n \<or> (\<exists>op\<in>set ops. bit (bit_of op) n)"
  using assms
proof (induction ops arbitrary: b)
  case Nil
  then show ?case by simp
next
  case (Cons op ops)
  from Cons.prems obtain c where c: "apply_op op b = Some c" "chain apply_op ops c = Some b'"
    by (auto simp: bind_eq_Some_conv)
  show ?case using Cons.IH [OF c(2)] mask_apply [OF c(1)] by (auto simp: bit_or_iff)
qed

text \<open>A property of the builder every accepted setter keeps holds of what a chain builds.\<close>

lemma chain_invariant:
  assumes "\<And>op b b'. apply_op op b = Some b' \<Longrightarrow> P b \<Longrightarrow> P b'"
    and "chain apply_op ops b = Some b'" and "P b"
  shows "P b'"
  using assms(2,3)
proof (induction ops arbitrary: b)
  case Nil
  then show ?case by simp
next
  case (Cons op ops)
  then show ?case using assms(1) by (auto simp: bind_eq_Some_conv)
qed

end

subsection \<open>Owning wrappers\<close>

text \<open>A whole life of a wrapper: borrowing methods in any order, then the one that consumes it.\<close>

fun life :: "('op \<Rightarrow> 'r \<Rightarrow> 'w \<Rightarrow> 'r \<times> 'w) \<Rightarrow> ('e \<Rightarrow> 'r \<Rightarrow> 'w \<Rightarrow> 'w) \<Rightarrow>
    'op list \<Rightarrow> 'e \<Rightarrow> 'r \<Rightarrow> 'w \<Rightarrow> 'w" where
  "life step finish [] e r w = finish e r w"
| "life step finish (op # ops) e r w =
     (case step op r w of (r1, w1) \<Rightarrow> life step finish ops e r1 w1)"

locale owned =
  fixes live :: "'r \<Rightarrow> ptr option"
    and step :: "'op \<Rightarrow> 'r \<Rightarrow> 'u world \<Rightarrow> 'r \<times> 'u world"
    and finish :: "'e \<Rightarrow> 'r \<Rightarrow> 'u world \<Rightarrow> 'u world"
    and releases :: "ptr \<Rightarrow> ffi_call \<Rightarrow> bool"
  assumes step_live: "\<lbrakk>live r = Some h; step op r w = (r1, w1)\<rbrakk> \<Longrightarrow>
      (\<exists>us. trace w1 = trace w @ us \<and> live r1 = Some h \<and> (\<forall>u\<in>set us. \<not> releases h u)) \<or>
      (\<exists>us c. trace w1 = trace w @ us @ [c] \<and> live r1 = None \<and> releases h c \<and>
        (\<forall>u\<in>set us. \<not> releases h u))"
    and step_inert: "\<lbrakk>live r = None; step op r w = (r1, w1)\<rbrakk> \<Longrightarrow>
      live r1 = None \<and> trace w1 = trace w"
    and finish_live: "live r = Some h \<Longrightarrow>
      \<exists>us c. trace (finish e r w) = trace w @ us @ [c] \<and> releases h c \<and>
        (\<forall>u\<in>set us. \<not> releases h u)"
    and finish_inert: "live r = None \<Longrightarrow> trace (finish e r w) = trace w"
begin

lemma life_inert: "live r = None \<Longrightarrow> trace (life step finish ops e r w) = trace w"
proof (induction ops arbitrary: r w)
  case Nil
  then show ?case by (simp add: finish_inert)
next
  case (Cons op ops)
  obtain r1 w1 where s: "step op r w = (r1, w1)" by fastforce
  with Cons.prems have "live r1 = None" "trace w1 = trace w" using step_inert by blast+
  then show ?case using Cons.IH s by simp
qed

lemma released_once:
  "live r = Some h \<Longrightarrow>
     \<exists>us c. trace (life step finish ops e r w) = trace w @ us @ [c] \<and> releases h c \<and>
       (\<forall>u\<in>set us. \<not> releases h u)"
proof (induction ops arbitrary: r w)
  case Nil
  then show ?case by (simp add: finish_live)
next
  case (Cons op ops)
  obtain r1 w1 where s: "step op r w = (r1, w1)" by fastforce
  from step_live [OF Cons.prems s] show ?case
  proof (elim disjE exE conjE)
    fix us assume u: "trace w1 = trace w @ us" "live r1 = Some h" "\<forall>u\<in>set us. \<not> releases h u"
    obtain vs c where "trace (life step finish ops e r1 w1) = trace w1 @ vs @ [c]" "releases h c"
      "\<forall>u\<in>set vs. \<not> releases h u"
      using Cons.IH [OF u(2)] by blast
    then have "trace (life step finish (op # ops) e r w) = trace w @ (us @ vs) @ [c]"
      "\<forall>u\<in>set (us @ vs). \<not> releases h u" "releases h c"
      using s u by auto
    then show ?thesis by blast
  next
    fix us c assume u: "trace w1 = trace w @ us @ [c]" "live r1 = None" "releases h c"
      "\<forall>u\<in>set us. \<not> releases h u"
    then show ?thesis using s life_inert [of r1] by auto
  qed
qed

end

subsection \<open>Shared owners\<close>

text \<open>
  A shared allocation counts its owners: a clone adds one, a release takes one away, and the
  release of the last destroys the foreign object behind it, once.
\<close>

locale counted =
  fixes ok :: "'w \<Rightarrow> bool"
    and owners :: "'w \<Rightarrow> nat"
    and destroyed :: "'w \<Rightarrow> nat"
    and clone :: "'w \<Rightarrow> 'w"
    and release :: "'w \<Rightarrow> 'w"
  assumes clone_law: "\<lbrakk>ok w; 0 < owners w\<rbrakk> \<Longrightarrow>
      ok (clone w) \<and> owners (clone w) = Suc (owners w) \<and> destroyed (clone w) = destroyed w"
    and release_law: "\<lbrakk>ok w; 0 < owners w\<rbrakk> \<Longrightarrow>
      ok (release w) \<and> owners (release w) = owners w - 1 \<and>
      destroyed (release w) = destroyed w + (if owners w = 1 then 1 else 0)"
begin

lemma clone_release:
  assumes "ok w" and "0 < owners w"
  shows "ok (release (clone w)) \<and> owners (release (clone w)) = owners w \<and>
    destroyed (release (clone w)) = destroyed w"
  using clone_law [OF assms] release_law [of "clone w"] assms by simp

text \<open>The state of an allocation with \<open>n\<close> owners: destroyed exactly when it has none.\<close>

lemma release_balance:
  assumes "ok w \<and> owners w = Suc n \<and> destroyed w = (if Suc n = 0 then 1 else 0)"
  shows "ok (release w) \<and> owners (release w) = n \<and> destroyed (release w) = (if n = 0 then 1 else 0)"
  using release_law [of w] assms by simp

lemma clone_balance:
  assumes "ok w \<and> owners w = n \<and> destroyed w = (if n = 0 then 1 else 0)" and "0 < n"
  shows "ok (clone w) \<and> owners (clone w) = Suc n \<and>
    destroyed (clone w) = (if Suc n = 0 then 1 else 0)"
  using clone_law [of w] assms by simp

end

end
