(* ===== verification/Request.thy ===== *)
theory Request
  imports Contracts
begin

text \<open>
  \<^verbatim>\<open>src/request.rs\<close> and the status-pointer classifier of \<^verbatim>\<open>src/status.rs\<close>: the owning request
  wrapper, the completion queries, the operation-parameter builder, and the classification of
  what a non-blocking UCX call returns.
\<close>

subsection \<open>The request wrapper\<close>

record Request =
  req_handle :: "ptr option"

record RequestState =
  rst_status :: "Status + unit"

definition NonNull_new :: "ptr \<Rightarrow> ptr option" where
  "NonNull_new p = (if p = 0 then None else Some p)"

definition Request_new :: "ptr \<Rightarrow> Request option" where
  "Request_new p = map_option (\<lambda>h. \<lparr>req_handle = Some h\<rparr>) (NonNull_new p)"

definition Request_from_raw :: "'u env \<Rightarrow> ptr \<Rightarrow> Request outcome" where
  "Request_from_raw E p =
     (if debug_assertions E \<and> p = 0 then Panic ''Request::from_raw with null''
      else Ret \<lparr>req_handle = NonNull_new p\<rparr>)"

definition Request_as_ptr :: "Request \<Rightarrow> ptr" where
  "Request_as_ptr r = (case req_handle r of None \<Rightarrow> 0 | Some h \<Rightarrow> h)"

definition Request_is_live :: "Request \<Rightarrow> bool" where
  "Request_is_live r = (req_handle r \<noteq> None)"

definition Request_drop :: "'u env \<Rightarrow> Request \<Rightarrow> 'u world \<Rightarrow> 'u world" where
  "Request_drop E r w = (case req_handle r of
      None \<Rightarrow> w
    | Some h \<Rightarrow> ffi_unit E (ReqC (ucp_request_free h)) w)"

definition Request_check_finished ::
  "'u env \<Rightarrow> Request \<Rightarrow> 'u world \<Rightarrow> (Status + bool) \<times> 'u world" where
  "Request_check_finished E r w = (case req_handle r of
      None \<Rightarrow> (Inr True, w)
    | Some h \<Rightarrow>
       (let (ret, w1) = ffi E (ReqC (ucp_request_check_status h)) w;
            status = ret_status ret;
            status_ptr = status_as_usize status
        in if status_ptr_is_err status_ptr
           then (Inl (Status_from (status_from_ptr status_ptr)), w1)
           else (Inr (status = UCS_OK), w1)))"

definition Request_is_completed :: "'u env \<Rightarrow> Request \<Rightarrow> 'u world \<Rightarrow> bool \<times> 'u world" where
  "Request_is_completed E r w = (case req_handle r of
      None \<Rightarrow> (True, w)
    | Some h \<Rightarrow>
       (let (ret, w1) = ffi E (ReqC (ucp_request_is_completed h)) w in (ret_int ret \<noteq> 0, w1)))"

definition Request_test :: "'u env \<Rightarrow> Request \<Rightarrow> 'u world \<Rightarrow> RequestState \<times> 'u world" where
  "Request_test E r w = (case req_handle r of
      None \<Rightarrow> (\<lparr>rst_status = Inr ()\<rparr>, w)
    | Some h \<Rightarrow>
       (let (ret, w1) = ffi E (ReqC (ucp_request_test h zeroed_ucp_tag_recv_info_t)) w
        in (\<lparr>rst_status = status_to_result (ret_status ret)\<rparr>, w1)))"

text \<open>
  \<^verbatim>\<open>release\<close> and \<^verbatim>\<open>free\<close> consume the wrapper: they take the handle, call UCX, and the drop
  glue then runs on what is left, which is inert.
\<close>

definition Request_release :: "'u env \<Rightarrow> Request \<Rightarrow> 'u world \<Rightarrow> 'u world" where
  "Request_release E r w = (case req_handle r of
      None \<Rightarrow> Request_drop E r w
    | Some h \<Rightarrow> Request_drop E (r\<lparr>req_handle := None\<rparr>)
        (ffi_unit E (ReqC (ucp_request_release h)) w))"

definition Request_cancel ::
  "'u env \<Rightarrow> Request \<Rightarrow> ptr \<Rightarrow> 'u world \<Rightarrow> Request \<times> 'u world" where
  "Request_cancel E r worker_handle w = (case req_handle r of
      None \<Rightarrow> (r, w)
    | Some h \<Rightarrow> (r\<lparr>req_handle := None\<rparr>,
        ffi_unit E (ReqC (ucp_request_free h))
          (ffi_unit E (ReqC (ucp_request_cancel worker_handle h)) w)))"

definition Request_free :: "'u env \<Rightarrow> Request \<Rightarrow> 'u world \<Rightarrow> 'u world" where
  "Request_free E r w = (case req_handle r of
      None \<Rightarrow> Request_drop E r w
    | Some h \<Rightarrow> Request_drop E (r\<lparr>req_handle := None\<rparr>)
        (ffi_unit E (ReqC (ucp_request_free h)) w))"

subsection \<open>Classifying a status pointer\<close>

definition status_ptr_to_result :: "'u env \<Rightarrow> ptr \<Rightarrow> (Status + Request option) outcome" where
  "status_ptr_to_result E p =
     (if status_ptr_is_err p then Ret (Inl (Status_from (status_from_ptr p)))
      else if debug_assertions E \<and> p = status_as_usize UCS_INPROGRESS
      then Panic ''UCX returned UCS_INPROGRESS through a ucs_status_ptr_t API - violates the status_ptr contract, see status_ptr_to_result docs''
      else if p \<le> status_as_usize UCS_INPROGRESS then Ret (Inr None)
      else Ret (Inr (Request_new p)))"

text \<open>A non-blocking call whose status pointer is classified at once.\<close>

definition nbx ::
  "'u env \<Rightarrow> ffi_call \<Rightarrow> 'u world \<Rightarrow> (Status + Request option) outcome \<times> 'u world" where
  "nbx E c w = (let (ret, w1) = ffi E c w in (status_ptr_to_result E (ret_ptr ret), w1))"

text \<open>A call returning a plain status, and one that also yields a value on success.\<close>

definition status_call :: "'u env \<Rightarrow> ffi_call \<Rightarrow> 'u world \<Rightarrow> (Status + unit) \<times> 'u world" where
  "status_call E c w = (let (ret, w1) = ffi E c w in (status_to_result (ret_status ret), w1))"

definition value_call ::
  "'u env \<Rightarrow> ffi_call \<Rightarrow> (ffi_ret \<Rightarrow> 'a) \<Rightarrow> 'u world \<Rightarrow> (Status + 'a) \<times> 'u world" where
  "value_call E c f w =
     (let (ret, w1) = ffi E c w in (result_map (\<lambda>_. f ret) (status_to_result (ret_status ret)), w1))"

subsection \<open>Operation parameters\<close>

record RequestParam =
  rparam_handle :: ucp_request_param_t

record RequestParamBuilder =
  rpb_handle :: ucp_request_param_t
  rpb_field_mask :: u32

definition OP_ATTR_FIELD_CALLBACK :: u32 where [simp]: "OP_ATTR_FIELD_CALLBACK = 2"
definition OP_ATTR_FIELD_DATATYPE :: u32 where [simp]: "OP_ATTR_FIELD_DATATYPE = 8"
definition OP_ATTR_FIELD_FLAGS :: u32 where [simp]: "OP_ATTR_FIELD_FLAGS = 16"
definition OP_ATTR_FIELD_REPLY_BUFFER :: u32 where [simp]: "OP_ATTR_FIELD_REPLY_BUFFER = 32"
definition OP_ATTR_FIELD_MEMORY_TYPE :: u32 where [simp]: "OP_ATTR_FIELD_MEMORY_TYPE = 64"
definition OP_ATTR_FLAG_NO_IMM_CMPL :: u32 where [simp]: "OP_ATTR_FLAG_NO_IMM_CMPL = 65536"
definition OP_ATTR_FLAG_FORCE_IMM_CMPL :: u32 where [simp]: "OP_ATTR_FLAG_FORCE_IMM_CMPL = 262144"

definition RequestParamBuilder_new :: RequestParamBuilder where
  "RequestParamBuilder_new = \<lparr>rpb_handle = zeroed_ucp_request_param_t, rpb_field_mask = 0\<rparr>"

definition rpb_force_imm_cmpl :: "RequestParamBuilder \<Rightarrow> RequestParamBuilder outcome" where
  "rpb_force_imm_cmpl b =
     (if rpb_field_mask b AND OP_ATTR_FLAG_NO_IMM_CMPL \<noteq> 0
      then Panic ''Requesting UCP_OP_ATTR_FLAG_FORCE_IMM_CMPL while UCP_OP_ATTR_FLAG_NO_IMM_CMPL is also set''
      else Ret (b\<lparr>rpb_field_mask := rpb_field_mask b OR OP_ATTR_FLAG_FORCE_IMM_CMPL\<rparr>))"

definition rpb_no_imm_cmpl :: "RequestParamBuilder \<Rightarrow> RequestParamBuilder outcome" where
  "rpb_no_imm_cmpl b =
     (if rpb_field_mask b AND OP_ATTR_FLAG_FORCE_IMM_CMPL \<noteq> 0
      then Panic ''Requesting UCP_OP_ATTR_FLAG_NO_IMM_CMPL while UCP_OP_ATTR_FLAG_FORCE_IMM_CMPL is also set''
      else Ret (b\<lparr>rpb_field_mask := rpb_field_mask b OR OP_ATTR_FLAG_NO_IMM_CMPL\<rparr>))"

definition rpb_flags :: "u32 \<Rightarrow> RequestParamBuilder \<Rightarrow> RequestParamBuilder" where
  "rpb_flags flags b = b\<lparr>rpb_field_mask := rpb_field_mask b OR OP_ATTR_FIELD_FLAGS,
     rpb_handle := (rpb_handle b)\<lparr>rp_flags := flags\<rparr>\<rparr>"

definition rpb_reply_buffer :: "ptr \<Rightarrow> RequestParamBuilder \<Rightarrow> RequestParamBuilder" where
  "rpb_reply_buffer buf b = b\<lparr>rpb_field_mask := rpb_field_mask b OR OP_ATTR_FIELD_REPLY_BUFFER,
     rpb_handle := (rpb_handle b)\<lparr>rp_reply_buffer := buf\<rparr>\<rparr>"

definition rpb_datatype :: "u64 \<Rightarrow> RequestParamBuilder \<Rightarrow> RequestParamBuilder" where
  "rpb_datatype dt b = b\<lparr>rpb_field_mask := rpb_field_mask b OR OP_ATTR_FIELD_DATATYPE,
     rpb_handle := (rpb_handle b)\<lparr>rp_datatype := dt\<rparr>\<rparr>"

definition rpb_send_callback :: "code_ptr \<Rightarrow> RequestParamBuilder \<Rightarrow> RequestParamBuilder" where
  "rpb_send_callback cb b = b\<lparr>rpb_field_mask := rpb_field_mask b OR OP_ATTR_FIELD_CALLBACK,
     rpb_handle := (rpb_handle b)\<lparr>rp_cb_send := cb\<rparr>\<rparr>"

definition rpb_memory_type :: "MemoryType \<Rightarrow> RequestParamBuilder \<Rightarrow> RequestParamBuilder" where
  "rpb_memory_type mt b = b\<lparr>rpb_field_mask := rpb_field_mask b OR OP_ATTR_FIELD_MEMORY_TYPE,
     rpb_handle := (rpb_handle b)\<lparr>rp_memory_type := MemoryType_to_ffi mt\<rparr>\<rparr>"

definition rpb_build :: "RequestParamBuilder \<Rightarrow> RequestParam" where
  "rpb_build b = \<lparr>rparam_handle = (rpb_handle b)\<lparr>rp_op_attr_mask := rpb_field_mask b\<rparr>\<rparr>"

definition RequestParam_fetch_params :: "ptr \<Rightarrow> RequestParam" where
  "RequestParam_fetch_params reply = rpb_build (rpb_reply_buffer reply RequestParamBuilder_new)"

subsection \<open>Allocating and querying requests\<close>

definition request_alloc :: "'u env \<Rightarrow> ptr \<Rightarrow> ('u world, Request) prog" where
  "request_alloc E worker_handle w =
     (let (ret, w1) = ffi E (ReqC (ucp_request_alloc worker_handle)) w
      in (Request_from_raw E (ret_ptr ret), w1))"

record RequestAttr =
  ra_status :: Status

definition request_query ::
  "'u env \<Rightarrow> ptr \<Rightarrow> u64 \<Rightarrow> 'u world \<Rightarrow> (Status + RequestAttr) \<times> 'u world" where
  "request_query E request msk w =
     (let attr = zeroed_ucp_request_attr_t\<lparr>rattr_field_mask := msk\<rparr>
      in value_call E (ReqC (ucp_request_query request attr))
        (\<lambda>ret. \<lparr>ra_status = (if msk AND 4 \<noteq> 0 then Status_from (rattr_status (out_request_attr ret))
                              else Status_from UCS_OK)\<rparr>) w)"

datatype RequestAttrFields = RequestAttrFields (raf_bits: u64)

definition RequestAttrFields_InfoString :: RequestAttrFields where
  "RequestAttrFields_InfoString = RequestAttrFields 1"
definition RequestAttrFields_InfoStringSize :: RequestAttrFields where
  "RequestAttrFields_InfoStringSize = RequestAttrFields 2"
definition RequestAttrFields_Status :: RequestAttrFields where
  "RequestAttrFields_Status = RequestAttrFields 4"
definition RequestAttrFields_MemType :: RequestAttrFields where
  "RequestAttrFields_MemType = RequestAttrFields 8"
definition RequestAttrFields_empty :: RequestAttrFields where
  "RequestAttrFields_empty = RequestAttrFields 0"

definition RequestAttrFields_contains :: "RequestAttrFields \<Rightarrow> RequestAttrFields \<Rightarrow> bool" where
  "RequestAttrFields_contains f g = (raf_bits f AND raf_bits g = raf_bits g)"

subsection \<open>Decoding statuses\<close>

lemma decode_status_ptr:
  "(if status_ptr_is_err (status_as_usize s)
    then Inl (Status_from (status_from_ptr (status_as_usize s))) else Inr (s = UCS_OK)) =
   (if status_value_is_err s then Inl (Status s) else Inr (s = UCS_OK))"
  by (simp add: status_as_usize_is_err status_from_ptr_as_usize Status_from_def
      flip: status_value_is_err_disc)

lemma Request_check_finished_inert [simp]:
  "req_handle r = None \<Longrightarrow> Request_check_finished E r w = (Inr True, w)"
  by (simp add: Request_check_finished_def)

lemma Request_check_finished_live:
  "req_handle r = Some h \<Longrightarrow> Request_check_finished E r w =
     (let s = ret_status (fst (ffi E (ReqC (ucp_request_check_status h)) w)) in
      if s = UCS_OK then Inr True else if s = UCS_INPROGRESS then Inr False else Inl (Status s),
      snd (ffi E (ReqC (ucp_request_check_status h)) w))"
  using decode_status_ptr
    [of "ret_status (fst (ffi E (ReqC (ucp_request_check_status h)) w))"]
  by (auto simp: Request_check_finished_def Let_def split: prod.splits if_splits)

lemma Request_check_finished_world [world_simps]:
  assumes "Request_check_finished E r w = (x, w1)"
  shows "atomics w1 = atomics w" "next_cell w1 = next_cell w" "stderr w1 = stderr w"
    "listeners w1 = listeners w"
  using assms
  by (auto simp: Request_check_finished_def Let_def world_simps split: prod.splits option.splits if_splits)

lemma Request_drop_world [simp]:
  "atomics (Request_drop E r w) = atomics w" "stderr (Request_drop E r w) = stderr w"
  "listeners (Request_drop E r w) = listeners w"
  "req_handle r = None \<Longrightarrow> Request_drop E r w = w"
  by (auto simp: Request_drop_def split: option.splits)

lemma Request_free_drop: "Request_free E r w = Request_drop E r w"
  by (auto simp: Request_free_def Request_drop_def split: option.splits)

lemma NonNull_new_simps [simp]: "NonNull_new 0 = None" "p \<noteq> 0 \<Longrightarrow> NonNull_new p = Some p"
  by (simp_all add: NonNull_new_def)

subsection \<open>Status pointers\<close>

lemma status_ptr_to_result_small:
  "status_ptr_to_result E 0 = Ret (Inr None)"
  "\<not> debug_assertions E \<Longrightarrow> status_ptr_to_result E 1 = Ret (Inr None)"
  by (simp_all add: status_ptr_to_result_def status_ptr_is_err_iff status_as_usize_def)

lemma status_ptr_to_result_request:
  assumes "1 < uint p" and "uint p < 2 ^ 64 - 100"
  shows "status_ptr_to_result E p = Ret (Inr (Some \<lparr>req_handle = Some p\<rparr>))"
proof -
  have "p \<noteq> 0" "p \<noteq> 1" using assms(1) by auto
  then show ?thesis using assms
    by (simp add: status_ptr_to_result_def status_ptr_is_err_iff status_as_usize_def
        Request_new_def word_le_def)
qed

lemma status_ptr_to_result_live:
  "status_ptr_to_result E p = Ret (Inr (Some r)) \<Longrightarrow>
     req_handle r = Some p \<and> 1 < uint p \<and> uint p < 2 ^ 64 - 100"
proof -
  assume a: "status_ptr_to_result E p = Ret (Inr (Some r))"
  then have "\<not> status_ptr_is_err p" "\<not> p \<le> 1" and r: "Request_new p = Some r"
    by (auto simp: status_ptr_to_result_def status_as_usize_def split: if_splits)
  then have b: "1 < uint p" "uint p < 2 ^ 64 - 100"
    by (simp_all add: status_ptr_is_err_iff word_le_def)
  then have "p \<noteq> 0" by auto
  with r b show ?thesis by (auto simp: Request_new_def)
qed

lemma nbx_world [world_simps]:
  assumes "nbx E c w = (x, w1)"
  shows "atomics w1 = atomics w" "next_cell w1 = next_cell w" "trace w1 = trace w @ [c]"
    "stderr w1 = stderr w" "listeners w1 = listeners w"
  using assms by (auto simp: nbx_def world_simps split: prod.splits)

lemma snd_nbx [simp]: "snd (nbx E c w) = snd (ffi E c w)"
  by (simp add: nbx_def split: prod.splits)

lemma fst_nbx [simp]: "fst (nbx E c w) = status_ptr_to_result E (ret_ptr (fst (ffi E c w)))"
  by (simp add: nbx_def split: prod.splits)

lemma status_call_world [world_simps]:
  assumes "status_call E c w = (x, w1)"
  shows "atomics w1 = atomics w" "next_cell w1 = next_cell w" "trace w1 = trace w @ [c]"
    "stderr w1 = stderr w" "listeners w1 = listeners w"
  using assms by (auto simp: status_call_def world_simps split: prod.splits)

lemma value_call_world [world_simps]:
  assumes "value_call E c f w = (x, w1)"
  shows "atomics w1 = atomics w" "next_cell w1 = next_cell w" "trace w1 = trace w @ [c]"
    "stderr w1 = stderr w" "listeners w1 = listeners w"
  using assms by (auto simp: value_call_def world_simps split: prod.splits)

lemma snd_call_trace [simp]:
  "trace (snd (status_call E c w)) = trace w @ [c]"
  "trace (snd (value_call E c f w)) = trace w @ [c]"
  by (simp_all add: status_call_def value_call_def Let_def split: prod.splits) (simp_all add: world_simps)

lemma value_call_Inr:
  "value_call E c f w = (Inr x, w1) \<longleftrightarrow>
     (\<exists>ret. ffi E c w = (ret, w1) \<and> ret_status ret \<in> {UCS_OK, UCS_INPROGRESS} \<and> x = f ret)"
  by (auto simp: value_call_def status_to_result_def split: prod.splits if_splits)

lemma value_call_Inl:
  "value_call E c f w = (Inl e, w1) \<longleftrightarrow>
     (\<exists>ret. ffi E c w = (ret, w1) \<and> ret_status ret \<notin> {UCS_OK, UCS_INPROGRESS} \<and>
        e = Status (ret_status ret))"
  by (auto simp: value_call_def status_to_result_def Status_from_def split: prod.splits if_splits)

subsection \<open>Ownership of a request\<close>

datatype request_op = Use_check_finished | Use_is_completed | Use_test | Use_cancel ptr

datatype request_end = End_drop | End_free | End_release

fun request_step ::
  "'u env \<Rightarrow> request_op \<Rightarrow> Request \<Rightarrow> 'u world \<Rightarrow> Request \<times> 'u world" where
  "request_step E Use_check_finished r w = (r, snd (Request_check_finished E r w))"
| "request_step E Use_is_completed r w = (r, snd (Request_is_completed E r w))"
| "request_step E Use_test r w = (r, snd (Request_test E r w))"
| "request_step E (Use_cancel wk) r w = Request_cancel E r wk w"

fun request_finish :: "'u env \<Rightarrow> request_end \<Rightarrow> Request \<Rightarrow> 'u world \<Rightarrow> 'u world" where
  "request_finish E End_drop r w = Request_drop E r w"
| "request_finish E End_free r w = Request_free E r w"
| "request_finish E End_release r w = Request_release E r w"

definition releases_request :: "ptr \<Rightarrow> ffi_call \<Rightarrow> bool" where
  "releases_request h c \<longleftrightarrow>
     c = ReqC (ucp_request_free h) \<or> c = ReqC (ucp_request_release h)"

interpretation request_owner:
  owned req_handle "request_step E" "request_finish E" releases_request for E :: "'u env"
proof unfold_locales
  fix r :: Request and h op r1 and w w1 :: "'u world"
  assume live: "req_handle r = Some h" and s: "request_step E op r w = (r1, w1)"
  show "(\<exists>us. trace w1 = trace w @ us \<and> req_handle r1 = Some h \<and>
          (\<forall>u\<in>set us. \<not> releases_request h u)) \<or>
        (\<exists>us c. trace w1 = trace w @ us @ [c] \<and> req_handle r1 = None \<and> releases_request h c \<and>
          (\<forall>u\<in>set us. \<not> releases_request h u))"
  proof (cases op)
    case Use_check_finished
    with s live show ?thesis
      by (intro disjI1 exI [of _ "[ReqC (ucp_request_check_status h)]"])
        (auto simp: Request_check_finished_live releases_request_def)
  next
    case Use_is_completed
    with s live show ?thesis
      by (intro disjI1 exI [of _ "[ReqC (ucp_request_is_completed h)]"])
        (auto simp: Request_is_completed_def releases_request_def world_simps split: prod.splits)
  next
    case Use_test
    with s live show ?thesis
      by (intro disjI1 exI [of _ "[ReqC (ucp_request_test h zeroed_ucp_tag_recv_info_t)]"])
        (auto simp: Request_test_def releases_request_def world_simps split: prod.splits)
  next
    case (Use_cancel wk)
    with s live show ?thesis
      by (intro disjI2 exI [of _ "[ReqC (ucp_request_cancel wk h)]"]
          exI [of _ "ReqC (ucp_request_free h)"])
        (auto simp: Request_cancel_def releases_request_def)
  qed
next
  fix r :: Request and op r1 and w w1 :: "'u world"
  assume "req_handle r = None" and "request_step E op r w = (r1, w1)"
  then show "req_handle r1 = None \<and> trace w1 = trace w"
    by (cases op) (auto simp: Request_is_completed_def Request_test_def Request_cancel_def)
next
  fix r :: Request and h e and w :: "'u world"
  assume "req_handle r = Some h"
  then show "\<exists>us c. trace (request_finish E e r w) = trace w @ us @ [c] \<and> releases_request h c \<and>
      (\<forall>u\<in>set us. \<not> releases_request h u)"
    by (intro exI [of _ "[]"]
        exI [of _ "if e = End_release then ReqC (ucp_request_release h) else ReqC (ucp_request_free h)"];
        cases e)
      (auto simp: Request_drop_def Request_free_def Request_release_def releases_request_def)
next
  fix r :: Request and e and w :: "'u world"
  assume "req_handle r = None"
  then show "trace (request_finish E e r w) = trace w"
    by (cases e) (auto simp: Request_free_def Request_release_def)
qed

subsection \<open>The parameter builder\<close>

datatype request_param_op =
    Force_imm_cmpl | No_imm_cmpl | Flags u32 | Reply_buffer ptr | Datatype u64
  | Send_callback code_ptr | Memory_type MemoryType

fun rpb_apply :: "request_param_op \<Rightarrow> RequestParamBuilder \<Rightarrow> RequestParamBuilder option" where
  "rpb_apply Force_imm_cmpl b = ret_option (rpb_force_imm_cmpl b)"
| "rpb_apply No_imm_cmpl b = ret_option (rpb_no_imm_cmpl b)"
| "rpb_apply (Flags f) b = Some (rpb_flags f b)"
| "rpb_apply (Reply_buffer p) b = Some (rpb_reply_buffer p b)"
| "rpb_apply (Datatype d) b = Some (rpb_datatype d b)"
| "rpb_apply (Send_callback cb) b = Some (rpb_send_callback cb b)"
| "rpb_apply (Memory_type t) b = Some (rpb_memory_type t b)"

fun rpb_bit :: "request_param_op \<Rightarrow> u32" where
  "rpb_bit Force_imm_cmpl = OP_ATTR_FLAG_FORCE_IMM_CMPL"
| "rpb_bit No_imm_cmpl = OP_ATTR_FLAG_NO_IMM_CMPL"
| "rpb_bit (Flags f) = OP_ATTR_FIELD_FLAGS"
| "rpb_bit (Reply_buffer p) = OP_ATTR_FIELD_REPLY_BUFFER"
| "rpb_bit (Datatype d) = OP_ATTR_FIELD_DATATYPE"
| "rpb_bit (Send_callback cb) = OP_ATTR_FIELD_CALLBACK"
| "rpb_bit (Memory_type t) = OP_ATTR_FIELD_MEMORY_TYPE"

lemmas rpb_defs = rpb_force_imm_cmpl_def rpb_no_imm_cmpl_def rpb_flags_def rpb_reply_buffer_def
  rpb_datatype_def rpb_send_callback_def rpb_memory_type_def

interpretation request_params: mask_builder rpb_apply rpb_field_mask rpb_bit
proof unfold_locales
  fix op b b'
  assume "rpb_apply op b = Some b'"
  then show "rpb_field_mask b' = rpb_field_mask b OR rpb_bit op"
    by (cases op) (auto simp: rpb_defs split: if_splits)
qed

lemma imm_cmpl_bits:
  "(x :: u32) AND 65536 = 0 \<longleftrightarrow> \<not> bit x 16" "(x :: u32) AND 262144 = 0 \<longleftrightarrow> \<not> bit x 18"
  using and_exp_eq_0_iff_not_bit [of x 16] and_exp_eq_0_iff_not_bit [of x 18] by simp_all

lemma rpb_bit_imm_cmpl:
  "bit (rpb_bit op) 16 \<longleftrightarrow> op = No_imm_cmpl" "bit (rpb_bit op) 18 \<longleftrightarrow> op = Force_imm_cmpl"
  using imm_cmpl_bits [of "rpb_bit op"] by (cases op; simp)+

text \<open>A chain panics exactly when the two completion flags would meet.\<close>

lemma rpb_chain_None:
  assumes "\<not> (bit (rpb_field_mask b) 16 \<and> bit (rpb_field_mask b) 18)"
  shows "chain rpb_apply ops b = None \<longleftrightarrow>
    (bit (rpb_field_mask b) 16 \<or> No_imm_cmpl \<in> set ops) \<and>
    (bit (rpb_field_mask b) 18 \<or> Force_imm_cmpl \<in> set ops)"
  using assms
proof (induction ops arbitrary: b)
  case Nil
  then show ?case by simp
next
  case (Cons op ops)
  show ?case
  proof (cases "rpb_apply op b")
    case None
    then show ?thesis
      by (cases op) (auto simp: rpb_defs imm_cmpl_bits split: if_splits)
  next
    case (Some c)
    have m: "rpb_field_mask c = rpb_field_mask b OR rpb_bit op"
      using request_params.mask_apply [OF Some] .
    have "\<not> (bit (rpb_field_mask c) 16 \<and> bit (rpb_field_mask c) 18)"
      using Some Cons.prems
      by (cases op)
        (auto simp: m bit_or_iff rpb_bit_imm_cmpl rpb_defs imm_cmpl_bits split: if_splits)
    from Cons.IH [OF this] Some show ?thesis
      by (auto simp: m bit_or_iff rpb_bit_imm_cmpl)
  qed
qed

subsection \<open>Properties\<close>

text \<open>C23: The status-pointer classifier is exact.  A status cast to a pointer comes back as that
  error, or as immediate completion (the debug build refuses \<^verbatim>\<open>UCS_INPROGRESS\<close>); a request is
  reported precisely for the addresses between the statuses, and it owns that address.\<close>

theorem status_ptr_classified:
  "status_ptr_to_result E (status_as_usize s) =
     (if disc s < 0 then Ret (Inl (Status s))
      else if s = UCS_INPROGRESS \<and> debug_assertions E
      then Panic ''UCX returned UCS_INPROGRESS through a ucs_status_ptr_t API - violates the status_ptr contract, see status_ptr_to_result docs''
      else Ret (Inr None)) \<and>
   (status_ptr_to_result E p = Ret (Inr (Some r)) \<longleftrightarrow>
     r = \<lparr>req_handle = Some p\<rparr> \<and> 1 < uint p \<and> uint p < 2 ^ 64 - 100)"
proof
  show "status_ptr_to_result E (status_as_usize s) =
     (if disc s < 0 then Ret (Inl (Status s))
      else if s = UCS_INPROGRESS \<and> debug_assertions E
      then Panic ''UCX returned UCS_INPROGRESS through a ucs_status_ptr_t API - violates the status_ptr contract, see status_ptr_to_result docs''
      else Ret (Inr None))"
  proof (cases "disc s < 0")
    case True
    then show ?thesis
      by (simp add: status_ptr_to_result_def status_as_usize_is_err status_from_ptr_as_usize
          Status_from_def)
  next
    case False
    then have "s = UCS_OK \<or> s = UCS_INPROGRESS" by (cases s) simp_all
    then show ?thesis
      by (auto simp: status_ptr_to_result_def status_ptr_is_err_iff status_as_usize_def)
  qed
  show "status_ptr_to_result E p = Ret (Inr (Some r)) \<longleftrightarrow>
     r = \<lparr>req_handle = Some p\<rparr> \<and> 1 < uint p \<and> uint p < 2 ^ 64 - 100"
    using status_ptr_to_result_live [of E p r] status_ptr_to_result_request [of p E]
    by (cases r) auto
qed

text \<open>\<^verbatim>\<open>check_finished\<close> asks UCX once and reports its status faithfully: \<^verbatim>\<open>Ok(true)\<close> for
  \<^verbatim>\<open>UCS_OK\<close>, \<^verbatim>\<open>Ok(false)\<close> for \<^verbatim>\<open>UCS_INPROGRESS\<close>, and the very error code otherwise; an inert
  request is complete and costs no call.\<close>

theorem check_finished_decodes:
  "trace (snd (Request_check_finished E \<lparr>req_handle = Some h\<rparr> w)) =
     trace w @ [ReqC (ucp_request_check_status h)] \<and>
   (let s = ret_status (fst (ffi E (ReqC (ucp_request_check_status h)) w));
        x = fst (Request_check_finished E \<lparr>req_handle = Some h\<rparr> w)
    in (x = Inr True \<longleftrightarrow> s = UCS_OK) \<and> (x = Inr False \<longleftrightarrow> s = UCS_INPROGRESS) \<and>
       (x = Inl e \<longleftrightarrow> disc s < 0 \<and> e = Status s)) \<and>
   Request_check_finished E \<lparr>req_handle = None\<rparr> w = (Inr True, w)"
  using status_value_is_err_disc
    [of "ret_status (fst (ffi E (ReqC (ucp_request_check_status h)) w))"]
  by (auto simp: Request_check_finished_live Let_def)

text \<open>C12: A live request is released exactly once, by the last foreign call its wrapper makes:
  whatever borrowing methods are called and whichever method or drop ends it, after a
  \<^verbatim>\<open>cancel\<close> as well.  An inert one makes no call at all.\<close>

theorem request_released_once:
  "(\<exists>us c. trace (life (request_step E) (request_finish E) ops e \<lparr>req_handle = Some h\<rparr> w) = trace w @ us @ [c] \<and>
      releases_request h c \<and> filter (releases_request h) us = []) \<and>
   trace (life (request_step E) (request_finish E) ops e \<lparr>req_handle = None\<rparr> w) = trace w"
proof
  obtain us c where "trace (life (request_step E) (request_finish E) ops e \<lparr>req_handle = Some h\<rparr> w) = trace w @ us @ [c]"
    "releases_request h c" "\<forall>u\<in>set us. \<not> releases_request h u"
    using request_owner.released_once [of "\<lparr>req_handle = Some h\<rparr>" h E ops e w]
    by auto
  then show "\<exists>us c. trace (life (request_step E) (request_finish E) ops e \<lparr>req_handle = Some h\<rparr> w) = trace w @ us @ [c] \<and>
      releases_request h c \<and> filter (releases_request h) us = []"
    by (auto simp: filter_empty_conv)
  show "trace (life (request_step E) (request_finish E) ops e \<lparr>req_handle = None\<rparr> w) = trace w"
    by (simp add: request_owner.life_inert)
qed

text \<open>C24: A chain of setters on the operation-parameter builder panics exactly when it asks for
  both immediate-completion flags; otherwise the mask UCX reads is the union of the bits of the
  setters that were called, so UCX reads precisely the fields that were set.\<close>

theorem request_param_mask:
  "map_option (\<lambda>b. rp_op_attr_mask (rparam_handle (rpb_build b)))
     (chain rpb_apply ops RequestParamBuilder_new) =
   (if Force_imm_cmpl \<in> set ops \<and> No_imm_cmpl \<in> set ops then None
    else Some (fold (OR) (map rpb_bit ops) 0))"
proof -
  have n: "chain rpb_apply ops RequestParamBuilder_new = None \<longleftrightarrow>
      No_imm_cmpl \<in> set ops \<and> Force_imm_cmpl \<in> set ops"
    by (subst rpb_chain_None) (auto simp: RequestParamBuilder_new_def)
  show ?thesis
  proof (cases "chain rpb_apply ops RequestParamBuilder_new")
    case None
    with n show ?thesis by simp
  next
    case (Some b)
    then have "rpb_field_mask b = fold (OR) (map rpb_bit ops) 0"
      using request_params.mask_chain [of ops RequestParamBuilder_new b]
      by (simp add: RequestParamBuilder_new_def)
    with Some n show ?thesis by (auto simp: rpb_build_def)
  qed
qed

end
