(* ===== verification/File_Stream.thy ===== *)
theory File_Stream
  imports Request
begin

text \<open>
  \<^verbatim>\<open>with_file_stream\<close> of \<^verbatim>\<open>src/config.rs\<close>, the helper every diagnostics printer goes through: it
  duplicates the caller's descriptor, opens the copy as a C stream, runs one foreign call on the
  stream and closes it.
\<close>

definition with_file_stream ::
  "'u env \<Rightarrow> i32 \<Rightarrow> (ptr \<Rightarrow> 'u world \<Rightarrow> 'a \<times> 'u world) \<Rightarrow> 'u world \<Rightarrow> 'a option \<times> 'u world" where
  "with_file_stream E fd f w =
     (let (ret, w1) = ffi E (LibcC (libc_dup fd)) w;
          duplicate = ret_int ret
      in if sint duplicate < 0 then (None, w1)
         else
           (let (ret2, w2) = ffi E (LibcC (libc_fdopen duplicate)) w1;
                stream = ret_ptr ret2
            in if stream = 0 then (None, ffi_unit E (LibcC (libc_close duplicate)) w2)
               else
                 (let (result, w3) = f stream w2
                  in (Some result, ffi_unit E (LibcC (libc_fclose stream)) w3))))"

text \<open>The printers: one foreign call on the stream, its result dropped.\<close>

definition print_to ::
  "'u env \<Rightarrow> i32 \<Rightarrow> (ptr \<Rightarrow> ffi_call) \<Rightarrow> 'u world \<Rightarrow> 'u world" where
  "print_to E fd call w =
     snd (with_file_stream E fd (\<lambda>stream w. ((), ffi_unit E (call stream) w)) w)"

text \<open>
  What happens to the descriptors: a failed \<^verbatim>\<open>dup\<close> leaves nothing to close, a failed \<^verbatim>\<open>fdopen\<close>
  closes the copy, and otherwise the stream is closed, and nothing is closed twice.
\<close>

lemma print_to_cases:
  obtains (No_dup) "trace (print_to E fd call w) = trace w @ [LibcC (libc_dup fd)]"
  | (No_stream) d where "0 \<le> sint d" "trace (print_to E fd call w) =
      trace w @ [LibcC (libc_dup fd), LibcC (libc_fdopen d), LibcC (libc_close d)]"
  | (Printed) d s where "0 \<le> sint d" "s \<noteq> 0" "trace (print_to E fd call w) =
      trace w @ [LibcC (libc_dup fd), LibcC (libc_fdopen d), call s, LibcC (libc_fclose s)]"
proof -
  obtain ret w1 where a: "ffi E (LibcC (libc_dup fd)) w = (ret, w1)" by fastforce
  obtain ret2 w2 where b: "ffi E (LibcC (libc_fdopen (ret_int ret))) w1 = (ret2, w2)" by fastforce
  note t = ffi_world(3) [OF a] ffi_world(3) [OF b]
  consider "sint (ret_int ret) < 0" | "0 \<le> sint (ret_int ret)" "ret_ptr ret2 = 0"
    | "0 \<le> sint (ret_int ret)" "ret_ptr ret2 \<noteq> 0" by linarith
  then show thesis
  proof cases
    case 1
    with a t show thesis by (intro No_dup) (simp add: print_to_def with_file_stream_def)
  next
    case 2
    with a b t show thesis
      by (intro No_stream [of "ret_int ret"]) (simp_all add: print_to_def with_file_stream_def)
  next
    case 3
    with a b t show thesis
      by (intro Printed [of "ret_int ret" "ret_ptr ret2"])
        (simp_all add: print_to_def with_file_stream_def Let_def)
  qed
qed

lemma print_to_world [simp]:
  "atomics (print_to E fd call w) = atomics w" "stderr (print_to E fd call w) = stderr w"
  "listeners (print_to E fd call w) = listeners w"
  by (auto simp: print_to_def with_file_stream_def Let_def world_simps split: prod.splits)

text \<open>A diagnostics printer leaves no descriptor behind and closes none twice: if \<^verbatim>\<open>dup\<close>
  fails it stops there; if \<^verbatim>\<open>fdopen\<close> fails it closes the copy; otherwise it makes its one foreign
  call on the stream and closes the stream, and the copy with it.\<close>

theorem print_to_closes:
  "(case ffi E (LibcC (libc_dup fd)) w of (ret, w1) \<Rightarrow>
      if sint (ret_int ret) < 0 then trace (print_to E fd call w) = trace w @ [LibcC (libc_dup fd)]
      else (case ffi E (LibcC (libc_fdopen (ret_int ret))) w1 of (ret2, w2) \<Rightarrow>
        trace (print_to E fd call w) = trace w @ [LibcC (libc_dup fd),
          LibcC (libc_fdopen (ret_int ret))] @
          (if ret_ptr ret2 = 0 then [LibcC (libc_close (ret_int ret))]
           else [call (ret_ptr ret2), LibcC (libc_fclose (ret_ptr ret2))])))"
  by (auto simp: print_to_def with_file_stream_def Let_def world_simps split: prod.splits)

end
