(* ===== verification/Cstr.thy ===== *)
theory Cstr
  imports Prelude
begin

text \<open>
  What the crate uses of Rust's strings.  A \<^verbatim>\<open>&str\<close> is its UTF-8 byte sequence.
  \<^verbatim>\<open>CString::new\<close> rejects an interior NUL and reports where it is; \<^verbatim>\<open>CStr::from_ptr\<close> reads a
  C string up to its NUL; \<^verbatim>\<open>to_string_lossy\<close> replaces each maximal ill-formed subsequence by
  U+FFFD.  They serve the \<^verbatim>\<open>name\<close> setters of the parameter builders, \<^verbatim>\<open>Config::read\<close>,
  \<^verbatim>\<open>config_modify\<close> and the \<^verbatim>\<open>query\<close> operations that return a name.
\<close>

datatype NulError = NulError nat bytes

fun nul_position :: "bytes \<Rightarrow> nat option" where
  "nul_position [] = None"
| "nul_position (b # bs) = (if b = 0 then Some 0 else map_option Suc (nul_position bs))"

definition CString_new :: "bytes \<Rightarrow> NulError + bytes" where
  "CString_new s = (case nul_position s of None \<Rightarrow> Inr s | Some i \<Rightarrow> Inl (NulError i s))"

definition CStr_from_ptr :: "bytes \<Rightarrow> bytes" where
  "CStr_from_ptr cells = takeWhile (\<lambda>b. b \<noteq> 0) cells"

subsection \<open>UTF-8\<close>

definition safe_get :: "bytes \<Rightarrow> nat \<Rightarrow> u8" where
  "safe_get s i = (if i < length s then s ! i else 0)"

definition is_cont :: "u8 \<Rightarrow> bool" where
  "is_cont b \<longleftrightarrow> 0x80 \<le> b \<and> b \<le> 0xBF"

definition second3 :: "u8 \<Rightarrow> u8 \<Rightarrow> bool" where
  "second3 b c \<longleftrightarrow>
     (b = 0xE0 \<and> 0xA0 \<le> c \<and> c \<le> 0xBF) \<or>
     (0xE1 \<le> b \<and> b \<le> 0xEC \<and> is_cont c) \<or>
     (b = 0xED \<and> 0x80 \<le> c \<and> c \<le> 0x9F) \<or>
     (0xEE \<le> b \<and> b \<le> 0xEF \<and> is_cont c)"

definition second4 :: "u8 \<Rightarrow> u8 \<Rightarrow> bool" where
  "second4 b c \<longleftrightarrow>
     (b = 0xF0 \<and> 0x90 \<le> c \<and> c \<le> 0xBF) \<or>
     (0xF1 \<le> b \<and> b \<le> 0xF3 \<and> is_cont c) \<or>
     (b = 0xF4 \<and> 0x80 \<le> c \<and> c \<le> 0x8F)"

text \<open>
  \<open>utf8_next s\<close> for a non-empty \<open>s\<close>: whether a well-formed character starts \<open>s\<close>, and how many
  bytes it, or the ill-formed prefix, takes.
\<close>

definition ascii :: "u8 \<Rightarrow> bool" where "ascii b \<longleftrightarrow> b < 0x80"

definition lead2 :: "u8 \<Rightarrow> bool" where "lead2 b \<longleftrightarrow> 0xC2 \<le> b \<and> b \<le> 0xDF"

definition lead3 :: "u8 \<Rightarrow> bool" where "lead3 b \<longleftrightarrow> 0xE0 \<le> b \<and> b \<le> 0xEF"

definition lead4 :: "u8 \<Rightarrow> bool" where "lead4 b \<longleftrightarrow> 0xF0 \<le> b \<and> b \<le> 0xF4"

definition utf8_step :: "u8 \<Rightarrow> u8 \<Rightarrow> u8 \<Rightarrow> u8 \<Rightarrow> bool \<times> nat" where
  "utf8_step b c d e =
     (if ascii b then (True, 1)
      else if lead2 b then (if is_cont c then (True, 2) else (False, 1))
      else if lead3 b then
        (if \<not> second3 b c then (False, 1) else if is_cont d then (True, 3) else (False, 2))
      else if lead4 b then
        (if \<not> second4 b c then (False, 1) else if \<not> is_cont d then (False, 2)
         else if is_cont e then (True, 4) else (False, 3))
      else (False, 1))"

definition utf8_next :: "bytes \<Rightarrow> bool \<times> nat" where
  "utf8_next s = utf8_step (safe_get s 0) (safe_get s 1) (safe_get s 2) (safe_get s 3)"

lemma utf8_next_pos: "0 < snd (utf8_next s)"
  by (simp add: utf8_next_def utf8_step_def)

definition replacement :: bytes where
  "replacement = [0xEF, 0xBF, 0xBD]"

function to_string_lossy :: "bytes \<Rightarrow> bytes" where
  "to_string_lossy [] = []"
| "to_string_lossy (b # bs) =
     (case utf8_next (b # bs) of (ok, n) \<Rightarrow>
        (if ok then take n (b # bs) else replacement) @ to_string_lossy (drop n (b # bs)))"
  by pat_completeness auto
termination
proof (relation "measure length", goal_cases)
  case 1
  then show ?case by simp
next
  case (2 b bs x y)
  from 2 have "0 < y" using utf8_next_pos [of "b # bs"] by (metis snd_conv)
  then show ?case by simp
qed

function utf8_valid :: "bytes \<Rightarrow> bool" where
  "utf8_valid [] = True"
| "utf8_valid (b # bs) =
     (case utf8_next (b # bs) of (ok, n) \<Rightarrow> ok \<and> utf8_valid (drop n (b # bs)))"
  by pat_completeness auto
termination
proof (relation "measure length", goal_cases)
  case 1
  then show ?case by simp
next
  case (2 b bs x y)
  from 2 have "0 < y" using utf8_next_pos [of "b # bs"] by (metis snd_conv)
  then show ?case by simp
qed

subsection \<open>Lemmas\<close>

lemma nul_position_None: "nul_position s = None \<longleftrightarrow> 0 \<notin> set s"
  by (induction s) auto

lemma nul_position_Some:
  "nul_position s = Some i \<longleftrightarrow> i < length s \<and> s ! i = 0 \<and> 0 \<notin> set (take i s)"
proof (induction s arbitrary: i)
  case Nil
  then show ?case by simp
next
  case (Cons b bs)
  show ?case by (cases i) (auto simp: Cons)
qed

lemma CString_new_Inr [simp]: "CString_new s = Inr t \<longleftrightarrow> t = s \<and> 0 \<notin> set s"
  using nul_position_None [of s] by (auto simp: CString_new_def split: option.splits)

lemma CString_new_Inl:
  "CString_new s = Inl e \<longleftrightarrow> (\<exists>i<length s. s ! i = 0 \<and> 0 \<notin> set (take i s) \<and> e = NulError i s)"
proof -
  have "CString_new s = Inl e \<longleftrightarrow> (\<exists>i. nul_position s = Some i \<and> e = NulError i s)"
    by (auto simp: CString_new_def split: option.splits)
  then show ?thesis by (auto simp: nul_position_Some)
qed

lemma CString_new_Inl_nul [dest]: "CString_new s = Inl e \<Longrightarrow> 0 \<in> set s"
  by (auto simp: CString_new_Inl) (metis nth_mem)

lemma CString_new_cases:
  obtains (nul) i where "CString_new s = Inl (NulError i s)" "i < length s" "s ! i = 0"
      "0 \<notin> set (take i s)" "0 \<in> set s"
    | (ok) "CString_new s = Inr s" "0 \<notin> set s"
proof (cases "CString_new s")
  case (Inl e)
  then obtain i where i: "i < length s" "s ! i = 0" "0 \<notin> set (take i s)" "e = NulError i s"
    by (auto simp: CString_new_Inl)
  then have "0 \<in> set s" by (metis nth_mem)
  with Inl i show thesis using nul by blast
next
  case (Inr t)
  then show thesis using ok by auto
qed

lemma CStr_from_ptr_terminated:
  "0 \<notin> set s \<Longrightarrow> CStr_from_ptr (s @ 0 # rest) = s"
  unfolding CStr_from_ptr_def by (subst takeWhile_append2) auto

lemma CStr_from_ptr_no_nul: "0 \<notin> set (CStr_from_ptr cells)"
  by (auto simp: CStr_from_ptr_def dest: set_takeWhileD)

lemma zero_not_cont [simp]: "\<not> is_cont 0" "\<not> second3 b 0" "\<not> second4 b 0"
  by (simp_all add: is_cont_def second3_def second4_def)

lemma safe_get_beyond: "length s \<le> i \<Longrightarrow> safe_get s i = 0"
  by (simp add: safe_get_def)

lemma utf8_step_True:
  assumes "utf8_step b c d e = (True, n)"
  shows "n = 1 \<and> ascii b
    \<or> n = 2 \<and> \<not> ascii b \<and> lead2 b \<and> is_cont c
    \<or> n = 3 \<and> \<not> ascii b \<and> \<not> lead2 b \<and> lead3 b \<and> second3 b c \<and> is_cont d
    \<or> n = 4 \<and> \<not> ascii b \<and> \<not> lead2 b \<and> \<not> lead3 b \<and> lead4 b \<and> second4 b c \<and> is_cont d \<and> is_cont e"
  using assms by (simp add: utf8_step_def split: if_splits)

lemma utf8_step_cong:
  assumes "utf8_step b c d e = (True, n)"
    and "1 < n \<Longrightarrow> c' = c" and "2 < n \<Longrightarrow> d' = d" and "3 < n \<Longrightarrow> e' = e"
  shows "utf8_step b c' d' e' = (True, n)"
  using utf8_step_True [OF assms(1)] assms(2-) by (elim disjE) (simp_all add: utf8_step_def)

lemma utf8_next_length:
  assumes "s \<noteq> []" and "utf8_next s = (True, n)"
  shows "n \<le> length s"
proof (rule ccontr)
  assume "\<not> n \<le> length s"
  then have "length s \<le> n - 1" and "1 < n"
    using assms(1) by (cases s; simp)+
  then have z: "safe_get s (n - 1) = 0" by (simp add: safe_get_beyond)
  show False
    using utf8_step_True [OF assms(2) [unfolded utf8_next_def]] z \<open>1 < n\<close>
    by (elim disjE) simp_all
qed

lemma safe_get_append [simp]: "i < length s \<Longrightarrow> safe_get (s @ t) i = safe_get s i"
  by (simp add: safe_get_def nth_append)

lemma safe_get_take [simp]: "i < n \<Longrightarrow> safe_get (take n s) i = safe_get s i"
  by (simp add: safe_get_def)

lemma utf8_next_take:
  assumes "s \<noteq> []" and "utf8_next s = (True, n)"
  shows "utf8_next (take n s @ t) = (True, n)"
proof -
  have n: "n \<le> length s" using assms by (rule utf8_next_length)
  have "0 < n" using utf8_next_pos [of s] assms(2) by simp
  have g: "safe_get (take n s @ t) i = safe_get s i" if "i < n" for i
    using that n by simp
  show ?thesis
    unfolding utf8_next_def g [OF \<open>0 < n\<close>]
    by (rule utf8_step_cong [OF assms(2) [unfolded utf8_next_def]]) (simp_all add: g)
qed

lemma utf8_valid_Cons_take:
  assumes "s \<noteq> []" and "utf8_next s = (True, n)"
  shows "utf8_valid (take n s @ t) \<longleftrightarrow> utf8_valid t"
proof -
  have n: "0 < n" "n \<le> length s"
    using assms utf8_next_pos [of s] utf8_next_length [of s n] by auto
  then obtain c cs where c: "take n s = c # cs"
    using assms(1) by (cases "take n s") auto
  have "utf8_next (take n s @ t) = (True, n)" by (rule utf8_next_take [OF assms])
  moreover have "drop n (take n s @ t) = t" using n by simp
  ultimately show ?thesis by (simp add: c)
qed

lemma utf8_next_replacement: "utf8_next (replacement @ t) = (True, 3)"
proof -
  have "\<not> ascii 0xEF" "\<not> lead2 0xEF" "lead3 0xEF" "second3 0xEF 0xBF" "is_cont 0xBD"
    by (simp_all add: ascii_def lead2_def lead3_def second3_def is_cont_def)
  then show ?thesis
    by (simp add: utf8_next_def utf8_step_def replacement_def safe_get_def)
qed

lemma utf8_valid_replacement [simp]: "utf8_valid (replacement @ t) \<longleftrightarrow> utf8_valid t"
  using utf8_valid_Cons_take [of "replacement @ t" 3 t]
  by (simp add: utf8_next_replacement) (simp add: replacement_def)

lemma utf8_valid_lossy: "utf8_valid (to_string_lossy s)"
proof (induction s rule: to_string_lossy.induct)
  case 1
  then show ?case by simp
next
  case (2 b bs)
  obtain ok n where u: "utf8_next (b # bs) = (ok, n)" by fastforce
  from 2 u have IH: "utf8_valid (to_string_lossy (drop n (b # bs)))" by simp
  show ?case
  proof (cases ok)
    case True
    with u utf8_valid_Cons_take [of "b # bs" n] IH show ?thesis by simp
  next
    case False
    with u IH show ?thesis by simp
  qed
qed

lemma lossy_id: "utf8_valid s \<Longrightarrow> to_string_lossy s = s"
proof (induction s rule: to_string_lossy.induct)
  case 1
  then show ?case by simp
next
  case (2 b bs)
  obtain ok n where u: "utf8_next (b # bs) = (ok, n)" by fastforce
  with 2 show ?case by auto
qed

end
