(* ===== verification/Worker.thy ===== *)
theory Worker
  imports File_Stream Cstr
begin

text \<open>
  \<^verbatim>\<open>src/worker/\<close>: the worker wrapper, its parameter builder, its addresses and the
  \<^verbatim>\<open>MtWorker\<close> handle.  The shared \<^verbatim>\<open>alive\<close> flag and the debug build's \<^verbatim>\<open>progressing\<close> flag are
  cells of the world, named by their index, so that two owners of one flag share its cell.
\<close>

subsection \<open>State\<close>

record Worker =
  wk_handle :: ptr
  wk_alive :: nat
  wk_am_handlers :: "nat list"
  wk_progressing :: nat

record WorkerAddress =
  wa_handle :: ptr
  wa_size :: usize
  wa_parent :: Worker

record WorkerAddressAttr =
  waa_address :: ptr
  waa_length :: usize

record WorkerAttr =
  wat_thread_mode :: "ThreadMode option"
  wat_address :: "WorkerAddressAttr option"
  wat_address_flags :: "u32 option"
  wat_max_am_header :: "usize option"
  wat_name :: "bytes option"
  wat_max_info_string :: "usize option"

subsection \<open>The parameter builder\<close>

record WorkerParamsBuilder =
  wpb_handle :: ucp_worker_params_t
  wpb_field_mask :: u64
  wpb_name :: "bytes option"

record WorkerParams =
  wpar_handle :: ucp_worker_params_t
  wpar_name :: "bytes option"

definition WORKER_PARAM_FIELD_THREAD_MODE :: u64 where [simp]: "WORKER_PARAM_FIELD_THREAD_MODE = 1"
definition WORKER_PARAM_FIELD_CPU_MASK :: u64 where [simp]: "WORKER_PARAM_FIELD_CPU_MASK = 2"
definition WORKER_PARAM_FIELD_EVENTS :: u64 where [simp]: "WORKER_PARAM_FIELD_EVENTS = 4"
definition WORKER_PARAM_FIELD_USER_DATA :: u64 where [simp]: "WORKER_PARAM_FIELD_USER_DATA = 8"
definition WORKER_PARAM_FIELD_EVENT_FD :: u64 where [simp]: "WORKER_PARAM_FIELD_EVENT_FD = 16"
definition WORKER_PARAM_FIELD_FLAGS :: u64 where [simp]: "WORKER_PARAM_FIELD_FLAGS = 32"
definition WORKER_PARAM_FIELD_NAME :: u64 where [simp]: "WORKER_PARAM_FIELD_NAME = 64"
definition WORKER_PARAM_FIELD_AM_ALIGNMENT :: u64 where [simp]: "WORKER_PARAM_FIELD_AM_ALIGNMENT = 128"
definition WORKER_PARAM_FIELD_CLIENT_ID :: u64 where [simp]: "WORKER_PARAM_FIELD_CLIENT_ID = 256"

definition WorkerParamsBuilder_new :: WorkerParamsBuilder where
  "WorkerParamsBuilder_new =
     \<lparr>wpb_handle = zeroed_ucp_worker_params_t, wpb_field_mask = 0, wpb_name = None\<rparr>"

definition wpb_thread_mode :: "ThreadMode \<Rightarrow> WorkerParamsBuilder \<Rightarrow> WorkerParamsBuilder" where
  "wpb_thread_mode m b = b\<lparr>wpb_field_mask := wpb_field_mask b OR WORKER_PARAM_FIELD_THREAD_MODE,
     wpb_handle := (wpb_handle b)\<lparr>wp_thread_mode := ThreadMode_to_ffi m\<rparr>\<rparr>"

definition wpb_cpu_set :: "ucs_cpu_set_t \<Rightarrow> WorkerParamsBuilder \<Rightarrow> WorkerParamsBuilder" where
  "wpb_cpu_set s b = b\<lparr>wpb_field_mask := wpb_field_mask b OR WORKER_PARAM_FIELD_CPU_MASK,
     wpb_handle := (wpb_handle b)\<lparr>wp_cpu_mask := s\<rparr>\<rparr>"

definition wpb_events :: "u32 \<Rightarrow> WorkerParamsBuilder \<Rightarrow> WorkerParamsBuilder" where
  "wpb_events e b = b\<lparr>wpb_field_mask := wpb_field_mask b OR WORKER_PARAM_FIELD_EVENTS,
     wpb_handle := (wpb_handle b)\<lparr>wp_events := e\<rparr>\<rparr>"

definition wpb_user_data :: "ptr \<Rightarrow> WorkerParamsBuilder \<Rightarrow> WorkerParamsBuilder" where
  "wpb_user_data p b = b\<lparr>wpb_field_mask := wpb_field_mask b OR WORKER_PARAM_FIELD_USER_DATA,
     wpb_handle := (wpb_handle b)\<lparr>wp_user_data := p\<rparr>\<rparr>"

definition wpb_event_fd :: "i32 \<Rightarrow> WorkerParamsBuilder \<Rightarrow> WorkerParamsBuilder" where
  "wpb_event_fd fd b = b\<lparr>wpb_field_mask := wpb_field_mask b OR WORKER_PARAM_FIELD_EVENT_FD,
     wpb_handle := (wpb_handle b)\<lparr>wp_event_fd := fd\<rparr>\<rparr>"

definition wpb_flags :: "u64 \<Rightarrow> WorkerParamsBuilder \<Rightarrow> WorkerParamsBuilder" where
  "wpb_flags f b = b\<lparr>wpb_field_mask := wpb_field_mask b OR WORKER_PARAM_FIELD_FLAGS,
     wpb_handle := (wpb_handle b)\<lparr>wp_flags := f\<rparr>\<rparr>"

definition wpb_set_name :: "bytes \<Rightarrow> WorkerParamsBuilder \<Rightarrow> NulError + WorkerParamsBuilder" where
  "wpb_set_name name b = (case CString_new name of
      Inl e \<Rightarrow> Inl e
    | Inr name_cs \<Rightarrow> Inr (b\<lparr>wpb_field_mask := wpb_field_mask b OR WORKER_PARAM_FIELD_NAME,
        wpb_name := Some name_cs\<rparr>))"

definition wpb_am_alignment :: "usize \<Rightarrow> WorkerParamsBuilder \<Rightarrow> WorkerParamsBuilder" where
  "wpb_am_alignment a b = b\<lparr>wpb_field_mask := wpb_field_mask b OR WORKER_PARAM_FIELD_AM_ALIGNMENT,
     wpb_handle := (wpb_handle b)\<lparr>wp_am_alignment := a\<rparr>\<rparr>"

definition wpb_client_id :: "u64 \<Rightarrow> WorkerParamsBuilder \<Rightarrow> WorkerParamsBuilder" where
  "wpb_client_id i b = b\<lparr>wpb_field_mask := wpb_field_mask b OR WORKER_PARAM_FIELD_CLIENT_ID,
     wpb_handle := (wpb_handle b)\<lparr>wp_client_id := i\<rparr>\<rparr>"

text \<open>
  \<^verbatim>\<open>build\<close> writes the mask into the builder's own storage, takes the name out of the builder
  and points the built structure at it; it returns the parameters and the builder it leaves.
\<close>

definition wpb_build :: "WorkerParamsBuilder \<Rightarrow> WorkerParams \<times> WorkerParamsBuilder" where
  "wpb_build b =
     (let params = (wpb_handle b)\<lparr>wp_field_mask := wpb_field_mask b\<rparr>;
          b1 = b\<lparr>wpb_handle := params\<rparr>;
          ucp_param = \<lparr>wpar_handle = params, wpar_name = None\<rparr>
      in (case wpb_name b1 of
            None \<Rightarrow> (ucp_param, b1)
          | Some new_name \<Rightarrow>
              (ucp_param\<lparr>wpar_handle := params\<lparr>wp_name := Some new_name\<rparr>, wpar_name := Some new_name\<rparr>,
               b1\<lparr>wpb_name := None\<rparr>)))"

subsection \<open>Progress\<close>

definition ProgressGuard_new :: "nat \<Rightarrow> ('u world, unit) prog" where
  "ProgressGuard_new cell w =
     (if atomics w cell then (Panic ''concurrent progress() on the same worker'', w)
      else (Ret (), atomic_store cell True w))"

definition ProgressGuard_drop :: "nat \<Rightarrow> 'u world \<Rightarrow> 'u world" where
  "ProgressGuard_drop cell w = atomic_store cell False w"

definition Worker_progress :: "'u env \<Rightarrow> Worker \<Rightarrow> ('u world, bool) prog" where
  "Worker_progress E wk w =
     (if debug_assertions E then
        bnd (ProgressGuard_new (wk_progressing wk)) (\<lambda>_ w1.
          let (ret, w2) = ffi E (WorkerC (ucp_worker_progress (wk_handle wk))) w1
          in (Ret (0 < ret_uint ret), ProgressGuard_drop (wk_progressing wk) w2)) w
      else
        (let (ret, w1) = ffi E (WorkerC (ucp_worker_progress (wk_handle wk))) w
         in (Ret (0 < ret_uint ret), w1)))"

fun Worker_wait_rounds ::
  "'u env \<Rightarrow> Worker \<Rightarrow> Request \<Rightarrow> nat \<Rightarrow> ('u world, Status + bool) prog" where
  "Worker_wait_rounds E wk req 0 w = (Ret (Inr False), w)"
| "Worker_wait_rounds E wk req (Suc n) w = (case Request_check_finished E req w of
      (Inr True, w1) \<Rightarrow> (Ret (Inr True), w1)
    | (Inr False, w1) \<Rightarrow> bnd (Worker_progress E wk) (\<lambda>_. Worker_wait_rounds E wk req n) w1
    | (Inl e, w1) \<Rightarrow> (Ret (Inl e), w1))"

definition MAX_ROUNDS :: nat where "MAX_ROUNDS = 1000000"

definition Worker_wait_request ::
  "'u env \<Rightarrow> Worker \<Rightarrow> Request \<Rightarrow> ('u world, Status + bool) prog" where
  "Worker_wait_request E wk req = Worker_wait_rounds E wk req MAX_ROUNDS"

subsection \<open>Operations\<close>

definition Worker_new ::
  "'u env \<Rightarrow> ptr \<Rightarrow> WorkerParams \<Rightarrow> 'u world \<Rightarrow> (Status + Worker) \<times> 'u world" where
  "Worker_new E context_handle params w =
     (let (ret, w1) = ffi E (WorkerC (ucp_worker_create context_handle (wpar_handle params))) w
      in (case status_to_result (ret_status ret) of
            Inl e \<Rightarrow> (Inl e, w1)
          | Inr _ \<Rightarrow>
              (let (alive, w2) = atomic_new True w1;
                   (progressing, w3) = atomic_new False w2
               in (Inr \<lparr>wk_handle = out_ptr ret, wk_alive = alive, wk_am_handlers = [],
                        wk_progressing = progressing\<rparr>, w3))))"

definition Worker_pack_address ::
  "'u env \<Rightarrow> Worker \<Rightarrow> 'u world \<Rightarrow> (Status + WorkerAddress) \<times> 'u world" where
  "Worker_pack_address E wk =
     value_call E (WorkerC (ucp_worker_get_address (wk_handle wk)))
       (\<lambda>ret. \<lparr>wa_handle = out_ptr ret, wa_size = out_len ret, wa_parent = wk\<rparr>)"

definition WorkerAddress_to_slice :: "WorkerAddress \<Rightarrow> 'u world \<Rightarrow> bytes" where
  "WorkerAddress_to_slice a w = mem_read (mem w) (wa_handle a) (unat (wa_size a))"

definition WorkerAddress_to_vec :: "WorkerAddress \<Rightarrow> 'u world \<Rightarrow> bytes" where
  "WorkerAddress_to_vec a w = WorkerAddress_to_slice a w"

definition WorkerAddress_drop :: "'u env \<Rightarrow> WorkerAddress \<Rightarrow> 'u world \<Rightarrow> 'u world" where
  "WorkerAddress_drop E a =
     ffi_unit E (WorkerC (ucp_worker_release_address (wk_handle (wa_parent a)) (wa_handle a)))"

definition address_query :: "'u env \<Rightarrow> ptr \<Rightarrow> 'u world \<Rightarrow> (Status + u64) \<times> 'u world" where
  "address_query E address =
     value_call E (WorkerC (ucp_worker_address_query address
        (zeroed_ucp_worker_address_attr\<lparr>waattr_field_mask := 1\<rparr>)))
       (\<lambda>ret. waattr_worker_uid (out_address_attr ret))"

text \<open>A \<^verbatim>\<open>RemoteWorkerAddress\<close> owns its bytes at an address of the Rust heap.\<close>

record RemoteWorkerAddress =
  rwa_data :: ptr
  rwa_len :: usize

definition RemoteWorkerAddress_get_handle :: "RemoteWorkerAddress \<Rightarrow> ptr \<times> usize" where
  "RemoteWorkerAddress_get_handle a = (rwa_data a, rwa_len a)"

definition Worker_print_info :: "'u env \<Rightarrow> Worker \<Rightarrow> i32 \<Rightarrow> 'u world \<Rightarrow> 'u world" where
  "Worker_print_info E wk fd =
     print_to E fd (\<lambda>stream. WorkerC (ucp_worker_print_info (wk_handle wk) stream))"

definition Worker_cancel_request ::
  "'u env \<Rightarrow> Worker \<Rightarrow> Request \<Rightarrow> 'u world \<Rightarrow> 'u world" where
  "Worker_cancel_request E wk req w = (case req_handle req of
      None \<Rightarrow> w
    | Some h \<Rightarrow> ffi_unit E (ReqC (ucp_request_cancel (wk_handle wk) h)) w)"

definition Worker_flush ::
  "'u env \<Rightarrow> Worker \<Rightarrow> RequestParam \<Rightarrow> ('u world, Status + Request option) prog" where
  "Worker_flush E wk params =
     nbx E (WorkerC (ucp_worker_flush_nbx (wk_handle wk) (rparam_handle params)))"

definition Worker_am_recv_data ::
  "'u env \<Rightarrow> Worker \<Rightarrow> ptr \<Rightarrow> ptr \<times> usize \<Rightarrow> RequestParam \<Rightarrow>
     ('u world, Status + Request option) prog" where
  "Worker_am_recv_data E wk data_desc buffer params =
     nbx E (XferC (ucp_am_recv_data_nbx (wk_handle wk) data_desc (fst buffer) (snd buffer)
       (Some (rparam_handle params))))"

definition Worker_am_data_release :: "'u env \<Rightarrow> Worker \<Rightarrow> ptr \<Rightarrow> 'u world \<Rightarrow> 'u world" where
  "Worker_am_data_release E wk data = ffi_unit E (XferC (ucp_am_data_release (wk_handle wk) data))"

definition Worker_fence :: "'u env \<Rightarrow> Worker \<Rightarrow> 'u world \<Rightarrow> (Status + unit) \<times> 'u world" where
  "Worker_fence E wk = status_call E (WorkerC (ucp_worker_fence (wk_handle wk)))"

definition Worker_arm :: "'u env \<Rightarrow> Worker \<Rightarrow> 'u world \<Rightarrow> (Status + unit) \<times> 'u world" where
  "Worker_arm E wk = status_call E (WorkerC (ucp_worker_arm (wk_handle wk)))"

definition Worker_wait :: "'u env \<Rightarrow> Worker \<Rightarrow> 'u world \<Rightarrow> (Status + unit) \<times> 'u world" where
  "Worker_wait E wk = status_call E (WorkerC (ucp_worker_wait (wk_handle wk)))"

definition Worker_wait_mem :: "'u env \<Rightarrow> Worker \<Rightarrow> ptr \<Rightarrow> 'u world \<Rightarrow> 'u world" where
  "Worker_wait_mem E wk address = ffi_unit E (WorkerC (ucp_worker_wait_mem (wk_handle wk) address))"

definition Worker_signal :: "'u env \<Rightarrow> Worker \<Rightarrow> 'u world \<Rightarrow> (Status + unit) \<times> 'u world" where
  "Worker_signal E wk = status_call E (WorkerC (ucp_worker_signal (wk_handle wk)))"

definition Worker_get_efd :: "'u env \<Rightarrow> Worker \<Rightarrow> 'u world \<Rightarrow> (Status + i32) \<times> 'u world" where
  "Worker_get_efd E wk =
     value_call E (WorkerC (ucp_worker_get_efd (wk_handle wk) (- 1))) out_int"

text \<open>The bitflags of the attribute query, and \<^verbatim>\<open>contains\<close>.\<close>

definition flags_contains :: "'a::len word \<Rightarrow> 'a word \<Rightarrow> bool" where
  "flags_contains fs f \<longleftrightarrow> fs AND f = f"

definition WorkerAttrFields_THREAD_MODE :: u64 where [simp]: "WorkerAttrFields_THREAD_MODE = 1"
definition WorkerAttrFields_ADDRESS :: u64 where [simp]: "WorkerAttrFields_ADDRESS = 2"
definition WorkerAttrFields_ADDRESS_FLAGS :: u64 where [simp]: "WorkerAttrFields_ADDRESS_FLAGS = 4"
definition WorkerAttrFields_MAX_AM_HEADER :: u64 where [simp]: "WorkerAttrFields_MAX_AM_HEADER = 8"
definition WorkerAttrFields_NAME :: u64 where [simp]: "WorkerAttrFields_NAME = 16"
definition WorkerAttrFields_MAX_INFO_STRING :: u64 where [simp]: "WorkerAttrFields_MAX_INFO_STRING = 32"

text \<open>What the query's closure makes of the structure UCX filled.\<close>

definition WorkerAttr_of :: "u64 \<Rightarrow> ucp_worker_attr \<Rightarrow> WorkerAttr" where
  "WorkerAttr_of msk attr =
         \<lparr>wat_thread_mode = then_some (flags_contains msk WorkerAttrFields_THREAD_MODE)
            (ThreadMode_from_ffi (wattr_thread_mode attr)),
          wat_address = then_some (flags_contains msk WorkerAttrFields_ADDRESS)
            \<lparr>waa_address = wattr_address attr, waa_length = wattr_address_length attr\<rparr>,
          wat_address_flags = then_some (flags_contains msk WorkerAttrFields_ADDRESS_FLAGS)
            (wattr_address_flags attr),
          wat_max_am_header = then_some (flags_contains msk WorkerAttrFields_MAX_AM_HEADER)
            (wattr_max_am_header attr),
          wat_name = (if flags_contains msk WorkerAttrFields_NAME
            then Some (to_string_lossy (CStr_from_ptr (wattr_name attr))) else None),
          wat_max_info_string = then_some (flags_contains msk WorkerAttrFields_MAX_INFO_STRING)
            (wattr_max_debug_string attr)\<rparr>"

definition Worker_query ::
  "'u env \<Rightarrow> Worker \<Rightarrow> u64 \<Rightarrow> 'u world \<Rightarrow> (Status + WorkerAttr) \<times> 'u world" where
  "Worker_query E wk msk =
     value_call E (WorkerC (ucp_worker_query (wk_handle wk)
        (zeroed_ucp_worker_attr\<lparr>wattr_field_mask := msk\<rparr>)))
       (\<lambda>ret. WorkerAttr_of msk (out_worker_attr ret))"

subsection \<open>Dropping a worker\<close>

text \<open>
  The loop ends on completion, on an error or after the last round; in each case the request is
  dropped and the worker destroyed.  A panic of the progress guard unwinds past the destroy,
  and the request's drop glue runs.
\<close>

fun Worker_drop_rounds ::
  "'u env \<Rightarrow> Worker \<Rightarrow> Request \<Rightarrow> nat \<Rightarrow> ('u world, unit) prog" where
  "Worker_drop_rounds E wk req 0 w = (Ret (), w)"
| "Worker_drop_rounds E wk req (Suc n) w = (case Request_check_finished E req w of
      (Inr True, w1) \<Rightarrow> (Ret (), w1)
    | (Inl _, w1) \<Rightarrow> (Ret (), w1)
    | (Inr False, w1) \<Rightarrow>
        bnd (unwind (Request_drop E req) (Worker_progress E wk))
          (\<lambda>_. Worker_drop_rounds E wk req n) w1)"

definition MAX_FLUSH_PROGRESS_ROUNDS :: nat where "MAX_FLUSH_PROGRESS_ROUNDS = 1000000"

definition Worker_drop :: "'u env \<Rightarrow> Worker \<Rightarrow> ('u world, unit) prog" where
  "Worker_drop E wk w =
     (let w1 = atomic_store (wk_alive wk) False w;
          params = rpb_build RequestParamBuilder_new;
          destroy = (\<lambda>w. (Ret (), ffi_unit E (WorkerC (ucp_worker_destroy (wk_handle wk))) w))
      in bnd (Worker_flush E wk params) (\<lambda>r w2. case r of
            Inr (Some request) \<Rightarrow>
              bnd (Worker_drop_rounds E wk request MAX_FLUSH_PROGRESS_ROUNDS)
                (\<lambda>_ w3. destroy (Request_drop E request w3)) w2
          | Inr None \<Rightarrow> destroy w2
          | Inl error \<Rightarrow>
              destroy (eprintln (''ucx-sys: worker flush during Drop failed: '' @ debug_Status error) w2))
          w1)"

subsection \<open>The parameter builder's mask\<close>

datatype worker_param_op =
    Set_thread_mode ThreadMode | Set_cpu_set ucs_cpu_set_t | Set_events u32 | Set_user_data ptr
  | Set_event_fd i32 | Set_flags u64 | Set_name bytes | Set_am_alignment usize | Set_client_id u64

fun wpb_apply :: "worker_param_op \<Rightarrow> WorkerParamsBuilder \<Rightarrow> WorkerParamsBuilder option" where
  "wpb_apply (Set_thread_mode m) b = Some (wpb_thread_mode m b)"
| "wpb_apply (Set_cpu_set c) b = Some (wpb_cpu_set c b)"
| "wpb_apply (Set_events e) b = Some (wpb_events e b)"
| "wpb_apply (Set_user_data p) b = Some (wpb_user_data p b)"
| "wpb_apply (Set_event_fd fd) b = Some (wpb_event_fd fd b)"
| "wpb_apply (Set_flags f) b = Some (wpb_flags f b)"
| "wpb_apply (Set_name n) b = ok_option (wpb_set_name n b)"
| "wpb_apply (Set_am_alignment a) b = Some (wpb_am_alignment a b)"
| "wpb_apply (Set_client_id i) b = Some (wpb_client_id i b)"

fun wpb_bit :: "worker_param_op \<Rightarrow> u64" where
  "wpb_bit (Set_thread_mode m) = WORKER_PARAM_FIELD_THREAD_MODE"
| "wpb_bit (Set_cpu_set c) = WORKER_PARAM_FIELD_CPU_MASK"
| "wpb_bit (Set_events e) = WORKER_PARAM_FIELD_EVENTS"
| "wpb_bit (Set_user_data p) = WORKER_PARAM_FIELD_USER_DATA"
| "wpb_bit (Set_event_fd fd) = WORKER_PARAM_FIELD_EVENT_FD"
| "wpb_bit (Set_flags f) = WORKER_PARAM_FIELD_FLAGS"
| "wpb_bit (Set_name n) = WORKER_PARAM_FIELD_NAME"
| "wpb_bit (Set_am_alignment a) = WORKER_PARAM_FIELD_AM_ALIGNMENT"
| "wpb_bit (Set_client_id i) = WORKER_PARAM_FIELD_CLIENT_ID"

lemmas wpb_defs = wpb_thread_mode_def wpb_cpu_set_def wpb_events_def wpb_user_data_def
  wpb_event_fd_def wpb_flags_def wpb_set_name_def wpb_am_alignment_def wpb_client_id_def

lemma wpb_set_name_Inr:
  "wpb_set_name n b = Inr b' \<longleftrightarrow> 0 \<notin> set n \<and>
     b' = b\<lparr>wpb_field_mask := wpb_field_mask b OR WORKER_PARAM_FIELD_NAME, wpb_name := Some n\<rparr>"
  by (auto simp: wpb_set_name_def split: sum.splits)

lemma wpb_set_name_Inl: "wpb_set_name n b = Inl e \<longleftrightarrow> CString_new n = Inl e"
  by (auto simp: wpb_set_name_def split: sum.splits)

interpretation worker_params: mask_builder wpb_apply wpb_field_mask wpb_bit
proof unfold_locales
  fix op b b'
  assume a: "wpb_apply op b = Some b'"
  show "wpb_field_mask b' = wpb_field_mask b OR wpb_bit op"
  proof (cases op)
    case (Set_name n)
    with a show ?thesis by (simp add: wpb_set_name_Inr)
  qed (use a in \<open>auto simp: wpb_defs\<close>)
qed

text \<open>The name a setter sets, and what a chain leaves of it.\<close>

fun worker_op_name :: "worker_param_op \<Rightarrow> bytes option" where
  "worker_op_name (Set_name n) = Some n"
| "worker_op_name _ = None"

lemma wpb_apply_name:
  assumes "wpb_apply op b = Some b'"
  shows "wpb_name b' = (case worker_op_name op of None \<Rightarrow> wpb_name b | Some n \<Rightarrow> Some n)"
    and "wp_name (wpb_handle b') = wp_name (wpb_handle b)"
proof -
  have "wpb_name b' = (case worker_op_name op of None \<Rightarrow> wpb_name b | Some n \<Rightarrow> Some n) \<and>
      wp_name (wpb_handle b') = wp_name (wpb_handle b)"
  proof (cases op)
    case (Set_name n)
    with assms show ?thesis by (simp add: wpb_set_name_Inr)
  qed (use assms in \<open>auto simp: wpb_defs\<close>)
  then show "wpb_name b' = (case worker_op_name op of None \<Rightarrow> wpb_name b | Some n \<Rightarrow> Some n)"
    and "wp_name (wpb_handle b') = wp_name (wpb_handle b)" by auto
qed

lemma flags_contains_exp:
  "k < LENGTH('a) \<Longrightarrow> flags_contains msk (2 ^ k :: 'a::len word) \<longleftrightarrow> bit msk k"
proof
  assume k: "k < LENGTH('a)" and "flags_contains msk (2 ^ k :: 'a word)"
  then have "bit (msk AND 2 ^ k) k = bit (2 ^ k :: 'a word) k" by (simp add: flags_contains_def)
  with k show "bit msk k" by (simp add: bit_and_iff bit_exp_iff)
next
  assume "bit msk k"
  then show "flags_contains msk (2 ^ k :: 'a word)"
    unfolding flags_contains_def by (intro bit_word_eqI) (auto simp: bit_and_iff bit_exp_iff)
qed

subsection \<open>Progress and the polling loops\<close>

text \<open>Outside a concurrent call the guard is invisible: the debug build behaves as the release one.\<close>

lemma Worker_progress_eq:
  "Worker_progress E wk w =
     (if debug_assertions E \<and> atomics w (wk_progressing wk)
      then (Panic ''concurrent progress() on the same worker'', w)
      else (Ret (0 < ret_uint (fst (ffi E (WorkerC (ucp_worker_progress (wk_handle wk))) w))),
            snd (ffi E (WorkerC (ucp_worker_progress (wk_handle wk))) w)))"
proof -
  have upd: "(atomics w)(wk_progressing wk := False) = atomics w"
    if "\<not> atomics w (wk_progressing wk)" using that by (auto simp: fun_upd_idem)
  show ?thesis
    by (auto simp: Worker_progress_def bnd_def ProgressGuard_new_def ProgressGuard_drop_def
        atomic_store_def ffi_def Let_def upd split: prod.splits)
qed

lemma Worker_progress_world [world_simps]:
  assumes "Worker_progress E wk w = (x, w1)"
  shows "atomics w1 = atomics w" "stderr w1 = stderr w" "next_cell w1 = next_cell w"
  using assms by (auto simp: Worker_progress_eq split: if_splits)

lemma Worker_progress_outcome:
  assumes "Worker_progress E wk w = (x, w1)"
  shows "x \<noteq> Abort"
    and "x = Panic s \<Longrightarrow> debug_assertions E \<and> atomics w (wk_progressing wk) \<and> w1 = w"
    and "x = Ret b \<Longrightarrow> trace w1 = trace w @ [WorkerC (ucp_worker_progress (wk_handle wk))] \<and>
      \<not> (debug_assertions E \<and> atomics w (wk_progressing wk))"
  using assms by (auto simp: Worker_progress_eq split: if_splits)

text \<open>The two loops of this file as instances of the polling interface.\<close>

interpretation worker_wait: bounded_poll
  "Request_check_finished E req" "Worker_progress E wk" id
  "\<lambda>w. (Ret (Inr True), w)" "\<lambda>e w. (Ret (Inl e), w)" "\<lambda>w. (Ret (Inr False), w)"
  "Worker_wait_rounds E wk req"
  for E :: "'u env" and wk req
  by unfold_locales (auto simp: bnd_def unwind_def split: prod.splits sum.splits bool.splits outcome.splits)

interpretation worker_drop_loop: bounded_poll
  "Request_check_finished E req" "Worker_progress E wk" "Request_drop E req"
  "\<lambda>w. (Ret (), w)" "\<lambda>e w. (Ret (), w)" "\<lambda>w. (Ret (), w)"
  "Worker_drop_rounds E wk req"
  for E :: "'u env" and wk req
  by unfold_locales (auto split: prod.splits sum.splits bool.splits)

text \<open>A polling loop over \<^verbatim>\<open>check_finished\<close> and \<^verbatim>\<open>progress\<close> changes no flag, and only polls.\<close>

lemma spin_progress_atomics:
  "atomics (snd (spin (Request_check_finished E req) (Worker_progress E wk) n w)) = atomics w"
  by (rule spin_invariant [where P = "\<lambda>v. atomics v = atomics w"]) (auto simp: world_simps)

definition poll_call :: "Worker \<Rightarrow> Request \<Rightarrow> ffi_call \<Rightarrow> bool" where
  "poll_call wk req c \<longleftrightarrow> c = WorkerC (ucp_worker_progress (wk_handle wk)) \<or>
     (\<exists>h. req_handle req = Some h \<and> c = ReqC (ucp_request_check_status h))"

lemma check_finished_poll_call:
  "Request_check_finished E req w = (x, w1) \<Longrightarrow>
     \<exists>cs. trace w1 = trace w @ cs \<and> (\<forall>c\<in>set cs. poll_call wk req c)"
  by (cases "req_handle req") (auto simp: Request_check_finished_live poll_call_def)

lemma progress_poll_call:
  assumes "Worker_progress E wk w = (x, w1)"
  shows "\<exists>cs. trace w1 = trace w @ cs \<and> (\<forall>c\<in>set cs. poll_call wk req c)"
  using assms by (cases x) (auto dest: Worker_progress_outcome simp: poll_call_def)

lemma spin_poll_calls:
  "\<exists>cs. trace (snd (spin (Request_check_finished E req) (Worker_progress E wk) n w)) =
      trace w @ cs \<and> (\<forall>c\<in>set cs. poll_call wk req c)"
proof (rule spin_invariant [where P = "\<lambda>v. \<exists>cs. trace v = trace w @ cs \<and> (\<forall>c\<in>set cs. poll_call wk req c)"])
  fix v x w1
  assume "Request_check_finished E req v = (x, w1)"
    and "\<exists>cs. trace v = trace w @ cs \<and> (\<forall>c\<in>set cs. poll_call wk req c)"
  then show "\<exists>cs. trace w1 = trace w @ cs \<and> (\<forall>c\<in>set cs. poll_call wk req c)"
    using check_finished_poll_call [of E req v x w1 wk]
    by (elim exE conjE) (metis append.assoc set_append Un_iff)
next
  fix v x w1
  assume "Worker_progress E wk v = (x, w1)"
    and "\<exists>cs. trace v = trace w @ cs \<and> (\<forall>c\<in>set cs. poll_call wk req c)"
  then show "\<exists>cs. trace w1 = trace w @ cs \<and> (\<forall>c\<in>set cs. poll_call wk req c)"
    using progress_poll_call [of E wk v x w1 req]
    by (elim exE conjE) (metis append.assoc set_append Un_iff)
qed simp

text \<open>Such a loop panics only in the debug build, when the worker was already progressing.\<close>

lemma spin_progress_outcome:
  assumes "spin (Request_check_finished E req) (Worker_progress E wk) n w = (x, w1)"
  shows "x \<noteq> Abort"
    and "x = Panic s \<Longrightarrow> debug_assertions E \<and> atomics w (wk_progressing wk)"
proof -
  have "x \<noteq> Abort \<and> (x = Panic s \<longrightarrow> debug_assertions E \<and> atomics w (wk_progressing wk))"
    using assms
  proof (induction n arbitrary: w)
    case 0
    then show ?case by auto
  next
    case (Suc n)
    obtain y v where c: "Request_check_finished E req w = (y, v)" by fastforce
    obtain z u where p: "Worker_progress E wk v = (z, u)" by fastforce
    have "atomics v = atomics w" "atomics u = atomics w"
      using c p by (auto simp: world_simps)
    then show ?case
      using Suc.prems Suc.IH [of u] c p Worker_progress_outcome [OF p]
      by (cases y; cases z) (auto split: if_splits)
  qed
  then show "x \<noteq> Abort" "x = Panic s \<Longrightarrow> debug_assertions E \<and> atomics w (wk_progressing wk)"
    by auto
qed

subsection \<open>Properties\<close>

lemma ok_set_name:
  "ok_option (wpb_set_name n b) = (if 0 \<in> set n then None
     else Some (b\<lparr>wpb_field_mask := wpb_field_mask b OR WORKER_PARAM_FIELD_NAME, wpb_name := Some n\<rparr>))"
  by (cases n rule: CString_new_cases) (simp_all add: wpb_set_name_def del: CString_new_Inr)

definition bad_name :: "worker_param_op \<Rightarrow> bool" where
  "bad_name op = (case op of Set_name n \<Rightarrow> 0 \<in> set n | _ \<Rightarrow> False)"

lemma wpb_chain_None: "chain wpb_apply ops b = None \<longleftrightarrow> list_ex bad_name ops"
proof (rule chain_None)
  fix op b
  show "wpb_apply op b = None \<longleftrightarrow> bad_name op"
    by (cases op) (simp_all add: ok_set_name bad_name_def)
qed

text \<open>Building worker parameters: a chain of setters is refused exactly when a name holds a
  NUL; otherwise UCX sees the union of the bits of the setters called, and the last name set,
  which the built value keeps alive.\<close>

theorem worker_params_built:
  "map_option (\<lambda>b. let p = fst (wpb_build b) in
       (wp_field_mask (wpar_handle p), wp_name (wpar_handle p), wpar_name p))
     (chain wpb_apply ops WorkerParamsBuilder_new) =
   (if list_ex bad_name ops then None
    else Some (fold (OR) (map wpb_bit ops) 0, last_set worker_op_name ops, last_set worker_op_name ops))"
proof (cases "chain wpb_apply ops WorkerParamsBuilder_new")
  case None
  then show ?thesis by (simp add: wpb_chain_None)
next
  case (Some b)
  then have "\<not> list_ex bad_name ops" using wpb_chain_None [of ops WorkerParamsBuilder_new] by simp
  moreover have "wpb_field_mask b = fold (OR) (map wpb_bit ops) 0"
    using worker_params.mask_chain [OF Some] by (simp add: WorkerParamsBuilder_new_def)
  moreover have "wpb_name b = last_set worker_op_name ops"
    using chain_last_set [of wpb_apply wpb_name Some worker_op_name, OF wpb_apply_name(1) Some]
    by (simp add: WorkerParamsBuilder_new_def split: option.splits)
  moreover have "wp_name (wpb_handle b) = None"
    using chain_unset [of wpb_apply "\<lambda>b. wp_name (wpb_handle b)", OF wpb_apply_name(2) Some]
    by (simp add: WorkerParamsBuilder_new_def zeroed_ucp_worker_params_t_def)
  ultimately show ?thesis
    using Some by (auto simp: wpb_build_def Let_def split: option.splits)
qed

text \<open>
  A builder is built from by reference, so it can be built twice.  The second value still has
  the name's bit in its mask, and a null name.
\<close>

lemma second_build_loses_name:
  "let b = WorkerParamsBuilder_new\<lparr>wpb_field_mask := WORKER_PARAM_FIELD_NAME, wpb_name := Some n\<rparr>;
       p = fst (wpb_build (snd (wpb_build b)))
   in wp_field_mask (wpar_handle p) = WORKER_PARAM_FIELD_NAME \<and> wp_name (wpar_handle p) = None"
  by (simp add: wpb_build_def WorkerParamsBuilder_new_def zeroed_ucp_worker_params_t_def Let_def)

lemma wait_rounds_spin:
  "Worker_wait_rounds E wk req n w = (Ret (Inr True), w') \<longleftrightarrow>
     spin (Request_check_finished E req) (Worker_progress E wk) n w = (Ret Finished, w')"
  "Worker_wait_rounds E wk req n w = (Ret (Inl e), w') \<longleftrightarrow>
     spin (Request_check_finished E req) (Worker_progress E wk) n w = (Ret (Failed e), w')"
  "Worker_wait_rounds E wk req n w = (Ret (Inr False), w') \<longleftrightarrow>
     spin (Request_check_finished E req) (Worker_progress E wk) n w = (Ret Exhausted, w')"
  by (auto simp: worker_wait.loop_is_spin worker_wait.finish_def
      split: prod.splits outcome.splits poll_end.splits)

text \<open>C11: \<^verbatim>\<open>wait_request\<close> is decided by the first of at most a million checks that does not find
  the request pending: it returns \<^verbatim>\<open>Ok(true)\<close> or that check's error; only when all million
  checks found it pending does it give up with \<^verbatim>\<open>Ok(false)\<close>.  It always returns, unless the
  debug build finds the worker already progressing.\<close>

theorem wait_request_outcome:
  "(Worker_wait_request E wk req w = (Ret (Inr True), w') \<longleftrightarrow>
     (\<exists>k<1000000. \<exists>v. rounds (Request_check_finished E req) (Worker_progress E wk) k w = Some v \<and>
        Request_check_finished E req v = (Inr True, w'))) \<and>
   (Worker_wait_request E wk req w = (Ret (Inl e), w') \<longleftrightarrow>
     (\<exists>k<1000000. \<exists>v. rounds (Request_check_finished E req) (Worker_progress E wk) k w = Some v \<and>
        Request_check_finished E req v = (Inl e, w'))) \<and>
   (Worker_wait_request E wk req w = (Ret (Inr False), w') \<longleftrightarrow>
     rounds (Request_check_finished E req) (Worker_progress E wk) 1000000 w = Some w') \<and>
   ((debug_assertions E \<and> atomics w (wk_progressing wk)) \<or>
    (\<exists>r. fst (Worker_wait_request E wk req w) = Ret r))"
proof -
  obtain x u where sp: "spin (Request_check_finished E req) (Worker_progress E wk) 1000000 w = (x, u)"
    by fastforce
  have "(debug_assertions E \<and> atomics w (wk_progressing wk)) \<or>
      (\<exists>r. fst (Worker_wait_rounds E wk req 1000000 w) = Ret r)"
    using spin_progress_outcome [OF sp]
    by (cases x) (auto simp: worker_wait.loop_is_spin worker_wait.finish_def sp split: poll_end.splits)
  then show ?thesis
    by (simp add: Worker_wait_request_def MAX_ROUNDS_def wait_rounds_spin
        spin_Finished_iff spin_Failed_iff spin_Exhausted_iff)
qed

definition destroys_worker :: "ffi_call \<Rightarrow> bool" where
  "destroys_worker c \<longleftrightarrow> (\<exists>h. c = WorkerC (ucp_worker_destroy h))"

lemma poll_call_not_destroy: "poll_call wk req c \<Longrightarrow> \<not> destroys_worker c"
  by (auto simp: poll_call_def destroys_worker_def)

lemma drop_rounds_spin:
  "Worker_drop_rounds E wk req n w =
     (case spin (Request_check_finished E req) (Worker_progress E wk) n w of
        (Ret _, w1) \<Rightarrow> (Ret (), w1)
      | (Panic s, w1) \<Rightarrow> (Panic s, Request_drop E req w1)
      | (Abort, w1) \<Rightarrow> (Abort, w1))"
  by (simp add: worker_drop_loop.loop_is_spin worker_drop_loop.finish_def
      split: prod.splits outcome.splits poll_end.splits)

lemma Request_drop_trace:
  "trace (Request_drop E req w) = trace w @
     (case req_handle req of None \<Rightarrow> [] | Some h \<Rightarrow> [ReqC (ucp_request_free h)])"
  by (simp add: Request_drop_def split: option.splits)

text \<open>The drop loop followed by the request's drop: what it adds to the log.\<close>

lemma drop_rounds_trace:
  assumes "Worker_drop_rounds E wk req n w = (x, w1)"
  shows "atomics w1 = atomics w"
    and "\<exists>cs. trace w1 = trace w @ cs \<and> filter destroys_worker cs = []"
    and "x \<noteq> Abort" and "x = Panic s \<Longrightarrow> debug_assertions E"
proof -
  obtain y u where sp: "spin (Request_check_finished E req) (Worker_progress E wk) n w = (y, u)"
    by fastforce
  have at: "atomics u = atomics w" using spin_progress_atomics [of E req wk n w] sp by simp
  obtain cs where cs: "trace u = trace w @ cs" "\<forall>c\<in>set cs. poll_call wk req c"
    using spin_poll_calls [of E req wk n w] sp by auto
  have cs': "filter destroys_worker cs = []"
    using cs(2) poll_call_not_destroy by (auto simp: filter_empty_conv)
  have out: "(\<exists>t. y = Panic t \<and> debug_assertions E \<and> x = Panic t \<and> w1 = Request_drop E req u) \<or>
      (x = Ret () \<and> w1 = u)"
    using assms spin_progress_outcome [OF sp]
    by (cases y) (auto simp: drop_rounds_spin sp)
  show "atomics w1 = atomics w" using out at by auto
  show "\<exists>cs. trace w1 = trace w @ cs \<and> filter destroys_worker cs = []"
    using out cs cs'
    by (auto simp: Request_drop_trace destroys_worker_def split: option.splits)
  show "x \<noteq> Abort" "x = Panic s \<Longrightarrow> debug_assertions E" using out by auto
qed

text \<open>How a drop ends, for the components that use it.\<close>

lemma worker_drop_ends:
  "case Worker_drop E wk w of
     (Ret _, w1) \<Rightarrow> \<not> atomics w1 (wk_alive wk) \<and>
       (\<exists>mid. trace w1 = trace w @
          [WorkerC (ucp_worker_flush_nbx (wk_handle wk) zeroed_ucp_request_param_t)] @ mid @
          [WorkerC (ucp_worker_destroy (wk_handle wk))] \<and> filter destroys_worker mid = [])
   | (Panic _, w1) \<Rightarrow> debug_assertions E \<and> \<not> atomics w1 (wk_alive wk) \<and>
       (\<exists>mid. trace w1 = trace w @ mid \<and> filter destroys_worker mid = [])
   | (Abort, _) \<Rightarrow> False"
proof -
  let ?p = "rpb_build RequestParamBuilder_new"
  let ?w1 = "atomic_store (wk_alive wk) False w"
  have p: "rparam_handle ?p = zeroed_ucp_request_param_t"
    by (simp add: rpb_build_def RequestParamBuilder_new_def zeroed_ucp_request_param_t_def)
  let ?f = "WorkerC (ucp_worker_flush_nbx (wk_handle wk) zeroed_ucp_request_param_t)"
  obtain r w2 where f: "Worker_flush E wk ?p ?w1 = (r, w2)" by fastforce
  have w2: "trace w2 = trace w @ [?f]" "\<not> atomics w2 (wk_alive wk)"
    and r: "r = status_ptr_to_result E (ret_ptr (fst (ffi E ?f ?w1)))"
    using f by (auto simp: Worker_flush_def p nbx_def world_simps split: prod.splits)
  have nd: "\<not> destroys_worker ?f" by (simp add: destroys_worker_def)
  show ?thesis
  proof (cases r)
    case Abort
    with r show ?thesis by (auto simp: status_ptr_to_result_def split: if_splits)
  next
    case (Panic s)
    then have "debug_assertions E" using r by (auto simp: status_ptr_to_result_def split: if_splits)
    then show ?thesis using Panic f w2 nd by (auto simp: Worker_drop_def Let_def)
  next
    case (Ret x)
    show ?thesis
    proof (cases "\<exists>req. x = Inr (Some req)")
      case False
      then consider e where "x = Inl e" | "x = Inr None" by (cases x) auto
      then show ?thesis
      proof cases
        case 1
        then show ?thesis using Ret f w2 by (auto simp: Worker_drop_def Let_def)
      next
        case 2
        then show ?thesis using Ret f w2 by (auto simp: Worker_drop_def Let_def)
      qed
    next
      case True
      then obtain req where req: "x = Inr (Some req)" by blast
      obtain y u where d:
        "Worker_drop_rounds E wk req MAX_FLUSH_PROGRESS_ROUNDS w2 = (y, u)" by fastforce
      note t = drop_rounds_trace [OF d]
      obtain cs where cs: "trace u = trace w2 @ cs" "filter destroys_worker cs = []"
        using t(2) by blast
      have drop: "trace (Request_drop E req u) = trace u @ rel" "filter destroys_worker rel = []"
        if "rel = (case req_handle req of None \<Rightarrow> [] | Some h \<Rightarrow> [ReqC (ucp_request_free h)])" for rel
        using that by (auto simp: Request_drop_trace destroys_worker_def split: option.splits)
      show ?thesis
      proof (cases y)
        case (Panic s)
        then show ?thesis using Ret req f d w2 cs t nd by (auto simp: Worker_drop_def Let_def)
      next
        case Abort
        then show ?thesis using t by simp
      next
        case (Ret v)
        then show ?thesis
          using \<open>r = Ret x\<close> req f d w2 cs t(1) drop
          by (auto simp: Worker_drop_def Let_def)
      qed
    qed
  qed
qed


text \<open>C33: A worker query asks UCX for exactly the fields in its mask and reports exactly those: an
  attribute is present if and only if its field was requested, and the name is valid UTF-8
  whatever bytes UCX wrote.\<close>

theorem worker_query_fields:
  "case Worker_query E wk msk w of (r, w1) \<Rightarrow>
     trace w1 = trace w @ [WorkerC (ucp_worker_query (wk_handle wk)
       (zeroed_ucp_worker_attr\<lparr>wattr_field_mask := msk\<rparr>))] \<and>
     (case r of Inl e \<Rightarrow> Status_is_err e
      | Inr a \<Rightarrow>
          (wat_thread_mode a = None \<longleftrightarrow> \<not> bit msk 0) \<and> (wat_address a = None \<longleftrightarrow> \<not> bit msk 1) \<and>
          (wat_address_flags a = None \<longleftrightarrow> \<not> bit msk 2) \<and>
          (wat_max_am_header a = None \<longleftrightarrow> \<not> bit msk 3) \<and>
          (wat_max_info_string a = None \<longleftrightarrow> \<not> bit msk 5) \<and>
          (case wat_name a of None \<Rightarrow> \<not> bit msk 4 | Some n \<Rightarrow> bit msk 4 \<and> utf8_valid n))"
proof -
  note fc = flags_contains_exp [of _ msk]
  note flags = fc [of 0] fc [of 1] fc [of 2] fc [of 3] fc [of 4] fc [of 5]
  obtain r w1 where q: "Worker_query E wk msk w = (r, w1)" by fastforce
  note q' = q [unfolded Worker_query_def]
  note t = value_call_world(3) [OF q']
  show ?thesis
  proof (cases r)
    case (Inl e)
    with q' have "Status_is_err e" by (auto simp: value_call_Inl)
    with q t Inl show ?thesis by simp
  next
    case (Inr a)
    from iffD1 [OF value_call_Inr q' [unfolded Inr]]
    obtain ret :: ffi_ret where a: "a = WorkerAttr_of msk (out_worker_attr ret)" by blast
    have "(wat_thread_mode a = None \<longleftrightarrow> \<not> bit msk 0) \<and>
        (wat_address a = None \<longleftrightarrow> \<not> bit msk 1) \<and> (wat_address_flags a = None \<longleftrightarrow> \<not> bit msk 2) \<and>
        (wat_max_am_header a = None \<longleftrightarrow> \<not> bit msk 3) \<and> (wat_max_info_string a = None \<longleftrightarrow> \<not> bit msk 5) \<and>
        (case wat_name a of None \<Rightarrow> \<not> bit msk 4 | Some n \<Rightarrow> bit msk 4 \<and> utf8_valid n)"
      using flags by (simp add: a WorkerAttr_of_def utf8_valid_lossy)
    with q t Inr show ?thesis by simp
  qed
qed

end
