(* ===== verification/Conn_Request.thy ===== *)
theory Conn_Request
  imports Request
begin

text \<open>
  The shared listener state of \<^verbatim>\<open>src/listener.rs\<close> and the connection request that keeps it
  alive.  \<^verbatim>\<open>Arc<ListenerState>\<close> is an index into the world's listener states with a strong
  count; the state's drop glue destroys the UCX listener, and runs when the count reaches zero.
  A connection request is owned by the endpoint parameters too, so this part precedes them.
\<close>

record ConnRequest =
  cr_handle :: ptr
  cr_state :: nat

datatype ConnRequestHandle = Valid ptr

fun ConnRequestHandle_as_raw :: "ConnRequestHandle \<Rightarrow> ptr" where
  "ConnRequestHandle_as_raw (Valid p) = p"

text \<open>
  The address of an \<^verbatim>\<open>Arc\<close>'s allocation, which crosses the foreign boundary as a callback's
  argument: its cell's number plus one, so that it is never null.
\<close>

definition Arc_as_ptr :: "nat \<Rightarrow> ptr" where
  "Arc_as_ptr i = of_nat (Suc i)"

definition Arc_from_ptr :: "ptr \<Rightarrow> nat" where
  "Arc_from_ptr p = unat p - 1"

lemma Arc_ptr_round_trip:
  assumes "i < 2 ^ 64 - 1"
  shows "Arc_from_ptr (Arc_as_ptr i) = i" and "Arc_as_ptr i \<noteq> 0"
proof -
  have u: "unat (of_nat (Suc i) :: 64 word) = Suc i"
    using assms by (simp add: unsigned_of_nat take_bit_nat_eq_self del: of_nat_Suc)
  then show "Arc_from_ptr (Arc_as_ptr i) = i" by (simp only: Arc_from_ptr_def Arc_as_ptr_def diff_Suc_1)
  show "Arc_as_ptr i \<noteq> 0" using u by (metis Arc_as_ptr_def nat.distinct(1) unsigned_0)
qed

text \<open>\<^verbatim>\<open>Arc::new\<close>, \<^verbatim>\<open>Arc::clone\<close> and the drop of an \<^verbatim>\<open>Arc\<close>.\<close>

definition Arc_new :: "listener_state \<Rightarrow> 'u world \<Rightarrow> nat \<times> 'u world" where
  "Arc_new s w = (next_cell w, w\<lparr>listeners := (listeners w)(next_cell w \<mapsto> s\<lparr>ls_strong := 1\<rparr>),
     next_cell := Suc (next_cell w)\<rparr>)"

definition Arc_clone :: "nat \<Rightarrow> 'u world \<Rightarrow> 'u world" where
  "Arc_clone i w = (case listeners w i of
      None \<Rightarrow> w
    | Some s \<Rightarrow> w\<lparr>listeners := (listeners w)(i \<mapsto> s\<lparr>ls_strong := Suc (ls_strong s)\<rparr>)\<rparr>)"

definition ListenerState_drop :: "'u env \<Rightarrow> nat \<Rightarrow> listener_state \<Rightarrow> 'u world \<Rightarrow> 'u world" where
  "ListenerState_drop E i s w =
     (let w1 = (if ls_handle s \<noteq> 0
                then ffi_unit E (ListenerC (ucp_listener_destroy (ls_handle s))) w else w)
      in if ls_handle_poisoned s then w1
         else w1\<lparr>listeners := (listeners w1)(i \<mapsto> s\<lparr>ls_handle := 0\<rparr>)\<rparr>)"

definition Arc_drop :: "'u env \<Rightarrow> nat \<Rightarrow> 'u world \<Rightarrow> 'u world" where
  "Arc_drop E i w = (case listeners w i of
      None \<Rightarrow> w
    | Some s \<Rightarrow>
        if ls_strong s \<le> 1
        then (let w1 = ListenerState_drop E i s w in w1\<lparr>listeners := (listeners w1)(i := None)\<rparr>)
        else w\<lparr>listeners := (listeners w)(i \<mapsto> s\<lparr>ls_strong := ls_strong s - 1\<rparr>)\<rparr>)"

text \<open>The drop glue of a connection request drops its share of the state.\<close>

definition ConnRequest_drop :: "'u env \<Rightarrow> ConnRequest \<Rightarrow> 'u world \<Rightarrow> 'u world" where
  "ConnRequest_drop E r = Arc_drop E (cr_state r)"

definition ConnRequest_from_raw :: "ptr \<Rightarrow> 'u world \<Rightarrow> ConnRequest \<times> 'u world" where
  "ConnRequest_from_raw handle w =
     (let (i, w1) = Arc_new \<lparr>ls_strong = 1, ls_handle = 0, ls_handle_poisoned = False,
            ls_has_handler = False, ls_handler_poisoned = False\<rparr> w
      in (\<lparr>cr_handle = handle, cr_state = i\<rparr>, w1))"

definition ConnRequest_as_raw :: "ConnRequest \<Rightarrow> ConnRequestHandle" where
  "ConnRequest_as_raw r = Valid (cr_handle r)"

definition ConnRequest_as_conn_request_ptr :: "ConnRequest \<Rightarrow> ptr" where
  "ConnRequest_as_conn_request_ptr r = cr_handle r"

definition ConnRequest_as_raw_ptr :: "ConnRequest \<Rightarrow> ptr" where
  "ConnRequest_as_raw_ptr r = cr_handle r"

subsection \<open>What dropping a share changes\<close>

lemma Arc_drop_world [simp]:
  "atomics (Arc_drop E i w) = atomics w" "stderr (Arc_drop E i w) = stderr w"
  by (auto simp: Arc_drop_def ListenerState_drop_def Let_def split: option.splits)

lemma Arc_drop_shared:
  assumes "listeners w i = Some s" and "1 < ls_strong s"
  shows "trace (Arc_drop E i w) = trace w"
    and "listeners (Arc_drop E i w) = (listeners w)(i \<mapsto> s\<lparr>ls_strong := ls_strong s - 1\<rparr>)"
  using assms by (simp_all add: Arc_drop_def)

lemma Arc_drop_last:
  assumes "listeners w i = Some s" and "ls_strong s \<le> 1"
  shows "trace (Arc_drop E i w) = trace w @
      (if ls_handle s = 0 then [] else [ListenerC (ucp_listener_destroy (ls_handle s))])"
    and "listeners (Arc_drop E i w) = (listeners w)(i := None)"
  using assms by (auto simp: Arc_drop_def ListenerState_drop_def Let_def)

text \<open>In any case a drop only appends to the log: at most the destroy of the listener.\<close>

lemma Arc_drop_trace:
  "trace (Arc_drop E i w) = trace w @ (case listeners w i of
      None \<Rightarrow> []
    | Some s \<Rightarrow> if ls_strong s \<le> 1 \<and> ls_handle s \<noteq> 0
        then [ListenerC (ucp_listener_destroy (ls_handle s))] else [])"
  by (auto simp: Arc_drop_def ListenerState_drop_def Let_def split: option.splits)

lemma Arc_clone_world [simp]:
  "atomics (Arc_clone i w) = atomics w" "stderr (Arc_clone i w) = stderr w"
  "trace (Arc_clone i w) = trace w" "next_cell (Arc_clone i w) = next_cell w"
  by (auto simp: Arc_clone_def split: option.splits)

lemma ConnRequest_drop_world [simp]:
  "atomics (ConnRequest_drop E r w) = atomics w" "stderr (ConnRequest_drop E r w) = stderr w"
  by (simp_all add: ConnRequest_drop_def)

end
