(* ===== verification/Sockaddr.thy ===== *)
theory Sockaddr
  imports Ffi_Types
begin

text \<open>
  Socket addresses: \<^verbatim>\<open>SockAddr\<close> of \<^verbatim>\<open>src/ep/attr.rs\<close>, which builds the C structure from a Rust
  \<^verbatim>\<open>SocketAddr\<close>, and \<^verbatim>\<open>from_storage\<close> of \<^verbatim>\<open>src/listener.rs\<close>, which reads one back from a C
  \<^verbatim>\<open>sockaddr_storage\<close>.  The target is little-endian Linux: \<open>AF_INET\<close> is 2, \<open>AF_INET6\<close> is 10, and
  the structures lie in memory field after field as C lays them out.
\<close>

subsection \<open>Byte order\<close>

definition bswap :: "nat \<Rightarrow> 'a::len word \<Rightarrow> 'a word" where
  "bswap n x = from_le (rev (to_le n x))"

definition u16_to_be :: "u16 \<Rightarrow> u16" where "u16_to_be = bswap 2"
definition u16_from_be :: "u16 \<Rightarrow> u16" where "u16_from_be = bswap 2"
definition u32_to_be :: "u32 \<Rightarrow> u32" where "u32_to_be = bswap 4"
definition u32_from_be :: "u32 \<Rightarrow> u32" where "u32_from_be = bswap 4"

text \<open>The octets of an IP address, most significant first.\<close>

definition ip_octets :: "nat \<Rightarrow> 'a::len word \<Rightarrow> bytes" where
  "ip_octets n ip = rev (to_le n ip)"

definition ip_from_octets :: "bytes \<Rightarrow> 'a::len word" where
  "ip_from_octets bs = from_le (rev bs)"

subsection \<open>The structures\<close>

datatype SocketAddr =
    SocketAddrV4 (v4_ip: u32) (v4_port: u16)
  | SocketAddrV6 (v6_ip: "128 word") (v6_port: u16) (v6_flowinfo: u32) (v6_scope_id: u32)

record sockaddr_in =
  sin_family :: u16
  sin_port :: u16
  sin_addr :: u32
  sin_zero :: bytes

record sockaddr_in6 =
  sin6_family :: u16
  sin6_port :: u16
  sin6_flowinfo :: u32
  sin6_addr :: bytes
  sin6_scope_id :: u32

definition AF_INET :: u16 where [simp]: "AF_INET = 2"
definition AF_INET6 :: u16 where [simp]: "AF_INET6 = 10"

datatype SocketStorage = V4 sockaddr_in | V6 sockaddr_in6

record SockAddr =
  sa_storage :: SocketStorage

definition SockAddr_new :: "SocketAddr \<Rightarrow> SockAddr" where
  "SockAddr_new addr = (case addr of
      SocketAddrV4 ip port \<Rightarrow>
        \<lparr>sa_storage = V4 \<lparr>sin_family = AF_INET, sin_port = u16_to_be port,
           sin_addr = from_le (ip_octets 4 ip), sin_zero = replicate 8 0\<rparr>\<rparr>
    | SocketAddrV6 ip port flowinfo scope_id \<Rightarrow>
        \<lparr>sa_storage = V6 \<lparr>sin6_family = AF_INET6, sin6_port = u16_to_be port,
           sin6_flowinfo = u32_to_be flowinfo, sin6_addr = ip_octets 16 ip,
           sin6_scope_id = scope_id\<rparr>\<rparr>)"

text \<open>The bytes at \<^verbatim>\<open>as_ptr\<close>: the C layout of the boxed structure.\<close>

definition SocketStorage_as_ptr :: "SocketStorage \<Rightarrow> bytes" where
  "SocketStorage_as_ptr s = (case s of
      V4 v \<Rightarrow> to_le 2 (sin_family v) @ to_le 2 (sin_port v) @ to_le 4 (sin_addr v) @ sin_zero v
    | V6 v \<Rightarrow> to_le 2 (sin6_family v) @ to_le 2 (sin6_port v) @ to_le 4 (sin6_flowinfo v) @
        sin6_addr v @ to_le 4 (sin6_scope_id v))"

definition SocketStorage_len :: "SocketStorage \<Rightarrow> u32" where
  "SocketStorage_len s = (case s of V4 _ \<Rightarrow> 16 | V6 _ \<Rightarrow> 28)"

definition SockAddr_to_ffi :: "SockAddr \<Rightarrow> ucs_sock_addr_t" where
  "SockAddr_to_ffi a = \<lparr>sa_addr = Some (SocketStorage_as_ptr (sa_storage a)),
     sa_addrlen = SocketStorage_len (sa_storage a)\<rparr>"

subsection \<open>Reading a storage\<close>

definition slice :: "nat \<Rightarrow> nat \<Rightarrow> 'a list \<Rightarrow> 'a list" where
  "slice i n xs = take n (drop i xs)"

text \<open>\<^verbatim>\<open>SocketAddr::new\<close> of a V6 address has no flow information and no scope.\<close>

definition from_storage :: "sockaddr_storage \<Rightarrow> SocketAddr option" where
  "from_storage storage =
     (let ss_family = (from_le (slice 0 2 storage) :: u16)
      in if ss_family = AF_INET then
           Some (SocketAddrV4 (u32_from_be (from_le (slice 4 4 storage)))
             (u16_from_be (from_le (slice 2 2 storage))))
         else if ss_family = AF_INET6 then
           Some (SocketAddrV6 (ip_from_octets (slice 8 16 storage))
             (u16_from_be (from_le (slice 2 2 storage))) 0 0)
         else None)"

text \<open>A storage is 128 bytes; what is behind the structure in it is arbitrary.\<close>

definition storage_of :: "SockAddr \<Rightarrow> bytes \<Rightarrow> sockaddr_storage" where
  "storage_of a pad = take 128 (SocketStorage_as_ptr (sa_storage a) @ pad)"

subsection \<open>Lemmas\<close>

lemma slice_append_left: "i + n \<le> length xs \<Longrightarrow> slice i n (xs @ ys) = slice i n xs"
  by (simp add: slice_def)

lemma slice_append_right: "length xs \<le> i \<Longrightarrow> slice i n (xs @ ys) = slice (i - length xs) n ys"
  by (simp add: slice_def)

lemma slice_all: "length xs = n \<Longrightarrow> slice 0 n xs = xs"
  by (simp add: slice_def)

lemma slice_take: "i + n \<le> m \<Longrightarrow> slice i n (take m xs) = slice i n xs"
  by (simp add: slice_def drop_take min_def)

lemmas slice_simps = slice_append_left slice_append_right slice_all slice_take

lemma from_le_to_le_full: "8 * n = LENGTH('a) \<Longrightarrow> from_le (to_le n x) = (x :: 'a::len word)"
  by (simp add: from_le_to_le take_bit_word_eq_self)

lemma bswap_twice:
  assumes "8 * n = LENGTH('a)"
  shows "bswap n (bswap n x) = (x :: 'a::len word)"
proof -
  have "to_le n (from_le (rev (to_le n x)) :: 'a word) = rev (to_le n x)"
    using to_le_from_le [of "rev (to_le n x)", where 'a = 'a] assms by simp
  then show ?thesis by (simp add: bswap_def from_le_to_le_full [OF assms])
qed

lemma bswap_from_octets:
  assumes "8 * n = LENGTH('a)"
  shows "bswap n (from_le (ip_octets n ip)) = (ip :: 'a::len word)"
proof -
  have "to_le n (from_le (rev (to_le n ip)) :: 'a word) = rev (to_le n ip)"
    using to_le_from_le [of "rev (to_le n ip)", where 'a = 'a] assms by simp
  then show ?thesis by (simp add: bswap_def ip_octets_def from_le_to_le_full [OF assms])
qed

lemma ip_from_octets_octets:
  "8 * n = LENGTH('a) \<Longrightarrow> ip_from_octets (ip_octets n ip) = (ip :: 'a::len word)"
  by (simp add: ip_from_octets_def ip_octets_def from_le_to_le_full)

lemma length_ip_octets [simp]: "length (ip_octets n ip) = n"
  by (simp add: ip_octets_def)

lemma sockaddr_decodes:
  "from_storage (storage_of (SockAddr_new addr) pad) =
     Some (case addr of SocketAddrV4 ip port \<Rightarrow> SocketAddrV4 ip port
           | SocketAddrV6 ip port _ _ \<Rightarrow> SocketAddrV6 ip port 0 0)"
  by (cases addr)
    (simp_all add: from_storage_def storage_of_def SockAddr_new_def SocketStorage_as_ptr_def
      slice_simps u16_to_be_def u16_from_be_def u32_from_be_def bswap_twice bswap_from_octets
      ip_from_octets_octets from_le_to_le_full del: to_le.simps)

text \<open>C31: A socket address survives the trip through the C structure UCX is given and the storage
  UCX returns: family, address and port come back, and the length announced is the number of
  bytes laid out.  Only the flow information and the scope of an IPv6 address are lost.\<close>

theorem sockaddr_round_trip:
  "from_storage (storage_of (SockAddr_new addr) pad) =
     Some (case addr of SocketAddrV4 ip port \<Rightarrow> SocketAddrV4 ip port
           | SocketAddrV6 ip port _ _ \<Rightarrow> SocketAddrV6 ip port 0 0) \<and>
   (case sa_addr (SockAddr_to_ffi (SockAddr_new addr)) of None \<Rightarrow> False
    | Some bs \<Rightarrow> length bs = unat (sa_addrlen (SockAddr_to_ffi (SockAddr_new addr))))"
  by (rule conjI, rule sockaddr_decodes, cases addr)
    (simp_all add: SockAddr_new_def SocketStorage_as_ptr_def SockAddr_to_ffi_def
      SocketStorage_len_def del: to_le.simps)

end
