(* ===== verification/Endpoint.thy ===== *)
theory Endpoint
  imports Worker Conn_Request Sockaddr
begin

text \<open>
  \<^verbatim>\<open>src/ep/\<close>: the endpoint wrapper with its teardown paths, its creation and modification
  parameters and its queries.  An endpoint shares its worker's \<^verbatim>\<open>alive\<close> cell, which every
  implicit teardown consults before it calls UCX.
\<close>

subsection \<open>State\<close>

record Ep =
  ep_handle :: ptr
  ep_worker_alive :: nat

datatype EpHandle = EpHandle (ep_raw: ptr)

definition Ep_handle :: "Ep \<Rightarrow> EpHandle" where
  "Ep_handle e = EpHandle (ep_handle e)"

record EpPerf =
  perf_estimated_time :: f64

record EpAttr =
  epa_name :: bytes
  epa_local_sockaddr :: "sockaddr_storage option"
  epa_remote_sockaddr :: "sockaddr_storage option"
  epa_transports :: "ucp_transports_t option"
  epa_user_data :: "ptr option"

subsection \<open>Creation parameters\<close>

record EpParams =
  epar_handle :: ucp_ep_params_t
  epar_name :: "bytes option"
  epar_conn_request :: "ConnRequest option"

record EpParamsBuilder =
  epb_handle :: ucp_ep_params_t
  epb_field_mask :: u64
  epb_name :: "bytes option"
  epb_conn_request :: "ConnRequest option"

definition EP_PARAM_FIELD_REMOTE_ADDRESS :: u64 where [simp]: "EP_PARAM_FIELD_REMOTE_ADDRESS = 1"
definition EP_PARAM_FIELD_ERR_HANDLING_MODE :: u64 where [simp]: "EP_PARAM_FIELD_ERR_HANDLING_MODE = 2"
definition EP_PARAM_FIELD_ERR_HANDLER :: u64 where [simp]: "EP_PARAM_FIELD_ERR_HANDLER = 4"
definition EP_PARAM_FIELD_USER_DATA :: u64 where [simp]: "EP_PARAM_FIELD_USER_DATA = 8"
definition EP_PARAM_FIELD_SOCK_ADDR :: u64 where [simp]: "EP_PARAM_FIELD_SOCK_ADDR = 16"
definition EP_PARAM_FIELD_FLAGS :: u64 where [simp]: "EP_PARAM_FIELD_FLAGS = 32"
definition EP_PARAM_FIELD_CONN_REQUEST :: u64 where [simp]: "EP_PARAM_FIELD_CONN_REQUEST = 64"
definition EP_PARAM_FIELD_NAME :: u64 where [simp]: "EP_PARAM_FIELD_NAME = 128"

definition EpParams_conn_request_ptr :: "EpParams \<Rightarrow> ptr" where
  "EpParams_conn_request_ptr p = (case epar_conn_request p of
      None \<Rightarrow> 0 | Some req \<Rightarrow> ConnRequest_as_conn_request_ptr req)"

definition EpParams_drop :: "'u env \<Rightarrow> EpParams \<Rightarrow> 'u world \<Rightarrow> 'u world" where
  "EpParams_drop E p w = (case epar_conn_request p of
      None \<Rightarrow> w | Some req \<Rightarrow> ConnRequest_drop E req w)"

definition EpParamsBuilder_new :: EpParamsBuilder where
  "EpParamsBuilder_new = \<lparr>epb_handle = zeroed_ucp_ep_params_t, epb_field_mask = 0,
     epb_name = None, epb_conn_request = None\<rparr>"

definition epb_set_address :: "RemoteWorkerAddress \<Rightarrow> EpParamsBuilder \<Rightarrow> EpParamsBuilder" where
  "epb_set_address a b = b\<lparr>epb_field_mask := epb_field_mask b OR EP_PARAM_FIELD_REMOTE_ADDRESS,
     epb_handle := (epb_handle b)\<lparr>ep_address := fst (RemoteWorkerAddress_get_handle a)\<rparr>\<rparr>"

definition epb_set_sockaddr :: "SockAddr \<Rightarrow> EpParamsBuilder \<Rightarrow> EpParamsBuilder" where
  "epb_set_sockaddr a b = b\<lparr>epb_field_mask := epb_field_mask b OR EP_PARAM_FIELD_SOCK_ADDR,
     epb_handle := (epb_handle b)\<lparr>ep_sockaddr := SockAddr_to_ffi a\<rparr>\<rparr>"

text \<open>Storing a connection request drops the one the builder held before.\<close>

definition epb_set_conn_request ::
  "'u env \<Rightarrow> ConnRequest \<Rightarrow> EpParamsBuilder \<Rightarrow> 'u world \<Rightarrow> EpParamsBuilder \<times> 'u world" where
  "epb_set_conn_request E req b w =
     (b\<lparr>epb_field_mask := epb_field_mask b OR EP_PARAM_FIELD_CONN_REQUEST,
        epb_handle := (epb_handle b)\<lparr>ep_conn_request := ConnRequest_as_raw_ptr req\<rparr>,
        epb_conn_request := Some req\<rparr>,
      (case epb_conn_request b of None \<Rightarrow> w | Some old \<Rightarrow> ConnRequest_drop E old w))"

definition epb_params_flags :: "u64 \<Rightarrow> EpParamsBuilder \<Rightarrow> EpParamsBuilder" where
  "epb_params_flags flags b = b\<lparr>epb_field_mask := epb_field_mask b OR EP_PARAM_FIELD_FLAGS,
     epb_handle := (epb_handle b)\<lparr>ep_flags := ucast flags\<rparr>\<rparr>"

definition epb_err_mode :: "ErrorHandlerMode \<Rightarrow> EpParamsBuilder \<Rightarrow> EpParamsBuilder" where
  "epb_err_mode m b = b\<lparr>epb_field_mask := epb_field_mask b OR EP_PARAM_FIELD_ERR_HANDLING_MODE,
     epb_handle := (epb_handle b)\<lparr>ep_err_mode := ErrorHandlerMode_to_ffi m\<rparr>\<rparr>"

definition epb_err_handler :: "code_ptr \<Rightarrow> EpParamsBuilder \<Rightarrow> EpParamsBuilder" where
  "epb_err_handler cb b = b\<lparr>epb_field_mask := epb_field_mask b OR EP_PARAM_FIELD_ERR_HANDLER,
     epb_handle := (epb_handle b)\<lparr>ep_err_handler_cb := cb\<rparr>\<rparr>"

definition epb_err_handler_arg :: "ptr \<Rightarrow> EpParamsBuilder \<Rightarrow> EpParamsBuilder" where
  "epb_err_handler_arg p b = b\<lparr>epb_handle := (epb_handle b)\<lparr>ep_err_handler_arg := p\<rparr>\<rparr>"

definition epb_user_data :: "ptr \<Rightarrow> EpParamsBuilder \<Rightarrow> EpParamsBuilder" where
  "epb_user_data p b = b\<lparr>epb_field_mask := epb_field_mask b OR EP_PARAM_FIELD_USER_DATA,
     epb_handle := (epb_handle b)\<lparr>ep_user_data := p\<rparr>\<rparr>"

definition epb_set_name :: "bytes \<Rightarrow> EpParamsBuilder \<Rightarrow> NulError + EpParamsBuilder" where
  "epb_set_name name b = (case CString_new name of
      Inl e \<Rightarrow> Inl e
    | Inr name_cs \<Rightarrow> Inr (b\<lparr>epb_field_mask := epb_field_mask b OR EP_PARAM_FIELD_NAME,
        epb_name := Some name_cs\<rparr>))"

text \<open>\<^verbatim>\<open>build\<close> takes the connection request and the name out of the builder.\<close>

definition epb_build :: "EpParamsBuilder \<Rightarrow> EpParams \<times> EpParamsBuilder" where
  "epb_build b =
     (let params = (epb_handle b)\<lparr>ep_field_mask := epb_field_mask b\<rparr>;
          ep_param = \<lparr>epar_handle = params, epar_name = None, epar_conn_request = epb_conn_request b\<rparr>;
          b1 = b\<lparr>epb_handle := params, epb_conn_request := None\<rparr>
      in (case epb_name b1 of
            None \<Rightarrow> (ep_param, b1)
          | Some new_name \<Rightarrow>
              (ep_param\<lparr>epar_handle := params\<lparr>ep_name := Some new_name\<rparr>, epar_name := Some new_name\<rparr>,
               b1\<lparr>epb_name := None\<rparr>)))"

subsection \<open>Modification parameters\<close>

record ModifyParams =
  mpar_handle :: ucp_ep_params_t

record ModifyParamsBuilder =
  mpb_handle :: ucp_ep_params_t

definition ModifyParamsBuilder_new :: ModifyParamsBuilder where
  "ModifyParamsBuilder_new = \<lparr>mpb_handle = zeroed_ucp_ep_params_t\<rparr>"

definition mpb_err_handler :: "code_ptr \<Rightarrow> ModifyParamsBuilder \<Rightarrow> ModifyParamsBuilder" where
  "mpb_err_handler cb b = b\<lparr>mpb_handle := (mpb_handle b)
     \<lparr>ep_field_mask := ep_field_mask (mpb_handle b) OR EP_PARAM_FIELD_ERR_HANDLER,
      ep_err_handler_cb := cb\<rparr>\<rparr>"

definition mpb_err_handler_arg :: "ptr \<Rightarrow> ModifyParamsBuilder \<Rightarrow> ModifyParamsBuilder" where
  "mpb_err_handler_arg p b = b\<lparr>mpb_handle := (mpb_handle b)\<lparr>ep_err_handler_arg := p\<rparr>\<rparr>"

definition mpb_user_data :: "ptr \<Rightarrow> ModifyParamsBuilder \<Rightarrow> ModifyParamsBuilder" where
  "mpb_user_data p b = b\<lparr>mpb_handle := (mpb_handle b)
     \<lparr>ep_field_mask := ep_field_mask (mpb_handle b) OR EP_PARAM_FIELD_USER_DATA,
      ep_user_data := p\<rparr>\<rparr>"

definition mpb_build :: "ModifyParamsBuilder \<Rightarrow> ModifyParams" where
  "mpb_build b = \<lparr>mpar_handle = mpb_handle b\<rparr>"

subsection \<open>Creating an endpoint\<close>

text \<open>The parameters are consumed: whatever the outcome, they are dropped after the call.\<close>

definition Ep_new ::
  "'u env \<Rightarrow> EpParams \<Rightarrow> Worker \<Rightarrow> 'u world \<Rightarrow> (Status + Ep) \<times> 'u world" where
  "Ep_new E ep_params wk w =
     (let (r, w1) = value_call E (EpC (ucp_ep_create (wk_handle wk) (epar_handle ep_params)))
            (\<lambda>ret. \<lparr>ep_handle = out_ptr ret, ep_worker_alive = wk_alive wk\<rparr>) w
      in (r, EpParams_drop E ep_params w1))"

definition Worker_create_ep ::
  "'u env \<Rightarrow> Worker \<Rightarrow> EpParams \<Rightarrow> 'u world \<Rightarrow> (Status + Ep) \<times> 'u world" where
  "Worker_create_ep E wk ep_params =
     (let ep_params1 = ep_params\<lparr>epar_handle :=
            (epar_handle ep_params)\<lparr>ep_conn_request := EpParams_conn_request_ptr ep_params\<rparr>\<rparr>
      in Ep_new E ep_params1 wk)"

subsection \<open>Operations\<close>

definition Ep_print_info :: "'u env \<Rightarrow> Ep \<Rightarrow> i32 \<Rightarrow> 'u world \<Rightarrow> 'u world" where
  "Ep_print_info E e fd = print_to E fd (\<lambda>stream. EpC (ucp_ep_print_info (ep_handle e) stream))"

definition Ep_flush ::
  "'u env \<Rightarrow> Ep \<Rightarrow> RequestParam \<Rightarrow> ('u world, Status + Request option) prog" where
  "Ep_flush E e params = nbx E (EpC (ucp_ep_flush_nbx (ep_handle e) (rparam_handle params)))"

definition Ep_modify ::
  "'u env \<Rightarrow> Ep \<Rightarrow> ModifyParams \<Rightarrow> ('u world, Status + Request option) prog" where
  "Ep_modify E e params = nbx E (EpC (ucp_ep_modify_nb (ep_handle e) (mpar_handle params)))"

definition Ep_evaluate_perf ::
  "'u env \<Rightarrow> Ep \<Rightarrow> usize \<Rightarrow> 'u world \<Rightarrow> (Status + EpPerf) \<times> 'u world" where
  "Ep_evaluate_perf E e message_size =
     (let attr = zeroed_ucp_ep_evaluate_perf_attr_t\<lparr>pattr_field_mask := 1\<rparr>;
          param = zeroed_ucp_ep_evaluate_perf_param_t
            \<lparr>pparam_field_mask := 1, pparam_message_size := message_size\<rparr>
      in value_call E (EpC (ucp_ep_evaluate_perf (ep_handle e) param attr))
           (\<lambda>ret. \<lparr>perf_estimated_time = pattr_estimated_time (out_perf_attr ret)\<rparr>))"

definition EpAttrFields_NAME :: u64 where [simp]: "EpAttrFields_NAME = 1"
definition EpAttrFields_LOCAL_SOCKADDR :: u64 where [simp]: "EpAttrFields_LOCAL_SOCKADDR = 2"
definition EpAttrFields_REMOTE_SOCKADDR :: u64 where [simp]: "EpAttrFields_REMOTE_SOCKADDR = 4"
definition EpAttrFields_TRANSPORTS :: u64 where [simp]: "EpAttrFields_TRANSPORTS = 8"
definition EpAttrFields_USER_DATA :: u64 where [simp]: "EpAttrFields_USER_DATA = 16"

definition Ep_query :: "'u env \<Rightarrow> Ep \<Rightarrow> u64 \<Rightarrow> 'u world \<Rightarrow> (Status + EpAttr) \<times> 'u world" where
  "Ep_query E e msk =
     value_call E (EpC (ucp_ep_query (ep_handle e) (zeroed_ucp_ep_attr\<lparr>eattr_field_mask := msk\<rparr>)))
       (\<lambda>ret. let attr = out_ep_attr ret in
         \<lparr>epa_name = (if flags_contains msk EpAttrFields_NAME
            then to_string_lossy (CStr_from_ptr (eattr_name attr)) else []),
          epa_local_sockaddr = then_some (flags_contains msk EpAttrFields_LOCAL_SOCKADDR)
            (eattr_local_sockaddr attr),
          epa_remote_sockaddr = then_some (flags_contains msk EpAttrFields_REMOTE_SOCKADDR)
            (eattr_remote_sockaddr attr),
          epa_transports = then_some (flags_contains msk EpAttrFields_TRANSPORTS)
            (eattr_transports attr),
          epa_user_data = then_some (flags_contains msk EpAttrFields_USER_DATA)
            (eattr_user_data attr)\<rparr>)"

subsection \<open>Teardown\<close>

text \<open>\<^verbatim>\<open>destroy\<close> and \<^verbatim>\<open>disconnect_nb\<close> wrap the endpoint in \<^verbatim>\<open>ManuallyDrop\<close>: its drop never runs.\<close>

definition Ep_destroy :: "'u env \<Rightarrow> Ep \<Rightarrow> 'u world \<Rightarrow> 'u world" where
  "Ep_destroy E e w =
     (if atomics w (ep_worker_alive e) then ffi_unit E (EpC (ucp_ep_destroy (ep_handle e))) w else w)"

definition Ep_disconnect_nb :: "'u env \<Rightarrow> Ep \<Rightarrow> ('u world, Status + Request option) prog" where
  "Ep_disconnect_nb E e w =
     (if \<not> atomics w (ep_worker_alive e) then (Ret (Inr None), w)
      else bnd (nbx E (EpC (ucp_disconnect_nb (ep_handle e)))) (\<lambda>result w1. case result of
          Inl err \<Rightarrow> (Ret result, ffi_unit E (EpC (ucp_ep_destroy (ep_handle e))) w1)
        | Inr _ \<Rightarrow> (Ret result, w1)) w)"

text \<open>
  The close loop: a completed request is freed, one that failed or never completed is forgotten.
  A panic of \<^verbatim>\<open>progress\<close> drops the request while it unwinds.
\<close>

fun Ep_close_rounds ::
  "'u env \<Rightarrow> Worker \<Rightarrow> Request \<Rightarrow> nat \<Rightarrow> ('u world, Status + unit) prog" where
  "Ep_close_rounds E wk request 0 w = (Ret (Inl Status_TIMED_OUT), w)"
| "Ep_close_rounds E wk request (Suc n) w = (case Request_check_finished E request w of
      (Inr True, w1) \<Rightarrow> (Ret (Inr ()), Request_free E request w1)
    | (Inr False, w1) \<Rightarrow> bnd (unwind (Request_drop E request) (Worker_progress E wk))
        (\<lambda>_. Ep_close_rounds E wk request n) w1
    | (Inl error, w1) \<Rightarrow> (Ret (Inl error), w1))"

definition Ep_close :: "'u env \<Rightarrow> Ep \<Rightarrow> Worker \<Rightarrow> u32 \<Rightarrow> ('u world, Status + unit) prog" where
  "Ep_close E e wk flags =
     (let param = zeroed_ucp_request_param_t\<lparr>rp_flags := flags\<rparr>
      in bnd (nbx E (EpC (ucp_ep_close_nbx (ep_handle e) param))) (\<lambda>r. case r of
           Inl err \<Rightarrow> (\<lambda>w. (Ret (Inl err), w))
         | Inr (Some request) \<Rightarrow> Ep_close_rounds E wk request 1000000
         | Inr None \<Rightarrow> (\<lambda>w. (Ret (Inr ()), w))))"

definition Ep_drop :: "'u env \<Rightarrow> Ep \<Rightarrow> ('u world, unit) prog" where
  "Ep_drop E e w =
     (if \<not> atomics w (ep_worker_alive e)
      then (Ret (), eprintln ''ucx-rs: endpoint dropped after its worker; skipping close'' w)
      else bnd (nbx E (EpC (ucp_ep_close_nbx (ep_handle e) zeroed_ucp_request_param_t)))
        (\<lambda>r w1. case r of
           Inr (Some _) \<Rightarrow> (Ret (), eprintln ''ucx-rs: endpoint close is still in progress during Drop; call Ep::close(&worker, flags) first'' w1)
         | Inr None \<Rightarrow> (Ret (), w1)
         | Inl error \<Rightarrow> (Ret (), eprintln (''ucx-sys: endpoint close during Drop failed: '' @
             debug_Status error @ ''; UCX released endpoint resources'') w1)) w)"

subsection \<open>Closing\<close>

interpretation ep_close_loop: bounded_poll
  "Request_check_finished E req" "Worker_progress E wk" "Request_drop E req"
  "\<lambda>w. (Ret (Inr ()), Request_free E req w)" "\<lambda>e w. (Ret (Inl e), w)"
  "\<lambda>w. (Ret (Inl Status_TIMED_OUT), w)" "Ep_close_rounds E wk req"
  for E :: "'u env" and wk req
  by unfold_locales (auto split: prod.splits sum.splits bool.splits)

lemma close_rounds_spin:
  "Ep_close_rounds E wk req n w =
     (case spin (Request_check_finished E req) (Worker_progress E wk) n w of
        (Ret Finished, w1) \<Rightarrow> (Ret (Inr ()), Request_free E req w1)
      | (Ret (Failed e), w1) \<Rightarrow> (Ret (Inl e), w1)
      | (Ret Exhausted, w1) \<Rightarrow> (Ret (Inl Status_TIMED_OUT), w1)
      | (Panic s, w1) \<Rightarrow> (Panic s, Request_drop E req w1)
      | (Abort, w1) \<Rightarrow> (Abort, w1))"
  unfolding ep_close_loop.loop_is_spin ep_close_loop.finish_def ..

text \<open>Polling a request never releases it.\<close>

lemma poll_call_keeps: "poll_call wk req c \<Longrightarrow> \<not> releases_request p c"
  by (auto simp: poll_call_def releases_request_def)

lemma polls_keep:
  assumes "spin (Request_check_finished E \<lparr>req_handle = Some h\<rparr>) (Worker_progress E wk) n w = (x, u)"
  shows "\<exists>polls. trace u = trace w @ polls \<and> filter (releases_request h) polls = []"
proof -
  obtain cs where "trace u = trace w @ cs" "\<forall>c\<in>set cs. poll_call wk \<lparr>req_handle = Some h\<rparr> c"
    using spin_poll_calls [of E "\<lparr>req_handle = Some h\<rparr>" wk n w] assms by auto
  then show ?thesis using poll_call_keeps by (auto simp: filter_empty_conv)
qed

text \<open>A loop that panics does so at its first progress call: the first check found the request
  pending, and the guard panics before UCX is called.\<close>

lemma spin_progress_panic:
  assumes "spin (Request_check_finished E req) (Worker_progress E wk) n w = (Panic s, u)"
  shows "debug_assertions E" and "atomics w (wk_progressing wk)"
    and "Request_check_finished E req w = (Inr False, u)"
proof -
  have d: "debug_assertions E \<and> atomics w (wk_progressing wk)"
    by (rule spin_progress_outcome(2) [OF assms refl])
  then show "debug_assertions E" "atomics w (wk_progressing wk)" by simp_all
  obtain m where n: "n = Suc m" using assms by (cases n) simp_all
  obtain y v where c: "Request_check_finished E req w = (y, v)" by fastforce
  have "atomics v = atomics w" using c by (simp add: world_simps)
  then have "Worker_progress E wk v = (Panic ''concurrent progress() on the same worker'', v)"
    using d by (simp add: Worker_progress_eq)
  then show "Request_check_finished E req w = (Inr False, u)"
    using assms c n by (cases y) (auto simp: bnd_def split: if_splits)
qed

text \<open>
  What the closing loop does: it returns \<^verbatim>\<open>Ok\<close> exactly after a check that found the request
  complete, and then frees it; it returns the error of a failed check, or the time-out after the
  last round, and leaks the request; a debug panic frees it while unwinding.
\<close>

definition close_polled ::
  "'u env \<Rightarrow> Worker \<Rightarrow> ptr \<Rightarrow> nat \<Rightarrow> 'u world \<Rightarrow> (Status + unit) outcome \<times> 'u world \<Rightarrow> bool" where
  "close_polled E wk p n w r =
     (let request = \<lparr>req_handle = Some p\<rparr>; check = Request_check_finished E request;
          pending = (\<lambda>k. rounds check (Worker_progress E wk) k w) in
      case r of
        (Ret (Inr _), w1) \<Rightarrow> \<exists>k<n. \<exists>v u. pending k = Some v \<and> check v = (Inr True, u) \<and>
          w1 = Request_free E request u \<and>
          (\<exists>polls. trace u = trace w @ polls \<and> filter (releases_request p) polls = [] \<and>
             trace w1 = trace w @ polls @ [ReqC (ucp_request_free p)])
      | (Ret (Inl err), w1) \<Rightarrow> Status_is_err err \<and>
          ((\<exists>k<n. \<exists>v. pending k = Some v \<and> check v = (Inl err, w1)) \<or>
           (pending n = Some w1 \<and> err = Status_TIMED_OUT)) \<and>
          (\<exists>polls. trace w1 = trace w @ polls \<and> filter (releases_request p) polls = [])
      | (Panic _, w1) \<Rightarrow> debug_assertions E \<and> atomics w (wk_progressing wk) \<and>
          (\<exists>u. check w = (Inr False, u) \<and> w1 = Request_drop E request u)
      | (Abort, _) \<Rightarrow> False)"

lemma uint_small: "uint p \<le> 1 \<Longrightarrow> p = 0 \<or> p = (1 :: ptr)"
proof -
  assume "uint p \<le> 1"
  then have "uint p = 0 \<or> uint p = 1" using uint_ge_0 [of p] by linarith
  then show ?thesis by (auto simp: word_uint_eq_iff)
qed

lemma close_rounds_polled:
  "close_polled E wk p n w (Ep_close_rounds E wk \<lparr>req_handle = Some p\<rparr> n w)"
proof -
  let ?r = "\<lparr>req_handle = Some p\<rparr>"
  obtain y u where sp: "spin (Request_check_finished E ?r) (Worker_progress E wk) n w = (y, u)"
    by fastforce
  obtain cs where cs: "trace u = trace w @ cs" "filter (releases_request p) cs = []"
    using polls_keep [OF sp] by blast
  note l = close_rounds_spin [of E wk ?r n w, unfolded sp]
  show ?thesis
  proof (cases y)
    case (Panic s)
    then show ?thesis
      using l spin_progress_panic [OF sp [unfolded Panic]] by (auto simp: close_polled_def)
  next
    case Abort
    then show ?thesis using spin_progress_outcome(1) [OF sp] by simp
  next
    case (Ret z)
    show ?thesis
    proof (cases z)
      case Finished
      then obtain k v where "k < n" "rounds (Request_check_finished E ?r) (Worker_progress E wk) k w = Some v"
        "Request_check_finished E ?r v = (Inr True, u)"
        using sp Ret by (auto simp: spin_Finished_iff)
      moreover have "trace (Request_free E ?r u) = trace w @ cs @ [ReqC (ucp_request_free p)]"
        using cs(1) by (simp add: Request_free_drop Request_drop_trace)
      ultimately show ?thesis using l Ret Finished cs unfolding close_polled_def Let_def by auto
    next
      case (Failed e)
      then obtain k v where "k < n" "rounds (Request_check_finished E ?r) (Worker_progress E wk) k w = Some v"
        and v: "Request_check_finished E ?r v = (Inl e, u)"
        using sp Ret by (auto simp: spin_Failed_iff)
      moreover have "Status_is_err e"
        using v by (auto simp: Request_check_finished_live Let_def split: if_splits)
      ultimately show ?thesis using l Ret Failed cs unfolding close_polled_def Let_def by auto
    next
      case Exhausted
      then have "rounds (Request_check_finished E ?r) (Worker_progress E wk) n w = Some u"
        using sp Ret by (simp add: spin_Exhausted_iff)
      with l Ret Exhausted cs show ?thesis unfolding close_polled_def Let_def by auto
    qed
  qed
qed

definition close_call :: "Ep \<Rightarrow> u32 \<Rightarrow> ffi_call" where
  "close_call e flags = EpC (ucp_ep_close_nbx (ep_handle e) (zeroed_ucp_request_param_t\<lparr>rp_flags := flags\<rparr>))"

lemma Ep_close_eq:
  "Ep_close E e wk flags w =
     (case ffi E (close_call e flags) w of (ret, w1) \<Rightarrow>
        (case status_ptr_to_result E (ret_ptr ret) of
           Ret (Inl err) \<Rightarrow> (Ret (Inl err), w1)
         | Ret (Inr None) \<Rightarrow> (Ret (Inr ()), w1)
         | Ret (Inr (Some request)) \<Rightarrow> Ep_close_rounds E wk request 1000000 w1
         | Panic s \<Rightarrow> (Panic s, w1)
         | Abort \<Rightarrow> (Abort, w1)))"
  by (auto simp: Ep_close_def close_call_def nbx_def bnd_def Let_def
      split: prod.splits outcome.splits sum.splits option.splits)

lemma status_ptr_err_is_err:
  "status_ptr_to_result E p = Ret (Inl e) \<Longrightarrow> Status_is_err e \<and> status_ptr_is_err p"
  by (auto simp: status_ptr_to_result_def Status_from_def split: if_splits)

lemma status_ptr_no_abort: "status_ptr_to_result E p \<noteq> Abort"
  by (simp add: status_ptr_to_result_def)

lemma status_ptr_panic_debug: "status_ptr_to_result E p = Panic s \<Longrightarrow> debug_assertions E"
  by (auto simp: status_ptr_to_result_def split: if_splits)

text \<open>C25: Closing an endpoint returns exactly what the close came to.  When UCX reports at once that
  it is done, \<^verbatim>\<open>Ok\<close>; when it reports an error status, that error; and for a close request,
  \<^verbatim>\<open>Ok\<close> exactly if one of at most a million checks, all before it pending, found the request
  complete, and then the request is freed, once and last.  A failed check gives its error and a
  million pending ones the time-out, and then the request is leaked, never freed, because it may
  still be in flight.  The one way out is the debug guard of \<^verbatim>\<open>progress\<close>, which panics right
  after the first check when the worker is already progressing; unwinding frees the request.\<close>

theorem ep_close_frees_iff_ok:
  "let (ret, w1) = ffi E (close_call e flags) w; p = ret_ptr ret in
   trace w1 = trace w @ [close_call e flags] \<and>
   (if 2 ^ 64 - 100 \<le> uint p
    then Ep_close E e wk flags w = (Ret (Inl (Status (status_from_ptr p))), w1)
    else if p = 0 \<or> p = 1 \<and> \<not> debug_assertions E then Ep_close E e wk flags w = (Ret (Inr ()), w1)
    else if p = 1 then \<exists>s. Ep_close E e wk flags w = (Panic s, w1)
    else close_polled E wk p 1000000 w1 (Ep_close E e wk flags w))"
proof -
  obtain ret w1 where f: "ffi E (close_call e flags) w = (ret, w1)" by fastforce
  note t = ffi_world(3) [OF f]
  let ?p = "ret_ptr ret"
  consider "2 ^ 64 - 100 \<le> uint ?p" | "?p = 0" | "?p = 1" | "1 < uint ?p" "uint ?p < 2 ^ 64 - 100"
    using uint_small [of ?p] by fastforce
  then show ?thesis
  proof cases
    case 4
    have "Ep_close E e wk flags w = Ep_close_rounds E wk \<lparr>req_handle = Some ?p\<rparr> 1000000 w1"
      using status_ptr_to_result_request [OF 4, of E] by (simp add: Ep_close_eq f)
    moreover have "?p \<noteq> 0" "?p \<noteq> 1" using 4(1) by auto
    ultimately show ?thesis using close_rounds_polled 4 t by (simp add: f Let_def)
  qed (use t in \<open>auto simp: f Ep_close_eq status_ptr_to_result_def status_ptr_is_err_iff
      Status_from_def status_as_usize_def\<close>)
qed

text \<open>
  The close call is made whether or not the endpoint's worker is still alive, and the flags it
  is given are not advertised in the attribute mask.
\<close>

lemma close_ignores_alive:
  "\<exists>rest. trace (snd (Ep_close E e wk flags (atomic_store (ep_worker_alive e) False w))) =
     trace w @ [close_call e flags] @ rest"
proof -
  let ?w = "atomic_store (ep_worker_alive e) False w"
  obtain ret w1 where f: "ffi E (close_call e flags) ?w = (ret, w1)" by fastforce
  note t = ffi_world(3) [OF f]
  show ?thesis
  proof (cases "\<exists>req. status_ptr_to_result E (ret_ptr ret) = Ret (Inr (Some req))")
    case False
    then show ?thesis using t
      by (auto simp: Ep_close_eq f split: outcome.splits sum.splits option.splits)
  next
    case True
    then obtain req where req: "status_ptr_to_result E (ret_ptr ret) = Ret (Inr (Some req))" by blast
    obtain y u where sp: "spin (Request_check_finished E req) (Worker_progress E wk) 1000000 w1 = (y, u)"
      by fastforce
    obtain cs where "trace u = trace w1 @ cs"
      using spin_poll_calls [of E req wk 1000000 w1] sp by auto
    then show ?thesis
      using t by (auto simp: Ep_close_eq f req close_rounds_spin sp
          Request_free_drop Request_drop_trace split: outcome.splits poll_end.splits)
  qed
qed

lemma close_flags_not_advertised:
  "\<exists>p. close_call e flags = EpC (ucp_ep_close_nbx (ep_handle e) p) \<and> rp_flags p = flags \<and>
     rp_op_attr_mask p AND OP_ATTR_FIELD_FLAGS = 0"
  by (simp add: close_call_def zeroed_ucp_request_param_t_def)

subsection \<open>Teardown and the worker's flag\<close>

text \<open>C26: Implicit and forced teardown never reach UCX once the worker is gone: \<^verbatim>\<open>destroy\<close>,
  \<^verbatim>\<open>disconnect_nb\<close> and the drop make no foreign call when the worker's flag is cleared.  While
  it is set they make exactly one, and \<^verbatim>\<open>disconnect_nb\<close> destroys the handle as well exactly
  when the disconnect failed at once.\<close>

theorem ep_teardown_guarded:
  "(let alive = atomics w (ep_worker_alive e);
        p = ret_ptr (fst (ffi E (EpC (ucp_disconnect_nb (ep_handle e))) w))
    in trace (Ep_destroy E e w) = trace w @ (if alive then [EpC (ucp_ep_destroy (ep_handle e))] else []) \<and>
       trace (snd (Ep_disconnect_nb E e w)) = trace w @
         (if \<not> alive then [] else [EpC (ucp_disconnect_nb (ep_handle e))] @
            (if status_ptr_is_err p then [EpC (ucp_ep_destroy (ep_handle e))] else [])) \<and>
       trace (snd (Ep_drop E e w)) = trace w @
         (if alive then [EpC (ucp_ep_close_nbx (ep_handle e) zeroed_ucp_request_param_t)] else []))"
proof -
  let ?c = "EpC (ucp_disconnect_nb (ep_handle e))"
  obtain ret w1 where f: "ffi E ?c w = (ret, w1)" by fastforce
  note t = ffi_world(3) [OF f]
  have err: "status_ptr_is_err (ret_ptr ret) \<longleftrightarrow>
      (\<exists>x. status_ptr_to_result E (ret_ptr ret) = Ret (Inl x))"
    by (simp add: status_ptr_to_result_def)
  have d: "trace (snd (Ep_disconnect_nb E e w)) = trace w @ [?c] @
      (if status_ptr_is_err (ret_ptr ret) then [EpC (ucp_ep_destroy (ep_handle e))] else [])"
    if "atomics w (ep_worker_alive e)"
    using that t err by (auto simp: Ep_disconnect_nb_def nbx_def bnd_def f
        split: outcome.splits sum.splits)
  have c: "trace (snd (Ep_drop E e w)) = trace w @
      [EpC (ucp_ep_close_nbx (ep_handle e) zeroed_ucp_request_param_t)]"
    if "atomics w (ep_worker_alive e)"
    using that by (auto simp: Ep_drop_def nbx_def bnd_def world_simps
        split: prod.splits outcome.splits sum.splits option.splits)
  show ?thesis
    using d c by (auto simp: f Ep_destroy_def Ep_disconnect_nb_def Ep_drop_def)
qed

subsection \<open>The creation parameters\<close>

datatype ep_param_op =
    Set_address RemoteWorkerAddress | Set_sockaddr SockAddr | Set_conn_request ConnRequest
  | Set_params_flags u64 | Set_err_mode ErrorHandlerMode | Set_err_handler code_ptr
  | Set_err_handler_arg ptr | Set_ep_user_data ptr | Set_ep_name bytes

fun epb_apply ::
  "'u env \<Rightarrow> ep_param_op \<Rightarrow> EpParamsBuilder \<times> 'u world \<Rightarrow> (EpParamsBuilder \<times> 'u world) option" where
  "epb_apply E (Set_address a) (b, w) = Some (epb_set_address a b, w)"
| "epb_apply E (Set_sockaddr a) (b, w) = Some (epb_set_sockaddr a b, w)"
| "epb_apply E (Set_conn_request r) (b, w) = Some (epb_set_conn_request E r b w)"
| "epb_apply E (Set_params_flags f) (b, w) = Some (epb_params_flags f b, w)"
| "epb_apply E (Set_err_mode m) (b, w) = Some (epb_err_mode m b, w)"
| "epb_apply E (Set_err_handler cb) (b, w) = Some (epb_err_handler cb b, w)"
| "epb_apply E (Set_err_handler_arg p) (b, w) = Some (epb_err_handler_arg p b, w)"
| "epb_apply E (Set_ep_user_data p) (b, w) = Some (epb_user_data p b, w)"
| "epb_apply E (Set_ep_name n) (b, w) = map_option (\<lambda>b1. (b1, w)) (ok_option (epb_set_name n b))"

fun epb_bit :: "ep_param_op \<Rightarrow> u64" where
  "epb_bit (Set_address a) = EP_PARAM_FIELD_REMOTE_ADDRESS"
| "epb_bit (Set_sockaddr a) = EP_PARAM_FIELD_SOCK_ADDR"
| "epb_bit (Set_conn_request r) = EP_PARAM_FIELD_CONN_REQUEST"
| "epb_bit (Set_params_flags f) = EP_PARAM_FIELD_FLAGS"
| "epb_bit (Set_err_mode m) = EP_PARAM_FIELD_ERR_HANDLING_MODE"
| "epb_bit (Set_err_handler cb) = EP_PARAM_FIELD_ERR_HANDLER"
| "epb_bit (Set_err_handler_arg p) = 0"
| "epb_bit (Set_ep_user_data p) = EP_PARAM_FIELD_USER_DATA"
| "epb_bit (Set_ep_name n) = EP_PARAM_FIELD_NAME"

lemmas epb_defs = epb_set_address_def epb_set_sockaddr_def epb_set_conn_request_def
  epb_params_flags_def epb_err_mode_def epb_err_handler_def epb_err_handler_arg_def
  epb_user_data_def

lemma ok_set_ep_name:
  "ok_option (epb_set_name n b) = (if 0 \<in> set n then None
     else Some (b\<lparr>epb_field_mask := epb_field_mask b OR EP_PARAM_FIELD_NAME, epb_name := Some n\<rparr>))"
  by (cases n rule: CString_new_cases) (simp_all add: epb_set_name_def del: CString_new_Inr)

interpretation ep_params:
  mask_builder "epb_apply E" "\<lambda>(b, w). epb_field_mask b" epb_bit for E :: "'u env"
proof unfold_locales
  fix op and bw bw' :: "EpParamsBuilder \<times> 'u world"
  obtain b w where bw: "bw = (b, w)" by fastforce
  assume "epb_apply E op bw = Some bw'"
  then show "(case bw' of (b, w) \<Rightarrow> epb_field_mask b) =
      (case bw of (b, w) \<Rightarrow> epb_field_mask b) OR epb_bit op"
    unfolding bw by (cases op) (auto simp: epb_defs ok_set_ep_name split: if_splits)
qed

text \<open>The name and the connection request a chain leaves in the builder.\<close>

fun op_name :: "ep_param_op \<Rightarrow> bytes option" where
  "op_name (Set_ep_name n) = Some n"
| "op_name _ = None"

fun op_conn_request :: "ep_param_op \<Rightarrow> ConnRequest option" where
  "op_conn_request (Set_conn_request r) = Some r"
| "op_conn_request _ = None"

lemma epb_apply_keeps:
  assumes "epb_apply E op bw = Some bw'"
  shows "epb_name (fst bw') = (case op_name op of None \<Rightarrow> epb_name (fst bw) | Some n \<Rightarrow> Some n)"
    and "epb_conn_request (fst bw') =
       (case op_conn_request op of None \<Rightarrow> epb_conn_request (fst bw) | Some r \<Rightarrow> Some r)"
    and "ep_name (epb_handle (fst bw')) = ep_name (epb_handle (fst bw))"
  using assms
  by (cases bw; cases op; auto simp: epb_defs ok_set_ep_name split: if_splits)+

definition bad_ep_name :: "ep_param_op \<Rightarrow> bool" where
  "bad_ep_name op = (case op_name op of Some n \<Rightarrow> 0 \<in> set n | None \<Rightarrow> False)"

lemma epb_chain_None: "chain (epb_apply E) ops bw = None \<longleftrightarrow> list_ex bad_ep_name ops"
proof (rule chain_None)
  fix op and bw :: "EpParamsBuilder \<times> 'a world"
  show "epb_apply E op bw = None \<longleftrightarrow> bad_ep_name op"
    by (cases bw; cases op) (simp_all add: ok_set_ep_name bad_ep_name_def)
qed

text \<open>C34: Building endpoint parameters and creating the endpoint: a chain of setters is refused
  exactly when a name holds a NUL; otherwise UCX is given the union of the bits of the setters
  called (the error handler's argument alone advertises nothing), the last name, and the handle
  of the last connection request, or null when there is none; and the built value owns that
  request.\<close>

theorem ep_params_built:
  "map_option (\<lambda>(b, w). let p = fst (epb_build b) in
       (ep_field_mask (epar_handle p), ep_name (epar_handle p), epar_conn_request p,
        trace (snd (Worker_create_ep E wk p w)) ! length (trace w)))
     (chain (epb_apply E) ops (EpParamsBuilder_new, w0)) =
   (if list_ex bad_ep_name ops then None
    else map_option (\<lambda>(b, w). let p = epar_handle (fst (epb_build b)) in
       (fold (OR) (map epb_bit ops) 0, last_set op_name ops, last_set op_conn_request ops,
        EpC (ucp_ep_create (wk_handle wk) (p\<lparr>ep_conn_request :=
          (case last_set op_conn_request ops of None \<Rightarrow> 0 | Some r \<Rightarrow> cr_handle r)\<rparr>))))
     (chain (epb_apply E) ops (EpParamsBuilder_new, w0)))"
proof (cases "chain (epb_apply E) ops (EpParamsBuilder_new, w0)")
  case None
  then show ?thesis by (simp add: epb_chain_None)
next
  case (Some bw)
  obtain b w where bw: "bw = (b, w)" by fastforce
  have ok: "\<not> list_ex bad_ep_name ops"
    using Some epb_chain_None [of E ops "(EpParamsBuilder_new, w0)"] by simp
  have m: "epb_field_mask b = fold (OR) (map epb_bit ops) 0"
    using ep_params.mask_chain [OF Some] by (simp add: EpParamsBuilder_new_def bw)
  have k: "epb_name b = last_set op_name ops" "epb_conn_request b = last_set op_conn_request ops"
    "ep_name (epb_handle b) = None"
    using chain_last_set [of "epb_apply E" "\<lambda>bw. epb_name (fst bw)" Some op_name,
        OF epb_apply_keeps(1) Some]
      chain_last_set [of "epb_apply E" "\<lambda>bw. epb_conn_request (fst bw)" Some op_conn_request,
        OF epb_apply_keeps(2) Some]
      chain_unset [of "epb_apply E" "\<lambda>bw. ep_name (epb_handle (fst bw))",
        OF epb_apply_keeps(3) Some]
    by (simp_all add: EpParamsBuilder_new_def zeroed_ucp_ep_params_t_def bw split: option.splits)
  let ?p = "fst (epb_build b)"
  have p: "ep_field_mask (epar_handle ?p) = fold (OR) (map epb_bit ops) 0"
    "ep_name (epar_handle ?p) = last_set op_name ops"
    "epar_conn_request ?p = last_set op_conn_request ops"
    using m k by (simp_all add: epb_build_def Let_def split: option.splits)
  have t: "trace (snd (Worker_create_ep E wk ?p w)) ! length (trace w) =
      EpC (ucp_ep_create (wk_handle wk) ((epar_handle ?p)\<lparr>ep_conn_request :=
        (case last_set op_conn_request ops of None \<Rightarrow> 0 | Some r \<Rightarrow> cr_handle r)\<rparr>))"
    by (auto simp: Arc_drop_trace world_simps Worker_create_ep_def Ep_new_def EpParams_conn_request_ptr_def
        EpParams_drop_def ConnRequest_drop_def ConnRequest_as_conn_request_ptr_def p(3) Let_def
        nth_append value_call_def split: prod.splits option.splits)
  show ?thesis using ok p t by (simp add: Some bw Let_def)
qed

end
