(* ===== verification/Teardown.thy ===== *)
theory Teardown
  imports Endpoint
begin

text \<open>
  The order of teardown across \<^verbatim>\<open>src/worker/worker.rs\<close> and \<^verbatim>\<open>src/ep/mod.rs\<close>.  A program owns a
  worker and its endpoints and may end them in any order, the worker before its endpoints
  included; the flag they share is what keeps a late endpoint from reaching UCX.
\<close>

subsection \<open>Operations that leave the worker alone\<close>

text \<open>From one world to another: the flags are as before and no worker was destroyed.\<close>

definition keeps :: "'u world \<Rightarrow> 'u world \<Rightarrow> bool" where
  "keeps w w1 \<longleftrightarrow> atomics w1 = atomics w \<and>
     (\<exists>cs. trace w1 = trace w @ cs \<and> filter destroys_worker cs = [])"

lemma keeps_refl [simp]: "keeps w w"
  by (simp add: keeps_def)

lemma keeps_trans [trans]: "keeps w w1 \<Longrightarrow> keeps w1 w2 \<Longrightarrow> keeps w w2"
  by (auto simp: keeps_def)

lemma keeps_ffi: "\<not> destroys_worker c \<Longrightarrow> keeps w (snd (ffi E c w))"
  by (simp add: keeps_def)

lemma keeps_ffi_unit: "\<not> destroys_worker c \<Longrightarrow> keeps w (ffi_unit E c w)"
  by (simp add: keeps_def)

lemma keeps_eprintln [simp]: "keeps w (eprintln s w1) \<longleftrightarrow> keeps w w1"
  by (simp add: keeps_def)

lemma not_destroys [simp]:
  "\<not> destroys_worker (EpC c1)" "\<not> destroys_worker (ReqC c2)" "\<not> destroys_worker (ListenerC c3)"
  "\<not> destroys_worker (WorkerC (ucp_worker_progress h))"
  by (simp_all add: destroys_worker_def)

lemma keeps_Request_drop: "keeps w (Request_drop E req w)"
  by (cases req) (auto simp: keeps_def Request_drop_def split: option.splits)

lemma keeps_nbx: "\<not> destroys_worker c \<Longrightarrow> nbx E c w = (r, w1) \<Longrightarrow> keeps w w1"
  by (auto simp: keeps_def nbx_def world_simps split: prod.splits)

lemma keeps_Arc_drop: "keeps w (Arc_drop E i w)"
  by (simp add: keeps_def Arc_drop_trace split: option.splits)

lemma keeps_progress: "Worker_progress E wk w = (r, w1) \<Longrightarrow> keeps w w1"
  by (auto simp: Worker_progress_eq keeps_def split: if_splits)

lemma keeps_spin:
  "keeps w (snd (spin (Request_check_finished E req) (Worker_progress E wk) n w))"
proof -
  obtain cs where "trace (snd (spin (Request_check_finished E req) (Worker_progress E wk) n w)) = trace w @ cs"
    "\<forall>c\<in>set cs. poll_call wk req c"
    using spin_poll_calls [of E req wk n w] by blast
  then show ?thesis
    using poll_call_not_destroy by (auto simp: keeps_def spin_progress_atomics filter_empty_conv)
qed

lemma keeps_Ep_destroy: "keeps w (Ep_destroy E e w)"
  by (simp add: Ep_destroy_def keeps_ffi_unit)

lemma keeps_Ep_disconnect: "keeps w (snd (Ep_disconnect_nb E e w))"
proof -
  obtain r w1 where n: "nbx E (EpC (ucp_disconnect_nb (ep_handle e))) w = (r, w1)" by fastforce
  have "keeps w1 (ffi_unit E (EpC (ucp_ep_destroy (ep_handle e))) w1)" by (simp add: keeps_ffi_unit)
  with keeps_nbx [OF _ n] show ?thesis
    by (auto simp: Ep_disconnect_nb_def bnd_def n intro: keeps_trans split: outcome.splits sum.splits)
qed

lemma keeps_Ep_drop: "keeps w (snd (Ep_drop E e w))"
proof -
  obtain r w1 where n: "nbx E (EpC (ucp_ep_close_nbx (ep_handle e) zeroed_ucp_request_param_t)) w = (r, w1)"
    by fastforce
  show ?thesis using keeps_nbx [OF _ n]
    by (auto simp: Ep_drop_def bnd_def n split: outcome.splits sum.splits option.splits)
qed

lemma keeps_Ep_close: "keeps w (snd (Ep_close E e wk flags w))"
proof -
  obtain ret w1 where f: "ffi E (close_call e flags) w = (ret, w1)" by fastforce
  have k: "keeps w w1" using keeps_ffi [of "close_call e flags" w E] f by (simp add: close_call_def)
  have c: "keeps w1 (snd (Ep_close_rounds E wk req n w1))" for req n
  proof -
    obtain y u where sp: "spin (Request_check_finished E req) (Worker_progress E wk) n w1 = (y, u)"
      by fastforce
    have "keeps w1 u" using keeps_spin [of w1 E req wk n] sp by simp
    with keeps_Request_drop [of u E req] show ?thesis
      by (auto simp: close_rounds_spin sp Request_free_drop intro: keeps_trans
          split: outcome.splits poll_end.splits)
  qed
  show ?thesis using k keeps_trans [OF k c]
    by (auto simp: Ep_close_eq f split: outcome.splits sum.splits option.splits)
qed

lemma keeps_create_ep: "keeps w (snd (Worker_create_ep E wk p w))"
proof -
  obtain r w1 where v: "value_call E (EpC (ucp_ep_create (wk_handle wk) (epar_handle q)))
      (\<lambda>ret. \<lparr>ep_handle = out_ptr ret, ep_worker_alive = wk_alive wk\<rparr>) w = (r, w1)"
    if "q = p\<lparr>epar_handle := (epar_handle p)\<lparr>ep_conn_request := EpParams_conn_request_ptr p\<rparr>\<rparr>" for q
    by fastforce
  have "keeps w w1" using v [OF refl] by (auto simp: keeps_def world_simps)
  then show ?thesis
    using v [OF refl]
    by (auto simp: Worker_create_ep_def Ep_new_def EpParams_drop_def ConnRequest_drop_def Let_def
        intro: keeps_trans keeps_Arc_drop split: option.splits)
qed

subsection \<open>A program's teardown\<close>

record 'u program =
  pg_world :: "'u world"
  pg_worker :: "Worker option"
  pg_eps :: "Ep list"

datatype teardown_op =
    Create_ep EpParams | Drop_ep nat | Destroy_ep nat | Disconnect_ep nat | Close_ep nat u32
  | Progress | Drop_worker

text \<open>The endpoint an operation consumes, by its position; what names none does nothing.\<close>

definition consume :: "nat \<Rightarrow> (Ep \<Rightarrow> 'u world \<Rightarrow> 'u world) \<Rightarrow> 'u program \<Rightarrow> 'u program" where
  "consume i f P = (if i < length (pg_eps P)
     then P\<lparr>pg_world := f (pg_eps P ! i) (pg_world P),
            pg_eps := take i (pg_eps P) @ drop (Suc i) (pg_eps P)\<rparr>
     else P)"

text \<open>Creating, closing and progressing borrow the worker, so the program must still own it.\<close>

fun teardown_step :: "'u env \<Rightarrow> teardown_op \<Rightarrow> 'u program \<Rightarrow> 'u program" where
  "teardown_step E (Create_ep p) P = (case pg_worker P of
      None \<Rightarrow> P
    | Some wk \<Rightarrow> (case Worker_create_ep E wk p (pg_world P) of
        (Inl _, w1) \<Rightarrow> P\<lparr>pg_world := w1\<rparr>
      | (Inr e, w1) \<Rightarrow> P\<lparr>pg_world := w1, pg_eps := e # pg_eps P\<rparr>))"
| "teardown_step E (Drop_ep i) P = consume i (\<lambda>e w. snd (Ep_drop E e w)) P"
| "teardown_step E (Destroy_ep i) P = consume i (\<lambda>e w. Ep_destroy E e w) P"
| "teardown_step E (Disconnect_ep i) P = consume i (\<lambda>e w. snd (Ep_disconnect_nb E e w)) P"
| "teardown_step E (Close_ep i flags) P = (case pg_worker P of
      None \<Rightarrow> P
    | Some wk \<Rightarrow> consume i (\<lambda>e w. snd (Ep_close E e wk flags w)) P)"
| "teardown_step E Progress P = (case pg_worker P of
      None \<Rightarrow> P
    | Some wk \<Rightarrow> P\<lparr>pg_world := snd (Worker_progress E wk (pg_world P))\<rparr>)"
| "teardown_step E Drop_worker P = (case pg_worker P of
      None \<Rightarrow> P
    | Some wk \<Rightarrow> P\<lparr>pg_world := snd (Worker_drop E wk (pg_world P)), pg_worker := None\<rparr>)"

text \<open>What the log holds after the first destruction of a worker.\<close>

definition after_destroy :: "ffi_call list \<Rightarrow> ffi_call list" where
  "after_destroy cs = tl (dropWhile (\<lambda>c. \<not> destroys_worker c) cs)"

text \<open>
  The invariant: every endpoint shares the worker's flag; while the program owns the worker
  none was destroyed, and afterwards the flag is cleared and nothing follows the destruction.
\<close>

definition teardown_inv :: "Worker \<Rightarrow> 'u program \<Rightarrow> bool" where
  "teardown_inv wk P \<longleftrightarrow> (\<forall>e\<in>set (pg_eps P). ep_worker_alive e = wk_alive wk) \<and>
     (case pg_worker P of
        Some v \<Rightarrow> v = wk \<and> filter destroys_worker (trace (pg_world P)) = []
      | None \<Rightarrow> \<not> atomics (pg_world P) (wk_alive wk) \<and> after_destroy (trace (pg_world P)) = [])"

lemma inv_keeps:
  assumes "teardown_inv wk P" and "pg_worker P = Some v" and "keeps (pg_world P) w1"
    and "\<forall>e\<in>set es. ep_worker_alive e = wk_alive wk"
  shows "teardown_inv wk (P\<lparr>pg_world := w1, pg_eps := es\<rparr>)"
  using assms by (auto simp: teardown_inv_def keeps_def)

text \<open>Once the worker is gone an endpoint's end leaves the log and the flags as they are.\<close>

lemma inv_consume:
  assumes "teardown_inv wk P"
    and "\<And>e w. keeps w (f e w)"
    and "\<And>e w. \<not> atomics w (ep_worker_alive e) \<Longrightarrow> trace (f e w) = trace w"
  shows "teardown_inv wk (consume i f P)"
proof (cases "i < length (pg_eps P)")
  case True
  let ?e = "pg_eps P ! i" and ?es = "take i (pg_eps P) @ drop (Suc i) (pg_eps P)"
  have es: "\<forall>e\<in>set ?es. ep_worker_alive e = wk_alive wk"
    using assms(1) by (auto simp: teardown_inv_def dest: in_set_takeD in_set_dropD)
  have e: "ep_worker_alive ?e = wk_alive wk" using assms(1) True by (simp add: teardown_inv_def)
  show ?thesis
  proof (cases "pg_worker P")
    case None
    then have "\<not> atomics (pg_world P) (ep_worker_alive ?e)" using assms(1) e by (simp add: teardown_inv_def)
    then show ?thesis using assms(1,2) assms(3) [of "pg_world P" ?e] None True es
      by (simp add: consume_def teardown_inv_def keeps_def)
  next
    case (Some v)
    then show ?thesis using inv_keeps [OF assms(1) Some assms(2) es] True by (simp add: consume_def)
  qed
qed (simp add: consume_def assms(1))

lemma after_destroy_snoc:
  assumes "filter destroys_worker cs = []" and "destroys_worker c"
  shows "after_destroy (cs @ [c]) = []"
proof -
  have "dropWhile (\<lambda>c. \<not> destroys_worker c) (cs @ [c]) = [c]"
    using assms by (induction cs) (auto split: if_splits)
  then show ?thesis by (simp add: after_destroy_def)
qed

lemma after_destroy_none:
  assumes "filter destroys_worker cs = []"
  shows "after_destroy cs = []"
proof -
  have "dropWhile (\<lambda>c. \<not> destroys_worker c) cs = []"
    using assms by (simp add: dropWhile_eq_Nil_conv filter_empty_conv)
  then show ?thesis by (simp only: after_destroy_def list.sel(2))
qed

lemma drop_worker_inv:
  assumes "teardown_inv wk P" and "pg_worker P = Some v"
  shows "teardown_inv wk (P\<lparr>pg_world := snd (Worker_drop E v (pg_world P)), pg_worker := None\<rparr>)"
proof -
  have v: "v = wk" "filter destroys_worker (trace (pg_world P)) = []"
    using assms by (auto simp: teardown_inv_def)
  obtain x w1 where d: "Worker_drop E wk (pg_world P) = (x, w1)" by fastforce
  let ?f = "WorkerC (ucp_worker_flush_nbx (wk_handle wk) zeroed_ucp_request_param_t)"
  have f: "\<not> destroys_worker ?f" by (simp add: destroys_worker_def)
  have "\<not> atomics w1 (wk_alive wk) \<and> after_destroy (trace w1) = []"
  proof (cases x)
    case (Ret u)
    then obtain mid where m: "trace w1 = trace (pg_world P) @ [?f] @ mid @
        [WorkerC (ucp_worker_destroy (wk_handle wk))]" "filter destroys_worker mid = []"
      "\<not> atomics w1 (wk_alive wk)"
      using worker_drop_ends [where E = E and wk = wk and w = "pg_world P"] d by auto
    have "after_destroy ((trace (pg_world P) @ [?f] @ mid) @ [WorkerC (ucp_worker_destroy (wk_handle wk))]) = []"
      using v(2) m(2) f by (intro after_destroy_snoc) (simp_all add: destroys_worker_def)
    then show ?thesis using m by simp
  next
    case (Panic s)
    then obtain mid where "trace w1 = trace (pg_world P) @ mid" "filter destroys_worker mid = []"
      "\<not> atomics w1 (wk_alive wk)"
      using worker_drop_ends [where E = E and wk = wk and w = "pg_world P"] d by auto
    then show ?thesis using v(2) after_destroy_none [of "trace w1"] by simp
  next
    case Abort
    then show ?thesis using worker_drop_ends [where E = E and wk = wk and w = "pg_world P"] d by auto
  qed
  then show ?thesis using assms(1) d v(1) by (simp add: teardown_inv_def)
qed

lemma teardown_step_inv: "teardown_inv wk P \<Longrightarrow> teardown_inv wk (teardown_step E op P)"
proof (cases op)
  case (Create_ep p)
  assume i: "teardown_inv wk P"
  show ?thesis
  proof (cases "pg_worker P")
    case None
    then show ?thesis using i by (simp add: Create_ep)
  next
    case (Some v)
    then have v: "v = wk" using i by (simp add: teardown_inv_def)
    obtain r w1 where c: "Worker_create_ep E wk p (pg_world P) = (r, w1)" by fastforce
    have k: "keeps (pg_world P) w1" using keeps_create_ep [of "pg_world P" E wk p] c by simp
    have es: "\<forall>e\<in>set (pg_eps P). ep_worker_alive e = wk_alive wk" using i by (simp add: teardown_inv_def)
    show ?thesis
    proof (cases r)
      case (Inl e)
      then show ?thesis using inv_keeps [OF i Some k es] by (simp add: Create_ep Some v c)
    next
      case (Inr e)
      have "ep_worker_alive e = wk_alive wk"
        using c Inr by (auto simp: Worker_create_ep_def Ep_new_def Let_def value_call_Inr split: prod.splits)
      then show ?thesis using inv_keeps [OF i Some k, of "e # pg_eps P"] es
        by (simp add: Create_ep Some v c Inr)
    qed
  qed
next
  case (Drop_ep j)
  assume "teardown_inv wk P"
  then show ?thesis unfolding Drop_ep teardown_step.simps
    by (rule inv_consume) (rule keeps_Ep_drop, simp add: Ep_drop_def)
next
  case (Destroy_ep j)
  assume "teardown_inv wk P"
  then show ?thesis unfolding Destroy_ep teardown_step.simps
    by (rule inv_consume) (rule keeps_Ep_destroy, simp add: Ep_destroy_def)
next
  case (Disconnect_ep j)
  assume "teardown_inv wk P"
  then show ?thesis unfolding Disconnect_ep teardown_step.simps
    by (rule inv_consume) (rule keeps_Ep_disconnect, simp add: Ep_disconnect_nb_def)
next
  case (Close_ep j flags)
  assume i: "teardown_inv wk P"
  show ?thesis
  proof (cases "pg_worker P")
    case None
    then show ?thesis using i by (simp add: Close_ep)
  next
    case (Some v)
    have "\<forall>e\<in>set (take j (pg_eps P) @ drop (Suc j) (pg_eps P)). ep_worker_alive e = wk_alive wk"
      using i by (auto simp: teardown_inv_def dest: in_set_takeD in_set_dropD)
    from inv_keeps [OF i Some keeps_Ep_close this] show ?thesis
      using i by (simp add: Close_ep Some consume_def)
  qed
next
  case Progress
  assume i: "teardown_inv wk P"
  show ?thesis
  proof (cases "pg_worker P")
    case None
    then show ?thesis using i by (simp add: Progress)
  next
    case (Some v)
    obtain r w1 where p: "Worker_progress E v (pg_world P) = (r, w1)" by fastforce
    have "\<forall>e\<in>set (pg_eps P). ep_worker_alive e = wk_alive wk" using i by (simp add: teardown_inv_def)
    from inv_keeps [OF i Some keeps_progress [OF p] this] show ?thesis by (simp add: Progress Some p)
  qed
next
  case Drop_worker
  assume i: "teardown_inv wk P"
  then show ?thesis using drop_worker_inv [OF i]
    by (cases "pg_worker P") (simp_all add: Drop_worker)
qed

subsection \<open>The abstract lifecycle\<close>

text \<open>
  What the two components promise together, without their state: whether the program owns the
  worker, how many endpoints it has left, and whether a worker was destroyed.  A step is
  labelled with its operation and the foreign calls it may make.
\<close>

record lifecycle =
  lc_worker :: bool
  lc_endpoints :: nat
  lc_destroyed :: bool

fun ends_ep :: "teardown_op \<Rightarrow> nat option" where
  "ends_ep (Drop_ep i) = Some i"
| "ends_ep (Destroy_ep i) = Some i"
| "ends_ep (Disconnect_ep i) = Some i"
| "ends_ep (Close_ep i flags) = Some i"
| "ends_ep _ = None"

fun borrows_worker :: "teardown_op \<Rightarrow> bool" where
  "borrows_worker (Drop_ep i) = False"
| "borrows_worker (Destroy_ep i) = False"
| "borrows_worker (Disconnect_ep i) = False"
| "borrows_worker _ = True"

definition enabled :: "teardown_op \<Rightarrow> lifecycle \<Rightarrow> bool" where
  "enabled op s \<longleftrightarrow> (borrows_worker op \<longrightarrow> lc_worker s) \<and>
     (case ends_ep op of None \<Rightarrow> True | Some i \<Rightarrow> i < lc_endpoints s)"

definition quiet :: "ffi_call list \<Rightarrow> bool" where
  "quiet cs \<longleftrightarrow> filter destroys_worker cs = []"

text \<open>An endpoint ends in silence when the worker is gone; only a debug build's drop of the worker
  may fail to destroy it.\<close>

inductive lifecycle_step :: "bool \<Rightarrow> teardown_op \<Rightarrow> lifecycle \<Rightarrow> ffi_call list \<Rightarrow> lifecycle \<Rightarrow> bool"
  for debug where
  Refused: "\<not> enabled op s \<Longrightarrow> lifecycle_step debug op s [] s"
| Opened: "lc_worker s \<Longrightarrow> quiet cs \<Longrightarrow>
    lifecycle_step debug (Create_ep p) s cs (s\<lparr>lc_endpoints := Suc (lc_endpoints s)\<rparr>)"
| Not_opened: "lc_worker s \<Longrightarrow> quiet cs \<Longrightarrow> lifecycle_step debug (Create_ep p) s cs s"
| Progressed: "lc_worker s \<Longrightarrow> quiet cs \<Longrightarrow> lifecycle_step debug Progress s cs s"
| Ended: "enabled op s \<Longrightarrow> ends_ep op = Some i \<Longrightarrow> quiet cs \<Longrightarrow> lc_worker s \<or> cs = [] \<Longrightarrow>
    lifecycle_step debug op s cs (s\<lparr>lc_endpoints := lc_endpoints s - 1\<rparr>)"
| Destroyed: "lc_worker s \<Longrightarrow> quiet us \<Longrightarrow> destroys_worker c \<Longrightarrow>
    lifecycle_step debug Drop_worker s (us @ [c]) (s\<lparr>lc_worker := False, lc_destroyed := True\<rparr>)"
| Panicked: "debug \<Longrightarrow> lc_worker s \<Longrightarrow> quiet cs \<Longrightarrow>
    lifecycle_step debug Drop_worker s cs (s\<lparr>lc_worker := False\<rparr>)"

inductive_cases lifecycle_stepE: "lifecycle_step debug op s cs s'"

text \<open>The promise: a program without its worker makes no foreign call and stays without it.\<close>

lemma lifecycle_silent:
  "lifecycle_step debug op s cs s' \<Longrightarrow> \<not> lc_worker s \<Longrightarrow>
     cs = [] \<and> \<not> lc_worker s' \<and> lc_destroyed s' = lc_destroyed s"
  by (elim lifecycle_stepE) auto

definition lifecycle_of :: "'u program \<Rightarrow> lifecycle" where
  "lifecycle_of P = \<lparr>lc_worker = (pg_worker P \<noteq> None), lc_endpoints = length (pg_eps P),
     lc_destroyed = (filter destroys_worker (trace (pg_world P)) \<noteq> [])\<rparr>"

lemma keeps_calls:
  assumes "keeps w w1"
  obtains cs where "trace w1 = trace w @ cs" and "quiet cs"
  using assms by (auto simp: keeps_def quiet_def)

lemma lifecycle_select [simp]:
  "lc_worker (lifecycle_of P) \<longleftrightarrow> pg_worker P \<noteq> None"
  "lc_endpoints (lifecycle_of P) = length (pg_eps P)"
  by (simp_all add: lifecycle_of_def)

lemma lifecycle_quiet:
  assumes "trace w1 = trace (pg_world P) @ cs" and "quiet cs"
  shows "lifecycle_of (P\<lparr>pg_world := w1, pg_eps := es\<rparr>) =
    (lifecycle_of P)\<lparr>lc_endpoints := length es\<rparr>"
    and "lifecycle_of (P\<lparr>pg_world := w1\<rparr>) = lifecycle_of P"
  using assms by (simp_all add: lifecycle_of_def quiet_def)

text \<open>A step of the program and of the lifecycle, with the same new calls.\<close>

definition simulated :: "'u env \<Rightarrow> teardown_op \<Rightarrow> 'u program \<Rightarrow> 'u program \<Rightarrow> bool" where
  "simulated E op P P' \<longleftrightarrow> (\<exists>cs. trace (pg_world P') = trace (pg_world P) @ cs \<and>
     lifecycle_step (debug_assertions E) op (lifecycle_of P) cs (lifecycle_of P'))"

lemma simulated_refused: "\<not> enabled op (lifecycle_of P) \<Longrightarrow> simulated E op P P"
  by (auto simp: simulated_def intro: Refused)

lemma consume_simulated:
  assumes "teardown_inv wk P" and "ends_ep op = Some i" and "borrows_worker op \<Longrightarrow> pg_worker P \<noteq> None"
    and "\<And>e w. keeps w (f e w)"
    and "pg_worker P = None \<Longrightarrow> (\<And>e w. \<not> atomics w (ep_worker_alive e) \<Longrightarrow> trace (f e w) = trace w)"
  shows "simulated E op P (consume i f P)"
proof (cases "i < length (pg_eps P)")
  case False
  then show ?thesis using assms(2) by (simp add: consume_def simulated_refused enabled_def)
next
  case True
  let ?e = "pg_eps P ! i"
  obtain cs where cs: "trace (f ?e (pg_world P)) = trace (pg_world P) @ cs" "quiet cs"
    using keeps_calls [OF assms(4)] by blast
  have silent: "lc_worker (lifecycle_of P) \<or> cs = []"
  proof (cases "pg_worker P")
    case None
    then have "\<not> atomics (pg_world P) (ep_worker_alive ?e)"
      using assms(1) True by (simp add: teardown_inv_def)
    then show ?thesis using assms(5) [OF None, of "pg_world P" ?e] cs by simp
  qed simp
  have en: "enabled op (lifecycle_of P)" using assms(2,3) True by (simp add: enabled_def)
  have l: "length (take i (pg_eps P) @ drop (Suc i) (pg_eps P)) = lc_endpoints (lifecycle_of P) - 1"
    using True by simp
  show ?thesis
    using Ended [OF en assms(2) cs(2) silent] lifecycle_quiet(1) [OF cs] cs(1) True l
    unfolding simulated_def consume_def by (intro exI [of _ cs]) (simp del: length_append)
qed

lemma quiet_simulated:
  assumes "keeps (pg_world P) w1"
    and "\<And>cs. quiet cs \<Longrightarrow> lifecycle_step (debug_assertions E) op (lifecycle_of P) cs
      ((lifecycle_of P)\<lparr>lc_endpoints := length es\<rparr>)"
  shows "simulated E op P (P\<lparr>pg_world := w1, pg_eps := es\<rparr>)"
proof -
  obtain cs where cs: "trace w1 = trace (pg_world P) @ cs" "quiet cs" using keeps_calls [OF assms(1)] by blast
  show ?thesis using assms(2) [OF cs(2)] cs lifecycle_quiet(1) [OF cs] by (auto simp: simulated_def)
qed

lemma drop_worker_simulated:
  assumes "pg_worker P = Some v" 
  shows "simulated E Drop_worker P
    (P\<lparr>pg_world := snd (Worker_drop E v (pg_world P)), pg_worker := None\<rparr>)"
proof -
  let ?s = "lifecycle_of P"
  obtain x w1 where d: "Worker_drop E v (pg_world P) = (x, w1)" by fastforce
  let ?f = "WorkerC (ucp_worker_flush_nbx (wk_handle v) zeroed_ucp_request_param_t)"
  let ?d = "WorkerC (ucp_worker_destroy (wk_handle v))"
  note ends = worker_drop_ends [where E = E and wk = v and w = "pg_world P", unfolded d]
  have s: "lc_worker ?s" using assms by simp
  show ?thesis
  proof (cases x)
    case (Ret u)
    then obtain mid where m: "trace w1 = trace (pg_world P) @ (?f # mid) @ [?d]"
      "filter destroys_worker mid = []"
      using ends by auto
    have c: "quiet (?f # mid)" "destroys_worker ?d" using m(2) by (simp_all add: quiet_def destroys_worker_def)
    have "lifecycle_of (P\<lparr>pg_world := w1, pg_worker := None\<rparr>) = ?s\<lparr>lc_worker := False, lc_destroyed := True\<rparr>"
      using m(1) c(2) by (simp add: lifecycle_of_def)
    then show ?thesis using Destroyed [OF s c] m(1) d by (auto simp: simulated_def)
  next
    case (Panic msg)
    then obtain mid where m: "trace w1 = trace (pg_world P) @ mid" "quiet mid" "debug_assertions E"
      using ends by (auto simp: quiet_def)
    have "lifecycle_of (P\<lparr>pg_world := w1, pg_worker := None\<rparr>) = ?s\<lparr>lc_worker := False\<rparr>"
      using m(1,2) by (simp add: lifecycle_of_def quiet_def)
    then show ?thesis using Panicked [OF m(3) s m(2)] m(1) d by (auto simp: simulated_def)
  qed (use ends in simp)
qed

lemma teardown_step_simulated:
  assumes "teardown_inv wk P"
  shows "simulated E op P (teardown_step E op P)"
proof (cases "borrows_worker op \<and> pg_worker P = None")
  case True
  then have "teardown_step E op P = P" "\<not> enabled op (lifecycle_of P)"
    by (cases op; simp add: enabled_def)+
  then show ?thesis by (simp add: simulated_refused)
next
  case False
  have eps: "P\<lparr>pg_world := w1\<rparr> = P\<lparr>pg_world := w1, pg_eps := pg_eps P\<rparr>" for w1 by simp
  have lc: "(lifecycle_of P)\<lparr>lc_endpoints := length (pg_eps P)\<rparr> = lifecycle_of P"
    by (simp add: lifecycle_of_def)
  show ?thesis
  proof (cases op)
    case (Create_ep p)
    with False obtain v where v: "pg_worker P = Some v" by auto
    obtain r w1 where c: "Worker_create_ep E v p (pg_world P) = (r, w1)" by fastforce
    have k: "keeps (pg_world P) w1" using keeps_create_ep [of "pg_world P" E v p] c by simp
    have w: "lc_worker (lifecycle_of P)" using v by simp
    show ?thesis
    proof (cases r)
      case (Inl e)
      have "simulated E op P (P\<lparr>pg_world := w1, pg_eps := pg_eps P\<rparr>)"
        using quiet_simulated [OF k, of E op "pg_eps P"] Not_opened [OF w] by (simp add: Create_ep lc)
      then show ?thesis by (simp add: Create_ep v c Inl)
    next
      case (Inr e)
      then show ?thesis using quiet_simulated [OF k, of E op "e # pg_eps P"] Opened [OF w]
        by (simp add: Create_ep v c)
    qed
  next
    case (Drop_ep j)
    show ?thesis unfolding Drop_ep teardown_step.simps
      by (rule consume_simulated [OF assms]) (simp, simp, rule keeps_Ep_drop, simp add: Ep_drop_def)
  next
    case (Destroy_ep j)
    show ?thesis unfolding Destroy_ep teardown_step.simps
      by (rule consume_simulated [OF assms]) (simp, simp, rule keeps_Ep_destroy, simp add: Ep_destroy_def)
  next
    case (Disconnect_ep j)
    show ?thesis unfolding Disconnect_ep teardown_step.simps
      by (rule consume_simulated [OF assms]) (simp, simp, rule keeps_Ep_disconnect, simp add: Ep_disconnect_nb_def)
  next
    case (Close_ep j flags)
    with False obtain v where v: "pg_worker P = Some v" by auto
    show ?thesis unfolding Close_ep teardown_step.simps v option.case
      by (rule consume_simulated [OF assms]) (simp_all add: keeps_Ep_close v)
  next
    case Progress
    with False obtain v where v: "pg_worker P = Some v" by auto
    obtain r w1 where p: "Worker_progress E v (pg_world P) = (r, w1)" by fastforce
    have "simulated E op P (P\<lparr>pg_world := w1, pg_eps := pg_eps P\<rparr>)"
      using quiet_simulated [OF keeps_progress [OF p], of E op "pg_eps P"] Progressed v
      by (simp add: Progress lc)
    then show ?thesis by (simp add: Progress v p)
  next
    case Drop_worker
    with False obtain v where v: "pg_worker P = Some v" by auto
    show ?thesis using drop_worker_simulated [OF v] by (simp add: Drop_worker v)
  qed
qed

subsection \<open>Properties\<close>

text \<open>The invariant from a new worker on.\<close>

lemma teardown_run_inv: "teardown_inv wk P \<Longrightarrow> teardown_inv wk (fold (teardown_step E) ops P)"
  by (induction ops arbitrary: P) (simp_all add: teardown_step_inv)

lemma new_worker_inv:
  assumes "Worker_new E ctx params (w\<lparr>trace := []\<rparr>) = (Inr wk, w1)"
  shows "teardown_inv wk \<lparr>pg_world = w1, pg_worker = Some wk, pg_eps = []\<rparr>"
proof -
  have "filter destroys_worker (trace w1) = []"
    using assms by (auto simp: Worker_new_def atomic_new_def Let_def ffi_world destroys_worker_def
        split: prod.splits sum.splits)
  then show ?thesis by (simp add: teardown_inv_def)
qed

text \<open>C1: No endpoint reaches UCX after its worker was destroyed.  From a new worker, after any
  sequence of creating, dropping, destroying, disconnecting and closing endpoints, progressing,
  and dropping the worker at any point: nothing at all follows the destruction in the log of
  foreign calls, a worker still owned was never destroyed, and one that is gone is marked dead.\<close>

theorem teardown_order:
  "case Worker_new E ctx params (w\<lparr>trace := []\<rparr>) of
     (Inl _, _) \<Rightarrow> True
   | (Inr wk, w1) \<Rightarrow>
       (let P = fold (teardown_step E) ops \<lparr>pg_world = w1, pg_worker = Some wk, pg_eps = []\<rparr> in
        case pg_worker P of
          Some v \<Rightarrow> v = wk \<and> filter destroys_worker (trace (pg_world P)) = []
        | None \<Rightarrow> \<not> atomics (pg_world P) (wk_alive wk) \<and> after_destroy (trace (pg_world P)) = [])"
proof -
  obtain r w1 where n: "Worker_new E ctx params (w\<lparr>trace := []\<rparr>) = (r, w1)" by fastforce
  show ?thesis
  proof (cases r)
    case (Inl e)
    then show ?thesis by (simp add: n)
  next
    case (Inr wk)
    from teardown_run_inv [OF new_worker_inv [OF n [unfolded Inr]], of E ops]
    show ?thesis by (simp add: n Inr Let_def teardown_inv_def)
  qed
qed

text \<open>C2: The worker and its endpoints refine the lifecycle: from a new worker, after any sequence of
  operations, the next operation is a step of the abstract machine that makes the same foreign
  calls.  A refused operation makes none, an endpoint that ends after its worker makes none, and
  dropping the worker makes its destruction the last call, except when a debug build panics.\<close>

theorem teardown_refines_lifecycle:
  "case Worker_new E ctx params (w\<lparr>trace := []\<rparr>) of
     (Inl _, _) \<Rightarrow> True
   | (Inr wk, w1) \<Rightarrow>
       (let P0 = \<lparr>pg_world = w1, pg_worker = Some wk, pg_eps = []\<rparr>;
            P = fold (teardown_step E) ops P0;
            P' = teardown_step E op P
        in lifecycle_of P0 = \<lparr>lc_worker = True, lc_endpoints = 0, lc_destroyed = False\<rparr> \<and>
           (\<exists>cs. trace (pg_world P') = trace (pg_world P) @ cs \<and>
              lifecycle_step (debug_assertions E) op (lifecycle_of P) cs (lifecycle_of P')))"
proof -
  obtain r w1 where n: "Worker_new E ctx params (w\<lparr>trace := []\<rparr>) = (r, w1)" by fastforce
  show ?thesis
  proof (cases r)
    case (Inl e)
    then show ?thesis by (simp add: n)
  next
    case (Inr wk)
    note i = new_worker_inv [OF n [unfolded Inr]]
    from teardown_step_simulated [OF teardown_run_inv [OF i], of E op E ops] i
    show ?thesis by (simp add: n Inr Let_def simulated_def teardown_inv_def lifecycle_of_def)
  qed
qed

end
