(* ===== verification/Context_Config.thy ===== *)
theory Context_Config
  imports Worker
begin

text \<open>
  \<^verbatim>\<open>src/context.rs\<close> and \<^verbatim>\<open>src/config.rs\<close>: reading, changing and printing a UCX configuration,
  the context's parameter builder, the checks \<^verbatim>\<open>Context::new\<close> makes before it calls UCX, and
  the context's queries.
\<close>

datatype ConfigError = Nul NulError | Ucs Status

definition ConfigError_from :: "NulError \<Rightarrow> ConfigError" where
  "ConfigError_from e = Nul e"

record Config =
  config_handle :: ptr

record Context =
  context_handle :: ptr

subsection \<open>Configurations\<close>

definition Config_read ::
  "'u env \<Rightarrow> bytes \<Rightarrow> bytes \<Rightarrow> 'u world \<Rightarrow> (ConfigError + Config) \<times> 'u world" where
  "Config_read E name file w = (case CString_new name of
      Inl e \<Rightarrow> (Inl (ConfigError_from e), w)
    | Inr c_name \<Rightarrow> (case CString_new file of
        Inl e \<Rightarrow> (Inl (ConfigError_from e), w)
      | Inr c_file \<Rightarrow>
          (case value_call E (CtxC (ucp_config_read c_name c_file))
              (\<lambda>ret. \<lparr>config_handle = out_ptr ret\<rparr>) w of
             (Inl s, w1) \<Rightarrow> (Inl (Ucs s), w1)
           | (Inr c, w1) \<Rightarrow> (Inr c, w1))))"

definition Config_print :: "'u env \<Rightarrow> Config \<Rightarrow> bytes \<Rightarrow> u32 \<Rightarrow> i32 \<Rightarrow> 'u world \<Rightarrow> 'u world" where
  "Config_print E c title print_flags fd w = (case CString_new title of
      Inl _ \<Rightarrow> w
    | Inr t \<Rightarrow> print_to E fd
        (\<lambda>stream. CtxC (ucp_config_print (config_handle c) stream t print_flags)) w)"

definition Config_drop :: "'u env \<Rightarrow> Config \<Rightarrow> 'u world \<Rightarrow> 'u world" where
  "Config_drop E c = ffi_unit E (CtxC (ucp_config_release (config_handle c)))"

definition config_modify ::
  "'u env \<Rightarrow> ptr \<Rightarrow> bytes \<Rightarrow> bytes \<Rightarrow> 'u world \<Rightarrow> (ConfigError + unit) \<times> 'u world" where
  "config_modify E config name val w = (case CString_new name of
      Inl e \<Rightarrow> (Inl (Nul e), w)
    | Inr cname \<Rightarrow> (case CString_new val of
        Inl e \<Rightarrow> (Inl (Nul e), w)
      | Inr cvalue \<Rightarrow>
          (case status_call E (CtxC (ucp_config_modify config cname cvalue)) w of
             (Inl s, w1) \<Rightarrow> (Inl (Ucs s), w1)
           | (Inr c, w1) \<Rightarrow> (Inr c, w1))))"

subsection \<open>The parameter builder\<close>

text \<open>The feature flags, \<^verbatim>\<open>Flags\<close>.\<close>

definition Flags_Tag :: u64 where [simp]: "Flags_Tag = 1"
definition Flags_Rma :: u64 where [simp]: "Flags_Rma = 2"
definition Flags_Amo32 :: u64 where [simp]: "Flags_Amo32 = 4"
definition Flags_Amo64 :: u64 where [simp]: "Flags_Amo64 = 8"
definition Flags_Wakeup :: u64 where [simp]: "Flags_Wakeup = 16"
definition Flags_Stream :: u64 where [simp]: "Flags_Stream = 32"
definition Flags_Am :: u64 where [simp]: "Flags_Am = 64"
definition Flags_ExportedMemH :: u64 where [simp]: "Flags_ExportedMemH = 128"

record ContextParamsBuilder =
  cpb_handle :: ucp_params_t
  cpb_field_mask :: u64
  cpb_name :: "bytes option"
  cpb_shared :: bool

record ContextParams =
  cpar_handle :: ucp_params_t
  cpar_name :: "bytes option"
  cpar_mt_workers_shared :: bool

definition PARAM_FIELD_FEATURES :: u64 where [simp]: "PARAM_FIELD_FEATURES = 1"
definition PARAM_FIELD_REQUEST_SIZE :: u64 where [simp]: "PARAM_FIELD_REQUEST_SIZE = 2"
definition PARAM_FIELD_REQUEST_INIT :: u64 where [simp]: "PARAM_FIELD_REQUEST_INIT = 4"
definition PARAM_FIELD_REQUEST_CLEANUP :: u64 where [simp]: "PARAM_FIELD_REQUEST_CLEANUP = 8"
definition PARAM_FIELD_TAG_SENDER_MASK :: u64 where [simp]: "PARAM_FIELD_TAG_SENDER_MASK = 16"
definition PARAM_FIELD_MT_WORKERS_SHARED :: u64 where [simp]: "PARAM_FIELD_MT_WORKERS_SHARED = 32"
definition PARAM_FIELD_ESTIMATED_NUM_EPS :: u64 where [simp]: "PARAM_FIELD_ESTIMATED_NUM_EPS = 64"
definition PARAM_FIELD_ESTIMATED_NUM_PPN :: u64 where [simp]: "PARAM_FIELD_ESTIMATED_NUM_PPN = 128"
definition PARAM_FIELD_NAME :: u64 where [simp]: "PARAM_FIELD_NAME = 256"

definition ContextParamsBuilder_new :: ContextParamsBuilder where
  "ContextParamsBuilder_new = \<lparr>cpb_handle = zeroed_ucp_params_t, cpb_field_mask = 0,
     cpb_name = None, cpb_shared = False\<rparr>"

definition cpb_features :: "u64 \<Rightarrow> ContextParamsBuilder \<Rightarrow> ContextParamsBuilder" where
  "cpb_features f b = b\<lparr>cpb_field_mask := cpb_field_mask b OR PARAM_FIELD_FEATURES,
     cpb_handle := (cpb_handle b)\<lparr>cp_features := f\<rparr>\<rparr>"

definition cpb_request_size :: "usize \<Rightarrow> ContextParamsBuilder \<Rightarrow> ContextParamsBuilder" where
  "cpb_request_size n b = b\<lparr>cpb_field_mask := cpb_field_mask b OR PARAM_FIELD_REQUEST_SIZE,
     cpb_handle := (cpb_handle b)\<lparr>cp_request_size := n\<rparr>\<rparr>"

definition cpb_request_init :: "ptr \<Rightarrow> ContextParamsBuilder \<Rightarrow> ContextParamsBuilder" where
  "cpb_request_init cb b = b\<lparr>cpb_field_mask := cpb_field_mask b OR PARAM_FIELD_REQUEST_INIT,
     cpb_handle := (cpb_handle b)\<lparr>cp_request_init := Some (User_code cb)\<rparr>\<rparr>"

definition cpb_request_cleanup :: "ptr \<Rightarrow> ContextParamsBuilder \<Rightarrow> ContextParamsBuilder" where
  "cpb_request_cleanup cb b = b\<lparr>cpb_field_mask := cpb_field_mask b OR PARAM_FIELD_REQUEST_CLEANUP,
     cpb_handle := (cpb_handle b)\<lparr>cp_request_cleanup := Some (User_code cb)\<rparr>\<rparr>"

definition cpb_tag_sender_mask :: "u64 \<Rightarrow> ContextParamsBuilder \<Rightarrow> ContextParamsBuilder" where
  "cpb_tag_sender_mask m b = b\<lparr>cpb_field_mask := cpb_field_mask b OR PARAM_FIELD_TAG_SENDER_MASK,
     cpb_handle := (cpb_handle b)\<lparr>cp_tag_sender_mask := m\<rparr>\<rparr>"

definition cpb_mt_workers_shared :: "i32 \<Rightarrow> ContextParamsBuilder \<Rightarrow> ContextParamsBuilder" where
  "cpb_mt_workers_shared s b = b\<lparr>cpb_field_mask := cpb_field_mask b OR PARAM_FIELD_MT_WORKERS_SHARED,
     cpb_handle := (cpb_handle b)\<lparr>cp_mt_workers_shared := s\<rparr>, cpb_shared := (s \<noteq> 0)\<rparr>"

definition cpb_estimated_num_eps :: "usize \<Rightarrow> ContextParamsBuilder \<Rightarrow> ContextParamsBuilder" where
  "cpb_estimated_num_eps n b = b\<lparr>cpb_field_mask := cpb_field_mask b OR PARAM_FIELD_ESTIMATED_NUM_EPS,
     cpb_handle := (cpb_handle b)\<lparr>cp_estimated_num_eps := n\<rparr>\<rparr>"

definition cpb_estimated_num_ppn :: "usize \<Rightarrow> ContextParamsBuilder \<Rightarrow> ContextParamsBuilder" where
  "cpb_estimated_num_ppn n b = b\<lparr>cpb_field_mask := cpb_field_mask b OR PARAM_FIELD_ESTIMATED_NUM_PPN,
     cpb_handle := (cpb_handle b)\<lparr>cp_estimated_num_ppn := n\<rparr>\<rparr>"

definition cpb_set_name :: "bytes \<Rightarrow> ContextParamsBuilder \<Rightarrow> NulError + ContextParamsBuilder" where
  "cpb_set_name name b = (case CString_new name of
      Inl e \<Rightarrow> Inl e
    | Inr name_cs \<Rightarrow> Inr (b\<lparr>cpb_field_mask := cpb_field_mask b OR PARAM_FIELD_NAME,
        cpb_name := Some name_cs\<rparr>))"

definition cpb_build :: "ContextParamsBuilder \<Rightarrow> ContextParams \<times> ContextParamsBuilder" where
  "cpb_build b =
     (let params = (cpb_handle b)\<lparr>cp_field_mask := cpb_field_mask b\<rparr>;
          b1 = b\<lparr>cpb_handle := params\<rparr>;
          ucp_param = \<lparr>cpar_handle = params, cpar_name = None, cpar_mt_workers_shared = cpb_shared b\<rparr>
      in (case cpb_name b1 of
            None \<Rightarrow> (ucp_param, b1)
          | Some new_name \<Rightarrow>
              (ucp_param\<lparr>cpar_handle := params\<lparr>cp_name := Some new_name\<rparr>, cpar_name := Some new_name\<rparr>,
               b1\<lparr>cpb_name := None\<rparr>)))"

subsection \<open>Contexts\<close>

definition UCP_API_MAJOR :: u32 where "UCP_API_MAJOR = 1"
definition UCP_API_MINOR :: u32 where "UCP_API_MINOR = 18"

definition Context_new ::
  "'u env \<Rightarrow> Config \<Rightarrow> ContextParams \<Rightarrow> 'u world \<Rightarrow> (Status + Context) \<times> 'u world" where
  "Context_new E config params w =
     (let h = cpar_handle params in
      if cp_field_mask h AND PARAM_FIELD_FEATURES = 0 \<or> cp_features h = 0
      then (Inl Status_INVALID_PARAM, w)
      else if \<not> cpar_mt_workers_shared params \<or> cp_field_mask h AND PARAM_FIELD_MT_WORKERS_SHARED = 0 \<or>
        cp_mt_workers_shared h = 0
      then (Inl Status_INVALID_PARAM, w)
      else value_call E (CtxC (ucp_init_version UCP_API_MAJOR UCP_API_MINOR h (config_handle config)))
        (\<lambda>ret. \<lparr>context_handle = out_ptr ret\<rparr>) w)"

definition Context_worker_create ::
  "'u env \<Rightarrow> Context \<Rightarrow> WorkerParams \<Rightarrow> 'u world \<Rightarrow> (Status + Worker) \<times> 'u world" where
  "Context_worker_create E c params = Worker_new E (context_handle c) params"

definition Context_print_info :: "'u env \<Rightarrow> Context \<Rightarrow> i32 \<Rightarrow> 'u world \<Rightarrow> 'u world" where
  "Context_print_info E c fd =
     print_to E fd (\<lambda>stream. CtxC (ucp_context_print_info (context_handle c) stream))"

definition Context_drop :: "'u env \<Rightarrow> Context \<Rightarrow> 'u world \<Rightarrow> 'u world" where
  "Context_drop E c = ffi_unit E (CtxC (ucp_cleanup (context_handle c)))"

definition UCP_CONTEXT_ATTR_FIELD_REQUEST_SIZE :: u64 where
  "UCP_CONTEXT_ATTR_FIELD_REQUEST_SIZE = 1"

definition UCP_CONTEXT_ATTR_FIELD_THREAD_MODE :: u64 where
  "UCP_CONTEXT_ATTR_FIELD_THREAD_MODE = 2"

definition UCP_CONTEXT_ATTR_FIELD_MEMORY_TYPES :: u64 where
  "UCP_CONTEXT_ATTR_FIELD_MEMORY_TYPES = 4"

definition UCP_CONTEXT_ATTR_FIELD_NAME :: u64 where "UCP_CONTEXT_ATTR_FIELD_NAME = 8"

record ContextAttr =
  ca_request_size :: usize
  ca_thread_mode :: ThreadMode
  ca_memory_types :: u64
  ca_name :: bytes

definition context_query ::
  "'u env \<Rightarrow> ptr \<Rightarrow> u64 \<Rightarrow> 'u world \<Rightarrow> (Status + ContextAttr) \<times> 'u world" where
  "context_query E context msk =
     value_call E (CtxC (ucp_context_query context (zeroed_ucp_context_attr\<lparr>cattr_field_mask := msk\<rparr>)))
       (\<lambda>ret. let attr = out_context_attr ret in
         \<lparr>ca_request_size = cattr_request_size attr,
          ca_thread_mode = ThreadMode_from_ffi (cattr_thread_mode attr),
          ca_memory_types = cattr_memory_types attr,
          ca_name = (if msk AND UCP_CONTEXT_ATTR_FIELD_NAME \<noteq> 0
            then to_string_lossy (CStr_from_ptr (cattr_name attr)) else [])\<rparr>)"

definition context_print_info :: "'u env \<Rightarrow> ptr \<Rightarrow> i32 \<Rightarrow> 'u world \<Rightarrow> 'u world" where
  "context_print_info E context fd =
     print_to E fd (\<lambda>stream. CtxC (ucp_context_print_info context stream))"

subsection \<open>The builder's chains\<close>

datatype context_param_op =
    Features u64 | Request_size usize | Request_init ptr | Request_cleanup ptr
  | Tag_sender_mask u64 | Mt_workers_shared i32 | Estimated_num_eps usize
  | Estimated_num_ppn usize | Context_name bytes

fun cpb_apply :: "context_param_op \<Rightarrow> ContextParamsBuilder \<Rightarrow> ContextParamsBuilder option" where
  "cpb_apply (Features f) b = Some (cpb_features f b)"
| "cpb_apply (Request_size n) b = Some (cpb_request_size n b)"
| "cpb_apply (Request_init p) b = Some (cpb_request_init p b)"
| "cpb_apply (Request_cleanup p) b = Some (cpb_request_cleanup p b)"
| "cpb_apply (Tag_sender_mask m) b = Some (cpb_tag_sender_mask m b)"
| "cpb_apply (Mt_workers_shared s) b = Some (cpb_mt_workers_shared s b)"
| "cpb_apply (Estimated_num_eps n) b = Some (cpb_estimated_num_eps n b)"
| "cpb_apply (Estimated_num_ppn n) b = Some (cpb_estimated_num_ppn n b)"
| "cpb_apply (Context_name n) b = ok_option (cpb_set_name n b)"

fun cpb_bit :: "context_param_op \<Rightarrow> u64" where
  "cpb_bit (Features f) = PARAM_FIELD_FEATURES"
| "cpb_bit (Request_size n) = PARAM_FIELD_REQUEST_SIZE"
| "cpb_bit (Request_init p) = PARAM_FIELD_REQUEST_INIT"
| "cpb_bit (Request_cleanup p) = PARAM_FIELD_REQUEST_CLEANUP"
| "cpb_bit (Tag_sender_mask m) = PARAM_FIELD_TAG_SENDER_MASK"
| "cpb_bit (Mt_workers_shared s) = PARAM_FIELD_MT_WORKERS_SHARED"
| "cpb_bit (Estimated_num_eps n) = PARAM_FIELD_ESTIMATED_NUM_EPS"
| "cpb_bit (Estimated_num_ppn n) = PARAM_FIELD_ESTIMATED_NUM_PPN"
| "cpb_bit (Context_name n) = PARAM_FIELD_NAME"

lemmas cpb_defs = cpb_features_def cpb_request_size_def cpb_request_init_def
  cpb_request_cleanup_def cpb_tag_sender_mask_def cpb_mt_workers_shared_def
  cpb_estimated_num_eps_def cpb_estimated_num_ppn_def

lemma cpb_set_name_eq:
  "ok_option (cpb_set_name n b) = (if 0 \<in> set n then None
     else Some (b\<lparr>cpb_field_mask := cpb_field_mask b OR PARAM_FIELD_NAME, cpb_name := Some n\<rparr>))"
  by (cases n rule: CString_new_cases) (simp_all add: cpb_set_name_def del: CString_new_Inr)

interpretation context_params: mask_builder cpb_apply cpb_field_mask cpb_bit
proof unfold_locales
  fix op b b'
  assume "cpb_apply op b = Some b'"
  then show "cpb_field_mask b' = cpb_field_mask b OR cpb_bit op"
    by (cases op) (auto simp: cpb_defs cpb_set_name_eq split: if_splits)
qed

text \<open>What a setter leaves in the features and in the sharing flag.\<close>

fun op_features :: "context_param_op \<Rightarrow> u64 option" where
  "op_features (Features f) = Some f"
| "op_features _ = None"

fun op_shared :: "context_param_op \<Rightarrow> i32 option" where
  "op_shared (Mt_workers_shared s) = Some s"
| "op_shared _ = None"

lemma cpb_apply_keeps:
  assumes "cpb_apply op b = Some b'"
  shows "cp_features (cpb_handle b') =
       (case op_features op of None \<Rightarrow> cp_features (cpb_handle b) | Some f \<Rightarrow> f)"
    and "cp_mt_workers_shared (cpb_handle b') =
       (case op_shared op of None \<Rightarrow> cp_mt_workers_shared (cpb_handle b) | Some s \<Rightarrow> s)"
    and "cpb_shared b' = (case op_shared op of None \<Rightarrow> cpb_shared b | Some s \<Rightarrow> s \<noteq> 0)"
  using assms by (cases op; auto simp: cpb_defs cpb_set_name_eq split: if_splits)+

lemma cpb_bits:
  "bit (cpb_bit op) 0 \<longleftrightarrow> op_features op \<noteq> None" "bit (cpb_bit op) 5 \<longleftrightarrow> op_shared op \<noteq> None"
proof -
  have b: "bit (x :: u64) 0 \<longleftrightarrow> x AND 1 \<noteq> 0" "bit x 5 \<longleftrightarrow> x AND 32 \<noteq> 0" for x
    using and_exp_eq_0_iff_not_bit [of x 0] and_exp_eq_0_iff_not_bit [of x 5] by simp_all
  show "bit (cpb_bit op) 0 \<longleftrightarrow> op_features op \<noteq> None" "bit (cpb_bit op) 5 \<longleftrightarrow> op_shared op \<noteq> None"
    by (cases op; simp add: b)+
qed

lemma last_set_None: "last_set f ops = None \<longleftrightarrow> (\<forall>op\<in>set ops. f op = None)"
  by (induction ops) (auto split: option.splits)

text \<open>C32: \<^verbatim>\<open>Context::new\<close> refuses, before any call to UCX, every parameter set built without a
  non-empty feature set or without a non-zero sharing flag; every other one reaches UCX, with
  the version the crate was built for and exactly those parameters.\<close>

theorem context_new_validates:
  "case chain cpb_apply ops ContextParamsBuilder_new of
     None \<Rightarrow> \<exists>n. Context_name n \<in> set ops \<and> 0 \<in> set n
   | Some b \<Rightarrow>
      (let p = fst (cpb_build b);
           features_ok = (case last_set op_features ops of None \<Rightarrow> False | Some f \<Rightarrow> f \<noteq> 0);
           shared_ok = (case last_set op_shared ops of None \<Rightarrow> False | Some s \<Rightarrow> s \<noteq> 0)
       in if features_ok \<and> shared_ok
          then trace (snd (Context_new E c p w)) =
            trace w @ [CtxC (ucp_init_version 1 18 (cpar_handle p) (config_handle c))]
          else Context_new E c p w = (Inl Status_INVALID_PARAM, w))"
proof (cases "chain cpb_apply ops ContextParamsBuilder_new")
  case None
  have "cpb_apply op b = None \<longleftrightarrow> (\<exists>n. op = Context_name n \<and> 0 \<in> set n)" for op b
    by (cases op) (auto simp: cpb_set_name_eq)
  from chain_None [of cpb_apply, OF this] None
  have "\<exists>n. Context_name n \<in> set ops \<and> 0 \<in> set n" by (auto simp: list_ex_iff)
  then show ?thesis by (simp add: None)
next
  case (Some b)
  have mask: "bit (cpb_field_mask b) n \<longleftrightarrow> (\<exists>op\<in>set ops. bit (cpb_bit op) n)" for n
    using context_params.bit_mask_chain [OF Some] by (simp add: ContextParamsBuilder_new_def)
  have f: "cp_features (cpb_handle b) = (case last_set op_features ops of None \<Rightarrow> 0 | Some f \<Rightarrow> f)"
    using chain_last_set [of cpb_apply "\<lambda>b. cp_features (cpb_handle b)" "\<lambda>x. x" op_features,
        OF cpb_apply_keeps(1) Some]
    by (cases "last_set op_features ops") (simp_all add: ContextParamsBuilder_new_def zeroed_ucp_params_t_def)
  have s: "cp_mt_workers_shared (cpb_handle b) = (case last_set op_shared ops of None \<Rightarrow> 0 | Some s \<Rightarrow> s)"
    using chain_last_set [of cpb_apply "\<lambda>b. cp_mt_workers_shared (cpb_handle b)" "\<lambda>x. x" op_shared,
        OF cpb_apply_keeps(2) Some]
    by (cases "last_set op_shared ops") (simp_all add: ContextParamsBuilder_new_def zeroed_ucp_params_t_def)
  have t: "cpb_shared b = (case last_set op_shared ops of None \<Rightarrow> False | Some s \<Rightarrow> s \<noteq> 0)"
    using chain_last_set [of cpb_apply cpb_shared "\<lambda>s. s \<noteq> 0" op_shared, OF cpb_apply_keeps(3) Some]
    by (cases "last_set op_shared ops") (simp_all add: ContextParamsBuilder_new_def)
  have m0: "cpb_field_mask b AND 1 = 0 \<longleftrightarrow> last_set op_features ops = None"
    and m5: "cpb_field_mask b AND 32 = 0 \<longleftrightarrow> last_set op_shared ops = None"
    using mask [of 0] mask [of 5] and_exp_eq_0_iff_not_bit [of "cpb_field_mask b" 0]
      and_exp_eq_0_iff_not_bit [of "cpb_field_mask b" 5]
    by (simp_all add: cpb_bits last_set_None)
  have p: "cp_field_mask (cpar_handle (fst (cpb_build b))) = cpb_field_mask b"
    "cp_features (cpar_handle (fst (cpb_build b))) = cp_features (cpb_handle b)"
    "cp_mt_workers_shared (cpar_handle (fst (cpb_build b))) = cp_mt_workers_shared (cpb_handle b)"
    "cpar_mt_workers_shared (fst (cpb_build b)) = cpb_shared b"
    by (simp_all add: cpb_build_def Let_def split: option.splits)
  show ?thesis
    by (auto simp: Some Context_new_def Let_def p f s t m0 m5 value_call_def UCP_API_MAJOR_def
        UCP_API_MINOR_def world_simps split: option.splits prod.splits)
qed

text \<open>Configuration calls take only strings C can represent: an interior NUL in either string
  is reported, name first, with its position and without any call to UCX; otherwise UCX is
  called once with the strings unchanged and its error status comes back as it is.\<close>

theorem config_strings_checked:
  "(case config_modify E cfg name val w of
      (Inl (Nul (NulError i s)), w1) \<Rightarrow> w1 = w \<and> i < length s \<and> s ! i = 0 \<and> 0 \<notin> set (take i s) \<and>
        s = (if 0 \<in> set name then name else val)
    | (Inl (Ucs st), w1) \<Rightarrow> Status_is_err st \<and> trace w1 = trace w @ [CtxC (ucp_config_modify cfg name val)]
    | (Inr _, w1) \<Rightarrow> trace w1 = trace w @ [CtxC (ucp_config_modify cfg name val)]) \<and>
   (case Config_read E name val w of
      (Inl (Nul (NulError i s)), w1) \<Rightarrow> w1 = w \<and> i < length s \<and> s ! i = 0 \<and> 0 \<notin> set (take i s) \<and>
        s = (if 0 \<in> set name then name else val)
    | (Inl (Ucs st), w1) \<Rightarrow> Status_is_err st \<and> trace w1 = trace w @ [CtxC (ucp_config_read name val)]
    | (Inr _, w1) \<Rightarrow> trace w1 = trace w @ [CtxC (ucp_config_read name val)])"
proof -
  show ?thesis
  proof (cases name rule: CString_new_cases)
    case (nul i)
    then show ?thesis by (simp add: config_modify_def Config_read_def ConfigError_from_def)
  next
    case name: ok
    show ?thesis
    proof (cases val rule: CString_new_cases)
      case (nul i)
      with name show ?thesis
        by (simp add: config_modify_def Config_read_def ConfigError_from_def del: CString_new_Inr)
    next
      case ok
      with name show ?thesis
        by (auto simp: config_modify_def Config_read_def status_call_def value_call_def
            status_to_result_def Status_from_def world_simps
            simp del: CString_new_Inr split: prod.splits)
    qed
  qed
qed

end
