(* ===== verification/Memh.thy ===== *)
theory Memh
  imports Context_Config
begin

text \<open>
  \<^verbatim>\<open>src/memh.rs\<close>: registered memory.  A \<^verbatim>\<open>MemHandle\<close> is unmapped when it is dropped; packing one
  gives a buffer UCX owns, released when its wrapper is dropped.  A Rust slice is its address
  and length.
\<close>

subsection \<open>State\<close>

record MemHandle =
  memh_context :: ptr
  memh_handle :: ptr

record MemHandleGuard =
  mg_memh :: MemHandle

record MemAttr =
  mema_address :: ptr
  mema_length :: usize
  mema_mem_type :: ucs_memory_type_t

record PackedMemhBuffer =
  pmb_buffer :: ptr
  pmb_length :: usize

record PackedRkeyBuffer =
  prb_buffer :: ptr
  prb_size :: usize
  prb_framed :: bytes

definition mem_print_info ::
  "'u env \<Rightarrow> bytes \<Rightarrow> Context \<Rightarrow> i32 \<Rightarrow> 'u world \<Rightarrow> (NulError + unit) \<times> 'u world" where
  "mem_print_info E mem_spec c fd w = (case CString_new mem_spec of
      Inl e \<Rightarrow> (Inl e, w)
    | Inr spec \<Rightarrow> (Inr (), print_to E fd
        (\<lambda>stream. MemC (ucp_mem_print_info spec (context_handle c) stream)) w))"

definition MemHandleGuard_mem_handle :: "MemHandleGuard \<Rightarrow> MemHandle" where
  "MemHandleGuard_mem_handle g = mg_memh g"

definition MemAttr_from_ffi :: "ucp_mem_attr_t \<Rightarrow> MemAttr" where
  "MemAttr_from_ffi f = \<lparr>mema_address = mattr_address f, mema_length = mattr_length f,
     mema_mem_type = mattr_mem_type f\<rparr>"

definition MemAttr_mem_type :: "MemAttr \<Rightarrow> MemoryType" where
  "MemAttr_mem_type a = MemoryType_from_ffi (mema_mem_type a)"

subsection \<open>The parameters of a mapping\<close>

record MemMapParamsBuilder =
  mmb_handle :: ucp_mem_map_params_t
  mmb_field_mask :: u64

record MemMapParams =
  mmp_handle :: ucp_mem_map_params_t

definition UCP_MEM_MAP_PARAM_FIELD_ADDRESS :: u64 where [simp]: "UCP_MEM_MAP_PARAM_FIELD_ADDRESS = 1"
definition UCP_MEM_MAP_PARAM_FIELD_LENGTH :: u64 where [simp]: "UCP_MEM_MAP_PARAM_FIELD_LENGTH = 2"
definition UCP_MEM_MAP_PARAM_FIELD_FLAGS :: u64 where [simp]: "UCP_MEM_MAP_PARAM_FIELD_FLAGS = 4"
definition UCP_MEM_MAP_PARAM_FIELD_PROT :: u64 where [simp]: "UCP_MEM_MAP_PARAM_FIELD_PROT = 8"
definition UCP_MEM_MAP_PARAM_FIELD_MEMORY_TYPE :: u64 where
  [simp]: "UCP_MEM_MAP_PARAM_FIELD_MEMORY_TYPE = 16"
definition UCP_MEM_MAP_PARAM_FIELD_EXPORTED_MEMH_BUFFER :: u64 where
  [simp]: "UCP_MEM_MAP_PARAM_FIELD_EXPORTED_MEMH_BUFFER = 32"

definition MemMapParamsBuilder_new :: MemMapParamsBuilder where
  "MemMapParamsBuilder_new = \<lparr>mmb_handle = zeroed_ucp_mem_map_params_t, mmb_field_mask = 0\<rparr>"

definition mmb_address :: "ptr \<Rightarrow> MemMapParamsBuilder \<Rightarrow> MemMapParamsBuilder" where
  "mmb_address addr b = b\<lparr>mmb_field_mask := mmb_field_mask b OR UCP_MEM_MAP_PARAM_FIELD_ADDRESS,
     mmb_handle := (mmb_handle b)\<lparr>mm_address := addr\<rparr>\<rparr>"

definition mmb_length :: "usize \<Rightarrow> MemMapParamsBuilder \<Rightarrow> MemMapParamsBuilder" where
  "mmb_length len b = b\<lparr>mmb_field_mask := mmb_field_mask b OR UCP_MEM_MAP_PARAM_FIELD_LENGTH,
     mmb_handle := (mmb_handle b)\<lparr>mm_length := len\<rparr>\<rparr>"

definition mmb_address_slice :: "ptr \<times> usize \<Rightarrow> MemMapParamsBuilder \<Rightarrow> MemMapParamsBuilder" where
  "mmb_address_slice mem_slice b = mmb_length (snd mem_slice) (mmb_address (fst mem_slice) b)"

definition mmb_flags :: "u32 \<Rightarrow> MemMapParamsBuilder \<Rightarrow> MemMapParamsBuilder" where
  "mmb_flags f b = b\<lparr>mmb_field_mask := mmb_field_mask b OR UCP_MEM_MAP_PARAM_FIELD_FLAGS,
     mmb_handle := (mmb_handle b)\<lparr>mm_flags := f\<rparr>\<rparr>"

definition mmb_prot :: "u32 \<Rightarrow> MemMapParamsBuilder \<Rightarrow> MemMapParamsBuilder" where
  "mmb_prot p b = b\<lparr>mmb_field_mask := mmb_field_mask b OR UCP_MEM_MAP_PARAM_FIELD_PROT,
     mmb_handle := (mmb_handle b)\<lparr>mm_prot := p\<rparr>\<rparr>"

definition mmb_memory_type :: "MemoryType \<Rightarrow> MemMapParamsBuilder \<Rightarrow> MemMapParamsBuilder" where
  "mmb_memory_type t b = b\<lparr>mmb_field_mask := mmb_field_mask b OR UCP_MEM_MAP_PARAM_FIELD_MEMORY_TYPE,
     mmb_handle := (mmb_handle b)\<lparr>mm_memory_type := MemoryType_to_ffi t\<rparr>\<rparr>"

definition mmb_exported_memh_buffer :: "ptr \<Rightarrow> MemMapParamsBuilder \<Rightarrow> MemMapParamsBuilder" where
  "mmb_exported_memh_buffer buffer b = b\<lparr>
     mmb_field_mask := mmb_field_mask b OR UCP_MEM_MAP_PARAM_FIELD_EXPORTED_MEMH_BUFFER,
     mmb_handle := (mmb_handle b)\<lparr>mm_exported_memh_buffer := buffer\<rparr>\<rparr>"

definition mmb_build :: "MemMapParamsBuilder \<Rightarrow> MemMapParams \<times> MemMapParamsBuilder" where
  "mmb_build b = (let params = (mmb_handle b)\<lparr>mm_field_mask := mmb_field_mask b\<rparr>
     in (\<lparr>mmp_handle = params\<rparr>, b\<lparr>mmb_handle := params\<rparr>))"

subsection \<open>The parameters of an advice and of a packing\<close>

record MemAdviseParamsBuilder =
  mab_handle :: ucp_mem_advise_params_t
  mab_field_mask :: u64

record MemAdviseParams =
  map_handle :: ucp_mem_advise_params_t

definition UCP_MEM_ADVISE_PARAM_FIELD_ADDRESS :: u64 where
  [simp]: "UCP_MEM_ADVISE_PARAM_FIELD_ADDRESS = 1"
definition UCP_MEM_ADVISE_PARAM_FIELD_LENGTH :: u64 where
  [simp]: "UCP_MEM_ADVISE_PARAM_FIELD_LENGTH = 2"
definition UCP_MEM_ADVISE_PARAM_FIELD_ADVICE :: u64 where
  [simp]: "UCP_MEM_ADVISE_PARAM_FIELD_ADVICE = 4"

definition MemAdviseParamsBuilder_new :: MemAdviseParamsBuilder where
  "MemAdviseParamsBuilder_new = \<lparr>mab_handle = zeroed_ucp_mem_advise_params_t, mab_field_mask = 0\<rparr>"

definition mab_address :: "ptr \<Rightarrow> MemAdviseParamsBuilder \<Rightarrow> MemAdviseParamsBuilder" where
  "mab_address addr b = b\<lparr>mab_field_mask := mab_field_mask b OR UCP_MEM_ADVISE_PARAM_FIELD_ADDRESS,
     mab_handle := (mab_handle b)\<lparr>ma_address := addr\<rparr>\<rparr>"

definition mab_length :: "usize \<Rightarrow> MemAdviseParamsBuilder \<Rightarrow> MemAdviseParamsBuilder" where
  "mab_length len b = b\<lparr>mab_field_mask := mab_field_mask b OR UCP_MEM_ADVISE_PARAM_FIELD_LENGTH,
     mab_handle := (mab_handle b)\<lparr>ma_length := len\<rparr>\<rparr>"

definition mab_advice :: "MemAdvice \<Rightarrow> MemAdviseParamsBuilder \<Rightarrow> MemAdviseParamsBuilder" where
  "mab_advice advice b = b\<lparr>mab_field_mask := mab_field_mask b OR UCP_MEM_ADVISE_PARAM_FIELD_ADVICE,
     mab_handle := (mab_handle b)\<lparr>ma_advice := MemAdvice_to_ffi advice\<rparr>\<rparr>"

definition mab_build :: "MemAdviseParamsBuilder \<Rightarrow> MemAdviseParams \<times> MemAdviseParamsBuilder" where
  "mab_build b = (let params = (mab_handle b)\<lparr>ma_field_mask := mab_field_mask b\<rparr>
     in (\<lparr>map_handle = params\<rparr>, b\<lparr>mab_handle := params\<rparr>))"

record MemhPackParamsBuilder =
  mpk_handle :: ucp_memh_pack_params_t
  mpk_field_mask :: u64

record MemhPackParams =
  mpp_handle :: ucp_memh_pack_params_t

definition UCP_MEMH_PACK_PARAM_FIELD_FLAGS :: u64 where [simp]: "UCP_MEMH_PACK_PARAM_FIELD_FLAGS = 1"

definition MemhPackParamsBuilder_new :: MemhPackParamsBuilder where
  "MemhPackParamsBuilder_new = \<lparr>mpk_handle = zeroed_ucp_memh_pack_params_t, mpk_field_mask = 0\<rparr>"

definition mpk_flags :: "u64 \<Rightarrow> MemhPackParamsBuilder \<Rightarrow> MemhPackParamsBuilder" where
  "mpk_flags f b = b\<lparr>mpk_field_mask := mpk_field_mask b OR UCP_MEMH_PACK_PARAM_FIELD_FLAGS,
     mpk_handle := (mpk_handle b)\<lparr>mp_flags := f\<rparr>\<rparr>"

definition mpk_build :: "MemhPackParamsBuilder \<Rightarrow> MemhPackParams \<times> MemhPackParamsBuilder" where
  "mpk_build b = (let params = (mpk_handle b)\<lparr>mp_field_mask := mpk_field_mask b\<rparr>
     in (\<lparr>mpp_handle = params\<rparr>, b\<lparr>mpk_handle := params\<rparr>))"

subsection \<open>Memory handles\<close>

text \<open>\<^verbatim>\<open>map\<close> builds the caller's builder, whose new value is returned with the result.\<close>

definition MemHandle_map ::
  "'u env \<Rightarrow> Context \<Rightarrow> MemMapParamsBuilder \<Rightarrow> 'u world \<Rightarrow>
     ((Status + MemHandle) \<times> MemMapParamsBuilder) \<times> 'u world" where
  "MemHandle_map E c params w =
     (let (built, params1) = mmb_build params;
          (result, w1) = value_call E (MemC (ucp_mem_map (context_handle c) (mmp_handle built)))
            (\<lambda>ret. \<lparr>memh_context = context_handle c, memh_handle = out_ptr ret\<rparr>) w
      in ((result, params1), w1))"

text \<open>\<^verbatim>\<open>u32::try_from\<close> of a \<^verbatim>\<open>u64\<close>: \<open>None\<close> when the value does not fit.\<close>

definition u32_try_from :: "u64 \<Rightarrow> u32 option" where
  "u32_try_from x = (if unat x < 2 ^ 32 then Some (ucast x) else None)"

definition MemHandle_map_slice ::
  "'u env \<Rightarrow> Context \<Rightarrow> ptr \<times> usize \<Rightarrow> u64 \<Rightarrow> 'u world \<Rightarrow>
     (Status + MemHandleGuard) \<times> 'u world" where
  "MemHandle_map_slice E c mem_slice flags w = (case u32_try_from flags of
      None \<Rightarrow> (Inl (Status_from UCS_ERR_INVALID_PARAM), w)
    | Some f \<Rightarrow>
       (let params = mmb_flags f (mmb_address_slice mem_slice MemMapParamsBuilder_new);
            ((result, _), w1) = MemHandle_map E c params w
        in (result_map (\<lambda>memh. \<lparr>mg_memh = memh\<rparr>) result, w1)))"

definition MemHandle_query :: "'u env \<Rightarrow> MemHandle \<Rightarrow> 'u world \<Rightarrow> (Status + MemAttr) \<times> 'u world" where
  "MemHandle_query E m =
     value_call E (MemC (ucp_mem_query (memh_handle m) zeroed_ucp_mem_attr_t))
       (\<lambda>ret. MemAttr_from_ffi (out_mem_attr ret))"

definition MemHandle_advise ::
  "'u env \<Rightarrow> MemHandle \<Rightarrow> MemAdviseParamsBuilder \<Rightarrow> 'u world \<Rightarrow>
     ((Status + unit) \<times> MemAdviseParamsBuilder) \<times> 'u world" where
  "MemHandle_advise E m params w =
     (let (built, params1) = mab_build params;
          (result, w1) = status_call E
            (MemC (ucp_mem_advise (memh_context m) (memh_handle m) (map_handle built))) w
      in ((result, params1), w1))"

definition MemHandle_drop :: "'u env \<Rightarrow> MemHandle \<Rightarrow> 'u world \<Rightarrow> 'u world" where
  "MemHandle_drop E m = ffi_unit E (MemC (ucp_mem_unmap (memh_context m) (memh_handle m)))"

subsection \<open>Packed handles\<close>

definition pack_memh ::
  "'u env \<Rightarrow> MemHandle \<Rightarrow> MemhPackParamsBuilder \<Rightarrow> 'u world \<Rightarrow>
     ((Status + PackedMemhBuffer) \<times> MemhPackParamsBuilder) \<times> 'u world" where
  "pack_memh E m params w =
     (let (built, params1) = mpk_build params;
          (result, w1) = value_call E (MemC (ucp_memh_pack (memh_handle m) (mpp_handle built)))
            (\<lambda>ret. \<lparr>pmb_buffer = out_ptr ret, pmb_length = out_len ret\<rparr>) w
      in ((result, params1), w1))"

definition PackedMemhBuffer_is_empty :: "PackedMemhBuffer \<Rightarrow> bool" where
  "PackedMemhBuffer_is_empty b \<longleftrightarrow> pmb_length b = 0"

definition PackedMemhBuffer_as_bytes :: "PackedMemhBuffer \<Rightarrow> 'u world \<Rightarrow> bytes" where
  "PackedMemhBuffer_as_bytes b w =
     (if pmb_buffer b = 0 \<or> pmb_length b = 0 then []
      else mem_read (mem w) (pmb_buffer b) (unat (pmb_length b)))"

text \<open>The drops null the pointer they released.\<close>

definition PackedMemhBuffer_drop ::
  "'u env \<Rightarrow> PackedMemhBuffer \<Rightarrow> 'u world \<Rightarrow> PackedMemhBuffer \<times> 'u world" where
  "PackedMemhBuffer_drop E b w =
     (if pmb_buffer b \<noteq> 0
      then (b\<lparr>pmb_buffer := 0\<rparr>, ffi_unit E (MemC (ucp_memh_buffer_release (pmb_buffer b))) w)
      else (b, w))"

definition PackedRkeyBuffer_from_raw_parts ::
  "ptr \<Rightarrow> usize \<Rightarrow> 'u world \<Rightarrow> Status + PackedRkeyBuffer" where
  "PackedRkeyBuffer_from_raw_parts buffer sz w =
     (let payload = mem_read (mem w) buffer (unat sz)
      in case u32_try_from sz of
           None \<Rightarrow> Inl (Status_from UCS_ERR_OUT_OF_RANGE)
         | Some payload_len \<Rightarrow> Inr \<lparr>prb_buffer = buffer, prb_size = sz,
             prb_framed = to_le 4 payload_len @ payload\<rparr>)"

definition pack_rkey ::
  "'u env \<Rightarrow> Context \<Rightarrow> MemHandle \<Rightarrow> 'u world \<Rightarrow> (Status + PackedRkeyBuffer) \<times> 'u world" where
  "pack_rkey E c m w =
     (let (ret, w1) = ffi E (MemC (ucp_rkey_pack (context_handle c) (memh_handle m))) w
      in case status_to_result (ret_status ret) of
           Inl e \<Rightarrow> (Inl e, w1)
         | Inr _ \<Rightarrow>
            (case PackedRkeyBuffer_from_raw_parts (out_ptr ret) (out_len ret) w1 of
               Inr packed \<Rightarrow> (Inr packed, w1)
             | Inl error \<Rightarrow>
                 (Inl error, ffi_unit E (MemC (ucp_rkey_buffer_release (out_ptr ret))) w1)))"

definition PackedRkeyBuffer_as_bytes :: "PackedRkeyBuffer \<Rightarrow> bytes" where
  "PackedRkeyBuffer_as_bytes b = prb_framed b"

definition PackedRkeyBuffer_drop ::
  "'u env \<Rightarrow> PackedRkeyBuffer \<Rightarrow> 'u world \<Rightarrow> PackedRkeyBuffer \<times> 'u world" where
  "PackedRkeyBuffer_drop E b w =
     (if prb_buffer b \<noteq> 0
      then (b\<lparr>prb_buffer := 0\<rparr>, ffi_unit E (MemC (ucp_rkey_buffer_release (prb_buffer b))) w)
      else (b, w))"

subsection \<open>The builders' chains\<close>

datatype mem_map_op =
    Map_address ptr | Map_address_slice "ptr \<times> usize" | Map_length usize | Map_flags u32
  | Map_prot u32 | Map_memory_type MemoryType | Map_exported_memh_buffer ptr

fun mmb_apply :: "mem_map_op \<Rightarrow> MemMapParamsBuilder \<Rightarrow> MemMapParamsBuilder option" where
  "mmb_apply (Map_address p) b = Some (mmb_address p b)"
| "mmb_apply (Map_address_slice s) b = Some (mmb_address_slice s b)"
| "mmb_apply (Map_length n) b = Some (mmb_length n b)"
| "mmb_apply (Map_flags f) b = Some (mmb_flags f b)"
| "mmb_apply (Map_prot p) b = Some (mmb_prot p b)"
| "mmb_apply (Map_memory_type t) b = Some (mmb_memory_type t b)"
| "mmb_apply (Map_exported_memh_buffer p) b = Some (mmb_exported_memh_buffer p b)"

fun mmb_bit :: "mem_map_op \<Rightarrow> u64" where
  "mmb_bit (Map_address p) = UCP_MEM_MAP_PARAM_FIELD_ADDRESS"
| "mmb_bit (Map_address_slice s) = UCP_MEM_MAP_PARAM_FIELD_ADDRESS OR UCP_MEM_MAP_PARAM_FIELD_LENGTH"
| "mmb_bit (Map_length n) = UCP_MEM_MAP_PARAM_FIELD_LENGTH"
| "mmb_bit (Map_flags f) = UCP_MEM_MAP_PARAM_FIELD_FLAGS"
| "mmb_bit (Map_prot p) = UCP_MEM_MAP_PARAM_FIELD_PROT"
| "mmb_bit (Map_memory_type t) = UCP_MEM_MAP_PARAM_FIELD_MEMORY_TYPE"
| "mmb_bit (Map_exported_memh_buffer p) = UCP_MEM_MAP_PARAM_FIELD_EXPORTED_MEMH_BUFFER"

lemmas mmb_defs = mmb_address_def mmb_address_slice_def mmb_length_def mmb_flags_def mmb_prot_def
  mmb_memory_type_def mmb_exported_memh_buffer_def

interpretation mem_map_params: mask_builder mmb_apply mmb_field_mask mmb_bit
proof unfold_locales
  fix op b b'
  assume "mmb_apply op b = Some b'"
  then show "mmb_field_mask b' = mmb_field_mask b OR mmb_bit op"
    by (cases op) (auto simp: mmb_defs or.assoc)
qed

datatype mem_advise_op = Advise_address ptr | Advise_length usize | Advise_advice MemAdvice

fun mab_apply :: "mem_advise_op \<Rightarrow> MemAdviseParamsBuilder \<Rightarrow> MemAdviseParamsBuilder option" where
  "mab_apply (Advise_address p) b = Some (mab_address p b)"
| "mab_apply (Advise_length n) b = Some (mab_length n b)"
| "mab_apply (Advise_advice a) b = Some (mab_advice a b)"

fun mab_bit :: "mem_advise_op \<Rightarrow> u64" where
  "mab_bit (Advise_address p) = UCP_MEM_ADVISE_PARAM_FIELD_ADDRESS"
| "mab_bit (Advise_length n) = UCP_MEM_ADVISE_PARAM_FIELD_LENGTH"
| "mab_bit (Advise_advice a) = UCP_MEM_ADVISE_PARAM_FIELD_ADVICE"

lemmas mab_defs = mab_address_def mab_length_def mab_advice_def

interpretation mem_advise_params: mask_builder mab_apply mab_field_mask mab_bit
proof unfold_locales
  fix op b b'
  assume "mab_apply op b = Some b'"
  then show "mab_field_mask b' = mab_field_mask b OR mab_bit op"
    by (cases op) (auto simp: mab_defs)
qed

subsection \<open>Ownership of a mapping\<close>

datatype memh_op = Use_query | Use_advise MemAdviseParamsBuilder | Use_pack MemhPackParamsBuilder

fun memh_step :: "'u env \<Rightarrow> memh_op \<Rightarrow> MemHandle \<Rightarrow> 'u world \<Rightarrow> MemHandle \<times> 'u world" where
  "memh_step E Use_query m w = (m, snd (MemHandle_query E m w))"
| "memh_step E (Use_advise p) m w = (m, snd (MemHandle_advise E m p w))"
| "memh_step E (Use_pack p) m w = (m, snd (pack_memh E m p w))"

fun unmaps :: "ptr \<Rightarrow> ffi_call \<Rightarrow> bool" where
  "unmaps h (MemC (ucp_mem_unmap c h')) \<longleftrightarrow> h' = h"
| "unmaps h _ \<longleftrightarrow> False"

text \<open>The call each use makes.\<close>

fun memh_use :: "memh_op \<Rightarrow> MemHandle \<Rightarrow> ffi_call" where
  "memh_use Use_query m = MemC (ucp_mem_query (memh_handle m) zeroed_ucp_mem_attr_t)"
| "memh_use (Use_advise p) m =
     MemC (ucp_mem_advise (memh_context m) (memh_handle m) (map_handle (fst (mab_build p))))"
| "memh_use (Use_pack p) m = MemC (ucp_memh_pack (memh_handle m) (mpp_handle (fst (mpk_build p))))"

interpretation memh_owner: owned "\<lambda>m. Some (memh_handle m)" "memh_step E"
  "\<lambda>(_ :: unit). MemHandle_drop E" unmaps for E :: "'u env"
proof unfold_locales
  fix m m1 :: MemHandle and h op and w w1 :: "'u world"
  assume h: "Some (memh_handle m) = Some h" and s: "memh_step E op m w = (m1, w1)"
  have "m1 = m" using s by (cases op) auto
  moreover have "trace w1 = trace w @ [memh_use op m]"
  proof -
    have "w1 = snd (memh_step E op m w)" using s by simp
    then show ?thesis
      by (cases op) (simp_all add: MemHandle_query_def MemHandle_advise_def pack_memh_def split_beta Let_def)
  qed
  moreover have "\<not> unmaps h (memh_use op m)" by (cases op) simp_all
  ultimately have "\<exists>us. trace w1 = trace w @ us \<and> Some (memh_handle m1) = Some h \<and>
      (\<forall>u\<in>set us. \<not> unmaps h u)"
    using h by (intro exI [of _ "[memh_use op m]"]) simp
  then show "(\<exists>us. trace w1 = trace w @ us \<and> Some (memh_handle m1) = Some h \<and>
        (\<forall>u\<in>set us. \<not> unmaps h u)) \<or>
      (\<exists>us c. trace w1 = trace w @ us @ [c] \<and> Some (memh_handle m1) = None \<and> unmaps h c \<and>
        (\<forall>u\<in>set us. \<not> unmaps h u))" ..
next
  fix m :: MemHandle and h and e :: unit and w :: "'u world"
  assume "Some (memh_handle m) = Some h"
  then show "\<exists>us c. trace (MemHandle_drop E m w) = trace w @ us @ [c] \<and> unmaps h c \<and>
      (\<forall>u\<in>set us. \<not> unmaps h u)"
    by (intro exI [of _ "[]"] exI [of _ "MemC (ucp_mem_unmap (memh_context m) h)"])
      (simp add: MemHandle_drop_def)
qed simp_all

subsection \<open>Properties\<close>

lemma unat_ucast_fits: "unat (x :: u64) < 2 ^ 32 \<Longrightarrow> unat (ucast x :: u32) = unat x"
  by (simp add: unsigned_ucast_eq take_bit_nat_eq_self)

lemma u32_try_from_Some: "u32_try_from x = Some y \<longleftrightarrow> unat x = unat y"
proof (cases "unat x < 2 ^ 32")
  case True
  then show ?thesis
    using unat_ucast_fits [OF True] by (simp add: u32_try_from_def word_unat_eq_iff)
next
  case False
  then show ?thesis using unsigned_less [of y] by (auto simp: u32_try_from_def)
qed

text \<open>What each field of the mapping's parameters is set to.\<close>

fun sets_address :: "mem_map_op \<Rightarrow> ptr option" where
  "sets_address (Map_address p) = Some p"
| "sets_address (Map_address_slice s) = Some (fst s)"
| "sets_address _ = None"

fun sets_length :: "mem_map_op \<Rightarrow> usize option" where
  "sets_length (Map_length n) = Some n"
| "sets_length (Map_address_slice s) = Some (snd s)"
| "sets_length _ = None"

fun sets_memory_type :: "mem_map_op \<Rightarrow> MemoryType option" where
  "sets_memory_type (Map_memory_type t) = Some t"
| "sets_memory_type _ = None"

lemma mmb_apply_sets:
  assumes "mmb_apply op b = Some b'"
  shows "mm_address (mmb_handle b') =
      (case sets_address op of None \<Rightarrow> mm_address (mmb_handle b) | Some p \<Rightarrow> p)"
    and "mm_length (mmb_handle b') =
      (case sets_length op of None \<Rightarrow> mm_length (mmb_handle b) | Some n \<Rightarrow> n)"
    and "mm_memory_type (mmb_handle b') =
      (case sets_memory_type op of None \<Rightarrow> mm_memory_type (mmb_handle b) | Some t \<Rightarrow> MemoryType_to_ffi t)"
  using assms by (cases op; auto simp: mmb_defs)+

lemma mmb_chain: "\<exists>b'. chain mmb_apply ops b = Some b'"
proof (induction ops arbitrary: b)
  case (Cons op ops)
  then show ?case by (cases op) auto
qed simp

text \<open>Memory is mapped with exactly the fields its builder set: no setter is refused, the mask
  UCX sees is the union of the setters' bits, and address, length and memory type are those the
  last setter of each left, or zero and host memory.\<close>

theorem mem_map_params_built:
  "case chain mmb_apply ops MemMapParamsBuilder_new of
     None \<Rightarrow> False
   | Some b \<Rightarrow>
      (let p = mmp_handle (fst (mmb_build b)) in
       (\<forall>n. bit (mm_field_mask p) n \<longleftrightarrow> list_ex (\<lambda>op. bit (mmb_bit op) n) ops) \<and>
       mm_address p = (case last_set sets_address ops of None \<Rightarrow> 0 | Some a \<Rightarrow> a) \<and>
       mm_length p = (case last_set sets_length ops of None \<Rightarrow> 0 | Some n \<Rightarrow> n) \<and>
       mm_memory_type p = (case last_set sets_memory_type ops of
          None \<Rightarrow> UCS_MEMORY_TYPE_HOST | Some t \<Rightarrow> MemoryType_to_ffi t) \<and>
       trace (snd (MemHandle_map E c b w)) = trace w @ [MemC (ucp_mem_map (context_handle c) p)])"
proof -
  obtain b where b: "chain mmb_apply ops MemMapParamsBuilder_new = Some b"
    using mmb_chain by blast
  note l = chain_last_set [of mmb_apply "\<lambda>b. mm_address (mmb_handle b)" "\<lambda>x. x" sets_address,
      OF mmb_apply_sets(1) b]
    chain_last_set [of mmb_apply "\<lambda>b. mm_length (mmb_handle b)" "\<lambda>x. x" sets_length,
      OF mmb_apply_sets(2) b]
    chain_last_set [of mmb_apply "\<lambda>b. mm_memory_type (mmb_handle b)" MemoryType_to_ffi
      sets_memory_type, OF mmb_apply_sets(3) b]
  have z: "mm_address (mmb_handle MemMapParamsBuilder_new) = 0"
    "mm_length (mmb_handle MemMapParamsBuilder_new) = 0"
    "mm_memory_type (mmb_handle MemMapParamsBuilder_new) = UCS_MEMORY_TYPE_HOST"
    by (simp_all add: MemMapParamsBuilder_new_def zeroed_ucp_mem_map_params_t_def)
  have m: "bit (mmb_field_mask b) n \<longleftrightarrow> list_ex (\<lambda>op. bit (mmb_bit op) n) ops" for n
    using mem_map_params.bit_mask_chain [OF b] by (simp add: MemMapParamsBuilder_new_def list_ex_iff)
  have t: "trace (snd (MemHandle_map E c b w)) =
      trace w @ [MemC (ucp_mem_map (context_handle c) (mmp_handle (fst (mmb_build b))))]"
    by (simp add: MemHandle_map_def mmb_build_def world_simps split: prod.splits)
  show ?thesis
    by (simp only: b option.case Let_def t) (simp add: mmb_build_def Let_def m l z cong: option.case_cong)
qed

lemma map_slice_eq:
  "MemHandle_map_slice E c (p, n) flags w =
     (if unat flags < 2 ^ 32
      then value_call E (MemC (ucp_mem_map (context_handle c) (zeroed_ucp_mem_map_params_t
          \<lparr>mm_field_mask := 7, mm_address := p, mm_length := n, mm_flags := ucast flags\<rparr>)))
        (\<lambda>ret. \<lparr>mg_memh = \<lparr>memh_context = context_handle c, memh_handle = out_ptr ret\<rparr>\<rparr>) w
      else (Inl Status_INVALID_PARAM, w))"
proof -
  have b: "fst (mmb_build (mmb_flags f (mmb_address_slice (p, n) MemMapParamsBuilder_new))) =
      \<lparr>mmp_handle = zeroed_ucp_mem_map_params_t
        \<lparr>mm_field_mask := 7, mm_address := p, mm_length := n, mm_flags := f\<rparr>\<rparr>" for f
    by (simp add: mmb_build_def Let_def mmb_defs MemMapParamsBuilder_new_def)
  have r: "result_map g (result_map h r) = result_map (\<lambda>x. g (h x)) r"
    for g :: "MemHandle \<Rightarrow> MemHandleGuard" and h and r :: "Status + unit"
    by (cases r) simp_all
  with b [of "ucast flags"] show ?thesis
    by (auto simp: MemHandle_map_slice_def u32_try_from_def MemHandle_map_def Let_def value_call_def
        Status_from_def r split: prod.splits)
qed

text \<open>C27: A mapping is unmapped exactly once, by its drop: whatever queries, advice and packing
  came before, the last foreign call of its life is the unmapping of its own handle and no
  earlier one unmaps it.  A failed mapping returns UCX's error and leaves nothing to unmap.\<close>

theorem memh_unmapped_once:
  "(\<exists>us ctx. trace (life (memh_step E) (\<lambda>_ :: unit. MemHandle_drop E) ops e m w) =
       trace w @ us @ [MemC (ucp_mem_unmap ctx (memh_handle m))] \<and>
     filter (unmaps (memh_handle m)) us = []) \<and>
   (case MemHandle_map_slice E c (p, n) flags w of
      (Inr g, w1) \<Rightarrow> unat flags < 2 ^ 32 \<and> memh_context (mg_memh g) = context_handle c \<and>
        trace w1 = trace w @ [MemC (ucp_mem_map (context_handle c) (zeroed_ucp_mem_map_params_t
          \<lparr>mm_field_mask := 7, mm_address := p, mm_length := n, mm_flags := ucast flags\<rparr>))]
    | (Inl s, w1) \<Rightarrow> Status_is_err s \<and> (if unat flags < 2 ^ 32 then trace w1 \<noteq> trace w
        else s = Status_INVALID_PARAM \<and> w1 = w))"
proof
  obtain us d where u: "trace (life (memh_step E) (\<lambda>_ :: unit. MemHandle_drop E) ops e m w) =
      trace w @ us @ [d]" "unmaps (memh_handle m) d" "\<forall>u\<in>set us. \<not> unmaps (memh_handle m) u"
    using memh_owner.released_once [of m "memh_handle m"] by blast
  from u(2) obtain ctx where "d = MemC (ucp_mem_unmap ctx (memh_handle m))"
    by (cases "(memh_handle m, d)" rule: unmaps.cases) auto
  with u show "\<exists>us ctx. trace (life (memh_step E) (\<lambda>_ :: unit. MemHandle_drop E) ops e m w) =
       trace w @ us @ [MemC (ucp_mem_unmap ctx (memh_handle m))] \<and>
     filter (unmaps (memh_handle m)) us = []"
    by (auto simp: filter_empty_conv)
  show "case MemHandle_map_slice E c (p, n) flags w of
      (Inr g, w1) \<Rightarrow> unat flags < 2 ^ 32 \<and> memh_context (mg_memh g) = context_handle c \<and>
        trace w1 = trace w @ [MemC (ucp_mem_map (context_handle c) (zeroed_ucp_mem_map_params_t
          \<lparr>mm_field_mask := 7, mm_address := p, mm_length := n, mm_flags := ucast flags\<rparr>))]
    | (Inl s, w1) \<Rightarrow> Status_is_err s \<and> (if unat flags < 2 ^ 32 then trace w1 \<noteq> trace w
        else s = Status_INVALID_PARAM \<and> w1 = w)"
  proof (cases "unat flags < 2 ^ 32")
    case True
    let ?c = "MemC (ucp_mem_map (context_handle c) (zeroed_ucp_mem_map_params_t
        \<lparr>mm_field_mask := 7, mm_address := p, mm_length := n, mm_flags := ucast flags\<rparr>))"
    obtain r w1 where v: "value_call E ?c
        (\<lambda>ret. \<lparr>mg_memh = \<lparr>memh_context = context_handle c, memh_handle = out_ptr ret\<rparr>\<rparr>) w = (r, w1)"
      by fastforce
    have q: "MemHandle_map_slice E c (p, n) flags w = (r, w1)"
      using True v by (simp only: map_slice_eq if_True)
    have t: "trace w1 = trace w @ [?c]" by (rule value_call_world(3) [OF v])
    show ?thesis
    proof (cases r)
      case (Inl s)
      with v have "Status_is_err s" by (auto simp: value_call_Inl)
      then show ?thesis using True t by (simp add: q Inl)
    next
      case (Inr g)
      with v have "memh_context (mg_memh g) = context_handle c" by (auto simp: value_call_Inr)
      then show ?thesis using True t by (simp add: q Inr)
    qed
  next
    case False
    then show ?thesis by (simp add: map_slice_eq)
  qed
qed

text \<open>A packed buffer is released once: dropping its wrapper releases exactly its buffer and
  nulls the pointer, so that a second drop does nothing, and a null buffer is never released.\<close>

theorem packed_buffer_released_once:
  "(case PackedMemhBuffer_drop E b w of (b1, w1) \<Rightarrow>
      trace w1 = trace w @ (if pmb_buffer b = 0 then []
        else [MemC (ucp_memh_buffer_release (pmb_buffer b))]) \<and>
      PackedMemhBuffer_drop E b1 w1 = (b1, w1)) \<and>
   (case PackedRkeyBuffer_drop E k w of (k1, w1) \<Rightarrow>
      trace w1 = trace w @ (if prb_buffer k = 0 then []
        else [MemC (ucp_rkey_buffer_release (prb_buffer k))]) \<and>
      PackedRkeyBuffer_drop E k1 w1 = (k1, w1))"
  by (simp add: PackedMemhBuffer_drop_def PackedRkeyBuffer_drop_def)

end
