(* ===== verification/Completion_Guard.thy ===== *)
theory Completion_Guard
  imports Endpoint
begin

text \<open>
  The completion loop that \<^verbatim>\<open>StreamRequest\<close> (\<^verbatim>\<open>src/stream.rs\<close>) and \<^verbatim>\<open>FetchAmoRequest\<close>
  (\<^verbatim>\<open>src/rma/remote_key.rs\<close>) share, in their \<^verbatim>\<open>free\<close> and in their drop: progress the worker
  until the request completes or fails, then free it; after the last round forget it, because
  UCX may still use the buffer it borrows.  Where the debug guard of \<^verbatim>\<open>progress\<close> panics inside the
  loop, the local request is dropped while the panic unwinds, which frees it in flight.
\<close>

fun guard_rounds :: "'u env \<Rightarrow> Worker \<Rightarrow> Request \<Rightarrow> nat \<Rightarrow> ('u world, unit) prog" where
  "guard_rounds E wk request 0 w = (Ret (), w)"
| "guard_rounds E wk request (Suc n) w = (case Request_check_finished E request w of
      (Inr True, w1) \<Rightarrow> (Ret (), Request_free E request w1)
    | (Inl _, w1) \<Rightarrow> (Ret (), Request_free E request w1)
    | (Inr False, w1) \<Rightarrow> bnd (unwind (Request_drop E request) (Worker_progress E wk))
        (\<lambda>_. guard_rounds E wk request n) w1)"

definition MAX_PROGRESS :: nat where "MAX_PROGRESS = 1000000"

interpretation guard_loop: bounded_poll
  "Request_check_finished E req" "Worker_progress E wk" "Request_drop E req"
  "\<lambda>w. (Ret (), Request_free E req w)" "\<lambda>e w. (Ret (), Request_free E req w)"
  "\<lambda>w. (Ret (), w)" "guard_rounds E wk req"
  for E :: "'u env" and wk req
  by unfold_locales (auto split: prod.splits sum.splits bool.splits)

lemma guard_rounds_spin:
  "guard_rounds E wk req n w =
     (case spin (Request_check_finished E req) (Worker_progress E wk) n w of
        (Ret Finished, w1) \<Rightarrow> (Ret (), Request_free E req w1)
      | (Ret (Failed e), w1) \<Rightarrow> (Ret (), Request_free E req w1)
      | (Ret Exhausted, w1) \<Rightarrow> (Ret (), w1)
      | (Panic s, w1) \<Rightarrow> (Panic s, Request_drop E req w1)
      | (Abort, w1) \<Rightarrow> (Abort, w1))"
  unfolding guard_loop.loop_is_spin guard_loop.finish_def ..

text \<open>
  What the loop does to a live request.  It returns in two ways: one of at most a million checks
  did not find the request pending, and it was freed right after it, once and last; or every
  check found it pending and it was never freed.  The debug guard of \<^verbatim>\<open>progress\<close> is the third
  end: it panics after the first check, and unwinding frees the request that is still pending.
\<close>

definition guarded :: "'u env \<Rightarrow> Worker \<Rightarrow> ptr \<Rightarrow> 'u world \<Rightarrow> unit outcome \<times> 'u world \<Rightarrow> bool" where
  "guarded E wk h w r =
     (let request = \<lparr>req_handle = Some h\<rparr>; check = Request_check_finished E request;
          pending = (\<lambda>k. rounds check (Worker_progress E wk) k w) in
      case r of
        (Ret _, w1) \<Rightarrow>
          (\<exists>k<MAX_PROGRESS. \<exists>v b u polls. pending k = Some v \<and> check v = (b, u) \<and> b \<noteq> Inr False \<and>
             w1 = Request_free E request u \<and>
             trace u = trace w @ polls \<and> filter (releases_request h) polls = [] \<and>
             trace w1 = trace w @ polls @ [ReqC (ucp_request_free h)]) \<or>
          (pending MAX_PROGRESS = Some w1 \<and>
             (\<exists>polls. trace w1 = trace w @ polls \<and> filter (releases_request h) polls = []))
      | (Panic _, w1) \<Rightarrow> debug_assertions E \<and> atomics w (wk_progressing wk) \<and>
          (\<exists>u. check w = (Inr False, u) \<and> w1 = Request_drop E request u \<and>
             trace w1 = trace w @ [ReqC (ucp_request_check_status h), ReqC (ucp_request_free h)])
      | (Abort, _) \<Rightarrow> False)"

lemma guard_rounds_guarded:
  "guarded E wk h w (guard_rounds E wk \<lparr>req_handle = Some h\<rparr> MAX_PROGRESS w)"
proof -
  let ?r = "\<lparr>req_handle = Some h\<rparr>"
  let ?check = "Request_check_finished E ?r" and ?step = "Worker_progress E wk"
  obtain y u where sp: "spin ?check ?step MAX_PROGRESS w = (y, u)" by fastforce
  obtain cs where cs: "trace u = trace w @ cs" "filter (releases_request h) cs = []"
    using polls_keep [OF sp] by blast
  have free: "trace (Request_free E ?r u) = trace w @ cs @ [ReqC (ucp_request_free h)]"
    using cs(1) by (simp add: Request_free_drop Request_drop_trace)
  note r = guard_rounds_spin [of E wk ?r MAX_PROGRESS w, unfolded sp]
  have nonpending: "guarded E wk h w (Ret (), Request_free E ?r u)"
    if "k < MAX_PROGRESS" "rounds ?check ?step k w = Some v" "?check v = (b, u)" "b \<noteq> Inr False"
    for k v b
    using that cs free unfolding guarded_def Let_def prod.case outcome.case by blast
  show ?thesis
  proof (cases y)
    case (Panic s)
    have c: "?check w = (Inr False, u)" by (rule spin_progress_panic(3) [OF sp [unfolded Panic]])
    then have "trace u = trace w @ [ReqC (ucp_request_check_status h)]"
      by (auto simp: Request_check_finished_live Let_def)
    then show ?thesis using r Panic c spin_progress_panic(1,2) [OF sp [unfolded Panic]]
      by (simp add: guarded_def Request_drop_trace)
  next
    case Abort
    then show ?thesis using spin_progress_outcome(1) [OF sp] by simp
  next
    case (Ret z)
    show ?thesis
    proof (cases z)
      case Finished
      then show ?thesis using r Ret sp nonpending by (auto simp: spin_Finished_iff)
    next
      case (Failed e)
      then show ?thesis using r Ret sp nonpending by (auto simp: spin_Failed_iff)
    next
      case Exhausted
      then have "rounds ?check ?step MAX_PROGRESS w = Some u" using sp Ret by (simp add: spin_Exhausted_iff)
      then show ?thesis using r Ret Exhausted cs by (auto simp: guarded_def)
    qed
  qed
qed

end
