(* ===== verification/Remote_Key.thy ===== *)
theory Remote_Key
  imports Memh Completion_Guard
begin

text \<open>
  \<^verbatim>\<open>src/rma/remote_key.rs\<close>: remote keys, their framed wire format, and \<^verbatim>\<open>FetchAmoRequest\<close>, the
  guard of a fetching atomic operation whose reply buffer UCX writes.
\<close>

subsection \<open>The guard of a fetching operation\<close>

record FetchAmoRequest =
  fr_request :: "Request option"
  fr_worker :: Worker

definition fetch_amo_result :: "Request option \<Rightarrow> Worker \<Rightarrow> FetchAmoRequest" where
  "fetch_amo_result request wk = \<lparr>fr_request = request, fr_worker = wk\<rparr>"

definition FetchAmoRequest_check_finished ::
  "'u env \<Rightarrow> FetchAmoRequest \<Rightarrow> 'u world \<Rightarrow> (Status + bool) \<times> 'u world" where
  "FetchAmoRequest_check_finished E g w = (case fr_request g of
      None \<Rightarrow> (Inr True, w)
    | Some request \<Rightarrow> Request_check_finished E request w)"

definition FetchAmoRequest_drop :: "'u env \<Rightarrow> FetchAmoRequest \<Rightarrow> ('u world, unit) prog" where
  "FetchAmoRequest_drop E g w = (case fr_request g of
      None \<Rightarrow> (Ret (), w)
    | Some request \<Rightarrow> guard_rounds E (fr_worker g) request MAX_PROGRESS w)"

text \<open>\<^verbatim>\<open>free\<close> and \<^verbatim>\<open>into_inner\<close> take the request out; the guard's own drop then finds none.\<close>

definition FetchAmoRequest_free :: "'u env \<Rightarrow> FetchAmoRequest \<Rightarrow> ('u world, unit) prog" where
  "FetchAmoRequest_free E g w =
     bnd (\<lambda>w. case fr_request g of
         None \<Rightarrow> (Ret (), w)
       | Some request \<Rightarrow> guard_rounds E (fr_worker g) request MAX_PROGRESS w)
       (\<lambda>_. FetchAmoRequest_drop E (g\<lparr>fr_request := None\<rparr>)) w"

definition FetchAmoRequest_into_inner ::
  "'u env \<Rightarrow> FetchAmoRequest \<Rightarrow> ('u world, Request option) prog" where
  "FetchAmoRequest_into_inner E g =
     bnd (FetchAmoRequest_drop E (g\<lparr>fr_request := None\<rparr>)) (\<lambda>_ w. (Ret (fr_request g), w))"

subsection \<open>Remote keys\<close>

text \<open>\<^verbatim>\<open>worker_alive\<close> is the address of the worker's shared flag.\<close>

record RemoteKey =
  rk_handle :: ptr
  rk_worker_alive :: nat

text \<open>\<^verbatim>\<open>u32::try_from\<close> of a \<^verbatim>\<open>usize\<close> length.\<close>

definition frame_rkey_payload :: "bytes \<Rightarrow> Status + bytes" where
  "frame_rkey_payload payload =
     (if length payload < 2 ^ 32
      then Inr (to_le 4 (of_nat (length payload) :: u32) @ payload)
      else Inl (Status_from UCS_ERR_OUT_OF_RANGE))"

definition unframe_rkey_payload :: "bytes \<Rightarrow> Status + bytes" where
  "unframe_rkey_payload buffer =
     (if length buffer < 4 then Inl (Status UCS_ERR_INVALID_PARAM)
      else let payload_len = unat (from_le (take 4 buffer) :: u32)
           in if payload_len \<noteq> length buffer - 4 then Inl (Status UCS_ERR_INVALID_PARAM)
              else Inr (drop 4 buffer))"

definition RemoteKey_pack ::
  "'u env \<Rightarrow> Context \<Rightarrow> MemHandle \<Rightarrow> 'u world \<Rightarrow> (Status + bytes) \<times> 'u world" where
  "RemoteKey_pack E c m w =
     (let (ret, w1) = ffi E (MemC (ucp_rkey_pack (context_handle c) (memh_handle m))) w
      in case status_to_result (ret_status ret) of
           Inl e \<Rightarrow> (Inl e, w1)
         | Inr _ \<Rightarrow>
             (let result = frame_rkey_payload (mem_read (mem w1) (out_ptr ret) (unat (out_len ret)))
              in (result, ffi_unit E (MemC (ucp_rkey_buffer_release (out_ptr ret))) w1)))"

definition RemoteKey_unpack ::
  "'u env \<Rightarrow> Ep \<Rightarrow> bytes \<Rightarrow> 'u world \<Rightarrow> (Status + RemoteKey) \<times> 'u world" where
  "RemoteKey_unpack E e rkey_buffer w = (case unframe_rkey_payload rkey_buffer of
      Inl s \<Rightarrow> (Inl s, w)
    | Inr payload \<Rightarrow> value_call E (EpC (ucp_ep_rkey_unpack (ep_handle e) (Holding payload)))
        (\<lambda>ret. \<lparr>rk_handle = out_ptr ret, rk_worker_alive = ep_worker_alive e\<rparr>) w)"

text \<open>The slice \<^verbatim>\<open>rkey_ptr\<close> returns is its address and length.\<close>

definition RemoteKey_rkey_ptr ::
  "'u env \<Rightarrow> RemoteKey \<Rightarrow> u64 \<Rightarrow> usize \<Rightarrow> 'u world \<Rightarrow> (Status + ptr \<times> usize) \<times> 'u world" where
  "RemoteKey_rkey_ptr E k remote_addr len w =
     (let (ret, w1) = ffi E (MemC (ucp_rkey_ptr (rk_handle k) remote_addr)) w
      in case status_to_result (ret_status ret) of
           Inl e \<Rightarrow> (Inl e, w1)
         | Inr _ \<Rightarrow> if out_ptr ret = 0 then (Inl (Status UCS_ERR_INVALID_ADDR), w1)
             else (Inr (out_ptr ret, len), w1))"

definition RemoteKey_compare ::
  "'u env \<Rightarrow> RemoteKey \<Rightarrow> RemoteKey \<Rightarrow> Worker \<Rightarrow> 'u world \<Rightarrow> (Status + bool) \<times> 'u world" where
  "RemoteKey_compare E k other wk w =
     (if \<not> atomics w (rk_worker_alive k) \<or> \<not> atomics w (rk_worker_alive other) \<or>
         rk_worker_alive k \<noteq> rk_worker_alive other \<or> rk_worker_alive k \<noteq> wk_alive wk
      then (Inl (Status UCS_ERR_INVALID_PARAM), w)
      else value_call E (MemC (ucp_rkey_compare (wk_handle wk) (rk_handle k) (rk_handle other) 0))
        (\<lambda>ret. out_int ret = 0) w)"

definition RemoteKey_drop :: "'u env \<Rightarrow> RemoteKey \<Rightarrow> 'u world \<Rightarrow> 'u world" where
  "RemoteKey_drop E k w =
     (if rk_handle k \<noteq> 0 then ffi_unit E (MemC (ucp_rkey_destroy (rk_handle k))) w else w)"

subsection \<open>Facts\<close>

lemma FetchAmoRequest_free_drop: "FetchAmoRequest_free E g w = FetchAmoRequest_drop E g w"
  by (auto simp: FetchAmoRequest_free_def FetchAmoRequest_drop_def bnd_def
      split: option.splits prod.splits outcome.splits)

lemma frame_rkey_payload_length:
  "frame_rkey_payload p = Inr b \<Longrightarrow> length b = 4 + length p \<and> length p < 2 ^ 32"
  by (auto simp: frame_rkey_payload_def split: if_splits)

lemma to_le_4_from_le: "length b = 4 \<Longrightarrow> to_le 4 (from_le b :: u32) = b"
  using to_le_from_le [of b, where 'a = 32] by simp

lemma unframe_frame: "frame_rkey_payload p = Inr b \<Longrightarrow> unframe_rkey_payload b = Inr p"
  by (auto simp: frame_rkey_payload_def unframe_rkey_payload_def unsigned_of_nat
      take_bit_nat_eq_self split: if_splits)

lemma frame_unframe:
  assumes "unframe_rkey_payload b = Inr p"
  shows "frame_rkey_payload p = Inr b"
proof -
  from assms have n: "4 \<le> length b" "unat (from_le (take 4 b) :: u32) = length b - 4"
    and p: "p = drop 4 b"
    by (auto simp: unframe_rkey_payload_def Let_def split: if_splits)
  have "unat (x :: u32) < 2 ^ 32" for x
    by (rule order.strict_trans2 [OF unsigned_less]) simp
  then have lt: "length b - 4 < 2 ^ 32" using n(2) by metis
  have "of_nat (length b - 4) = (from_le (take 4 b) :: u32)"
    unfolding n(2) [symmetric] by simp
  then have "to_le 4 (of_nat (length b - 4) :: u32) = take 4 b"
    using to_le_4_from_le [of "take 4 b"] n(1) by simp
  then show ?thesis using lt by (simp add: frame_rkey_payload_def p)
qed

subsection \<open>Properties\<close>

text \<open>C13: The remote key framing is an exact encoding: unframing accepts precisely the buffers
  framing produces and gives back the payload; framing fails only for payloads of 2^32 bytes or
  more, and each rejection has its own status.\<close>

theorem rkey_framing_round_trip:
  "(unframe_rkey_payload b = Inr p \<longleftrightarrow> frame_rkey_payload p = Inr b) \<and>
   (case frame_rkey_payload p of
      Inr f \<Rightarrow> length f = 4 + length p \<and> length p < 2 ^ 32
    | Inl s \<Rightarrow> s = Status_OUT_OF_RANGE \<and> 2 ^ 32 \<le> length p) \<and>
   (case unframe_rkey_payload b of
      Inr q \<Rightarrow> length b = 4 + length q
    | Inl s \<Rightarrow> s = Status_INVALID_PARAM)"
proof (intro conjI)
  show "unframe_rkey_payload b = Inr p \<longleftrightarrow> frame_rkey_payload p = Inr b"
    using unframe_frame frame_unframe by blast
  show "case frame_rkey_payload p of
      Inr f \<Rightarrow> length f = 4 + length p \<and> length p < 2 ^ 32
    | Inl s \<Rightarrow> s = Status_OUT_OF_RANGE \<and> 2 ^ 32 \<le> length p"
    by (auto simp: frame_rkey_payload_def Status_from_def)
  show "case unframe_rkey_payload b of
      Inr q \<Rightarrow> length b = 4 + length q
    | Inl s \<Rightarrow> s = Status_INVALID_PARAM"
    by (auto simp: unframe_rkey_payload_def Let_def)
qed

text \<open>C29: The two ways of packing a remote key agree: \<^verbatim>\<open>pack_rkey\<close> followed by the drop of its buffer
  makes the calls of \<^verbatim>\<open>RemoteKey::pack\<close>, and the bytes its wrapper shows are the bytes that
  returns, on success and on every error; UCX's buffer is released once, by either.  They differ in
  one case: when UCX reports success with a null buffer, which neither checks before reading it,
  the drop releases nothing where \<^verbatim>\<open>RemoteKey::pack\<close> still releases the null.\<close>

theorem pack_rkey_is_remote_key_pack:
  "case ffi E (MemC (ucp_rkey_pack (context_handle c) (memh_handle m))) w of (ret, w1) \<Rightarrow>
     let release = ffi_unit E (MemC (ucp_rkey_buffer_release (out_ptr ret))) in
     trace (snd (RemoteKey_pack E c m w)) = trace w1 @
       (if ret_status ret \<in> {UCS_OK, UCS_INPROGRESS}
        then [MemC (ucp_rkey_buffer_release (out_ptr ret))] else []) \<and>
     (case pack_rkey E c m w of
        (Inr b, w2) \<Rightarrow> w2 = w1 \<and>
          RemoteKey_pack E c m w = (Inr (PackedRkeyBuffer_as_bytes b), release w2) \<and>
          snd (PackedRkeyBuffer_drop E b w2) = (if out_ptr ret = 0 then w2 else release w2)
      | (Inl s, w2) \<Rightarrow> RemoteKey_pack E c m w = (Inl s, w2))"
proof -
  obtain ret :: ffi_ret and w1 where
    f: "ffi E (MemC (ucp_rkey_pack (context_handle c) (memh_handle m))) w = (ret, w1)" by fastforce
  have u: "(of_nat (unat n) :: u32) = ucast (n :: usize)" for n by simp
  show ?thesis
    by (simp add: f RemoteKey_pack_def pack_rkey_def PackedRkeyBuffer_from_raw_parts_def Let_def
        frame_rkey_payload_def u32_try_from_def u PackedRkeyBuffer_as_bytes_def
        PackedRkeyBuffer_drop_def status_to_result_def Status_from_def)
qed

text \<open>What one side packs the other unpacks: a key packed successfully reaches UCX's unpacking,
  byte for byte, through the receiver's frame check, and every buffer that is not a frame is
  refused without calling UCX.\<close>

theorem rkey_unpack_checked:
  "case RemoteKey_pack E c m w of
     (Inr b, w1) \<Rightarrow>
       (case ffi E (MemC (ucp_rkey_pack (context_handle c) (memh_handle m))) w of (ret, w0) \<Rightarrow>
         RemoteKey_unpack E' e b u = value_call E' (EpC (ucp_ep_rkey_unpack (ep_handle e)
             (Holding (mem_read (mem w0) (out_ptr ret) (unat (out_len ret))))))
           (\<lambda>ret. \<lparr>rk_handle = out_ptr ret, rk_worker_alive = ep_worker_alive e\<rparr>) u) \<and>
       (if frame_rkey_payload (drop 4 x) = Inr x then trace (snd (RemoteKey_unpack E' e x u)) \<noteq> trace u
        else RemoteKey_unpack E' e x u = (Inl Status_INVALID_PARAM, u))
   | (Inl s, w1) \<Rightarrow> Status_is_err s"
proof -
  obtain ret :: ffi_ret and w0 where
    f: "ffi E (MemC (ucp_rkey_pack (context_handle c) (memh_handle m))) w = (ret, w0)" by fastforce
  have x: "if frame_rkey_payload (drop 4 x) = Inr x then trace (snd (RemoteKey_unpack E' e x u)) \<noteq> trace u
      else RemoteKey_unpack E' e x u = (Inl Status_INVALID_PARAM, u)"
  proof (cases "unframe_rkey_payload x")
    case (Inl s)
    then have "s = Status_INVALID_PARAM"
      by (auto simp: unframe_rkey_payload_def Let_def split: if_splits)
    with Inl show ?thesis using unframe_frame [of "drop 4 x" x] by (auto simp: RemoteKey_unpack_def)
  next
    case (Inr p)
    then have "p = drop 4 x" by (auto simp: unframe_rkey_payload_def Let_def split: if_splits)
    with Inr show ?thesis using frame_unframe [of x p] by (simp add: RemoteKey_unpack_def)
  qed
  show ?thesis
  proof (cases "status_to_result (ret_status ret)")
    case (Inl s)
    then show ?thesis
      by (auto simp: RemoteKey_pack_def f status_to_result_def Status_from_def split: if_splits)
  next
    case (Inr v)
    show ?thesis
    proof (cases "frame_rkey_payload (mem_read (mem w0) (out_ptr ret) (unat (out_len ret)))")
      case (Inl s)
      with Inr show ?thesis
        by (auto simp: RemoteKey_pack_def f frame_rkey_payload_def Status_from_def split: if_splits)
    next
      case q: (Inr b)
      have un: "RemoteKey_unpack E' e b u = value_call E' (EpC (ucp_ep_rkey_unpack (ep_handle e)
             (Holding (mem_read (mem w0) (out_ptr ret) (unat (out_len ret))))))
           (\<lambda>ret. \<lparr>rk_handle = out_ptr ret, rk_worker_alive = ep_worker_alive e\<rparr>) u"
        by (simp add: RemoteKey_unpack_def unframe_frame [OF q])
      show ?thesis using Inr x by (simp add: RemoteKey_pack_def f q un)
    qed
  qed
qed

text \<open>C14: Two keys are compared only when both were unpacked on this very worker and it is alive;
  then UCX's zero means they name the same region.  In every other case the comparison is
  refused and UCX, which would dereference both handles, is not called.\<close>

theorem rkey_compare_guarded:
  "if rk_worker_alive k = wk_alive wk \<and> rk_worker_alive other = wk_alive wk \<and> atomics w (wk_alive wk)
   then (case ffi E (MemC (ucp_rkey_compare (wk_handle wk) (rk_handle k) (rk_handle other) 0)) w of
       (ret, w1) \<Rightarrow> RemoteKey_compare E k other wk w =
         (if ret_status ret \<in> {UCS_OK, UCS_INPROGRESS} then Inr (out_int ret = 0)
          else Inl (Status (ret_status ret)), w1))
   else RemoteKey_compare E k other wk w = (Inl Status_INVALID_PARAM, w)"
proof (cases "rk_worker_alive k = wk_alive wk \<and> rk_worker_alive other = wk_alive wk \<and> atomics w (wk_alive wk)")
  case True
  then show ?thesis
    by (auto simp: RemoteKey_compare_def value_call_def status_to_result_def Status_from_def
        split: prod.splits)
next
  case False
  then show ?thesis by (auto simp: RemoteKey_compare_def)
qed

text \<open>C22: The reply buffer of a fetching atomic operation is protected: freed or dropped, the guard
  progresses its worker until a check does not find the operation pending, and then frees the
  request, once and last; if a million checks all found it pending, the request is leaked.  The
  exception is a debug build whose worker is already progressing: \<^verbatim>\<open>progress\<close> panics after the
  first check, and unwinding frees the request while the operation is still in flight.\<close>

theorem fetch_guard_completes_first:
  "guarded E wk h w (FetchAmoRequest_free E (fetch_amo_result (Some \<lparr>req_handle = Some h\<rparr>) wk) w) \<and>
   FetchAmoRequest_drop E (fetch_amo_result (Some \<lparr>req_handle = Some h\<rparr>) wk) w =
     FetchAmoRequest_free E (fetch_amo_result (Some \<lparr>req_handle = Some h\<rparr>) wk) w \<and>
   FetchAmoRequest_free E (fetch_amo_result None wk) w = (Ret (), w) \<and>
   FetchAmoRequest_into_inner E (fetch_amo_result r wk) w = (Ret r, w)"
  using guard_rounds_guarded
  by (simp add: FetchAmoRequest_free_drop)
    (simp add: FetchAmoRequest_drop_def FetchAmoRequest_into_inner_def fetch_amo_result_def bnd_def)

end
