(* ===== verification/Tag.thy ===== *)
theory Tag
  imports Endpoint
begin

text \<open>
  \<^verbatim>\<open>src/tag.rs\<close>: tagged messages.  A Rust slice is its address and length.  A \<^verbatim>\<open>TagRequest\<close>
  guards a transfer whose buffer UCX may still use: it is completed, and only then freed, before
  the borrow of the buffer ends, and the process aborts when completion cannot be reached.
\<close>

subsection \<open>State\<close>

record TagInfo =
  ti_length :: usize
  ti_sender_tag :: u64

record MessageHandle =
  mh_handle :: ptr
  mh_info :: TagInfo
  mh_removed :: bool

record TagRequest =
  tr_worker :: Worker
  tr_handle :: "ptr option"

definition TagInfo_from_ffi :: "ucp_tag_recv_info_t \<Rightarrow> TagInfo" where
  "TagInfo_from_ffi f = \<lparr>ti_length = tinfo_length f, ti_sender_tag = tinfo_sender_tag f\<rparr>"

definition TagInfo_is_empty :: "TagInfo \<Rightarrow> bool" where
  "TagInfo_is_empty i \<longleftrightarrow> ti_length i = 0"

definition MessageHandle_len :: "MessageHandle \<Rightarrow> usize" where
  "MessageHandle_len m = ti_length (mh_info m)"

definition MessageHandle_is_empty :: "MessageHandle \<Rightarrow> bool" where
  "MessageHandle_is_empty m = TagInfo_is_empty (mh_info m)"

definition MessageHandle_sender_tag :: "MessageHandle \<Rightarrow> u64" where
  "MessageHandle_sender_tag m = ti_sender_tag (mh_info m)"

subsection \<open>Sending\<close>

text \<open>The closures move the handle out of the request, whose own drop is then empty.\<close>

definition Ep_tag_send ::
  "'u env \<Rightarrow> Ep \<Rightarrow> Worker \<Rightarrow> ptr \<times> usize \<Rightarrow> u64 \<Rightarrow> RequestParam \<Rightarrow>
     ('u world, Status + TagRequest option) prog" where
  "Ep_tag_send E e wk data tag param w =
     (let (r, w1) = nbx E (XferC (ucp_tag_send_nbx (ep_handle e) (fst data) (snd data) tag
            (rparam_handle param))) w
      in (map_ok (map_option (\<lambda>request. \<lparr>tr_worker = wk, tr_handle = req_handle request\<rparr>)) r, w1))"

definition Ep_tag_send_sync ::
  "'u env \<Rightarrow> Ep \<Rightarrow> ptr \<times> usize \<Rightarrow> u64 \<Rightarrow> ('u world, Status + Request) prog" where
  "Ep_tag_send_sync E e data tag w =
     (let (r, w1) = nbx E (XferC (ucp_tag_send_sync_nbx (ep_handle e) (fst data) (snd data) tag None)) w
      in (map_ok (\<lambda>request. case request of None \<Rightarrow> \<lparr>req_handle = None\<rparr> | Some q \<Rightarrow> q) r, w1))"

definition Ep_tag_send_ptr ::
  "'u env \<Rightarrow> Ep \<Rightarrow> ptr \<Rightarrow> usize \<Rightarrow> u64 \<Rightarrow> RequestParam \<Rightarrow>
     ('u world, Status + Request option) prog" where
  "Ep_tag_send_ptr E e p len tag param =
     nbx E (XferC (ucp_tag_send_nbx (ep_handle e) p len tag (rparam_handle param)))"

subsection \<open>The request guard\<close>

definition TagRequest_check_finished ::
  "'u env \<Rightarrow> TagRequest \<Rightarrow> 'u world \<Rightarrow> ((Status + bool) \<times> TagRequest) \<times> 'u world" where
  "TagRequest_check_finished E t w =
     (let request = \<lparr>req_handle = tr_handle t\<rparr>;
          (result, w1) = Request_check_finished E request w
      in ((result, t\<lparr>tr_handle := req_handle request\<rparr>), w1))"

text \<open>
  \<^verbatim>\<open>complete\<close>: the argument is \<^verbatim>\<open>remaining\<close>.  A pending check with none remaining aborts the
  process; any other result drops the request and ends the loop.
\<close>

fun TagRequest_complete_rounds ::
  "'u env \<Rightarrow> TagRequest \<Rightarrow> nat \<Rightarrow> ('u world, (Status + unit) \<times> TagRequest) prog" where
  "TagRequest_complete_rounds E t remaining w =
     (case TagRequest_check_finished E t w of
        ((Inr False, t1), w1) \<Rightarrow>
          (case remaining of
             0 \<Rightarrow> (Abort, w1)
           | Suc n \<Rightarrow> bnd (Worker_progress E (tr_worker t1))
               (\<lambda>_. TagRequest_complete_rounds E t1 n) w1)
      | ((result, t1), w1) \<Rightarrow>
          (Ret (result_map (\<lambda>_. ()) result, t1\<lparr>tr_handle := None\<rparr>),
           Request_drop E \<lparr>req_handle = tr_handle t1\<rparr> w1))"

declare TagRequest_complete_rounds.simps [simp del]

definition TagRequest_complete ::
  "'u env \<Rightarrow> TagRequest \<Rightarrow> ('u world, (Status + unit) \<times> TagRequest) prog" where
  "TagRequest_complete E t = TagRequest_complete_rounds E t 1000000"

definition TagRequest_drop :: "'u env \<Rightarrow> TagRequest \<Rightarrow> ('u world, unit) prog" where
  "TagRequest_drop E t = bnd (TagRequest_complete E t) (\<lambda>_ w. (Ret (), w))"

text \<open>\<^verbatim>\<open>free\<close> completes and then drops the guard; a panic while unwinding into that drop aborts.\<close>

definition TagRequest_free :: "'u env \<Rightarrow> TagRequest \<Rightarrow> ('u world, Status + unit) prog" where
  "TagRequest_free E t w = (case TagRequest_complete E t w of
      (Ret (r, t1), w1) \<Rightarrow> bnd (TagRequest_drop E t1) (\<lambda>_ w2. (Ret r, w2)) w1
    | (Panic s, w1) \<Rightarrow> (case TagRequest_drop E t w1 of
          (Ret _, w2) \<Rightarrow> (Panic s, w2)
        | (_, w2) \<Rightarrow> (Abort, w2))
    | (Abort, w1) \<Rightarrow> (Abort, w1))"

definition TagRequest_into_inner :: "'u env \<Rightarrow> TagRequest \<Rightarrow> ('u world, Request) prog" where
  "TagRequest_into_inner E t =
     bnd (TagRequest_drop E (t\<lparr>tr_handle := None\<rparr>)) (\<lambda>_ w. (Ret \<lparr>req_handle = tr_handle t\<rparr>, w))"

subsection \<open>Receiving\<close>

definition Worker_tag_recv ::
  "'u env \<Rightarrow> Worker \<Rightarrow> Worker \<Rightarrow> ptr \<times> usize \<Rightarrow> u64 \<Rightarrow> u64 \<Rightarrow> RequestParam \<Rightarrow>
     ('u world, Status + TagRequest) prog" where
  "Worker_tag_recv E self wk data tag msk param w =
     (let (r, w1) = nbx E (XferC (ucp_tag_recv_nbx (wk_handle self) (fst data) (snd data) tag msk
            (rparam_handle param))) w
      in (map_ok (\<lambda>request. \<lparr>tr_worker = wk,
            tr_handle = Option.bind request req_handle\<rparr>) r, w1))"

definition Worker_tag_recv_ptr ::
  "'u env \<Rightarrow> Worker \<Rightarrow> ptr \<Rightarrow> usize \<Rightarrow> u64 \<Rightarrow> u64 \<Rightarrow> RequestParam \<Rightarrow>
     ('u world, Status + Request option) prog" where
  "Worker_tag_recv_ptr E wk p len tag msk param =
     nbx E (XferC (ucp_tag_recv_nbx (wk_handle wk) p len tag msk (rparam_handle param)))"

definition Worker_tag_probe ::
  "'u env \<Rightarrow> Worker \<Rightarrow> u64 \<Rightarrow> u64 \<Rightarrow> bool \<Rightarrow> 'u world \<Rightarrow> MessageHandle option \<times> 'u world" where
  "Worker_tag_probe E wk tag tag_mask remove w =
     (let (ret, w1) = ffi E (XferC (ucp_tag_probe_nb (wk_handle wk) tag tag_mask (of_bool remove))) w;
          handle = ret_ptr ret
      in if handle \<noteq> 0
         then (Some \<lparr>mh_handle = handle, mh_info = TagInfo_from_ffi (out_info ret),
                     mh_removed = remove\<rparr>, w1)
         else (None, w1))"

definition Worker_tag_msg_recv ::
  "'u env \<Rightarrow> Worker \<Rightarrow> ptr \<times> usize \<Rightarrow> MessageHandle \<Rightarrow> RequestParam \<Rightarrow>
     ('u world, Status + Request option) prog" where
  "Worker_tag_msg_recv E wk data message param w =
     (if \<not> mh_removed message
      then (Panic ''Tried to call tag_msg_recv() on a MessageHandle that didn't remove the entry!'', w)
      else nbx E (XferC (ucp_tag_msg_recv_nbx (wk_handle wk) (fst data) (snd data)
        (mh_handle message) (rparam_handle param))) w)"

fun map_tag_recv_test_status ::
  "ucs_status_t \<Rightarrow> ucp_tag_recv_info_t \<Rightarrow> Status + TagInfo option" where
  "map_tag_recv_test_status UCS_OK info = Inr (Some (TagInfo_from_ffi info))"
| "map_tag_recv_test_status UCS_INPROGRESS info = Inr None"
| "map_tag_recv_test_status status info = Inl (Status_from status)"

definition Request_tag_recv_test ::
  "'u env \<Rightarrow> Request \<Rightarrow> 'u world \<Rightarrow> (Status + TagInfo option) \<times> 'u world" where
  "Request_tag_recv_test E r w = (case req_handle r of
      None \<Rightarrow> (Inr None, w)
    | Some h \<Rightarrow>
       (let (ret, w1) = ffi E (ReqC (ucp_tag_recv_request_test h)) w
        in (map_tag_recv_test_status (ret_status ret) (out_info ret), w1)))"

text \<open>The deprecated functions wrap whatever pointer UCX returns.\<close>

definition tag_send_sync_nbx ::
  "'u env \<Rightarrow> Ep \<Rightarrow> ptr \<Rightarrow> usize \<Rightarrow> u64 \<Rightarrow> ('u world, Request) prog" where
  "tag_send_sync_nbx E e buffer count tag w =
     (let (ret, w1) = ffi E (XferC (ucp_tag_send_sync_nbx (ep_handle e) buffer count tag None)) w
      in (Request_from_raw E (ret_ptr ret), w1))"

definition tag_msg_recv_nb ::
  "'u env \<Rightarrow> Worker \<Rightarrow> ptr \<Rightarrow> usize \<Rightarrow> u64 \<Rightarrow> MessageHandle \<Rightarrow> ('u world, Request) prog" where
  "tag_msg_recv_nb E wk buffer count datatype message w =
     (let (ret, w1) = ffi E (XferC (ucp_tag_msg_recv_nb (wk_handle wk) buffer count datatype
            (mh_handle message) None)) w
      in (Request_from_raw E (ret_ptr ret), w1))"

subsection \<open>Completion\<close>

lemma TagRequest_check_finished_eq:
  "TagRequest_check_finished E t w =
     ((fst (Request_check_finished E \<lparr>req_handle = tr_handle t\<rparr> w), t),
      snd (Request_check_finished E \<lparr>req_handle = tr_handle t\<rparr> w))"
  by (simp add: TagRequest_check_finished_def split: prod.splits)

text \<open>The completion loop polls the same way as the others; its time-out is one more check.\<close>

definition tag_done ::
  "'u env \<Rightarrow> TagRequest \<Rightarrow> Status + unit \<Rightarrow> ('u world, (Status + unit) \<times> TagRequest) prog" where
  "tag_done E t r w = (Ret (r, t\<lparr>tr_handle := None\<rparr>), Request_drop E \<lparr>req_handle = tr_handle t\<rparr> w)"

definition tag_last_check ::
  "'u env \<Rightarrow> TagRequest \<Rightarrow> ('u world, (Status + unit) \<times> TagRequest) prog" where
  "tag_last_check E t w = (case Request_check_finished E \<lparr>req_handle = tr_handle t\<rparr> w of
      (Inr True, w1) \<Rightarrow> tag_done E t (Inr ()) w1
    | (Inr False, w1) \<Rightarrow> (Abort, w1)
    | (Inl e, w1) \<Rightarrow> tag_done E t (Inl e) w1)"

interpretation tag_loop: bounded_poll
  "Request_check_finished E \<lparr>req_handle = tr_handle t\<rparr>" "Worker_progress E (tr_worker t)" id
  "tag_done E t (Inr ())" "\<lambda>e. tag_done E t (Inl e)" "tag_last_check E t"
  "TagRequest_complete_rounds E t"
  for E :: "'u env" and t
proof unfold_locales
  fix w :: "'u world"
  show "TagRequest_complete_rounds E t 0 w = tag_last_check E t w"
    by (auto simp: TagRequest_complete_rounds.simps TagRequest_check_finished_eq tag_last_check_def
        tag_done_def split: prod.splits sum.splits bool.splits)
next
  fix n and w :: "'u world"
  show "TagRequest_complete_rounds E t (Suc n) w =
      (case Request_check_finished E \<lparr>req_handle = tr_handle t\<rparr> w of
         (Inl e, w1) \<Rightarrow> tag_done E t (Inl e) w1
       | (Inr b, w1) \<Rightarrow> if b then tag_done E t (Inr ()) w1
           else bnd (unwind id (Worker_progress E (tr_worker t)))
             (\<lambda>_. TagRequest_complete_rounds E t n) w1)"
    by (subst TagRequest_complete_rounds.simps)
      (auto simp: TagRequest_check_finished_eq tag_done_def bnd_def unwind_def
        split: prod.splits sum.splits bool.splits outcome.splits)
qed

lemma complete_rounds_spin:
  "TagRequest_complete_rounds E t n w =
     (case spin (Request_check_finished E \<lparr>req_handle = tr_handle t\<rparr>)
         (Worker_progress E (tr_worker t)) n w of
        (Ret Finished, w1) \<Rightarrow> tag_done E t (Inr ()) w1
      | (Ret (Failed e), w1) \<Rightarrow> tag_done E t (Inl e) w1
      | (Ret Exhausted, w1) \<Rightarrow> tag_last_check E t w1
      | (Panic s, w1) \<Rightarrow> (Panic s, w1)
      | (Abort, w1) \<Rightarrow> (Abort, w1))"
  unfolding tag_loop.loop_is_spin tag_loop.finish_def id_apply ..

text \<open>
  What completion comes to.  It returns the outcome of a check that did not find the request
  pending, every check before it having found it so, and the request is dropped right after that
  check, once and last.  It aborts when the check after the last round still finds the request
  pending.  The debug guard of \<^verbatim>\<open>progress\<close> panics after the first check, with the request left
  in the guard, whose own drop then has to complete it.
\<close>

definition tag_completed ::
  "'u env \<Rightarrow> TagRequest \<Rightarrow> ptr \<Rightarrow> nat \<Rightarrow> 'u world \<Rightarrow>
     ((Status + unit) \<times> TagRequest) outcome \<times> 'u world \<Rightarrow> bool" where
  "tag_completed E t h n w r =
     (let request = \<lparr>req_handle = Some h\<rparr>; check = Request_check_finished E request;
          pending = (\<lambda>k. rounds check (Worker_progress E (tr_worker t)) k w) in
      case r of
        (Ret (result, t1), w1) \<Rightarrow> t1 = t\<lparr>tr_handle := None\<rparr> \<and>
          (\<exists>k\<le>n. \<exists>v b u polls. pending k = Some v \<and> check v = (b, u) \<and> b \<noteq> Inr False \<and>
             result = result_map (\<lambda>_. ()) b \<and> w1 = Request_drop E request u \<and>
             trace u = trace w @ polls \<and> filter (releases_request h) polls = [] \<and>
             trace w1 = trace w @ polls @ [ReqC (ucp_request_free h)])
      | (Panic _, w1) \<Rightarrow> debug_assertions E \<and> atomics w (wk_progressing (tr_worker t)) \<and>
          check w = (Inr False, w1) \<and> trace w1 = trace w @ [ReqC (ucp_request_check_status h)]
      | (Abort, w1) \<Rightarrow> \<exists>v. pending n = Some v \<and> check v = (Inr False, w1))"

lemma tag_completed_done:
  assumes "tr_handle t = Some h" and "k \<le> n"
    and "rounds (Request_check_finished E \<lparr>req_handle = Some h\<rparr>) (Worker_progress E (tr_worker t)) k w = Some v"
    and "Request_check_finished E \<lparr>req_handle = Some h\<rparr> v = (b, u)" and "b \<noteq> Inr False"
    and "trace u = trace w @ polls" and "filter (releases_request h) polls = []"
  shows "tag_completed E t h n w (tag_done E t (result_map (\<lambda>_. ()) b) u)"
proof -
  have "trace (Request_drop E \<lparr>req_handle = Some h\<rparr> u) = trace w @ polls @ [ReqC (ucp_request_free h)]"
    using assms(6) by (simp add: Request_drop_trace)
  then show ?thesis using assms
    unfolding tag_completed_def tag_done_def Let_def prod.case outcome.case by auto
qed

lemma check_finished_keeps:
  assumes "Request_check_finished E \<lparr>req_handle = Some h\<rparr> w = (x, w1)"
  shows "trace w1 = trace w @ [ReqC (ucp_request_check_status h)]"
    and "\<not> releases_request p (ReqC (ucp_request_check_status h))"
  using assms by (auto simp: Request_check_finished_live Let_def releases_request_def)

lemma complete_rounds_completed:
  assumes h: "tr_handle t = Some h"
  shows "tag_completed E t h n w (TagRequest_complete_rounds E t n w)"
proof -
  let ?r = "\<lparr>req_handle = Some h\<rparr>" and ?wk = "tr_worker t"
  let ?check = "Request_check_finished E ?r"
  obtain y u where sp: "spin ?check (Worker_progress E ?wk) n w = (y, u)" by fastforce
  obtain cs where cs: "trace u = trace w @ cs" "filter (releases_request h) cs = []"
    using polls_keep [OF sp] by blast
  note c = complete_rounds_spin [of E t n w, unfolded h sp]
  show ?thesis
  proof (cases y)
    case (Panic s)
    have k: "?check w = (Inr False, u)" by (rule spin_progress_panic(3) [OF sp [unfolded Panic]])
    then show ?thesis
      using c Panic spin_progress_panic(1,2) [OF sp [unfolded Panic]] check_finished_keeps(1) [OF k]
      by (simp add: tag_completed_def)
  next
    case Abort
    then show ?thesis using spin_progress_outcome(1) [OF sp] by simp
  next
    case (Ret z)
    show ?thesis
    proof (cases z)
      case Finished
      then obtain k v where "k < n" "rounds ?check (Worker_progress E ?wk) k w = Some v"
        "?check v = (Inr True, u)"
        using sp Ret by (auto simp: spin_Finished_iff)
      from tag_completed_done [OF h less_imp_le [OF this(1)] this(2,3) _ cs] show ?thesis
        using c Ret Finished by simp
    next
      case (Failed e)
      then obtain k v where "k < n" "rounds ?check (Worker_progress E ?wk) k w = Some v"
        "?check v = (Inl e, u)"
        using sp Ret by (auto simp: spin_Failed_iff)
      from tag_completed_done [OF h less_imp_le [OF this(1)] this(2,3) _ cs] show ?thesis
        using c Ret Failed by simp
    next
      case Exhausted
      have v: "rounds ?check (Worker_progress E ?wk) n w = Some u"
        using sp Ret Exhausted by (simp add: spin_Exhausted_iff)
      obtain b x where k: "?check u = (b, x)" by fastforce
      have l: "TagRequest_complete_rounds E t n w = (case b of
          Inl e \<Rightarrow> tag_done E t (Inl e) x
        | Inr d \<Rightarrow> if d then tag_done E t (Inr ()) x else (Abort, x))"
        using c Ret Exhausted k h by (simp add: tag_last_check_def split: sum.split bool.split)
      show ?thesis
      proof (cases "b = Inr False")
        case True
        then show ?thesis using l v k by (simp add: tag_completed_def)
      next
        case False
        have "trace x = trace w @ (cs @ [ReqC (ucp_request_check_status h)])"
          "filter (releases_request h) (cs @ [ReqC (ucp_request_check_status h)]) = []"
          using check_finished_keeps [OF k] cs by auto
        from tag_completed_done [OF h order_refl v k False this] False show ?thesis
          by (cases b) (auto simp: l)
      qed
    qed
  qed
qed

subsection \<open>Properties\<close>

text \<open>C20: Completing a tagged request never gives the buffer back early.  It returns only right
  after a check that did not find the request pending, with that check's outcome, and has then
  freed the request, once and last, and taken the handle.  It aborts the process after a million
  and one checks that all found the request pending.  In a debug build, if the worker is already
  progressing, the first pending check leads to the panic of \<^verbatim>\<open>progress\<close> instead, with nothing
  freed.\<close>

theorem tag_complete_never_early:
  "let t = \<lparr>tr_worker = wk, tr_handle = Some h\<rparr> in
   tag_completed E t h 1000000 w (TagRequest_complete E t w)"
  by (simp add: TagRequest_complete_def complete_rounds_completed)

text \<open>A tag probe that finds a message and takes it off the queue is the only one
  \<^verbatim>\<open>tag_msg_recv\<close> accepts: for a handle that was only peeked at it panics before any call to
  UCX.\<close>

theorem tag_msg_recv_needs_removed:
  "case Worker_tag_probe E wk tag tag_mask remove w of
     (None, w1) \<Rightarrow> ret_ptr (fst (ffi E (XferC (ucp_tag_probe_nb (wk_handle wk) tag tag_mask (of_bool remove))) w)) = 0
   | (Some m, w1) \<Rightarrow> mh_handle m \<noteq> 0 \<and> mh_removed m = remove \<and>
       (let (x, w2) = Worker_tag_msg_recv E wk2 data m param w1
        in if remove then trace w2 = trace w1 @ [XferC (ucp_tag_msg_recv_nbx (wk_handle wk2)
             (fst data) (snd data) (mh_handle m) (rparam_handle param))]
           else (\<exists>s. x = Panic s) \<and> w2 = w1)"
  by (auto simp: Worker_tag_probe_def Worker_tag_msg_recv_def Let_def world_simps
      split: prod.splits if_splits)

text \<open>
  The deprecated wrappers take UCX's status pointer for a request: an error code becomes a
  request whose drop frees the error code.
\<close>

lemma deprecated_send_frees_error:
  "disc s < 0 \<Longrightarrow> fst (ffi E (XferC (ucp_tag_send_sync_nbx (ep_handle e) buffer count tag None)) w) =
     ffi_ret0\<lparr>ret_ptr := status_as_usize s\<rparr> \<Longrightarrow>
   \<exists>q w1. tag_send_sync_nbx E e buffer count tag w = (Ret q, w1) \<and>
     trace (Request_drop E q w1) = trace w1 @ [ReqC (ucp_request_free (status_as_usize s))]"
proof -
  assume "disc s < 0"
  then have "status_as_usize s \<noteq> 0" by (cases s) (simp_all add: status_as_usize_def)
  moreover assume "fst (ffi E (XferC (ucp_tag_send_sync_nbx (ep_handle e) buffer count tag None)) w) =
     ffi_ret0\<lparr>ret_ptr := status_as_usize s\<rparr>"
  ultimately show ?thesis
    by (auto simp: tag_send_sync_nbx_def Request_from_raw_def Request_drop_def ffi_ret0_def
        split: prod.splits)
qed

end
