(* ===== verification/Scope.thy ===== *)
theory Scope
  imports "HOL-Library.Multiset" Remote_Key Tag
begin

text \<open>
  A whole program over the crate's owning values: configurations, contexts, workers, packed
  addresses, endpoints, requests, memory handles and remote keys, each a local variable.  The program creates values from values it holds,
  polls, closes endpoints and leaves inner scopes; at its end, or when an operation panics, its
  locals are dropped newest first, as Rust does.  The theorems say that every handle UCX gave is
  then released exactly once, in the reverse order of creation.  Listeners share their state with
  the trampoline and are the subject of theory \<^verbatim>\<open>Listener\<close>.
\<close>

subsection \<open>Owned values and their drop\<close>

datatype owned_val =
    V_context Context | V_worker Worker | V_ep Ep | V_memh MemHandle | V_key RemoteKey
  | V_config Config | V_address WorkerAddress | V_request Request | V_tag TagRequest

datatype handle =
    H_context ptr | H_worker ptr | H_ep ptr | H_memh ptr | H_key ptr | H_config ptr | H_address ptr

text \<open>
  The handles a value owns; an empty remote key owns none.  Requests are not counted here: the
  crate makes and frees some of its own inside its operations, and theory \<open>Request\<close> shows that a
  wrapper frees its request once.
\<close>

fun handles_of :: "owned_val \<Rightarrow> handle list" where
  "handles_of (V_context c) = [H_context (context_handle c)]"
| "handles_of (V_worker wk) = [H_worker (wk_handle wk)]"
| "handles_of (V_ep e) = [H_ep (ep_handle e)]"
| "handles_of (V_memh m) = [H_memh (memh_handle m)]"
| "handles_of (V_key k) = (if rk_handle k = 0 then [] else [H_key (rk_handle k)])"
| "handles_of (V_config c) = [H_config (config_handle c)]"
| "handles_of (V_address a) = [H_address (wa_handle a)]"
| "handles_of (V_request req) = []"
| "handles_of (V_tag t) = []"

text \<open>The guard of a tagged transfer is the one value whose drop may abort a release build.\<close>

fun is_guard :: "owned_val \<Rightarrow> bool" where
  "is_guard (V_tag t) = True"
| "is_guard _ = False"

fun drop_value :: "'u env \<Rightarrow> owned_val \<Rightarrow> ('u world, unit) prog" where
  "drop_value E (V_context c) w = (Ret (), Context_drop E c w)"
| "drop_value E (V_worker wk) w = Worker_drop E wk w"
| "drop_value E (V_ep e) w = Ep_drop E e w"
| "drop_value E (V_memh m) w = (Ret (), MemHandle_drop E m w)"
| "drop_value E (V_key k) w = (Ret (), RemoteKey_drop E k w)"
| "drop_value E (V_config c) w = (Ret (), Config_drop E c w)"
| "drop_value E (V_address a) w = (Ret (), WorkerAddress_drop E a w)"
| "drop_value E (V_request req) w = (Ret (), Request_drop E req w)"
| "drop_value E (V_tag t) w = TagRequest_drop E t w"

text \<open>The handle a foreign call gives back to UCX.\<close>

fun released_by :: "ffi_call \<Rightarrow> handle list" where
  "released_by (CtxC (ucp_cleanup h)) = [H_context h]"
| "released_by (WorkerC (ucp_worker_destroy h)) = [H_worker h]"
| "released_by (EpC (ucp_ep_close_nbx h p)) = [H_ep h]"
| "released_by (EpC (ucp_ep_destroy h)) = [H_ep h]"
| "released_by (MemC (ucp_mem_unmap c h)) = [H_memh h]"
| "released_by (MemC (ucp_rkey_destroy h)) = [H_key h]"
| "released_by (CtxC (ucp_config_release h)) = [H_config h]"
| "released_by (WorkerC (ucp_worker_release_address wh h)) = [H_address h]"
| "released_by _ = []"

definition released :: "ffi_call list \<Rightarrow> handle list" where
  "released cs = concat (map released_by cs)"

subsection \<open>Programs\<close>

record 'u scope =
  sc_world :: "'u world"
  sc_stack :: "owned_val list"
  sc_created :: "handle list"

text \<open>Values are named by their position, the newest first.\<close>

datatype scope_op =
    Read_config bytes bytes
  | Init_context Config ContextParams
  | New_worker nat WorkerParams
  | Pack_address nat
  | New_endpoint nat EpParams
  | Flush_endpoint nat RequestParam
  | Map_memory nat MemMapParamsBuilder
  | Unpack_key nat bytes
  | Poll_worker nat
  | Close_endpoint nat nat u32
  | End_inner_scope

definition borrow :: "nat \<Rightarrow> 'u scope \<Rightarrow> owned_val option" where
  "borrow i S = (if i < length (sc_stack S) then Some (sc_stack S ! i) else None)"

fun push :: "('a \<Rightarrow> owned_val) \<Rightarrow> ('e + 'a) \<times> 'u world \<Rightarrow> 'u scope \<Rightarrow> unit outcome \<times> 'u scope" where
  "push V (Inl e, w) S = (Ret (), S\<lparr>sc_world := w\<rparr>)"
| "push V (Inr x, w) S = (Ret (), S\<lparr>sc_world := w, sc_stack := V x # sc_stack S,
     sc_created := sc_created S @ handles_of (V x)\<rparr>)"

fun outcome_unit :: "'a outcome \<Rightarrow> unit outcome" where
  "outcome_unit (Ret x) = Ret ()"
| "outcome_unit (Panic s) = Panic s"
| "outcome_unit Abort = Abort"

text \<open>A call that may leave a request: an immediate completion leaves none.\<close>

fun push_request :: "(Status + Request option) outcome \<times> 'u world \<Rightarrow> 'u scope \<Rightarrow> unit outcome \<times> 'u scope" where
  "push_request (Ret (Inr (Some req)), w) S = (Ret (), S\<lparr>sc_world := w, sc_stack := V_request req # sc_stack S\<rparr>)"
| "push_request (r, w) S = (outcome_unit r, S\<lparr>sc_world := w\<rparr>)"

text \<open>An operation on a value the program does not hold, or of another type, does nothing.\<close>

fun scope_step :: "'u env \<Rightarrow> scope_op \<Rightarrow> 'u scope \<Rightarrow> unit outcome \<times> 'u scope" where
  "scope_step E (Read_config name file) S = push V_config (Config_read E name file (sc_world S)) S"
| "scope_step E (Init_context cfg p) S = push V_context (Context_new E cfg p (sc_world S)) S"
| "scope_step E (New_worker i p) S = (case borrow i S of
      Some (V_context c) \<Rightarrow> push V_worker (Context_worker_create E c p (sc_world S)) S
    | _ \<Rightarrow> (Ret (), S))"
| "scope_step E (Pack_address i) S = (case borrow i S of
      Some (V_worker wk) \<Rightarrow> push V_address (Worker_pack_address E wk (sc_world S)) S
    | _ \<Rightarrow> (Ret (), S))"
| "scope_step E (Flush_endpoint i p) S = (case borrow i S of
      Some (V_ep e) \<Rightarrow> push_request (Ep_flush E e p (sc_world S)) S
    | _ \<Rightarrow> (Ret (), S))"
| "scope_step E (New_endpoint i p) S = (case borrow i S of
      Some (V_worker wk) \<Rightarrow> push V_ep (Worker_create_ep E wk p (sc_world S)) S
    | _ \<Rightarrow> (Ret (), S))"
| "scope_step E (Map_memory i p) S = (case borrow i S of
      Some (V_context c) \<Rightarrow> (case MemHandle_map E c p (sc_world S) of
        ((result, _), w1) \<Rightarrow> push V_memh (result, w1) S)
    | _ \<Rightarrow> (Ret (), S))"
| "scope_step E (Unpack_key i b) S = (case borrow i S of
      Some (V_ep e) \<Rightarrow> push V_key (RemoteKey_unpack E e b (sc_world S)) S
    | _ \<Rightarrow> (Ret (), S))"
| "scope_step E (Poll_worker i) S = (case borrow i S of
      Some (V_worker wk) \<Rightarrow> (case Worker_progress E wk (sc_world S) of
        (r, w1) \<Rightarrow> (outcome_unit r, S\<lparr>sc_world := w1\<rparr>))
    | _ \<Rightarrow> (Ret (), S))"
| "scope_step E (Close_endpoint i j flags) S = (case (borrow i S, borrow j S) of
      (Some (V_ep e), Some (V_worker wk)) \<Rightarrow> (case Ep_close E e wk flags (sc_world S) of
        (r, w1) \<Rightarrow> (outcome_unit r, S\<lparr>sc_world := w1,
           sc_stack := take i (sc_stack S) @ drop (Suc i) (sc_stack S)\<rparr>))
    | _ \<Rightarrow> (Ret (), S))"
| "scope_step E End_inner_scope S = (case sc_stack S of
      [] \<Rightarrow> (Ret (), S)
    | v # vs \<Rightarrow> (case drop_value E v (sc_world S) of
        (r, w1) \<Rightarrow> (r, S\<lparr>sc_world := w1, sc_stack := vs\<rparr>)))"

text \<open>Dropping the locals while a panic unwinds: a second panic aborts.\<close>

fun unwind_stack :: "'u env \<Rightarrow> owned_val list \<Rightarrow> 'u world \<Rightarrow> bool \<times> 'u world" where
  "unwind_stack E [] w = (True, w)"
| "unwind_stack E (v # vs) w = (case drop_value E v w of
      (Ret _, w1) \<Rightarrow> unwind_stack E vs w1
    | (_, w1) \<Rightarrow> (False, w1))"

definition unwound :: "'u env \<Rightarrow> string \<Rightarrow> owned_val list \<Rightarrow> ('u world, unit) prog" where
  "unwound E s vs w = (case unwind_stack E vs w of
      (True, w1) \<Rightarrow> (Panic s, w1)
    | (False, w1) \<Rightarrow> (Abort, w1))"

fun exit_stack :: "'u env \<Rightarrow> owned_val list \<Rightarrow> ('u world, unit) prog" where
  "exit_stack E [] w = (Ret (), w)"
| "exit_stack E (v # vs) w = (case drop_value E v w of
      (Ret _, w1) \<Rightarrow> exit_stack E vs w1
    | (Panic s, w1) \<Rightarrow> unwound E s vs w1
    | (Abort, w1) \<Rightarrow> (Abort, w1))"

fun run_scope :: "'u env \<Rightarrow> scope_op list \<Rightarrow> 'u scope \<Rightarrow> unit outcome \<times> 'u scope" where
  "run_scope E [] S = (case exit_stack E (sc_stack S) (sc_world S) of
      (r, w1) \<Rightarrow> (r, S\<lparr>sc_world := w1, sc_stack := []\<rparr>))"
| "run_scope E (op # ops) S = (case scope_step E op S of
      (Ret _, S1) \<Rightarrow> run_scope E ops S1
    | (Panic s, S1) \<Rightarrow> (case unwound E s (sc_stack S1) (sc_world S1) of
        (r, w1) \<Rightarrow> (r, S1\<lparr>sc_world := w1, sc_stack := []\<rparr>))
    | (Abort, S1) \<Rightarrow> (Abort, S1))"

definition empty_scope :: "'u world \<Rightarrow> 'u scope" where
  "empty_scope w = \<lparr>sc_world = w\<lparr>trace := []\<rparr>, sc_stack = [], sc_created = []\<rparr>"

subsection \<open>What an operation adds to the log\<close>

text \<open>From one world to another: the flags are as before and the new calls release these handles.\<close>

definition adds :: "handle list \<Rightarrow> 'u world \<Rightarrow> 'u world \<Rightarrow> bool" where
  "adds hs w w1 \<longleftrightarrow> atomics w1 = atomics w \<and> next_cell w1 = next_cell w \<and>
     (\<exists>cs. trace w1 = trace w @ cs \<and> released cs = hs)"

lemma released_simps [simp]:
  "released [] = []" "released (c # cs) = released_by c @ released cs"
  "released (as @ bs) = released as @ released bs"
  by (simp_all add: released_def)

lemma adds_refl [simp]: "adds [] w w"
  by (simp add: adds_def)

lemma adds_trans: "adds hs w w1 \<Longrightarrow> adds ks w1 w2 \<Longrightarrow> adds (hs @ ks) w w2"
  by (auto simp: adds_def)

lemmas adds_quiet = adds_trans [where ks = "[]", unfolded append_Nil2]

lemma adds_eprintln [simp]: "adds hs w (eprintln s w1) \<longleftrightarrow> adds hs w w1"
  by (simp add: adds_def)

lemma adds_ffi: "adds (released_by c) w (snd (ffi E c w))" "adds (released_by c) w (ffi_unit E c w)"
  by (simp_all add: adds_def)

lemma adds_nbx: "nbx E c w = (r, w1) \<Longrightarrow> adds (released_by c) w w1"
  by (auto simp: adds_def nbx_def world_simps ffi_world split: prod.splits)

lemma adds_value_call: "value_call E c f w = (r, w1) \<Longrightarrow> adds (released_by c) w w1"
  by (auto simp: adds_def value_call_def ffi_world split: prod.splits)

lemma adds_snd_value_call [simp]: "released_by c = [] \<Longrightarrow> adds [] w (snd (value_call E c f w))"
  using adds_value_call [of E c f w] by (cases "value_call E c f w") fastforce

lemma adds_Request_drop: "adds [] w (Request_drop E req w)"
  by (cases req) (auto simp: adds_def Request_drop_def split: option.splits)

lemma adds_check: "Request_check_finished E req w = (r, w1) \<Longrightarrow> adds [] w w1"
  by (cases "req_handle req")
    (auto simp: Request_check_finished_live adds_def Request_check_finished_def Let_def ffi_world
      split: prod.splits if_splits)

lemma adds_progress: "Worker_progress E wk w = (r, w1) \<Longrightarrow> adds [] w w1"
  by (auto simp: Worker_progress_eq adds_def split: if_splits)

lemma adds_spin: "adds [] w (snd (spin (Request_check_finished E req) (Worker_progress E wk) n w))"
  by (rule spin_invariant [where P = "adds [] w"])
    (auto dest: adds_check adds_progress intro: adds_quiet)

lemma adds_Tag_drop: "TagRequest_drop E t w = (r, w1) \<Longrightarrow> adds [] w w1"
  and Tag_drop_release: "TagRequest_drop E t w = (r, w1) \<Longrightarrow> \<not> debug_assertions E \<Longrightarrow> r = Ret () \<or> r = Abort"
proof -
  let ?check = "Request_check_finished E \<lparr>req_handle = tr_handle t\<rparr>"
  obtain y u where sp: "spin ?check (Worker_progress E (tr_worker t)) 1000000 w = (y, u)" by fastforce
  have u: "adds [] w u" using adds_spin [of w E "\<lparr>req_handle = tr_handle t\<rparr>" "tr_worker t" 1000000] sp by simp
  obtain b v where c: "?check u = (b, v)" by fastforce
  have v: "adds [] w v" "adds [] w (Request_drop E \<lparr>req_handle = tr_handle t\<rparr> v)"
    "adds [] w (Request_drop E \<lparr>req_handle = tr_handle t\<rparr> u)"
    using adds_quiet [OF u adds_check [OF c]] adds_quiet [OF u adds_Request_drop]
      adds_quiet [OF adds_quiet [OF u adds_check [OF c]] adds_Request_drop] by simp_all
  assume d: "TagRequest_drop E t w = (r, w1)"
  show "adds [] w w1" using d u v
    by (auto simp: TagRequest_drop_def TagRequest_complete_def complete_rounds_spin sp bnd_def tag_done_def
        tag_last_check_def c split: outcome.splits poll_end.splits sum.splits bool.splits)
  show "\<not> debug_assertions E \<Longrightarrow> r = Ret () \<or> r = Abort"
    using d spin_progress_outcome [OF sp]
    by (auto simp: TagRequest_drop_def TagRequest_complete_def complete_rounds_spin sp bnd_def tag_done_def
        tag_last_check_def c split: outcome.splits poll_end.splits sum.splits bool.splits)
qed

lemma adds_Arc_drop: "adds [] w (Arc_drop E i w)"
  by (auto simp: adds_def Arc_drop_trace Arc_drop_def ListenerState_drop_def Let_def split: option.splits)

text \<open>The calls of each drop.  Only a worker's drop changes a flag, its own.\<close>

lemma adds_Worker_drop:
  assumes "Worker_drop E wk w = (r, w1)"
  shows "adds (case r of Ret _ \<Rightarrow> [H_worker (wk_handle wk)] | _ \<Rightarrow> []) (atomic_store (wk_alive wk) False w) w1"
    and "\<not> debug_assertions E \<Longrightarrow> r = Ret ()"
proof -
  let ?w1 = "atomic_store (wk_alive wk) False w"
  let ?d = "WorkerC (ucp_worker_destroy (wk_handle wk))"
  obtain x w2 where f: "Worker_flush E wk (rpb_build RequestParamBuilder_new) ?w1 = (x, w2)" by fastforce
  have a2: "adds [] ?w1 w2" using f adds_nbx [of E _ ?w1 x w2] by (fastforce simp: Worker_flush_def)
  have d: "adds [H_worker (wk_handle wk)] v (ffi_unit E ?d v)" for v :: "'a world"
    using adds_ffi(2) [of ?d v E] by simp
  have e: "adds [H_worker (wk_handle wk)] ?w1 (ffi_unit E ?d (eprintln s w2))" for s
    using adds_trans [OF _ d, of "[]" ?w1 "eprintln s w2"] a2 by simp
  have rel: "\<not> debug_assertions E \<Longrightarrow> \<exists>y. x = Ret y"
    using f by (auto simp: Worker_flush_def nbx_def status_ptr_to_result_def split: prod.splits if_splits)
  have "adds (case r of Ret _ \<Rightarrow> [H_worker (wk_handle wk)] | _ \<Rightarrow> []) ?w1 w1 \<and> (\<not> debug_assertions E \<longrightarrow> r = Ret ())"
  proof (cases "\<exists>req. x = Ret (Inr (Some req))")
    case False
    then show ?thesis using assms f rel adds_trans [OF a2 d] a2 e
      by (auto simp: Worker_drop_def Let_def bnd_def split: outcome.splits sum.splits option.splits)
  next
    case True
    then obtain req where req: "x = Ret (Inr (Some req))" by blast
    obtain y u where sp: "spin (Request_check_finished E req) (Worker_progress E wk)
        MAX_FLUSH_PROGRESS_ROUNDS w2 = (y, u)" by fastforce
    have a3: "adds [] ?w1 (Request_drop E req u)" "adds [] ?w1 u"
      using adds_quiet [OF a2 adds_spin] adds_quiet [OF _ adds_Request_drop] sp by (metis snd_conv)+
    show ?thesis
      using assms f req sp a3 adds_trans [OF a3(1) d] spin_progress_outcome [OF sp]
      by (cases y) (auto simp: Worker_drop_def Let_def bnd_def drop_rounds_spin)
  qed
  then show "adds (case r of Ret _ \<Rightarrow> [H_worker (wk_handle wk)] | _ \<Rightarrow> []) ?w1 w1"
    and "\<not> debug_assertions E \<Longrightarrow> r = Ret ()" by auto
qed

lemma adds_Ep_close:
  assumes "Ep_close E e wk flags w = (r, w1)"
  shows "adds [H_ep (ep_handle e)] w w1" and "\<not> debug_assertions E \<Longrightarrow> \<exists>x. r = Ret x"
proof -
  obtain ret w2 where f: "ffi E (close_call e flags) w = (ret, w2)" by fastforce
  have a: "adds [H_ep (ep_handle e)] w w2"
    using adds_ffi(1) [of "close_call e flags" w E] f by (simp add: close_call_def)
  have c: "adds [] w2 (snd (Ep_close_rounds E wk req n w2))" for req n
  proof -
    obtain y u where sp: "spin (Request_check_finished E req) (Worker_progress E wk) n w2 = (y, u)"
      by fastforce
    have "adds [] w2 u" using adds_spin [of w2 E req wk n] sp by simp
    with adds_Request_drop [of u E req] show ?thesis
      by (auto simp: close_rounds_spin sp Request_free_drop intro: adds_quiet
          split: outcome.splits poll_end.splits)
  qed
  show "adds [H_ep (ep_handle e)] w w1"
    using assms a adds_quiet [OF a c]
    by (auto simp: Ep_close_eq f split: outcome.splits sum.splits option.splits) (metis snd_conv)+
  have "\<exists>x. fst (Ep_close_rounds E wk req n w2) = Ret x" if "\<not> debug_assertions E" for req n
  proof -
    obtain y u where sp: "spin (Request_check_finished E req) (Worker_progress E wk) n w2 = (y, u)"
      by fastforce
    then show ?thesis using spin_progress_outcome [OF sp] that
      by (cases y) (auto simp: close_rounds_spin split: poll_end.splits)
  qed
  then show "\<not> debug_assertions E \<Longrightarrow> \<exists>x. r = Ret x"
    using assms
    by (auto simp: Ep_close_eq f status_ptr_no_abort dest: status_ptr_panic_debug
        split: outcome.splits sum.splits option.splits) (metis fst_conv)+
qed

text \<open>The flags a stack relies on: each worker's own, still set, and each endpoint's worker below it.\<close>

fun cells :: "owned_val list \<Rightarrow> nat set" where
  "cells [] = {}"
| "cells (V_worker wk # vs) = insert (wk_alive wk) (cells vs)"
| "cells (v # vs) = cells vs"

fun wf_stack :: "'u world \<Rightarrow> owned_val list \<Rightarrow> bool" where
  "wf_stack w [] = True"
| "wf_stack w (V_worker wk # vs) = (wk_alive wk < next_cell w \<and> atomics w (wk_alive wk) \<and>
     wk_alive wk \<notin> cells vs \<and> wf_stack w vs)"
| "wf_stack w (V_ep e # vs) = (ep_worker_alive e \<in> cells vs \<and> wf_stack w vs)"
| "wf_stack w (v # vs) = wf_stack w vs"

lemma wf_stack_cells: "wf_stack w vs \<Longrightarrow> i \<in> cells vs \<Longrightarrow> i < next_cell w \<and> atomics w i"
  by (induction w vs rule: wf_stack.induct) auto

lemma wf_stack_mono:
  "wf_stack w vs \<Longrightarrow> (\<And>i. i \<in> cells vs \<Longrightarrow> atomics w1 i = atomics w i) \<Longrightarrow>
     next_cell w \<le> next_cell w1 \<Longrightarrow> wf_stack w1 vs"
  by (induction w vs rule: wf_stack.induct) auto

lemma wf_stack_adds: "wf_stack w vs \<Longrightarrow> adds hs w w1 \<Longrightarrow> wf_stack w1 vs"
  by (rule wf_stack_mono) (auto simp: adds_def)

lemma cells_append: "cells (us @ vs) = cells us \<union> cells vs"
  by (induction us rule: cells.induct) auto

lemma wf_stack_remove_ep: "wf_stack w (us @ V_ep e # vs) \<Longrightarrow> wf_stack w (us @ vs)"
proof (induction us)
  case (Cons u us)
  then show ?case by (cases u) (auto simp: cells_append)
qed simp

lemma borrow_worker: "wf_stack w vs \<Longrightarrow> V_worker wk \<in> set vs \<Longrightarrow> wk_alive wk \<in> cells vs"
  by (induction w vs rule: wf_stack.induct) auto

text \<open>What dropping the newest value does to the log and to the stack below it.\<close>

abbreviation "rel w \<equiv> released (trace w)"
abbreviation "owns vs \<equiv> concat (map handles_of vs)"

lemma adds_rel: "adds hs w w1 \<Longrightarrow> rel w1 = rel w @ hs"
  by (auto simp: adds_def)

lemma drop_value_rel:
  assumes "drop_value E v w = (r, w1)" and "wf_stack w (v # vs)"
  shows "wf_stack w1 vs"
    and "rel w1 = rel w \<or> rel w1 = rel w @ handles_of v"
    and "\<not> debug_assertions E \<Longrightarrow> rel w1 = rel w @ handles_of v"
    and "\<not> debug_assertions E \<Longrightarrow> r = Ret () \<or> r = Abort \<and> is_guard v"
proof -
  have "wf_stack w1 vs \<and> (rel w1 = rel w \<or> rel w1 = rel w @ handles_of v) \<and>
      (\<not> debug_assertions E \<longrightarrow> rel w1 = rel w @ handles_of v \<and> (r = Ret () \<or> r = Abort \<and> is_guard v))"
  proof (cases v)
    case (V_context c)
    have a: "adds (handles_of v) w w1" using assms(1) adds_ffi(2) [of "CtxC (ucp_cleanup (context_handle c))" w E]
      by (auto simp: V_context Context_drop_def)
    show ?thesis using assms wf_stack_adds [OF _ a, of vs] adds_rel [OF a] by (auto simp: V_context)
  next
    case (V_worker wk)
    let ?w0 = "atomic_store (wk_alive wk) False w"
    have d: "Worker_drop E wk w = (r, w1)" using assms(1) by (simp add: V_worker)
    note a = adds_Worker_drop [OF d]
    have "wf_stack ?w0 vs" using assms(2) by (intro wf_stack_mono [of w vs ?w0]) (auto simp: V_worker)
    then have "wf_stack w1 vs" using wf_stack_adds a(1) by blast
    then show ?thesis using adds_rel [OF a(1)] a(2) by (auto simp: V_worker split: outcome.splits)
  next
    case (V_ep e)
    have al: "atomics w (ep_worker_alive e)" and wf: "wf_stack w vs"
      using assms(2) wf_stack_cells [of w vs] by (auto simp: V_ep)
    obtain x w2 where n: "nbx E (EpC (ucp_ep_close_nbx (ep_handle e) zeroed_ucp_request_param_t)) w = (x, w2)"
      by fastforce
    have "adds [H_ep (ep_handle e)] w w2" using adds_nbx [OF n] by simp
    then have a: "adds [H_ep (ep_handle e)] w w1"
      using assms(1) al n by (auto simp: V_ep Ep_drop_def bnd_def split: outcome.splits sum.splits option.splits)
    have "\<not> debug_assertions E \<Longrightarrow> r = Ret ()"
      using assms(1) al n by (auto simp: V_ep Ep_drop_def bnd_def nbx_def status_ptr_no_abort
          dest: status_ptr_panic_debug split: outcome.splits sum.splits option.splits prod.splits)
    then show ?thesis using wf_stack_adds [OF wf a] adds_rel [OF a] by (simp add: V_ep)
  next
    case (V_memh m)
    have a: "adds (handles_of v) w w1"
      using assms(1) adds_ffi(2) [of "MemC (ucp_mem_unmap (memh_context m) (memh_handle m))" w E]
      by (auto simp: V_memh MemHandle_drop_def)
    show ?thesis using assms wf_stack_adds [OF _ a, of vs] adds_rel [OF a] by (auto simp: V_memh)
  next
    case (V_key k)
    have a: "adds (handles_of v) w w1"
      using assms(1) adds_ffi(2) [of "MemC (ucp_rkey_destroy (rk_handle k))" w E]
      by (auto simp: V_key RemoteKey_drop_def)
    show ?thesis using assms wf_stack_adds [OF _ a, of vs] adds_rel [OF a] by (auto simp: V_key)
  next
    case (V_config c)
    have a: "adds (handles_of v) w w1"
      using assms(1) adds_ffi(2) [of "CtxC (ucp_config_release (config_handle c))" w E]
      by (auto simp: V_config Config_drop_def)
    show ?thesis using assms wf_stack_adds [OF _ a, of vs] adds_rel [OF a] by (auto simp: V_config)
  next
    case (V_address x)
    have a: "adds (handles_of v) w w1" using assms(1)
        adds_ffi(2) [of "WorkerC (ucp_worker_release_address (wk_handle (wa_parent x)) (wa_handle x))" w E]
      by (auto simp: V_address WorkerAddress_drop_def)
    show ?thesis using assms wf_stack_adds [OF _ a, of vs] adds_rel [OF a] by (auto simp: V_address)
  next
    case (V_request req)
    have a: "adds (handles_of v) w w1" using assms(1) adds_Request_drop [of w E req] by (auto simp: V_request)
    show ?thesis using assms wf_stack_adds [OF _ a, of vs] adds_rel [OF a] by (auto simp: V_request)
  next
    case (V_tag t)
    have d: "TagRequest_drop E t w = (r, w1)" using assms(1) by (simp add: V_tag)
    show ?thesis using assms wf_stack_adds [OF _ adds_Tag_drop [OF d], of vs] adds_rel [OF adds_Tag_drop [OF d]]
        Tag_drop_release [OF d] by (auto simp: V_tag)
  qed
  then show "wf_stack w1 vs"
    and "rel w1 = rel w \<or> rel w1 = rel w @ handles_of v"
    and "\<not> debug_assertions E \<Longrightarrow> rel w1 = rel w @ handles_of v"
    and "\<not> debug_assertions E \<Longrightarrow> r = Ret () \<or> r = Abort \<and> is_guard v" by auto
qed

subsection \<open>Operations of a program\<close>

text \<open>Every operation but closing an endpoint and leaving a scope releases nothing and adds at most
  one value, whose handles are recorded.\<close>

definition grows :: "'u scope \<Rightarrow> 'u scope \<Rightarrow> bool" where
  "grows S S1 \<longleftrightarrow> rel (sc_world S1) = rel (sc_world S) \<and> wf_stack (sc_world S1) (sc_stack S1) \<and>
     (\<exists>us. length us \<le> 1 \<and> \<not> list_ex is_guard us \<and> sc_stack S1 = us @ sc_stack S \<and>
       sc_created S1 = sc_created S @ owns us)"

fun ends_values :: "scope_op \<Rightarrow> bool" where
  "ends_values (Close_endpoint i j flags) = True"
| "ends_values End_inner_scope = True"
| "ends_values _ = False"

lemma grows_refl: "wf_stack (sc_world S) (sc_stack S) \<Longrightarrow> grows S S"
  by (auto simp: grows_def intro: exI [of _ "[]"])

lemma grows_world:
  "wf_stack (sc_world S) (sc_stack S) \<Longrightarrow> adds [] (sc_world S) w1 \<Longrightarrow> grows S (S\<lparr>sc_world := w1\<rparr>)"
  using wf_stack_adds adds_rel by (fastforce simp: grows_def)

lemma grows_push:
  assumes "wf_stack w1 (sc_stack S)" and "rel w1 = rel (sc_world S)"
    and "\<And>x. r = Inr x \<Longrightarrow> wf_stack w1 (V x # sc_stack S)" and "\<And>x. \<not> is_guard (V x)"
  shows "fst (push V (r, w1) S) = Ret ()" and "grows S (snd (push V (r, w1) S))"
proof -
  show "fst (push V (r, w1) S) = Ret ()" by (cases r) simp_all
  show "grows S (snd (push V (r, w1) S))"
  proof (cases r)
    case (Inl e)
    then show ?thesis using assms by (auto simp: grows_def)
  next
    case (Inr x)
    then show ?thesis using assms by (auto simp: grows_def intro!: exI [of _ "[V x]"])
  qed
qed

lemma grows_push_adds:
  assumes "wf_stack (sc_world S) (sc_stack S)" and "adds [] (sc_world S) w1"
    and "\<And>x. r = Inr x \<Longrightarrow> wf_stack w1 (sc_stack S) \<Longrightarrow> wf_stack w1 (V x # sc_stack S)"
    and "\<And>x. \<not> is_guard (V x)"
  shows "fst (push V (r, w1) S) = Ret ()" and "grows S (snd (push V (r, w1) S))"
  using grows_push [of w1 S r V] wf_stack_adds [OF assms(1,2)] adds_rel [OF assms(2)] assms(3,4) by auto

lemma created_config: "adds [] w (snd (Config_read E name file w))"
  using adds_value_call [of E "CtxC (ucp_config_read name file)" "\<lambda>ret. \<lparr>config_handle = out_ptr ret\<rparr>" w]
  by (auto simp: Config_read_def split: sum.splits prod.splits)

lemma created_address: "adds [] w (snd (Worker_pack_address E wk w))"
  by (simp add: Worker_pack_address_def)

lemma adds_flush: "Ep_flush E e p w = (r, w1) \<Longrightarrow> adds [] w w1"
  unfolding Ep_flush_def by (drule adds_nbx) simp

lemma flush_release: "Ep_flush E e p w = (r, w1) \<Longrightarrow> \<not> debug_assertions E \<Longrightarrow> \<exists>x. r = Ret x"
  by (auto simp: Ep_flush_def nbx_def status_ptr_to_result_def split: prod.splits if_splits)

lemma created_context: "adds [] w (snd (Context_new E cfg p w))"
  by (simp add: Context_new_def Let_def)

lemma created_worker:
  assumes "Context_worker_create E c p w = (r, w1)" and "wf_stack w vs"
  shows "rel w1 = rel w" and "wf_stack w1 vs" and "r = Inr wk \<Longrightarrow> wf_stack w1 (V_worker wk # vs)"
proof -
  note less = wf_stack_cells [OF assms(2)]
  have w1: "rel w1 = rel w" "next_cell w \<le> next_cell w1"
    "i < next_cell w \<Longrightarrow> atomics w1 i = atomics w i" for i
    using assms(1) by (auto simp: Context_worker_create_def Worker_new_def atomic_new_def Let_def ffi_world
        split: prod.splits sum.splits)
  show "rel w1 = rel w" by (rule w1)
  show wf: "wf_stack w1 vs" using w1 less by (intro wf_stack_mono [OF assms(2)]) auto
  have "r = Inr wk \<Longrightarrow> wk_alive wk = next_cell w \<and> atomics w1 (wk_alive wk) \<and> next_cell w < next_cell w1"
    using assms(1) by (auto simp: Context_worker_create_def Worker_new_def atomic_new_def Let_def ffi_world
        split: prod.splits sum.splits)
  then show "r = Inr wk \<Longrightarrow> wf_stack w1 (V_worker wk # vs)" using wf less by auto
qed

lemma created_ep:
  assumes "Worker_create_ep E wk p w = (r, w1)"
  shows "adds [] w w1" and "r = Inr e \<Longrightarrow> ep_worker_alive e = wk_alive wk"
proof -
  let ?q = "p\<lparr>epar_handle := (epar_handle p)\<lparr>ep_conn_request := EpParams_conn_request_ptr p\<rparr>\<rparr>"
  obtain x w2 where v: "value_call E (EpC (ucp_ep_create (wk_handle wk) (epar_handle ?q)))
      (\<lambda>ret. \<lparr>ep_handle = out_ptr ret, ep_worker_alive = wk_alive wk\<rparr>) w = (x, w2)" by fastforce
  have "adds [] w w2" using adds_value_call [OF v] by simp
  then show "adds [] w w1" using assms v adds_Arc_drop [of w2 E]
    by (auto simp: Worker_create_ep_def Ep_new_def EpParams_drop_def ConnRequest_drop_def Let_def
        intro: adds_quiet split: option.splits)
  show "r = Inr e \<Longrightarrow> ep_worker_alive e = wk_alive wk"
    using assms v by (auto simp: Worker_create_ep_def Ep_new_def Let_def value_call_Inr)
qed

lemma created_memh: "adds [] w (snd (MemHandle_map E c p w))"
  by (simp add: MemHandle_map_def split_beta)

lemma created_key: "adds [] w (snd (RemoteKey_unpack E e b w))"
  by (simp add: RemoteKey_unpack_def split: sum.splits)

lemma borrow_Some: "borrow i S = Some v \<Longrightarrow> v \<in> set (sc_stack S)"
  by (auto simp: borrow_def split: if_splits)

lemma scope_step_grows:
  assumes "wf_stack (sc_world S) (sc_stack S)" and "\<not> ends_values op"
  shows "grows S (snd (scope_step E op S))"
    and "\<not> debug_assertions E \<Longrightarrow> fst (scope_step E op S) = Ret ()"
proof -
  have "grows S (snd (scope_step E op S)) \<and> (\<not> debug_assertions E \<longrightarrow> fst (scope_step E op S) = Ret ())"
  proof (cases op)
    case (Read_config name path)
    obtain r w1 where c: "Config_read E name path (sc_world S) = (r, w1)" by fastforce
    have "adds [] (sc_world S) w1" using created_config [of "sc_world S" E name path] c by simp
    from grows_push_adds [OF assms(1) this, of r V_config] show ?thesis by (simp add: Read_config c)
  next
    case (Pack_address i)
    show ?thesis
    proof (cases "\<exists>wk. borrow i S = Some (V_worker wk)")
      case True
      then obtain wk where b: "borrow i S = Some (V_worker wk)" by blast
      obtain r w1 where c: "Worker_pack_address E wk (sc_world S) = (r, w1)" by fastforce
      have "adds [] (sc_world S) w1" using created_address [of "sc_world S" E wk] c by simp
      from grows_push_adds [OF assms(1) this, of r V_address] show ?thesis by (simp add: Pack_address b c)
    qed (auto simp: Pack_address grows_refl [OF assms(1)] split: option.splits owned_val.splits)
  next
    case (Flush_endpoint i p)
    show ?thesis
    proof (cases "\<exists>e. borrow i S = Some (V_ep e)")
      case True
      then obtain e where b: "borrow i S = Some (V_ep e)" by blast
      obtain r w1 where c: "Ep_flush E e p (sc_world S) = (r, w1)" by fastforce
      note g = grows_world [OF assms(1) adds_flush [OF c]]
      have "grows S (S\<lparr>sc_world := w1, sc_stack := V_request req # sc_stack S\<rparr>)" for req
        using g by (auto simp: grows_def intro!: exI [of _ "[V_request req]"])
      then show ?thesis using g flush_release [OF c]
        by (cases "((r, w1), S)" rule: push_request.cases) (auto simp: Flush_endpoint b c)
    qed (auto simp: Flush_endpoint grows_refl [OF assms(1)] split: option.splits owned_val.splits)
  next
    case (Init_context cfg p)
    obtain r w1 where c: "Context_new E cfg p (sc_world S) = (r, w1)" by fastforce
    have "adds [] (sc_world S) w1" using created_context [of "sc_world S" E cfg p] c by simp
    from grows_push_adds [OF assms(1) this, of r V_context] show ?thesis by (simp add: Init_context c)
  next
    case (New_worker i p)
    show ?thesis
    proof (cases "\<exists>c. borrow i S = Some (V_context c)")
      case True
      then obtain c where b: "borrow i S = Some (V_context c)" by blast
      obtain r w1 where c: "Context_worker_create E c p (sc_world S) = (r, w1)" by fastforce
      from grows_push [of w1 S r V_worker] created_worker [OF c assms(1)]
      show ?thesis by (simp add: New_worker b c)
    qed (auto simp: New_worker grows_refl [OF assms(1)] split: option.splits owned_val.splits)
  next
    case (New_endpoint i p)
    show ?thesis
    proof (cases "\<exists>wk. borrow i S = Some (V_worker wk)")
      case True
      then obtain wk where b: "borrow i S = Some (V_worker wk)" by blast
      obtain r w1 where c: "Worker_create_ep E wk p (sc_world S) = (r, w1)" by fastforce
      have "wk_alive wk \<in> cells (sc_stack S)" using borrow_worker [OF assms(1) borrow_Some [OF b]] .
      then show ?thesis using grows_push_adds [OF assms(1) created_ep(1) [OF c], of r V_ep]
          created_ep(2) [OF c] by (simp add: New_endpoint b c)
    qed (auto simp: New_endpoint grows_refl [OF assms(1)] split: option.splits owned_val.splits)
  next
    case (Map_memory i p)
    show ?thesis
    proof (cases "\<exists>c. borrow i S = Some (V_context c)")
      case True
      then obtain c where b: "borrow i S = Some (V_context c)" by blast
      obtain r q w1 where c: "MemHandle_map E c p (sc_world S) = ((r, q), w1)" by (metis prod.exhaust)
      have "adds [] (sc_world S) w1" using created_memh [of "sc_world S" E c p] c by simp
      from grows_push_adds [OF assms(1) this, of r V_memh] show ?thesis by (simp add: Map_memory b c)
    qed (auto simp: Map_memory grows_refl [OF assms(1)] split: option.splits owned_val.splits)
  next
    case (Unpack_key i x)
    show ?thesis
    proof (cases "\<exists>e. borrow i S = Some (V_ep e)")
      case True
      then obtain e where b: "borrow i S = Some (V_ep e)" by blast
      obtain r w1 where c: "RemoteKey_unpack E e x (sc_world S) = (r, w1)" by fastforce
      have "adds [] (sc_world S) w1" using created_key [of "sc_world S" E e x] c by simp
      from grows_push_adds [OF assms(1) this, of r V_key] show ?thesis by (simp add: Unpack_key b c)
    qed (auto simp: Unpack_key grows_refl [OF assms(1)] split: option.splits owned_val.splits)
  next
    case (Poll_worker i)
    show ?thesis
    proof (cases "\<exists>wk. borrow i S = Some (V_worker wk)")
      case True
      then obtain wk where b: "borrow i S = Some (V_worker wk)" by blast
      obtain r w1 where c: "Worker_progress E wk (sc_world S) = (r, w1)" by fastforce
      have "\<not> debug_assertions E \<Longrightarrow> outcome_unit r = Ret ()" using c by (auto simp: Worker_progress_eq)
      then show ?thesis using grows_world [OF assms(1) adds_progress [OF c]] by (simp add: Poll_worker b c)
    qed (auto simp: Poll_worker grows_refl [OF assms(1)] split: option.splits owned_val.splits)
  qed (use assms(2) in simp_all)
  then show "grows S (snd (scope_step E op S))"
    and "\<not> debug_assertions E \<Longrightarrow> fst (scope_step E op S) = Ret ()" by auto
qed

subsection \<open>The end of a program\<close>

lemma unwind_stack_rel:
  "wf_stack w vs \<Longrightarrow> unwind_stack E vs w = (b, w1) \<Longrightarrow>
     \<exists>hs. rel w1 = rel w @ hs \<and> mset hs \<subseteq># mset (owns vs) \<and>
       (\<not> debug_assertions E \<longrightarrow> b \<and> hs = owns vs \<or> \<not> b \<and> list_ex is_guard vs)"
proof (induction vs arbitrary: w)
  case Nil
  then show ?case by simp
next
  case (Cons v vs)
  obtain r u where d: "drop_value E v w = (r, u)" by fastforce
  note u = drop_value_rel [OF d Cons.prems(1)]
  obtain hs where hs: "rel w1 = rel u @ hs" "mset hs \<subseteq># mset (owns vs)"
    "\<not> debug_assertions E \<longrightarrow> b \<and> hs = owns vs \<or> \<not> b \<and> list_ex is_guard (v # vs)"
  proof (cases r)
    case (Ret x)
    then obtain hs where "rel w1 = rel u @ hs" "mset hs \<subseteq># mset (owns vs)"
      "\<not> debug_assertions E \<longrightarrow> b \<and> hs = owns vs \<or> \<not> b \<and> list_ex is_guard vs"
      using Cons.IH [OF u(1)] Cons.prems(2) d by auto
    then show thesis by (intro that) auto
  qed (use Cons.prems(2) d u(4) that [of "[]"] in auto)
  show ?case
  proof (cases "rel u = rel w @ handles_of v")
    case True
    then show ?thesis using hs by (intro exI [of _ "handles_of v @ hs"]) auto
  next
    case False
    then show ?thesis using hs u(2,3)
      by (intro exI [of _ hs]) (auto simp: subset_mset.add_increasing)
  qed
qed

lemma unwound_rel:
  "wf_stack w vs \<Longrightarrow> unwound E s vs w = (r, w1) \<Longrightarrow>
     \<exists>hs. rel w1 = rel w @ hs \<and> mset hs \<subseteq># mset (owns vs) \<and>
       (\<not> debug_assertions E \<longrightarrow> r = Panic s \<and> hs = owns vs \<or> r = Abort \<and> list_ex is_guard vs)"
  using unwind_stack_rel [of w vs E] by (fastforce simp: unwound_def split: prod.splits bool.splits)

lemma exit_stack_rel:
  "wf_stack w vs \<Longrightarrow> exit_stack E vs w = (r, w1) \<Longrightarrow>
     \<exists>hs. rel w1 = rel w @ hs \<and> mset hs \<subseteq># mset (owns vs) \<and>
       (\<not> debug_assertions E \<longrightarrow> r = Ret () \<and> hs = owns vs \<or> r = Abort \<and> list_ex is_guard vs)"
proof (induction vs arbitrary: w)
  case Nil
  then show ?case by simp
next
  case (Cons v vs)
  obtain q u where d: "drop_value E v w = (q, u)" by fastforce
  note u = drop_value_rel [OF d Cons.prems(1)]
  obtain hs where hs: "rel w1 = rel u @ hs" "mset hs \<subseteq># mset (owns vs)"
    "\<not> debug_assertions E \<longrightarrow> r = Ret () \<and> hs = owns vs \<or> r = Abort \<and> list_ex is_guard (v # vs)"
  proof (cases q)
    case (Ret x)
    then obtain hs where "rel w1 = rel u @ hs" "mset hs \<subseteq># mset (owns vs)"
      "\<not> debug_assertions E \<longrightarrow> r = Ret () \<and> hs = owns vs \<or> r = Abort \<and> list_ex is_guard vs"
      using Cons.IH [OF u(1)] Cons.prems(2) d by auto
    then show thesis by (intro that) auto
  next
    case (Panic s)
    then show thesis using unwound_rel [OF u(1)] Cons.prems(2) d u(4) that by fastforce
  next
    case Abort
    then show thesis using Cons.prems(2) d u(4) that [of "[]"] by auto
  qed
  show ?case
  proof (cases "rel u = rel w @ handles_of v")
    case True
    then show ?thesis using hs by (intro exI [of _ "handles_of v @ hs"]) auto
  next
    case False
    then show ?thesis using hs u(2,3)
      by (intro exI [of _ hs]) (auto simp: subset_mset.add_increasing)
  qed
qed

text \<open>The accounts: what was released and what the locals still own is what was created; a debug
  build may leak, but never releases twice.\<close>

definition scope_inv :: "'u env \<Rightarrow> 'u scope \<Rightarrow> bool" where
  "scope_inv E S \<longleftrightarrow> wf_stack (sc_world S) (sc_stack S) \<and>
     mset (rel (sc_world S)) + mset (owns (sc_stack S)) \<subseteq># mset (sc_created S) \<and>
     (\<not> debug_assertions E \<longrightarrow>
       mset (rel (sc_world S)) + mset (owns (sc_stack S)) = mset (sc_created S))"

lemma grows_inv:
  assumes "scope_inv E S" and "grows S S1"
  shows "scope_inv E S1"
proof -
  obtain us where us: "sc_stack S1 = us @ sc_stack S" "sc_created S1 = sc_created S @ owns us"
    "rel (sc_world S1) = rel (sc_world S)" "wf_stack (sc_world S1) (sc_stack S1)"
    using assms(2) by (auto simp: grows_def)
  have "mset (rel (sc_world S1)) + mset (owns (sc_stack S1)) =
      (mset (rel (sc_world S)) + mset (owns (sc_stack S))) + mset (owns us)"
    by (simp add: us ac_simps)
  then show ?thesis using assms(1) us(2,4)
    by (simp add: scope_inv_def subset_mset.add_right_mono)
qed

lemma mset_take_drop:
  "i < length vs \<Longrightarrow> mset (owns (take i vs @ drop (Suc i) vs)) + mset (handles_of (vs ! i)) = mset (owns vs)"
  by (subst (3) id_take_nth_drop [of i vs]) simp_all

text \<open>Values none of which is a guard can be dropped without an abort.\<close>

abbreviation guardless :: "'u scope \<Rightarrow> bool" where
  "guardless S \<equiv> \<not> list_ex is_guard (sc_stack S)"

lemma grows_guardless: "grows S S1 \<Longrightarrow> guardless S \<Longrightarrow> guardless S1"
  by (auto simp: grows_def)

lemma scope_step_inv:
  assumes "scope_inv E S" and "guardless S"
  shows "scope_inv E (snd (scope_step E op S))" and "guardless (snd (scope_step E op S))"
    and "\<not> debug_assertions E \<Longrightarrow> fst (scope_step E op S) = Ret ()"
proof -
  have wf: "wf_stack (sc_world S) (sc_stack S)" using assms by (simp add: scope_inv_def)
  have "scope_inv E (snd (scope_step E op S)) \<and> guardless (snd (scope_step E op S)) \<and>
      (\<not> debug_assertions E \<longrightarrow> fst (scope_step E op S) = Ret ())"
  proof (cases "ends_values op")
    case False
    then show ?thesis
      using scope_step_grows [OF wf] grows_inv [OF assms(1)] grows_guardless [OF _ assms(2)] by blast
  next
    case True
    then consider i j flags where "op = Close_endpoint i j flags" | "op = End_inner_scope"
      by (cases op) auto
    then show ?thesis
    proof cases
      case 1
      show ?thesis
      proof (cases "\<exists>e wk. borrow i S = Some (V_ep e) \<and> borrow j S = Some (V_worker wk)")
        case True
        then obtain e wk where b: "borrow i S = Some (V_ep e)" "borrow j S = Some (V_worker wk)" by blast
        obtain r w1 where c: "Ep_close E e wk flags (sc_world S) = (r, w1)" by fastforce
        note a = adds_Ep_close [OF c]
        let ?vs = "take i (sc_stack S) @ drop (Suc i) (sc_stack S)"
        have i: "i < length (sc_stack S)" "sc_stack S ! i = V_ep e"
          using b by (auto simp: borrow_def split: if_splits)
        have "sc_stack S = take i (sc_stack S) @ V_ep e # drop (Suc i) (sc_stack S)"
          using id_take_nth_drop [OF i(1)] i(2) by simp
        then have "wf_stack (sc_world S) ?vs" using wf wf_stack_remove_ep by metis
        then have wf1: "wf_stack w1 ?vs" using a(1) by (rule wf_stack_adds)
        have "mset (rel w1) + mset (owns ?vs) = mset (rel (sc_world S)) + mset (owns (sc_stack S))"
          using adds_rel [OF a(1)] mset_take_drop [OF i(1)] i(2) by (simp add: ac_simps)
        moreover have "\<not> list_ex is_guard ?vs"
          using assms(2) by (auto simp: list_ex_iff dest: in_set_takeD in_set_dropD)
        ultimately show ?thesis using assms wf1 b c a(2) 1 by (auto simp: scope_inv_def)
      qed (use assms 1 in \<open>auto split: option.splits owned_val.splits\<close>)
    next
      case 2
      show ?thesis
      proof (cases "sc_stack S")
        case Nil
        then show ?thesis using assms 2 by simp
      next
        case (Cons v vs)
        obtain r w1 where d: "drop_value E v (sc_world S) = (r, w1)" by fastforce
        note u = drop_value_rel [OF d wf [unfolded Cons]]
        have le: "mset (rel w1) + mset (owns vs) \<subseteq># mset (rel (sc_world S)) + mset (owns (sc_stack S))"
          using u(2) by (elim disjE) (simp_all add: Cons)
        have eq: "\<not> debug_assertions E \<Longrightarrow>
            mset (rel w1) + mset (owns vs) = mset (rel (sc_world S)) + mset (owns (sc_stack S))"
          using u(3) by (simp add: Cons)
        have g: "\<not> is_guard v" "\<not> list_ex is_guard vs" using assms(2) by (simp_all add: Cons)
        have "mset (rel w1) + mset (owns vs) \<subseteq># mset (sc_created S)"
          by (rule subset_mset.order_trans [OF le]) (use assms in \<open>simp add: scope_inv_def\<close>)
        moreover have "\<not> debug_assertions E \<Longrightarrow> mset (rel w1) + mset (owns vs) = mset (sc_created S)"
          using assms eq by (simp add: scope_inv_def)
        ultimately show ?thesis using u(1,4) g by (simp add: scope_inv_def Cons d 2)
      qed
    qed
  qed
  then show "scope_inv E (snd (scope_step E op S))" and "guardless (snd (scope_step E op S))"
    and "\<not> debug_assertions E \<Longrightarrow> fst (scope_step E op S) = Ret ()" by auto
qed

lemma run_scope_inv:
  "scope_inv E S \<Longrightarrow> guardless S \<Longrightarrow> run_scope E ops S = (r, S1) \<Longrightarrow>
     mset (rel (sc_world S1)) \<subseteq># mset (sc_created S1) \<and>
     (\<not> debug_assertions E \<longrightarrow> r = Ret () \<and> sc_stack S1 = [] \<and>
       mset (rel (sc_world S1)) = mset (sc_created S1))"
proof (induction ops arbitrary: S)
  case Nil
  obtain q w1 where e: "exit_stack E (sc_stack S) (sc_world S) = (q, w1)" by fastforce
  obtain hs where hs: "rel w1 = rel (sc_world S) @ hs" "mset hs \<subseteq># mset (owns (sc_stack S))"
    "\<not> debug_assertions E \<longrightarrow> q = Ret () \<and> hs = owns (sc_stack S)"
    using exit_stack_rel [OF _ e] Nil.prems(1,2) by (auto simp: scope_inv_def)
  have "mset (rel w1) \<subseteq># mset (rel (sc_world S)) + mset (owns (sc_stack S))"
    using hs(1,2) by simp
  from subset_mset.order_trans [OF this] show ?case
    using Nil.prems hs e by (auto simp: scope_inv_def)
next
  case (Cons op ops)
  obtain q S2 where st: "scope_step E op S = (q, S2)" by fastforce
  note i = scope_step_inv [OF Cons.prems(1,2), of op, unfolded st]
  have i2: "wf_stack (sc_world S2) (sc_stack S2)"
    "mset (rel (sc_world S2)) + mset (owns (sc_stack S2)) \<subseteq># mset (sc_created S2)"
    using i(1) by (simp_all add: scope_inv_def)
  show ?case
  proof (cases q)
    case (Ret x)
    then show ?thesis using Cons.IH [of S2] i(1,2) Cons.prems(3) st by simp
  next
    case (Panic s)
    then have debug: "debug_assertions E" using i(3) by auto
    obtain b w1 where u: "unwound E s (sc_stack S2) (sc_world S2) = (b, w1)" by fastforce
    obtain hs where hs: "rel w1 = rel (sc_world S2) @ hs" "mset hs \<subseteq># mset (owns (sc_stack S2))"
      using unwound_rel [OF i2(1) u] by blast
    have "mset (rel w1) \<subseteq># mset (rel (sc_world S2)) + mset (owns (sc_stack S2))"
      using hs by simp
    from subset_mset.order_trans [OF this i2(2)] show ?thesis
      using Cons.prems(3) st Panic u debug by auto
  next
    case Abort
    then have debug: "debug_assertions E" using i(3) by auto
    have "mset (rel (sc_world S2)) \<subseteq># mset (sc_created S2)"
      using i2(2) subset_mset.order_trans mset_subset_eq_add_left by blast
    then show ?thesis using Cons.prems(3) st Abort debug by auto
  qed
qed

text \<open>C3: Every handle is released exactly once.  In a release build a program over configurations,
  contexts, workers, packed addresses, endpoints, memory handles and remote keys, whatever UCX answers and whichever
  creations fail, never panics, and the handles its foreign calls release are, with
  multiplicity, the handles that UCX gave it.  A debug build may stop at a panic and leak, but it
  too releases nothing twice and nothing it was not given.\<close>

theorem scope_releases_once:
  "let (r, S) = run_scope E ops (empty_scope w);
       released_handles = mset (released (trace (sc_world S)))
   in if debug_assertions E then released_handles \<subseteq># mset (sc_created S)
      else r = Ret () \<and> sc_stack S = [] \<and> released_handles = mset (sc_created S)"
proof -
  have i: "scope_inv E (empty_scope w)" "guardless (empty_scope w)"
    by (simp_all add: scope_inv_def empty_scope_def)
  obtain r S where run: "run_scope E ops (empty_scope w) = (r, S)" by fastforce
  show ?thesis using run_scope_inv [OF i run] by (simp add: run)
qed

lemma rev_handles: "length us \<le> 1 \<Longrightarrow> rev (owns us) = owns us"
proof -
  have "rev (handles_of v) = handles_of v" for v by (cases v) simp_all
  moreover assume "length us \<le> 1"
  ultimately show ?thesis by (cases us) simp_all
qed

lemma grows_reverse:
  assumes "grows S S1" and "rel (sc_world S) = []" and "owns (sc_stack S) = rev (sc_created S)"
  shows "rel (sc_world S1) = [] \<and> owns (sc_stack S1) = rev (sc_created S1)"
  using assms rev_handles by (auto simp: grows_def)

lemma run_scope_reverse:
  assumes "\<not> debug_assertions E" and "list_all (\<lambda>op. \<not> ends_values op) ops"
    and "wf_stack (sc_world S) (sc_stack S)" and "rel (sc_world S) = []"
    and "owns (sc_stack S) = rev (sc_created S)" and "guardless S" and "run_scope E ops S = (r, S1)"
  shows "r = Ret () \<and> rel (sc_world S1) = rev (sc_created S1)"
  using assms(2-7)
proof (induction ops arbitrary: S)
  case Nil
  then show ?case using exit_stack_rel [OF Nil.prems(2)] assms(1) by (fastforce split: prod.splits)
next
  case (Cons op ops)
  obtain q S2 where st: "scope_step E op S = (q, S2)" by fastforce
  have q: "q = Ret ()" "grows S S2"
    using scope_step_grows [OF Cons.prems(2), of op E] Cons.prems(1) assms(1) st by simp_all
  then have "wf_stack (sc_world S2) (sc_stack S2)" by (simp add: grows_def)
  then show ?case
    using Cons.IH [of S2] Cons.prems grows_reverse [OF q(2)] grows_guardless [OF q(2)] st q(1) by simp
qed

text \<open>C9: A program's values end in the reverse of the order in which they were created.  In a release
  build, for any program that creates and uses values and leaves their end to its own, the
  releases in the log are exactly the created handles reversed: no worker is destroyed before its
  endpoints are closed and their remote keys destroyed, and no context is cleaned up before its
  workers are destroyed and its memory is unmapped.\<close>

theorem scope_releases_in_reverse:
  "let (r, S) = run_scope (E\<lparr>debug_assertions := False\<rparr>) (filter (\<lambda>op. \<not> ends_values op) ops) (empty_scope w)
   in r = Ret () \<and> released (trace (sc_world S)) = rev (sc_created S)"
proof -
  have "list_all (\<lambda>op. \<not> ends_values op) (filter (\<lambda>op. \<not> ends_values op) ops)"
    by (simp add: list_all_iff)
  from run_scope_reverse [OF _ this, of "E\<lparr>debug_assertions := False\<rparr>" "empty_scope w"]
  show ?thesis by (auto simp: empty_scope_def split: prod.splits)
qed

subsection \<open>Orders the crate does not prevent\<close>

text \<open>
  Nothing ties a memory handle or a worker to the context it came from, and the drop of a remote
  key does not look at the flag it shares with its worker: a program that drops its values
  in another order makes these calls.
\<close>

lemma memh_outlives_context:
  assumes "MemHandle_map E c p w = ((Inr m, q), w1)"
  shows "trace (MemHandle_drop E m (Context_drop E c w1)) = trace w1 @
    [CtxC (ucp_cleanup (context_handle c)), MemC (ucp_mem_unmap (context_handle c) (memh_handle m))]"
  using assms by (auto simp: MemHandle_map_def MemHandle_drop_def Context_drop_def value_call_Inr
      split: prod.splits)

lemma worker_outlives_context:
  assumes "Worker_drop E wk (Context_drop E c w) = (Ret (), w1)"
  shows "\<exists>mid. trace w1 = trace w @ [CtxC (ucp_cleanup (context_handle c)),
    WorkerC (ucp_worker_flush_nbx (wk_handle wk) zeroed_ucp_request_param_t)] @ mid @
    [WorkerC (ucp_worker_destroy (wk_handle wk))]"
proof -
  obtain mid where "trace w1 = trace (Context_drop E c w) @
      [WorkerC (ucp_worker_flush_nbx (wk_handle wk) zeroed_ucp_request_param_t)] @ mid @
      [WorkerC (ucp_worker_destroy (wk_handle wk))]"
    using worker_drop_ends [where E = E and wk = wk and w = "Context_drop E c w"] assms by auto
  then show ?thesis by (simp add: Context_drop_def)
qed

lemma dropped_worker:
  assumes "Worker_drop E wk w = (Ret (), w1)"
  obtains us where "trace w1 = us @ [WorkerC (ucp_worker_destroy (wk_handle wk))]"
    and "\<not> atomics w1 (wk_alive wk)"
proof -
  obtain mid where "trace w1 = trace w @
      [WorkerC (ucp_worker_flush_nbx (wk_handle wk) zeroed_ucp_request_param_t)] @ mid @
      [WorkerC (ucp_worker_destroy (wk_handle wk))]" "\<not> atomics w1 (wk_alive wk)"
    using worker_drop_ends [where E = E and wk = wk and w = w] assms by auto
  then show thesis using that [of "trace w @ WorkerC (ucp_worker_flush_nbx (wk_handle wk)
      zeroed_ucp_request_param_t) # mid"] by simp
qed

lemma key_outlives_worker:
  assumes "Worker_drop E wk w = (Ret (), w1)" and "rk_handle k \<noteq> 0" and "rk_worker_alive k = wk_alive wk"
  shows "\<not> atomics w1 (rk_worker_alive k) \<and>
    (\<exists>us. trace (RemoteKey_drop E k w1) = us @ [WorkerC (ucp_worker_destroy (wk_handle wk)),
       MemC (ucp_rkey_destroy (rk_handle k))])"
proof -
  obtain us where "trace w1 = us @ [WorkerC (ucp_worker_destroy (wk_handle wk))]"
    and "\<not> atomics w1 (wk_alive wk)" using dropped_worker [OF assms(1)] .
  then show ?thesis using assms(2,3) by (simp add: RemoteKey_drop_def)
qed

lemma flush_outlives_worker:
  assumes "Worker_drop E wk w = (Ret (), w1)" and "ep_worker_alive e = wk_alive wk"
  shows "\<not> atomics w1 (ep_worker_alive e) \<and>
    (\<exists>us. trace (snd (Ep_flush E e params w1)) = us @ [WorkerC (ucp_worker_destroy (wk_handle wk)),
       EpC (ucp_ep_flush_nbx (ep_handle e) (rparam_handle params))])"
proof -
  obtain us where "trace w1 = us @ [WorkerC (ucp_worker_destroy (wk_handle wk))]"
    and "\<not> atomics w1 (wk_alive wk)" using dropped_worker [OF assms(1)] .
  then show ?thesis using assms(2) by (simp add: Ep_flush_def nbx_def split_beta)
qed

end
