(* ===== verification/Active_Message.thy ===== *)
theory Active_Message
  imports Endpoint
begin

text \<open>
  \<^verbatim>\<open>src/am.rs\<close>: active messages.  UCX calls \<^verbatim>\<open>am_trampoline\<close>, which runs the Rust closure of a
  handler; a handler registered on a worker stays in the worker's list until the worker is
  gone.  The closure is a function on its captured state, whose outcome may be a panic; an
  \<^verbatim>\<open>Arc\<close>'s address is its cell's number plus one, so that it is not null.
\<close>

subsection \<open>Receive parameters\<close>

datatype AmRecvParam = AmRecvParam (raw_am_recv: ucp_am_recv_param_t)

definition AM_RECV_ATTR_FIELD_REPLY_EP :: u64 where "AM_RECV_ATTR_FIELD_REPLY_EP = 1"
definition AM_RECV_ATTR_FLAG_DATA :: u64 where "AM_RECV_ATTR_FLAG_DATA = 65536"
definition AM_RECV_ATTR_FLAG_RNDV :: u64 where "AM_RECV_ATTR_FLAG_RNDV = 131072"

definition AmRecvParam_recv_attr :: "AmRecvParam \<Rightarrow> u64" where
  "AmRecvParam_recv_attr p = arp_recv_attr (raw_am_recv p)"

definition AmRecvParam_reply_ep :: "AmRecvParam \<Rightarrow> EpHandle option" where
  "AmRecvParam_reply_ep p =
     (if flags_contains (AmRecvParam_recv_attr p) AM_RECV_ATTR_FIELD_REPLY_EP \<and>
         arp_reply_ep (raw_am_recv p) \<noteq> 0
      then Some (EpHandle (arp_reply_ep (raw_am_recv p))) else None)"

subsection \<open>Handlers and the trampoline\<close>

record 's AmHandler =
  ah_poisoned :: bool
  ah_state :: 's

type_synonym 's am_callback = "bytes \<Rightarrow> bytes \<Rightarrow> 's \<Rightarrow> (Status + unit) outcome \<times> 's"

text \<open>A buffer UCX passes: null is allowed for an empty one only.\<close>

definition am_buffer :: "memory \<Rightarrow> ptr \<Rightarrow> usize \<Rightarrow> bytes option" where
  "am_buffer m p len =
     (if p = 0 \<and> len = 0 then Some []
      else if p = 0 then None
      else Some (mem_read m p (unat len)))"

text \<open>
  The guard on the handler's mutex is held outside \<^verbatim>\<open>catch_unwind\<close>, so a panic of the closure is
  caught before the guard is dropped and the mutex is not poisoned.
\<close>

definition am_trampoline ::
  "'s am_callback \<Rightarrow> memory \<Rightarrow> ptr \<Rightarrow> usize \<Rightarrow> ptr \<Rightarrow> usize \<Rightarrow> 's AmHandler \<Rightarrow>
     Status outcome \<times> 's AmHandler" where
  "am_trampoline callback m header header_length data len h =
     (case am_buffer m header header_length of
        None \<Rightarrow> (Ret Status_INVALID_PARAM, h)
      | Some hs \<Rightarrow> (case am_buffer m data len of
          None \<Rightarrow> (Ret Status_INVALID_PARAM, h)
        | Some d \<Rightarrow>
            if ah_poisoned h then (Ret Status_IO_ERROR, h)
            else (case callback hs d (ah_state h) of
                (Ret (Inr _), s) \<Rightarrow> (Ret Status_OK, h\<lparr>ah_state := s\<rparr>)
              | (Ret (Inl status), s) \<Rightarrow>
                  (Ret (if Status_is_err status then status else Status_INVALID_PARAM), h\<lparr>ah_state := s\<rparr>)
              | (Panic _, s) \<Rightarrow> (Ret Status_IO_ERROR, h\<lparr>ah_state := s\<rparr>)
              | (Abort, s) \<Rightarrow> (Abort, h\<lparr>ah_state := s\<rparr>))))"

subsection \<open>Handler parameters\<close>

definition CbFlags_WholeMsg :: u32 where "CbFlags_WholeMsg = 1"
definition CbFlags_PersistentData :: u32 where "CbFlags_PersistentData = 2"

definition CbFlags_from :: "u32 \<Rightarrow> u32" where
  "CbFlags_from flag = flag AND (CbFlags_WholeMsg OR CbFlags_PersistentData)"

record HandlerParamsBuilder =
  hpb_handle :: ucp_am_handler_param_t
  hpb_field_mask :: u64

record HandlerParams =
  hpar_handle :: ucp_am_handler_param_t

definition UCP_AM_HANDLER_PARAM_FIELD_ID :: u64 where [simp]: "UCP_AM_HANDLER_PARAM_FIELD_ID = 1"
definition UCP_AM_HANDLER_PARAM_FIELD_FLAGS :: u64 where [simp]: "UCP_AM_HANDLER_PARAM_FIELD_FLAGS = 2"
definition UCP_AM_HANDLER_PARAM_FIELD_CB :: u64 where [simp]: "UCP_AM_HANDLER_PARAM_FIELD_CB = 4"
definition UCP_AM_HANDLER_PARAM_FIELD_ARG :: u64 where [simp]: "UCP_AM_HANDLER_PARAM_FIELD_ARG = 8"

definition HandlerParamsBuilder_new :: HandlerParamsBuilder where
  "HandlerParamsBuilder_new = \<lparr>hpb_handle = zeroed_ucp_am_handler_param_t, hpb_field_mask = 0\<rparr>"

definition hpb_id :: "u32 \<Rightarrow> HandlerParamsBuilder \<Rightarrow> HandlerParamsBuilder" where
  "hpb_id i b = b\<lparr>hpb_field_mask := hpb_field_mask b OR UCP_AM_HANDLER_PARAM_FIELD_ID,
     hpb_handle := (hpb_handle b)\<lparr>hp_id := i\<rparr>\<rparr>"

definition hpb_flags :: "u32 \<Rightarrow> HandlerParamsBuilder \<Rightarrow> HandlerParamsBuilder" where
  "hpb_flags f b = b\<lparr>hpb_field_mask := hpb_field_mask b OR UCP_AM_HANDLER_PARAM_FIELD_FLAGS,
     hpb_handle := (hpb_handle b)\<lparr>hp_flags := f\<rparr>\<rparr>"

definition hpb_cb :: "code \<Rightarrow> HandlerParamsBuilder \<Rightarrow> HandlerParamsBuilder" where
  "hpb_cb cb b = b\<lparr>hpb_field_mask := hpb_field_mask b OR UCP_AM_HANDLER_PARAM_FIELD_CB,
     hpb_handle := (hpb_handle b)\<lparr>hp_cb := Some cb\<rparr>\<rparr>"

definition hpb_arg :: "ptr \<Rightarrow> HandlerParamsBuilder \<Rightarrow> HandlerParamsBuilder" where
  "hpb_arg p b = b\<lparr>hpb_field_mask := hpb_field_mask b OR UCP_AM_HANDLER_PARAM_FIELD_ARG,
     hpb_handle := (hpb_handle b)\<lparr>hp_arg := p\<rparr>\<rparr>"

definition hpb_build :: "HandlerParamsBuilder \<Rightarrow> HandlerParams \<times> HandlerParamsBuilder" where
  "hpb_build b = (let params = (hpb_handle b)\<lparr>hp_field_mask := hpb_field_mask b\<rparr>
     in (\<lparr>hpar_handle = params\<rparr>, b\<lparr>hpb_handle := params\<rparr>))"

subsection \<open>Registering and sending\<close>

text \<open>The new handler's cell; on an error its \<^verbatim>\<open>Arc\<close> is dropped, on success the worker keeps it.\<close>

definition am_register_handler ::
  "'u env \<Rightarrow> Worker \<Rightarrow> u32 \<Rightarrow> u32 \<Rightarrow> 'u world \<Rightarrow> ((Status + unit) \<times> Worker) \<times> 'u world" where
  "am_register_handler E wk i flags w =
     (let handler = next_cell w;
          w0 = w\<lparr>next_cell := Suc handler\<rparr>;
          params = fst (hpb_build (hpb_arg (Arc_as_ptr handler) (hpb_cb Am_trampoline
            (hpb_flags flags (hpb_id i HandlerParamsBuilder_new)))));
          (result, w1) = status_call E
            (WorkerC (ucp_worker_set_am_recv_handler (wk_handle wk) (hpar_handle params))) w0
      in case result of
           Inl e \<Rightarrow> ((Inl e, wk), w1)
         | Inr _ \<Rightarrow> ((Inr (), wk\<lparr>wk_am_handlers := wk_am_handlers wk @ [handler]\<rparr>), w1))"

definition am_register :: "'u env \<Rightarrow> Worker \<Rightarrow> HandlerParams \<Rightarrow> 'u world \<Rightarrow> (Status + unit) \<times> 'u world" where
  "am_register E wk am_param =
     status_call E (WorkerC (ucp_worker_set_am_recv_handler (wk_handle wk) (hpar_handle am_param)))"

text \<open>The free function of \<^verbatim>\<open>src/worker/params.rs\<close>.\<close>

definition worker_set_am_recv_handler_nbx ::
  "'u env \<Rightarrow> Worker \<Rightarrow> HandlerParams \<Rightarrow> 'u world \<Rightarrow> (Status + unit) \<times> 'u world" where
  "worker_set_am_recv_handler_nbx E wk param =
     status_call E (WorkerC (ucp_worker_set_am_recv_handler (wk_handle wk) (hpar_handle param)))"

definition am_unregister :: "'u env \<Rightarrow> Worker \<Rightarrow> u32 \<Rightarrow> 'u world \<Rightarrow> (Status + unit) \<times> 'u world" where
  "am_unregister E wk i =
     (let param = zeroed_ucp_am_handler_param_t\<lparr>
            hp_field_mask := UCP_AM_HANDLER_PARAM_FIELD_ID OR UCP_AM_HANDLER_PARAM_FIELD_CB,
            hp_id := i, hp_cb := None\<rparr>
      in status_call E (WorkerC (ucp_worker_set_am_recv_handler (wk_handle wk) param)))"

definition Ep_am_send ::
  "'u env \<Rightarrow> Ep \<Rightarrow> u32 \<Rightarrow> ptr \<times> usize \<Rightarrow> ptr \<times> usize \<Rightarrow> RequestParam \<Rightarrow>
     ('u world, Status + Request option) prog" where
  "Ep_am_send E e i header data params =
     nbx E (XferC (ucp_am_send_nbx (ep_handle e) i (fst header) (snd header) (fst data) (snd data)
       (rparam_handle params)))"

subsection \<open>The deprecated functions\<close>

definition am_recv_data_nbx ::
  "'u env \<Rightarrow> Worker \<Rightarrow> ptr \<Rightarrow> ptr \<Rightarrow> usize \<Rightarrow> ('u world, Request) prog" where
  "am_recv_data_nbx E wk data_desc buffer count w =
     (let (ret, w1) = ffi E (XferC (ucp_am_recv_data_nbx (wk_handle wk) data_desc buffer count None)) w
      in (Request_from_raw E (ret_ptr ret), w1))"

definition am_data_release :: "'u env \<Rightarrow> Worker \<Rightarrow> ptr \<Rightarrow> 'u world \<Rightarrow> 'u world" where
  "am_data_release E wk data = ffi_unit E (XferC (ucp_am_data_release (wk_handle wk) data))"

subsection \<open>The builder's chains\<close>

datatype handler_param_op = Handler_id u32 | Handler_flags u32 | Handler_cb code | Handler_arg ptr

fun hpb_apply :: "handler_param_op \<Rightarrow> HandlerParamsBuilder \<Rightarrow> HandlerParamsBuilder option" where
  "hpb_apply (Handler_id i) b = Some (hpb_id i b)"
| "hpb_apply (Handler_flags f) b = Some (hpb_flags f b)"
| "hpb_apply (Handler_cb c) b = Some (hpb_cb c b)"
| "hpb_apply (Handler_arg p) b = Some (hpb_arg p b)"

fun hpb_bit :: "handler_param_op \<Rightarrow> u64" where
  "hpb_bit (Handler_id i) = UCP_AM_HANDLER_PARAM_FIELD_ID"
| "hpb_bit (Handler_flags f) = UCP_AM_HANDLER_PARAM_FIELD_FLAGS"
| "hpb_bit (Handler_cb c) = UCP_AM_HANDLER_PARAM_FIELD_CB"
| "hpb_bit (Handler_arg p) = UCP_AM_HANDLER_PARAM_FIELD_ARG"

lemmas hpb_defs = hpb_id_def hpb_flags_def hpb_cb_def hpb_arg_def

interpretation handler_params: mask_builder hpb_apply hpb_field_mask hpb_bit
proof unfold_locales
  fix op b b'
  assume "hpb_apply op b = Some b'"
  then show "hpb_field_mask b' = hpb_field_mask b OR hpb_bit op"
    by (cases op) (auto simp: hpb_defs)
qed

subsection \<open>The handler table\<close>

text \<open>
  UCX's table maps an id to the code and argument of its handler; a call that succeeds sets the
  entry, and one with a null callback clears it.  A program registers closures and raw
  callbacks, which are its own code, and removes handlers, in any order.
\<close>

type_synonym am_table = "u32 \<Rightarrow> (code \<times> ptr) option"

datatype am_op = Reg u32 u32 | Raw u32 ptr ptr | Unreg u32

definition am_set :: "ucp_am_handler_param_t \<Rightarrow> Status + unit \<Rightarrow> am_table \<Rightarrow> am_table" where
  "am_set p r t = (case r of Inl _ \<Rightarrow> t
     | Inr _ \<Rightarrow> t(hp_id p := map_option (\<lambda>c. (c, hp_arg p)) (hp_cb p)))"

definition raw_params :: "u32 \<Rightarrow> ptr \<Rightarrow> ptr \<Rightarrow> HandlerParams" where
  "raw_params i c p =
     fst (hpb_build (hpb_arg p (hpb_cb (User_code c) (hpb_id i HandlerParamsBuilder_new))))"

fun am_param_of :: "ffi_call \<Rightarrow> ucp_am_handler_param_t" where
  "am_param_of (WorkerC (ucp_worker_set_am_recv_handler h p)) = p"
| "am_param_of _ = zeroed_ucp_am_handler_param_t"

fun am_step :: "'u env \<Rightarrow> am_op \<Rightarrow> Worker \<times> am_table \<times> 'u world \<Rightarrow> Worker \<times> am_table \<times> 'u world" where
  "am_step E (Reg i flags) (wk, t, w) = (case am_register_handler E wk i flags w of
      ((r, wk1), w1) \<Rightarrow> (wk1, am_set (am_param_of (last (trace w1))) r t, w1))"
| "am_step E (Raw i c p) (wk, t, w) = (case am_register E wk (raw_params i c p) w of
      (r, w1) \<Rightarrow> (wk, am_set (am_param_of (last (trace w1))) r t, w1))"
| "am_step E (Unreg i) (wk, t, w) = (case am_unregister E wk i w of
      (r, w1) \<Rightarrow> (wk, am_set (am_param_of (last (trace w1))) r t, w1))"

text \<open>Every closure UCX may still call is one the worker keeps.\<close>

definition am_retained :: "Worker \<Rightarrow> am_table \<Rightarrow> bool" where
  "am_retained wk t \<longleftrightarrow> (\<forall>i c p. t i = Some (c, p) \<longrightarrow> c = Am_trampoline \<longrightarrow>
     p \<in> Arc_as_ptr ` set (wk_am_handlers wk))"

definition closure_params :: "u32 \<Rightarrow> u32 \<Rightarrow> ptr \<Rightarrow> ucp_am_handler_param_t" where
  "closure_params i flags p = \<lparr>hp_field_mask = 15, hp_id = i, hp_flags = flags,
     hp_cb = Some Am_trampoline, hp_arg = p\<rparr>"

lemma closure_params_simps [simp]:
  "hp_id (closure_params i flags p) = i" "hp_cb (closure_params i flags p) = Some Am_trampoline"
  "hp_arg (closure_params i flags p) = p"
  by (simp_all add: closure_params_def)

lemma raw_params_simps [simp]:
  "hp_id (hpar_handle (raw_params i c p)) = i"
  "hp_cb (hpar_handle (raw_params i c p)) = Some (User_code c)"
  "hp_arg (hpar_handle (raw_params i c p)) = p"
  by (simp_all add: raw_params_def hpb_build_def hpb_defs Let_def)

lemma am_register_handler_eq:
  "am_register_handler E wk i flags w =
     (case status_call E (WorkerC (ucp_worker_set_am_recv_handler (wk_handle wk)
          (closure_params i flags (Arc_as_ptr (next_cell w))))) (w\<lparr>next_cell := Suc (next_cell w)\<rparr>) of
        (Inl e, w1) \<Rightarrow> ((Inl e, wk), w1)
      | (Inr _, w1) \<Rightarrow> ((Inr (), wk\<lparr>wk_am_handlers := wk_am_handlers wk @ [next_cell w]\<rparr>), w1))"
proof -
  have "hpar_handle (fst (hpb_build (hpb_arg p (hpb_cb Am_trampoline
      (hpb_flags flags (hpb_id i HandlerParamsBuilder_new)))))) = closure_params i flags p" for p
    by (simp add: hpb_build_def hpb_defs HandlerParamsBuilder_new_def closure_params_def
        zeroed_ucp_am_handler_param_t_def Let_def)
  then show ?thesis by (simp add: am_register_handler_def Let_def split: prod.splits sum.splits)
qed

lemma am_step_retained:
  assumes "am_retained wk t" and "am_step E op (wk, t, w) = (wk1, t1, w1)"
  shows "am_retained wk1 t1" and "\<exists>more. wk_am_handlers wk1 = wk_am_handlers wk @ more"
proof (atomize (full), cases op)
  case (Reg i flags)
  obtain r u where q: "status_call E (WorkerC (ucp_worker_set_am_recv_handler (wk_handle wk)
      (closure_params i flags (Arc_as_ptr (next_cell w))))) (w\<lparr>next_cell := Suc (next_cell w)\<rparr>) = (r, u)"
    by fastforce
  note t = status_call_world(3) [OF q]
  show "am_retained wk1 t1 \<and> (\<exists>more. wk_am_handlers wk1 = wk_am_handlers wk @ more)"
  proof (cases r)
    case (Inl e)
    then show ?thesis using assms by (simp add: Reg am_register_handler_eq q am_set_def)
  next
    case (Inr v)
    then have "wk1 = wk\<lparr>wk_am_handlers := wk_am_handlers wk @ [next_cell w]\<rparr>"
      "t1 = t(i \<mapsto> (Am_trampoline, Arc_as_ptr (next_cell w)))"
      using assms by (auto simp: Reg am_register_handler_eq q t am_set_def)
    then show ?thesis using assms(1) by (auto simp: am_retained_def)
  qed
next
  case (Raw i c p)
  obtain r u where q: "am_register E wk (raw_params i c p) w = (r, u)" by fastforce
  have l: "last (trace u) =
      WorkerC (ucp_worker_set_am_recv_handler (wk_handle wk) (hpar_handle (raw_params i c p)))"
    using status_call_world(3) [OF q [unfolded am_register_def]] by simp
  show "am_retained wk1 t1 \<and> (\<exists>more. wk_am_handlers wk1 = wk_am_handlers wk @ more)"
    using assms by (cases r) (auto simp: Raw q l am_set_def am_retained_def split: if_splits)
next
  case (Unreg i)
  obtain r u where q: "am_unregister E wk i w = (r, u)" by fastforce
  have l: "hp_cb (am_param_of (last (trace u))) = None"
    using status_call_world(3) [OF q [unfolded am_unregister_def Let_def]] by simp
  show "am_retained wk1 t1 \<and> (\<exists>more. wk_am_handlers wk1 = wk_am_handlers wk @ more)"
    using assms by (cases r) (auto simp: Unreg q l am_set_def am_retained_def split: if_splits)
qed

subsection \<open>Properties\<close>

text \<open>C16: No panic and no in-progress status of a message handler reaches UCX: the trampoline
  returns success exactly when the closure did, and otherwise an error status, the closure's
  own when it is one.  A message with a null buffer of non-zero length never reaches the
  closure, and no message changes whether the handler is poisoned.\<close>

theorem am_trampoline_contained:
  "case am_trampoline cb m hdr hl dat len h of
     (Ret s, h1) \<Rightarrow> (s = Status_OK \<or> Status_is_err s) \<and> ah_poisoned h1 = ah_poisoned h \<and>
       (if (hdr = 0 \<and> hl \<noteq> 0) \<or> (dat = 0 \<and> len \<noteq> 0) then s = Status_INVALID_PARAM \<and> h1 = h
        else if ah_poisoned h then s = Status_IO_ERROR \<and> h1 = h
        else (case cb (if hdr = 0 then [] else mem_read m hdr (unat hl))
                      (if dat = 0 then [] else mem_read m dat (unat len)) (ah_state h) of
           (r, st) \<Rightarrow> ah_state h1 = st \<and> (s = Status_OK \<longleftrightarrow> r = Ret (Inr ())) \<and>
             (case r of Ret (Inl e) \<Rightarrow> s = (if Status_is_err e then e else Status_INVALID_PARAM)
              | Panic _ \<Rightarrow> s = Status_IO_ERROR | _ \<Rightarrow> True)))
   | (Panic _, _) \<Rightarrow> False
   | (Abort, _) \<Rightarrow> fst (cb (if hdr = 0 then [] else mem_read m hdr (unat hl))
        (if dat = 0 then [] else mem_read m dat (unat len)) (ah_state h)) = Abort"
proof (cases "(hdr = 0 \<and> hl \<noteq> 0) \<or> (dat = 0 \<and> len \<noteq> 0)")
  case True
  then show ?thesis by (auto simp: am_trampoline_def am_buffer_def split: option.splits)
next
  case False
  then have b: "am_buffer m hdr hl = Some (if hdr = 0 then [] else mem_read m hdr (unat hl))"
    "am_buffer m dat len = Some (if dat = 0 then [] else mem_read m dat (unat len))"
    by (auto simp: am_buffer_def)
  obtain r st where "cb (if hdr = 0 then [] else mem_read m hdr (unat hl))
      (if dat = 0 then [] else mem_read m dat (unat len)) (ah_state h) = (r, st)" by fastforce
  then show ?thesis using False
    by (cases r) (auto simp: am_trampoline_def b split: sum.splits)
qed

text \<open>The handler of a closure that always panics is invoked again by the next message.\<close>

lemma panicking_handler_invoked_again:
  "fold (\<lambda>(p, n) h. snd (am_trampoline (\<lambda>_ _ k. (Panic ''handler'', Suc k)) m p n 0 0 h)) msgs
     \<lparr>ah_poisoned = False, ah_state = k\<rparr> =
   \<lparr>ah_poisoned = False, ah_state = k + length (filter (\<lambda>(p, n). p \<noteq> 0 \<or> n = 0) msgs)\<rparr>"
proof (induction msgs arbitrary: k)
  case Nil
  then show ?case by simp
next
  case (Cons pn msgs)
  obtain p n where pn: "pn = (p, n)" by fastforce
  have "snd (am_trampoline (\<lambda>_ _ k. (Panic ''handler'', Suc k)) m p n 0 0
      \<lparr>ah_poisoned = False, ah_state = k\<rparr>) =
      \<lparr>ah_poisoned = False, ah_state = (if p \<noteq> 0 \<or> n = 0 then Suc k else k)\<rparr>" for k
    by (simp add: am_trampoline_def am_buffer_def)
  then show ?case by (simp add: pn Cons.IH)
qed

text \<open>C17: UCX never calls a closure the worker has dropped: after any sequence of registrations,
  replacements and removals, failed ones included, each closure in UCX's handler table is in
  the worker's list, from which nothing is removed before the worker is destroyed.\<close>

theorem am_handlers_retained:
  "case fold (am_step E) ops (wk, \<lambda>_. None, w) of (wk1, t1, w1) \<Rightarrow>
     am_retained wk1 t1 \<and> (\<exists>more. wk_am_handlers wk1 = wk_am_handlers wk @ more)"
proof -
  have "am_retained wk t \<Longrightarrow> case fold (am_step E) ops (wk, t, w) of (wk1, t1, w1) \<Rightarrow>
      am_retained wk1 t1 \<and> (\<exists>more. wk_am_handlers wk1 = wk_am_handlers wk @ more)" for t
  proof (induction ops arbitrary: wk t w)
    case Nil
    then show ?case by simp
  next
    case (Cons op ops)
    obtain wk1 t1 w1 where s: "am_step E op (wk, t, w) = (wk1, t1, w1)" by (metis prod_cases3)
    note k = am_step_retained [OF Cons.prems s]
    show ?case using Cons.IH [OF k(1), of w1] k(2) by (auto simp: s split: prod.splits)
  qed
  then show ?thesis by (simp add: am_retained_def)
qed

text \<open>A closure is registered under its id, with its flags and the trampoline, all four fields
  advertised; the worker keeps it exactly when UCX accepts it, and removing an id sends UCX the
  null callback for that id alone.\<close>

theorem am_registration_calls:
  "(case am_register_handler E wk i flags w of ((r, wk1), w1) \<Rightarrow>
      trace w1 = trace w @ [WorkerC (ucp_worker_set_am_recv_handler (wk_handle wk)
        \<lparr>hp_field_mask = 15, hp_id = i, hp_flags = flags, hp_cb = Some Am_trampoline,
         hp_arg = Arc_as_ptr (next_cell w)\<rparr>)] \<and>
      wk_am_handlers wk1 = wk_am_handlers wk @ (if isl r then [] else [next_cell w]) \<and>
      wk_handle wk1 = wk_handle wk) \<and>
   trace (snd (am_unregister E wk i w)) = trace w @ [WorkerC (ucp_worker_set_am_recv_handler
      (wk_handle wk) \<lparr>hp_field_mask = 5, hp_id = i, hp_flags = 0, hp_cb = None, hp_arg = 0\<rparr>)]"
  by (auto simp: am_register_handler_eq closure_params_def Let_def am_unregister_def world_simps
      zeroed_ucp_am_handler_param_t_def split: prod.splits sum.splits)

text \<open>A reply endpoint is reported exactly when UCX set the reply bit and gave a handle; other
  bits, known or not, do not matter.\<close>

theorem am_reply_ep_exact:
  "AmRecvParam_reply_ep p = Some e \<longleftrightarrow>
     bit (AmRecvParam_recv_attr p) 0 \<and> ep_raw e \<noteq> 0 \<and> ep_raw e = arp_reply_ep (raw_am_recv p)"
proof -
  have "flags_contains x AM_RECV_ATTR_FIELD_REPLY_EP \<longleftrightarrow> bit x 0" for x :: u64
    using flags_contains_exp [of 0 x] by (simp add: AM_RECV_ATTR_FIELD_REPLY_EP_def)
  then show ?thesis by (cases e) (auto simp: AmRecvParam_reply_ep_def)
qed

end
