(* ===== verification/Listener.thy ===== *)
theory Listener
  imports Endpoint Sockaddr
begin

text \<open>
  \<^verbatim>\<open>src/listener.rs\<close>: listeners, the trampoline that delivers connection requests, and the
  requests.  The UCX listener lives as long as its shared state: the \<^verbatim>\<open>Listener\<close> and every
  delivered request own a share, and the last one dropped destroys it.
\<close>

subsection \<open>Parameters\<close>

definition UCP_LISTENER_PARAM_FIELD_SOCK_ADDR :: u64 where
  [simp]: "UCP_LISTENER_PARAM_FIELD_SOCK_ADDR = 1"
definition UCP_LISTENER_PARAM_FIELD_ACCEPT_HANDLER :: u64 where
  [simp]: "UCP_LISTENER_PARAM_FIELD_ACCEPT_HANDLER = 2"
definition UCP_LISTENER_PARAM_FIELD_CONN_HANDLER :: u64 where
  [simp]: "UCP_LISTENER_PARAM_FIELD_CONN_HANDLER = 4"

record ListenerParamsBuilder =
  lpb_params :: ucp_listener_params_t

record ListenerParams =
  lpar_params :: ucp_listener_params_t

definition ListenerParamsBuilder_new :: ListenerParamsBuilder where
  "ListenerParamsBuilder_new = \<lparr>lpb_params = zeroed_ucp_listener_params_t\<rparr>"

definition lpb_sockaddr :: "SockAddr \<Rightarrow> ListenerParamsBuilder \<Rightarrow> ListenerParamsBuilder" where
  "lpb_sockaddr addr b = b\<lparr>lpb_params := (lpb_params b)\<lparr>
     lp_field_mask := lp_field_mask (lpb_params b) OR UCP_LISTENER_PARAM_FIELD_SOCK_ADDR,
     lp_sockaddr := SockAddr_to_ffi addr\<rparr>\<rparr>"

definition lpb_accept_handler :: "code_ptr \<Rightarrow> ptr \<Rightarrow> ListenerParamsBuilder \<Rightarrow> ListenerParamsBuilder" where
  "lpb_accept_handler callback arg b = b\<lparr>lpb_params := (lpb_params b)\<lparr>
     lp_field_mask := lp_field_mask (lpb_params b) OR UCP_LISTENER_PARAM_FIELD_ACCEPT_HANDLER,
     lp_accept_cb := callback, lp_accept_arg := arg\<rparr>\<rparr>"

definition lpb_conn_handler :: "code_ptr \<Rightarrow> ptr \<Rightarrow> ListenerParamsBuilder \<Rightarrow> ListenerParamsBuilder" where
  "lpb_conn_handler callback arg b = b\<lparr>lpb_params := (lpb_params b)\<lparr>
     lp_field_mask := lp_field_mask (lpb_params b) OR UCP_LISTENER_PARAM_FIELD_CONN_HANDLER,
     lp_conn_cb := callback, lp_conn_arg := arg\<rparr>\<rparr>"

definition lpb_build :: "ListenerParamsBuilder \<Rightarrow> ListenerParams" where
  "lpb_build b = \<lparr>lpar_params = lpb_params b\<rparr>"

subsection \<open>Listeners\<close>

record Listener =
  li_state :: nat

record ListenerAttr =
  la_sockaddr :: sockaddr_storage
  la_socket_addr :: "SocketAddr option"

definition Listener_create_with_params ::
  "'u env \<Rightarrow> Worker \<Rightarrow> ListenerParams \<Rightarrow> 'u world \<Rightarrow> (Status + Listener) \<times> 'u world" where
  "Listener_create_with_params E wk params w =
     (let (ret, w1) = ffi E (ListenerC (ucp_listener_create (wk_handle wk) (lpar_params params))) w
      in case status_to_result (ret_status ret) of
           Inl e \<Rightarrow> (Inl e, w1)
         | Inr _ \<Rightarrow>
            (let (state, w2) = Arc_new \<lparr>ls_strong = 1, ls_handle = out_ptr ret,
                   ls_handle_poisoned = False, ls_has_handler = False,
                   ls_handler_poisoned = False\<rparr> w1
             in (Inr \<lparr>li_state = state\<rparr>, w2)))"

definition Listener_create ::
  "'u env \<Rightarrow> Worker \<Rightarrow> SocketAddr \<Rightarrow> 'u world \<Rightarrow> (Status + Listener) \<times> 'u world" where
  "Listener_create E wk addr w =
     (let sockaddr = SockAddr_new addr;
          params = lpb_build (lpb_sockaddr sockaddr ListenerParamsBuilder_new);
          (ret, w1) = ffi E (ListenerC (ucp_listener_create (wk_handle wk) (lpar_params params))) w
      in case status_to_result (ret_status ret) of
           Inl e \<Rightarrow> (Inl e, w1)
         | Inr _ \<Rightarrow>
            (let (state, w2) = Arc_new \<lparr>ls_strong = 1, ls_handle = out_ptr ret,
                   ls_handle_poisoned = False, ls_has_handler = False,
                   ls_handler_poisoned = False\<rparr> w1
             in (Inr \<lparr>li_state = state\<rparr>, w2)))"

text \<open>The state is allocated first, its handle null, and its address is the callback's argument.\<close>

definition set_listener_handle :: "nat \<Rightarrow> ptr \<Rightarrow> 'u world \<Rightarrow> 'u world" where
  "set_listener_handle i h w = (case listeners w i of
      None \<Rightarrow> w
    | Some s \<Rightarrow> w\<lparr>listeners := (listeners w)(i \<mapsto> s\<lparr>ls_handle := h\<rparr>)\<rparr>)"

definition Listener_create_with_conn_handler ::
  "'u env \<Rightarrow> Worker \<Rightarrow> SocketAddr \<Rightarrow> 'u world \<Rightarrow> (Status + Listener) \<times> 'u world" where
  "Listener_create_with_conn_handler E wk addr w =
     (let (state, w1) = Arc_new \<lparr>ls_strong = 1, ls_handle = 0, ls_handle_poisoned = False,
            ls_has_handler = True, ls_handler_poisoned = False\<rparr> w;
          sockaddr = SockAddr_new addr;
          params = lpb_build (lpb_conn_handler (Some Conn_trampoline) (Arc_as_ptr state)
            (lpb_sockaddr sockaddr ListenerParamsBuilder_new));
          (ret, w2) = ffi E (ListenerC (ucp_listener_create (wk_handle wk) (lpar_params params))) w1
      in case status_to_result (ret_status ret) of
           Inr _ \<Rightarrow> (Inr \<lparr>li_state = state\<rparr>, set_listener_handle state (out_ptr ret) w2)
         | Inl error \<Rightarrow> (Inl error, Arc_drop E state w2))"

definition Listener_as_raw :: "Listener \<Rightarrow> 'u world \<Rightarrow> ptr" where
  "Listener_as_raw l w = (case listeners w (li_state l) of None \<Rightarrow> 0 | Some s \<Rightarrow> ls_handle s)"

definition Listener_query ::
  "'u env \<Rightarrow> Listener \<Rightarrow> 'u world \<Rightarrow> (Status + ListenerAttr) \<times> 'u world" where
  "Listener_query E l w =
     value_call E (ListenerC (ucp_listener_query (Listener_as_raw l w)
         (zeroed_ucp_listener_attr\<lparr>lattr_field_mask := 1\<rparr>)))
       (\<lambda>ret. let attr = out_listener_attr ret in
         \<lparr>la_sockaddr = lattr_sockaddr attr, la_socket_addr = from_storage (lattr_sockaddr attr)\<rparr>) w"

text \<open>The request is consumed: its drop glue runs after the call.\<close>

definition Listener_reject ::
  "'u env \<Rightarrow> Listener \<Rightarrow> ConnRequest \<Rightarrow> 'u world \<Rightarrow> (Status + unit) \<times> 'u world" where
  "Listener_reject E l request w =
     (let (r, w1) = status_call E
            (ListenerC (ucp_listener_reject (Listener_as_raw l w) (cr_handle request))) w
      in (r, ConnRequest_drop E request w1))"

definition Listener_is_active :: "Listener \<Rightarrow> 'u world \<Rightarrow> bool" where
  "Listener_is_active l w \<longleftrightarrow> Listener_as_raw l w \<noteq> 0"

definition Listener_drop :: "'u env \<Rightarrow> Listener \<Rightarrow> 'u world \<Rightarrow> 'u world" where
  "Listener_drop E l = Arc_drop E (li_state l)"

subsection \<open>Connection requests\<close>

definition ConnRequestFields_CLIENT_ADDR :: u64 where "ConnRequestFields_CLIENT_ADDR = 1"
definition ConnRequestFields_CLIENT_ID :: u64 where "ConnRequestFields_CLIENT_ID = 2"

record ConnRequestAttr =
  cra_client_address :: "SocketAddr option"
  cra_client_id :: "u64 option"

definition ConnRequest_reject ::
  "'u env \<Rightarrow> ConnRequest \<Rightarrow> Listener \<Rightarrow> 'u world \<Rightarrow> (Status + unit) \<times> 'u world" where
  "ConnRequest_reject E r l = Listener_reject E l r"

text \<open>A request always owns a share of its state, so the first branch is not reached.\<close>

definition ConnRequest_reject_owned ::
  "'u env \<Rightarrow> ConnRequest \<Rightarrow> 'u world \<Rightarrow> (Status + unit) \<times> 'u world" where
  "ConnRequest_reject_owned E r w = (case listeners w (cr_state r) of
      None \<Rightarrow> (Inl (Status UCS_ERR_INVALID_PARAM), ConnRequest_drop E r w)
    | Some s \<Rightarrow>
       if ls_handle_poisoned s then (Inl (Status UCS_ERR_INVALID_PARAM), ConnRequest_drop E r w)
       else if ls_handle s = 0 then (Inl (Status UCS_ERR_INVALID_PARAM), ConnRequest_drop E r w)
       else (let (x, w1) = status_call E
               (ListenerC (ucp_listener_reject (ls_handle s) (cr_handle r))) w
             in (x, ConnRequest_drop E r w1)))"

definition ConnRequest_query ::
  "'u env \<Rightarrow> ConnRequest \<Rightarrow> u64 \<Rightarrow> 'u world \<Rightarrow> (Status + ConnRequestAttr) \<times> 'u world" where
  "ConnRequest_query E r flds =
     value_call E (ListenerC (ucp_conn_request_query (cr_handle r)
         (zeroed_ucp_conn_request_attr\<lparr>crattr_field_mask := flds\<rparr>)))
       (\<lambda>ret. let attr = out_conn_attr ret in
         \<lparr>cra_client_address =
            (if flags_contains flds ConnRequestFields_CLIENT_ADDR
             then from_storage (crattr_client_address attr) else None),
          cra_client_id = then_some (flags_contains flds ConnRequestFields_CLIENT_ID)
            (crattr_client_id attr)\<rparr>)"

definition conn_request_query ::
  "'u env \<Rightarrow> ConnRequestHandle \<Rightarrow> u64 \<Rightarrow> 'u world \<Rightarrow> (Status + ConnRequestAttr) \<times> 'u world" where
  "conn_request_query E conn_request flds w =
     (let (r, w1) = ConnRequest_from_raw (ConnRequestHandle_as_raw conn_request) w;
          (x, w2) = ConnRequest_query E r flds w1
      in (x, ConnRequest_drop E r w2))"

subsection \<open>The trampoline\<close>

text \<open>
  The user's handler is a parameter: it consumes the request and may act on the world.  The
  trampoline holds a share of its own while the handler runs.  The guard on the handler's
  mutex is outside \<^verbatim>\<open>catch_unwind\<close>, so a panic does not poison it.
\<close>

definition conn_trampoline ::
  "'u env \<Rightarrow> (ConnRequest \<Rightarrow> ('u world, unit) prog) \<Rightarrow> ptr \<Rightarrow> ptr \<Rightarrow> ('u world, unit) prog" where
  "conn_trampoline E handler conn_request arg w =
     (if arg = 0 then (Ret (), w)
      else
        (let i = Arc_from_ptr arg;
             request = \<lparr>cr_handle = ConnRequestHandle_as_raw (Valid conn_request), cr_state = i\<rparr>;
             w1 = Arc_clone (cr_state request) (Arc_clone i w)
         in if (case listeners w1 i of None \<Rightarrow> False
                | Some s \<Rightarrow> ls_has_handler s \<and> \<not> ls_handler_poisoned s)
            then (case handler request w1 of
                (Abort, w2) \<Rightarrow> (Abort, w2)
              | (_, w2) \<Rightarrow> (Ret (), Arc_drop E i w2))
            else (Ret (), ConnRequest_drop E request (Arc_drop E i w1))))"

subsection \<open>Counting the shares\<close>

definition shares :: "nat \<Rightarrow> 'u world \<Rightarrow> nat" where
  "shares i w = (case listeners w i of None \<Rightarrow> 0 | Some s \<Rightarrow> ls_strong s)"

definition destroys :: "ptr \<Rightarrow> 'u world \<Rightarrow> nat" where
  "destroys h w = length (filter (\<lambda>c. c = ListenerC (ucp_listener_destroy h)) (trace w))"

text \<open>The state behind a live listener with a handler: its handle is published and not null.\<close>

definition state_ok :: "nat \<Rightarrow> ptr \<Rightarrow> 'u world \<Rightarrow> bool" where
  "state_ok i h w \<longleftrightarrow> h \<noteq> 0 \<and> (case listeners w i of None \<Rightarrow> True
     | Some s \<Rightarrow> ls_handle s = h \<and> 0 < ls_strong s \<and> ls_has_handler s \<and>
         \<not> ls_handle_poisoned s \<and> \<not> ls_handler_poisoned s)"

interpretation listener_shares:
  counted "state_ok i h" "shares i" "destroys h" "Arc_clone i" "Arc_drop E i"
  for i h and E :: "'u env"
proof
  fix w :: "'u world"
  assume a: "state_ok i h w" "0 < shares i w"
  then obtain s where s: "listeners w i = Some s" by (auto simp: shares_def split: option.splits)
  show "state_ok i h (Arc_clone i w) \<and> shares i (Arc_clone i w) = Suc (shares i w) \<and>
      destroys h (Arc_clone i w) = destroys h w"
    using a s by (simp add: state_ok_def shares_def destroys_def) (simp add: Arc_clone_def)
  show "state_ok i h (Arc_drop E i w) \<and> shares i (Arc_drop E i w) = shares i w - 1 \<and>
      destroys h (Arc_drop E i w) = destroys h w + (if shares i w = 1 then 1 else 0)"
  proof (cases "ls_strong s \<le> 1")
    case True
    then have "ls_strong s = 1" using a s by (simp add: shares_def)
    then show ?thesis using a s Arc_drop_last [OF s True, of E]
      by (simp add: state_ok_def shares_def destroys_def)
  next
    case False
    then have "1 < ls_strong s" by simp
    then show ?thesis using a s Arc_drop_shared [OF s, of E]
      by (auto simp: state_ok_def shares_def destroys_def)
  qed
qed

text \<open>The balance of a state with \<open>n\<close> owners, and what each operation does to it.\<close>

definition balanced :: "nat \<Rightarrow> ptr \<Rightarrow> nat \<Rightarrow> 'u world \<Rightarrow> bool" where
  "balanced i h n w \<longleftrightarrow>
     state_ok i h w \<and> shares i w = n \<and> destroys h w = (if n = 0 then 1 else 0)"

lemma balanced_clone: "balanced i h n w \<Longrightarrow> 0 < n \<Longrightarrow> balanced i h (Suc n) (Arc_clone i w)"
  unfolding balanced_def by (rule listener_shares.clone_balance)

lemma balanced_drop: "balanced i h (Suc n) w \<Longrightarrow> balanced i h n (Arc_drop E i w)"
  unfolding balanced_def by (rule listener_shares.release_balance)

lemma balanced_ffi:
  assumes "balanced i h n w" and "c \<noteq> ListenerC (ucp_listener_destroy h)"
  shows "balanced i h n (snd (ffi E c w))"
  using assms by (simp add: balanced_def state_ok_def shares_def destroys_def)

lemma balanced_Some:
  assumes "balanced i h n w" and "0 < n"
  obtains s where "listeners w i = Some s" "ls_handle s = h" "ls_has_handler s"
    "\<not> ls_handle_poisoned s" "\<not> ls_handler_poisoned s" "h \<noteq> 0"
  using assms by (auto simp: balanced_def state_ok_def shares_def split: option.splits)

text \<open>A delivery: the handler runs with two shares more, of which the trampoline drops one.\<close>

lemma trampoline_delivers:
  assumes "balanced i h n w" and "0 < n" and "i < 2 ^ 64 - 1"
  shows "conn_trampoline E handler c (Arc_as_ptr i) w =
     (case handler \<lparr>cr_handle = c, cr_state = i\<rparr> (Arc_clone i (Arc_clone i w)) of
        (Abort, w2) \<Rightarrow> (Abort, w2)
      | (_, w2) \<Rightarrow> (Ret (), Arc_drop E i w2))"
    and "balanced i h (Suc (Suc n)) (Arc_clone i (Arc_clone i w))"
proof -
  show b: "balanced i h (Suc (Suc n)) (Arc_clone i (Arc_clone i w))"
    using balanced_clone [OF balanced_clone [OF assms(1,2)]] by simp
  obtain s where "listeners (Arc_clone i (Arc_clone i w)) i = Some s" "ls_has_handler s"
    "\<not> ls_handler_poisoned s"
    using balanced_Some [OF b] by blast
  then show "conn_trampoline E handler c (Arc_as_ptr i) w =
     (case handler \<lparr>cr_handle = c, cr_state = i\<rparr> (Arc_clone i (Arc_clone i w)) of
        (Abort, w2) \<Rightarrow> (Abort, w2)
      | (_, w2) \<Rightarrow> (Ret (), Arc_drop E i w2))"
    using Arc_ptr_round_trip [OF assms(3)] by (simp add: conn_trampoline_def Let_def)
qed

subsection \<open>The life of a listener\<close>

text \<open>
  A system is the world, whether the application still holds the \<^verbatim>\<open>Listener\<close>, and the requests
  it holds.  While the state has an owner UCX delivers requests, to a handler that keeps them,
  or that drops them and returns or panics; the application rejects and drops requests in any
  order, drops the listener at any time, and makes other foreign calls.
\<close>

record 'u system =
  sys_world :: "'u world"
  sys_listener :: bool
  sys_requests :: "ConnRequest list"

inductive listener_step :: "'u env \<Rightarrow> nat \<Rightarrow> ptr \<Rightarrow> 'u system \<Rightarrow> 'u system \<Rightarrow> bool"
  for E i h where
  Deliver_keep: "\<lbrakk>0 < shares i (sys_world S);
      conn_trampoline E (\<lambda>r w. (Ret (), w)) c (Arc_as_ptr i) (sys_world S) = (Ret (), w1)\<rbrakk> \<Longrightarrow>
    listener_step E i h S
      (S\<lparr>sys_world := w1, sys_requests := \<lparr>cr_handle = c, cr_state = i\<rparr> # sys_requests S\<rparr>)"
| Deliver_drop: "\<lbrakk>0 < shares i (sys_world S); x = Ret () \<or> x = Panic msg;
      conn_trampoline E (\<lambda>r w. (x, ConnRequest_drop E r w)) c (Arc_as_ptr i) (sys_world S) = (Ret (), w1)\<rbrakk> \<Longrightarrow>
    listener_step E i h S (S\<lparr>sys_world := w1\<rparr>)"
| Reject: "\<lbrakk>sys_listener S; sys_requests S = xs @ r # ys\<rbrakk> \<Longrightarrow>
    listener_step E i h S
      (S\<lparr>sys_world := snd (ConnRequest_reject E r \<lparr>li_state = i\<rparr> (sys_world S)), sys_requests := xs @ ys\<rparr>)"
| Reject_owned: "sys_requests S = xs @ r # ys \<Longrightarrow>
    listener_step E i h S
      (S\<lparr>sys_world := snd (ConnRequest_reject_owned E r (sys_world S)), sys_requests := xs @ ys\<rparr>)"
| Drop_request: "sys_requests S = xs @ r # ys \<Longrightarrow>
    listener_step E i h S
      (S\<lparr>sys_world := ConnRequest_drop E r (sys_world S), sys_requests := xs @ ys\<rparr>)"
| Drop_listener: "sys_listener S \<Longrightarrow>
    listener_step E i h S
      (S\<lparr>sys_world := Listener_drop E \<lparr>li_state = i\<rparr> (sys_world S), sys_listener := False\<rparr>)"
| Other_call: "c \<noteq> ListenerC (ucp_listener_destroy h) \<Longrightarrow>
    listener_step E i h S (S\<lparr>sys_world := snd (ffi E c (sys_world S))\<rparr>)"

inductive_cases listener_stepE: "listener_step E i h S S'"

definition sys_owners :: "'u system \<Rightarrow> nat" where
  "sys_owners S = of_bool (sys_listener S) + length (sys_requests S)"

definition sys_inv :: "nat \<Rightarrow> ptr \<Rightarrow> 'u system \<Rightarrow> bool" where
  "sys_inv i h S \<longleftrightarrow> balanced i h (sys_owners S) (sys_world S) \<and>
     (\<forall>r\<in>set (sys_requests S). cr_state r = i)"

lemma balanced_status_call:
  "balanced i h n w \<Longrightarrow> c \<noteq> ListenerC (ucp_listener_destroy h) \<Longrightarrow>
     balanced i h n (snd (status_call E c w))"
  using balanced_ffi [of i h n w c E] by (simp add: status_call_def split_beta Let_def)

lemma shares_owners: "sys_inv i h S \<Longrightarrow> 0 < shares i (sys_world S) \<longleftrightarrow> 0 < sys_owners S"
  by (auto simp: sys_inv_def balanced_def)

text \<open>A consumed request: one owner less, the rest as before.\<close>

lemma sys_inv_consume:
  assumes "sys_inv i h S" and "sys_requests S = xs @ r # ys"
    and "\<And>n. balanced i h (Suc n) (sys_world S) \<Longrightarrow> balanced i h n w1"
  shows "sys_inv i h (S\<lparr>sys_world := w1, sys_requests := xs @ ys\<rparr>)"
proof -
  have "balanced i h (Suc (of_bool (sys_listener S) + length (xs @ ys))) (sys_world S)"
    using assms(1,2) by (simp add: sys_inv_def sys_owners_def)
  then show ?thesis using assms by (auto simp: sys_inv_def sys_owners_def)
qed

lemma listener_step_inv:
  assumes "listener_step E i h S S'" and "sys_inv i h S" and i: "i < 2 ^ 64 - 1"
  shows "sys_inv i h S'"
  using assms(1)
proof cases
  case (Deliver_keep c w1)
  then have n: "0 < sys_owners S" using shares_owners [OF assms(2)] by simp
  note t = trampoline_delivers [OF _ n i, of h "sys_world S"]
  have b: "balanced i h (sys_owners S) (sys_world S)" using assms(2) by (simp add: sys_inv_def)
  show ?thesis using Deliver_keep balanced_drop [OF t(2) [OF b], of E] assms(2)
    by (simp add: t(1) [OF b] sys_inv_def sys_owners_def)
next
  case (Deliver_drop x msg c w1)
  then have n: "0 < sys_owners S" using shares_owners [OF assms(2)] by simp
  note t = trampoline_delivers [OF _ n i, of h "sys_world S"]
  have b: "balanced i h (sys_owners S) (sys_world S)" using assms(2) by (simp add: sys_inv_def)
  have "w1 = Arc_drop E i (Arc_drop E i (Arc_clone i (Arc_clone i (sys_world S))))"
    using Deliver_drop by (auto simp: t(1) [OF b] ConnRequest_drop_def)
  then show ?thesis
    using Deliver_drop balanced_drop [OF balanced_drop [OF t(2) [OF b], of E], of E] assms(2)
    by (simp add: sys_inv_def sys_owners_def)
next
  case (Reject xs r ys)
  have r: "cr_state r = i" using assms(2) Reject by (simp add: sys_inv_def)
  show ?thesis unfolding Reject(1)
    using assms(2) Reject(3)
  proof (rule sys_inv_consume)
    fix n
    assume "balanced i h (Suc n) (sys_world S)"
    then show "balanced i h n (snd (ConnRequest_reject E r \<lparr>li_state = i\<rparr> (sys_world S)))"
      by (simp add: ConnRequest_reject_def Listener_reject_def ConnRequest_drop_def r split_beta Let_def)
        (intro balanced_drop balanced_status_call; simp)
  qed
next
  case (Reject_owned xs r ys)
  have r: "cr_state r = i" using assms(2) Reject_owned by (simp add: sys_inv_def)
  show ?thesis unfolding Reject_owned(1)
    using assms(2) Reject_owned(2)
  proof (rule sys_inv_consume)
    fix n
    assume b: "balanced i h (Suc n) (sys_world S)"
    obtain s where "listeners (sys_world S) i = Some s" "ls_handle s = h" "h \<noteq> 0"
      "\<not> ls_handle_poisoned s"
      using balanced_Some [OF b] by blast
    then show "balanced i h n (snd (ConnRequest_reject_owned E r (sys_world S)))"
      using balanced_drop [OF balanced_status_call [OF b]]
      by (simp add: ConnRequest_reject_owned_def ConnRequest_drop_def r split_beta Let_def)
  qed
next
  case (Drop_request xs r ys)
  have "cr_state r = i" using assms(2) Drop_request by (simp add: sys_inv_def)
  then show ?thesis unfolding Drop_request(1)
    by (intro sys_inv_consume [OF assms(2) Drop_request(2)])
      (simp add: ConnRequest_drop_def balanced_drop)
next
  case Drop_listener
  then have "balanced i h (Suc (length (sys_requests S))) (sys_world S)"
    using assms(2) by (simp add: sys_inv_def sys_owners_def)
  then show ?thesis using Drop_listener assms(2) balanced_drop
    by (simp add: sys_inv_def sys_owners_def Listener_drop_def)
next
  case (Other_call c)
  then show ?thesis using assms(2) by (simp add: sys_inv_def sys_owners_def balanced_ffi)
qed

lemma listener_run_inv:
  assumes "(listener_step E i h)\<^sup>*\<^sup>* S S'" and "sys_inv i h S" and "i < 2 ^ 64 - 1"
  shows "sys_inv i h S'"
  using assms by (induction rule: rtranclp_induct) (auto intro: listener_step_inv)

text \<open>A listener just created, whose handle is not null and new.\<close>

lemma create_with_conn_handler_balanced:
  assumes "Listener_create_with_conn_handler E wk addr w = (Inr l, w1)"
    and "Listener_as_raw l w1 = h" and "h \<noteq> 0" and "destroys h w = 0"
  shows "balanced (li_state l) h 1 w1" and "li_state l = next_cell w"
  using assms
  by (auto simp: Listener_create_with_conn_handler_def Arc_new_def Let_def set_listener_handle_def
      Listener_as_raw_def balanced_def state_ok_def shares_def destroys_def ffi_world
      split: prod.splits sum.splits)

subsection \<open>Properties\<close>

text \<open>C15: The UCX listener is destroyed exactly once, by whichever of its owners goes last.  From a
  successful \<^verbatim>\<open>create_with_conn_handler\<close>, after any deliveries, rejections and drops in any order:
  while the application holds the listener or a request the handle is live and was never
  destroyed, and once it holds none the state is gone and the handle was destroyed once.\<close>

theorem listener_destroyed_once:
  assumes "Listener_create_with_conn_handler E wk addr w = (Inr l, w1)"
    and "Listener_as_raw l w1 = h" and "h \<noteq> 0" and "destroys h w = 0"
    and "next_cell w < 2 ^ 64 - 1"
    and "(listener_step E (li_state l) h)\<^sup>*\<^sup>* \<lparr>sys_world = w1, sys_listener = True, sys_requests = []\<rparr> S"
  shows "if sys_listener S \<or> sys_requests S \<noteq> []
    then destroys h (sys_world S) = 0 \<and> Listener_as_raw l (sys_world S) = h \<and>
      shares (li_state l) (sys_world S) = of_bool (sys_listener S) + length (sys_requests S)
    else destroys h (sys_world S) = 1 \<and> listeners (sys_world S) (li_state l) = None"
proof -
  note c = create_with_conn_handler_balanced [OF assms(1-4)]
  have "sys_inv (li_state l) h \<lparr>sys_world = w1, sys_listener = True, sys_requests = []\<rparr>"
    using c by (simp add: sys_inv_def sys_owners_def)
  from listener_run_inv [OF assms(6) this] have v: "sys_inv (li_state l) h S"
    using c(2) assms(5) by simp
  then show ?thesis
    by (auto simp: sys_inv_def sys_owners_def balanced_def state_ok_def shares_def Listener_as_raw_def
        split: option.splits)
qed

text \<open>A library whose every call succeeds with the handle 5; a delivery, then both drops.\<close>

definition example_env :: "nat env" where
  "example_env = \<lparr>lib = \<lambda>c u m. (ffi_ret0\<lparr>out_ptr := 5\<rparr>, u, m), debug_assertions = True\<rparr>"

definition example_world :: "nat world" where
  "example_world = \<lparr>ucx = 0, mem = \<lambda>_. 0, atomics = \<lambda>_. False, next_cell = 0,
     listeners = \<lambda>_. None, trace = [], stderr = []\<rparr>"

definition example_worker :: Worker where
  "example_worker = \<lparr>wk_handle = 1, wk_alive = 0, wk_am_handlers = [], wk_progressing = 0\<rparr>"

definition example_listening :: "nat world" where
  "example_listening =
     snd (Listener_create_with_conn_handler example_env example_worker (SocketAddrV4 0 0) example_world)"

lemma example_create:
  "Listener_create_with_conn_handler example_env example_worker (SocketAddrV4 0 0) example_world =
     (Inr \<lparr>li_state = 0\<rparr>, example_listening)"
  "Listener_as_raw \<lparr>li_state = 0\<rparr> example_listening = 5"
  "balanced 0 5 1 example_listening"
proof -
  show a: "Listener_create_with_conn_handler example_env example_worker (SocketAddrV4 0 0) example_world =
     (Inr \<lparr>li_state = 0\<rparr>, example_listening)"
    by (simp add: example_listening_def Listener_create_with_conn_handler_def Let_def Arc_new_def
        example_env_def ffi_def ffi_ret0_def example_world_def)
  show b: "Listener_as_raw \<lparr>li_state = 0\<rparr> example_listening = 5"
    by (simp add: example_listening_def Listener_create_with_conn_handler_def Let_def Arc_new_def
        example_env_def ffi_def ffi_ret0_def example_world_def Listener_as_raw_def set_listener_handle_def)
  show "balanced 0 5 1 example_listening"
    using create_with_conn_handler_balanced(1) [OF a b]
    by (simp add: destroys_def example_world_def)
qed

theorem listener_destroyed_once_witness:
  "\<exists>S. (listener_step example_env 0 5)\<^sup>*\<^sup>*
      \<lparr>sys_world = example_listening, sys_listener = True, sys_requests = []\<rparr> S \<and>
    \<not> sys_listener S \<and> sys_requests S = [] \<and> destroys 5 (sys_world S) = 1"
proof -
  let ?S0 = "\<lparr>sys_world = example_listening, sys_listener = True, sys_requests = []\<rparr>"
  let ?r = "\<lparr>cr_handle = 9, cr_state = 0\<rparr>"
  let ?w1 = "Arc_drop example_env 0 (Arc_clone 0 (Arc_clone 0 example_listening))"
  let ?S1 = "\<lparr>sys_world = ?w1, sys_listener = True, sys_requests = [?r]\<rparr>"
  let ?S2 = "?S1\<lparr>sys_world := Listener_drop example_env \<lparr>li_state = 0\<rparr> ?w1, sys_listener := False\<rparr>"
  let ?S3 = "?S2\<lparr>sys_world := ConnRequest_drop example_env ?r (sys_world ?S2), sys_requests := []\<rparr>"
  have t: "conn_trampoline example_env (\<lambda>r w. (Ret (), w)) 9 (Arc_as_ptr 0) example_listening = (Ret (), ?w1)"
    using trampoline_delivers(1) [OF example_create(3)] by simp
  have "0 < shares 0 example_listening" using example_create(3) by (simp add: balanced_def)
  then have "listener_step example_env 0 5 ?S0 ?S1"
    using Deliver_keep [where E = example_env and i = 0 and h = 5 and S = ?S0 and c = 9] t by simp
  moreover have "listener_step example_env 0 5 ?S1 ?S2"
    using Drop_listener [where E = example_env and i = 0 and h = 5 and S = ?S1] by simp
  moreover have "listener_step example_env 0 5 ?S2 ?S3"
    using Drop_request [where E = example_env and i = 0 and h = 5 and S = ?S2 and xs = "[]"] by simp
  ultimately have run: "(listener_step example_env 0 5)\<^sup>*\<^sup>* ?S0 ?S3"
    by (meson converse_rtranclp_into_rtranclp rtranclp.rtrancl_refl)
  have "destroys 5 (sys_world ?S3) = 1"
    using listener_destroyed_once [OF example_create(1,2), of ?S3] run
    by (simp add: destroys_def example_world_def)
  then show ?thesis using run by (intro exI [of _ ?S3]) simp
qed

text \<open>C28: The connection trampoline never lets a panic reach UCX and never leaks a share: without a
  usable handler it leaves the listener's state and the log exactly as they were, and a null
  argument does nothing.\<close>

theorem conn_trampoline_contained:
  "(case conn_trampoline E handler c arg w of (Panic _, _) \<Rightarrow> False | _ \<Rightarrow> True) \<and>
   conn_trampoline E handler c 0 w = (Ret (), w) \<and>
   (case listeners w (Arc_from_ptr arg) of
      None \<Rightarrow> conn_trampoline E handler c arg w = (Ret (), w)
    | Some s \<Rightarrow> (if ls_strong s = 0 \<or> (ls_has_handler s \<and> \<not> ls_handler_poisoned s) then True
        else (case conn_trampoline E handler c arg w of (x, w1) \<Rightarrow>
          x = Ret () \<and> listeners w1 = listeners w \<and> trace w1 = trace w)))"
proof (intro conjI)
  show "case conn_trampoline E handler c arg w of (Panic _, _) \<Rightarrow> False | _ \<Rightarrow> True"
    by (auto simp: conn_trampoline_def Let_def split: prod.splits outcome.splits option.splits)
  show "conn_trampoline E handler c 0 w = (Ret (), w)" by (simp add: conn_trampoline_def)
  show "case listeners w (Arc_from_ptr arg) of
      None \<Rightarrow> conn_trampoline E handler c arg w = (Ret (), w)
    | Some s \<Rightarrow> (if ls_strong s = 0 \<or> (ls_has_handler s \<and> \<not> ls_handler_poisoned s) then True
        else (case conn_trampoline E handler c arg w of (x, w1) \<Rightarrow>
          x = Ret () \<and> listeners w1 = listeners w \<and> trace w1 = trace w))"
    by (auto simp: conn_trampoline_def Let_def Arc_clone_def Arc_drop_def ConnRequest_drop_def
        split: option.splits)
qed

text \<open>Rejecting through the request's own state is safe after the \<^verbatim>\<open>Listener\<close> is dropped: UCX is
  asked to reject exactly this request on the listener that delivered it, never with a null
  listener, and the request's share is dropped in every case.\<close>

theorem reject_owned_safe:
  "case listeners w (cr_state r) of None \<Rightarrow> True | Some s \<Rightarrow>
     (if ls_handle s = 0 \<or> ls_handle_poisoned s
      then ConnRequest_reject_owned E r w = (Inl Status_INVALID_PARAM, ConnRequest_drop E r w)
      else ConnRequest_reject_owned E r w = (case status_call E
          (ListenerC (ucp_listener_reject (ls_handle s) (cr_handle r))) w of
        (x, w1) \<Rightarrow> (x, ConnRequest_drop E r w1)) \<and>
        ConnRequest_reject_owned E r w = ConnRequest_reject E r \<lparr>li_state = cr_state r\<rparr> w)"
  by (auto simp: ConnRequest_reject_owned_def ConnRequest_reject_def Listener_reject_def
      Listener_as_raw_def split: option.splits)

text \<open>A listener is created with exactly the fields its constructor sets, and a refused creation
  leaves no state behind: the same shares and no call but the one that failed.\<close>

theorem listener_create_clean:
  "(case Listener_create_with_conn_handler E wk addr w of
      (Inr l, w1) \<Rightarrow> trace w1 = trace w @ [ListenerC (ucp_listener_create (wk_handle wk)
          (zeroed_ucp_listener_params_t\<lparr>lp_field_mask := 5, lp_sockaddr := SockAddr_to_ffi (SockAddr_new addr),
             lp_conn_cb := Some Conn_trampoline, lp_conn_arg := Arc_as_ptr (li_state l)\<rparr>))] \<and>
        li_state l = next_cell w \<and> shares (li_state l) w1 = 1
    | (Inl s, w1) \<Rightarrow> Status_is_err s \<and> length (trace w1) = Suc (length (trace w)) \<and>
        listeners w1 = (listeners w)(next_cell w := None)) \<and>
   (case Listener_create E wk addr w of
      (Inr l, w1) \<Rightarrow> li_state l = next_cell w \<and> shares (li_state l) w1 = 1
    | (Inl s, w1) \<Rightarrow> Status_is_err s \<and> listeners w1 = listeners w)"
  by (auto simp: Listener_create_with_conn_handler_def Listener_create_def Arc_new_def Let_def
      set_listener_handle_def shares_def lpb_build_def lpb_conn_handler_def lpb_sockaddr_def
      ListenerParamsBuilder_new_def zeroed_ucp_listener_params_t_def ffi_world Arc_drop_trace
      Arc_drop_last(2) status_to_result_def Status_from_def split: prod.splits sum.splits if_splits)

end
