(* ===== verification/Ucx_Stream.thy ===== *)
theory Ucx_Stream
  imports Completion_Guard
begin

text \<open>
  \<^verbatim>\<open>src/stream.rs\<close>: the stream protocol.  \<^verbatim>\<open>StreamRequest\<close> guards a transfer whose buffer UCX
  may still use, \<^verbatim>\<open>StreamData\<close> a buffer UCX allocated; polling fills an array of entries.
\<close>

subsection \<open>State\<close>

record StreamPollEvent =
  spev_ep :: EpHandle
  spev_user_data :: ptr
  spev_flags :: u32

datatype StreamPollEp = StreamPollEp (raw_poll_ep: ucp_stream_poll_ep_t)

definition StreamPollEp_default :: StreamPollEp where
  "StreamPollEp_default = StreamPollEp zeroed_ucp_stream_poll_ep_t"

definition StreamPollEp_ep_handle :: "StreamPollEp \<Rightarrow> EpHandle" where
  "StreamPollEp_ep_handle p = EpHandle (spe_ep (raw_poll_ep p))"

definition StreamPollEp_user_data :: "StreamPollEp \<Rightarrow> ptr" where
  "StreamPollEp_user_data p = spe_user_data (raw_poll_ep p)"

definition StreamPollEp_flags :: "StreamPollEp \<Rightarrow> u32" where
  "StreamPollEp_flags p = spe_flags (raw_poll_ep p)"

record StreamData =
  sd_ep :: Ep
  sd_data :: ptr
  sd_length :: usize

record StreamRequest =
  sr_request :: "Request option"
  sr_worker :: Worker
  sr_length :: usize

subsection \<open>Received data\<close>

definition StreamData_as_bytes :: "StreamData \<Rightarrow> 'u world \<Rightarrow> bytes" where
  "StreamData_as_bytes d w = mem_read (mem w) (sd_data d) (unat (sd_length d))"

definition StreamData_is_empty :: "StreamData \<Rightarrow> bool" where
  "StreamData_is_empty d \<longleftrightarrow> sd_length d = 0"

definition StreamData_drop :: "'u env \<Rightarrow> StreamData \<Rightarrow> 'u world \<Rightarrow> 'u world" where
  "StreamData_drop E d = ffi_unit E (XferC (ucp_stream_data_release (ep_handle (sd_ep d)) (sd_data d)))"

definition Ep_stream_recv_data ::
  "'u env \<Rightarrow> Ep \<Rightarrow> 'u world \<Rightarrow> (Status + StreamData option) \<times> 'u world" where
  "Ep_stream_recv_data E e w =
     (let (ret, w1) = ffi E (XferC (ucp_stream_recv_data_nb (ep_handle e) 0)) w;
          p = ret_ptr ret
      in if p = 0 then (Inr None, w1)
         else if status_ptr_is_err p then (Inl (Status_from (status_from_ptr p)), w1)
         else (Inr (Some \<lparr>sd_ep = e, sd_data = p, sd_length = out_len ret\<rparr>), w1))"

subsection \<open>Testing a receive\<close>

definition Request_stream_recv_test ::
  "'u env \<Rightarrow> Request \<Rightarrow> 'u world \<Rightarrow> (Status + usize) \<times> 'u world" where
  "Request_stream_recv_test E r w = (case req_handle r of
      None \<Rightarrow> (Inl (Status_from UCS_ERR_INVALID_PARAM), w)
    | Some request \<Rightarrow> value_call E (ReqC (ucp_stream_recv_request_test request 0)) out_len w)"

subsection \<open>The request guard\<close>

definition StreamRequest_check_finished ::
  "'u env \<Rightarrow> StreamRequest \<Rightarrow> 'u world \<Rightarrow> (Status + bool) \<times> 'u world" where
  "StreamRequest_check_finished E g w = (case sr_request g of
      None \<Rightarrow> (Inr True, w)
    | Some request \<Rightarrow> Request_check_finished E request w)"

definition StreamRequest_stream_recv_test ::
  "'u env \<Rightarrow> StreamRequest \<Rightarrow> 'u world \<Rightarrow> (Status + usize) \<times> 'u world" where
  "StreamRequest_stream_recv_test E g w = (case sr_request g of
      None \<Rightarrow> (Inr (sr_length g), w)
    | Some request \<Rightarrow> Request_stream_recv_test E request w)"

definition StreamRequest_drop :: "'u env \<Rightarrow> StreamRequest \<Rightarrow> ('u world, unit) prog" where
  "StreamRequest_drop E g w = (case sr_request g of
      None \<Rightarrow> (Ret (), w)
    | Some request \<Rightarrow> guard_rounds E (sr_worker g) request MAX_PROGRESS w)"

text \<open>\<^verbatim>\<open>free\<close> and \<^verbatim>\<open>into_inner\<close> take the request out; the guard's own drop then finds none.\<close>

definition StreamRequest_free :: "'u env \<Rightarrow> StreamRequest \<Rightarrow> ('u world, unit) prog" where
  "StreamRequest_free E g w =
     bnd (\<lambda>w. case sr_request g of
         None \<Rightarrow> (Ret (), w)
       | Some request \<Rightarrow> guard_rounds E (sr_worker g) request MAX_PROGRESS w)
       (\<lambda>_. StreamRequest_drop E (g\<lparr>sr_request := None\<rparr>)) w"

definition StreamRequest_into_inner ::
  "'u env \<Rightarrow> StreamRequest \<Rightarrow> ('u world, Request option) prog" where
  "StreamRequest_into_inner E g =
     bnd (StreamRequest_drop E (g\<lparr>sr_request := None\<rparr>)) (\<lambda>_ w. (Ret (sr_request g), w))"

subsection \<open>Sending and receiving\<close>

definition Ep_stream_send ::
  "'u env \<Rightarrow> Ep \<Rightarrow> Worker \<Rightarrow> ptr \<times> usize \<Rightarrow> RequestParam \<Rightarrow>
     ('u world, Status + StreamRequest option) prog" where
  "Ep_stream_send E e wk data param w =
     (if debug_assertions E \<and> ep_worker_alive e \<noteq> wk_alive wk
      then (Panic ''stream_send: the passed worker is not the endpoint's worker'', w)
      else
        (let (r, w1) = nbx E (XferC (ucp_stream_send_nbx (ep_handle e) (fst data) (snd data)
               (rparam_handle param))) w
         in (map_ok (map_option (\<lambda>request.
               \<lparr>sr_request = Some request, sr_worker = wk, sr_length = 0\<rparr>)) r, w1)))"

definition Ep_stream_recv ::
  "'u env \<Rightarrow> Ep \<Rightarrow> Worker \<Rightarrow> ptr \<times> usize \<Rightarrow> RequestParam \<Rightarrow>
     ('u world, Status + StreamRequest) prog" where
  "Ep_stream_recv E e wk buf param w =
     (if debug_assertions E \<and> ep_worker_alive e \<noteq> wk_alive wk
      then (Panic ''stream_recv: the passed worker is not the endpoint's worker'', w)
      else
        (let (ret, w1) = ffi E (XferC (ucp_stream_recv_nbx (ep_handle e) (fst buf) (snd buf) 0
               (rparam_handle param))) w
         in (map_ok (\<lambda>request. \<lparr>sr_request = request, sr_worker = wk, sr_length = out_len ret\<rparr>)
               (status_ptr_to_result E (ret_ptr ret)), w1)))"

subsection \<open>Polling\<close>

text \<open>UCX writes entries from the start of the array; the rest keeps its value.\<close>

definition overwrite :: "'a list \<Rightarrow> 'a list \<Rightarrow> 'a list" where
  "overwrite old new = take (length old) new @ drop (length new) old"

definition Worker_stream_poll ::
  "'u env \<Rightarrow> Worker \<Rightarrow> usize \<Rightarrow> ('u world, Status + StreamPollEvent list) prog" where
  "Worker_stream_poll E wk max_eps w =
     (if 2 ^ 63 \<le> unat max_eps * 40 then (Panic ''capacity overflow'', w)
      else
        (let poll_eps = replicate (unat max_eps) zeroed_ucp_stream_poll_ep_t;
             (ret, w1) = ffi E (XferC (ucp_stream_worker_poll (wk_handle wk) poll_eps max_eps 0)) w;
             poll_eps1 = overwrite poll_eps (out_poll_eps ret);
             count = ret_isize ret
         in if sint count < 0 then (Ret (Inl (Status_from (status_from_ptr count))), w1)
            else if debug_assertions E \<and> \<not> count \<le> max_eps
            then (Panic ''assertion failed: count <= max_eps'', w1)
            else (Ret (Inr (map (\<lambda>entry. \<lparr>spev_ep = EpHandle (spe_ep entry),
                    spev_user_data = spe_user_data entry, spev_flags = spe_flags entry\<rparr>)
                  (take (unat (min count max_eps)) poll_eps1))), w1)))"

subsection \<open>The deprecated functions\<close>

definition stream_send_nbx ::
  "'u env \<Rightarrow> Ep \<Rightarrow> ptr \<Rightarrow> usize \<Rightarrow> RequestParam \<Rightarrow> ('u world, Status + Request option) prog" where
  "stream_send_nbx E e buffer count param =
     nbx E (XferC (ucp_stream_send_nbx (ep_handle e) buffer count (rparam_handle param)))"

text \<open>The caller's \<^verbatim>\<open>length\<close> cell is passed by value and its new value returned.\<close>

definition stream_recv_nbx ::
  "'u env \<Rightarrow> Ep \<Rightarrow> ptr \<Rightarrow> usize \<Rightarrow> usize \<Rightarrow> RequestParam \<Rightarrow> 'u world \<Rightarrow>
     ((Status + Request option) outcome \<times> usize) \<times> 'u world" where
  "stream_recv_nbx E e buffer count len param w =
     (let (ret, w1) = ffi E (XferC (ucp_stream_recv_nbx (ep_handle e) buffer count len
            (rparam_handle param))) w
      in ((status_ptr_to_result E (ret_ptr ret), out_len ret), w1))"

definition stream_worker_poll ::
  "'u env \<Rightarrow> Worker \<Rightarrow> StreamPollEp list \<Rightarrow> usize \<Rightarrow> u32 \<Rightarrow> 'u world \<Rightarrow>
     (64 word \<times> StreamPollEp list) \<times> 'u world" where
  "stream_worker_poll E wk poll_eps max_eps flags w =
     (let (ret, w1) = ffi E (XferC (ucp_stream_worker_poll (wk_handle wk) (map raw_poll_ep poll_eps)
            max_eps flags)) w
      in ((ret_isize ret, overwrite poll_eps (map StreamPollEp (out_poll_eps ret))), w1))"

definition stream_recv_data_nb ::
  "'u env \<Rightarrow> Ep \<Rightarrow> usize \<Rightarrow> 'u world \<Rightarrow> ((Status + ptr option) \<times> usize) \<times> 'u world" where
  "stream_recv_data_nb E e len w =
     (let (ret, w1) = ffi E (XferC (ucp_stream_recv_data_nb (ep_handle e) len)) w;
          p = ret_ptr ret
      in ((if p = 0 then Inr None
           else if status_ptr_is_err p then Inl (Status_from (status_from_ptr p))
           else Inr (Some p), out_len ret), w1))"

definition stream_recv_request_test ::
  "'u env \<Rightarrow> ptr \<Rightarrow> usize \<Rightarrow> 'u world \<Rightarrow> ((Status + unit) \<times> usize) \<times> 'u world" where
  "stream_recv_request_test E request len w =
     (let (ret, w1) = ffi E (ReqC (ucp_stream_recv_request_test request len)) w
      in ((status_to_result (ret_status ret), out_len ret), w1))"

definition stream_data_release :: "'u env \<Rightarrow> EpHandle \<Rightarrow> ptr \<Rightarrow> 'u world \<Rightarrow> 'u world" where
  "stream_data_release E e data = ffi_unit E (XferC (ucp_stream_data_release (ep_raw e) data))"

subsection \<open>Properties\<close>

lemma length_overwrite [simp]: "length (overwrite old new) = length old"
  by (simp add: overwrite_def)

lemma StreamRequest_free_drop:
  "StreamRequest_free E g w = StreamRequest_drop E g w"
  by (auto simp: StreamRequest_free_def StreamRequest_drop_def bnd_def
      split: option.splits prod.splits outcome.splits)

text \<open>C21: A stream guard completes its request before freeing it.  Freed explicitly or dropped, it
  progresses the worker until a check does not find the request pending and then frees it, once
  and last; if a million checks all found it pending, it is leaked and never freed.  The
  exception is a debug build whose worker is already progressing: \<^verbatim>\<open>progress\<close> panics after the
  first check, and unwinding frees the request while it is still in flight.\<close>

theorem stream_guard_completes_first:
  "guarded E wk h w (StreamRequest_free E
      \<lparr>sr_request = Some \<lparr>req_handle = Some h\<rparr>, sr_worker = wk, sr_length = n\<rparr> w) \<and>
   StreamRequest_drop E \<lparr>sr_request = Some \<lparr>req_handle = Some h\<rparr>, sr_worker = wk, sr_length = n\<rparr> w =
     StreamRequest_free E \<lparr>sr_request = Some \<lparr>req_handle = Some h\<rparr>, sr_worker = wk, sr_length = n\<rparr> w \<and>
   StreamRequest_drop E \<lparr>sr_request = None, sr_worker = wk, sr_length = n\<rparr> w = (Ret (), w)"
  using guard_rounds_guarded
  by (simp add: StreamRequest_free_drop) (simp add: StreamRequest_drop_def)

text \<open>C30: Polling for stream data is safe whatever count UCX reports.  A negative count comes back
  as the error it encodes.  Otherwise the events are, in order, the entries of the array as UCX
  left it, as many as UCX reports but never more than were asked for; a count beyond the array
  panics in a debug build and is cut to the array in a release build.  The only other panic is the
  capacity overflow of an array of more than \<open>2 ^ 63 - 1\<close> bytes, before UCX is called.\<close>

theorem stream_poll_bounded:
  "let blank = replicate (unat max_eps) zeroed_ucp_stream_poll_ep_t;
       (ret, w1) = ffi E (XferC (ucp_stream_worker_poll (wk_handle wk) blank max_eps 0)) w;
       count = ret_isize ret;
       entries = take (unat max_eps) (out_poll_eps ret @ drop (length (out_poll_eps ret)) blank)
   in if 2 ^ 63 \<le> unat max_eps * 40
      then Worker_stream_poll E wk max_eps w = (Panic ''capacity overflow'', w)
      else if sint count < 0
      then Worker_stream_poll E wk max_eps w = (Ret (Inl (Status (status_from_ptr count))), w1)
      else if debug_assertions E \<and> unat max_eps < unat count
      then \<exists>s. Worker_stream_poll E wk max_eps w = (Panic s, w1)
      else \<exists>evs. Worker_stream_poll E wk max_eps w = (Ret (Inr evs), w1) \<and>
        length evs = min (unat count) (unat max_eps) \<and>
        evs = map (\<lambda>entry. \<lparr>spev_ep = EpHandle (spe_ep entry), spev_user_data = spe_user_data entry,
          spev_flags = spe_flags entry\<rparr>) (take (unat count) entries)"
proof -
  have m: "unat (min a b) = min (unat a) (unat b)" for a b :: usize
    by (simp add: min_def word_le_nat_alt)
  have t: "overwrite (replicate n x) new = take n (new @ drop (length new) (replicate n x))"
    for n new and x :: ucp_stream_poll_ep_t
    by (simp add: overwrite_def min_def)
  show ?thesis
    by (auto simp: Worker_stream_poll_def Let_def m t Status_from_def word_le_nat_alt min_def
        split: prod.splits)
qed

text \<open>Receiving internally allocated data: no data is \<^verbatim>\<open>Ok(None)\<close>, each of UCX's error
  statuses comes back as itself, and data is returned exactly for the other pointers, with the
  length UCX wrote; dropping it releases that very pointer on that endpoint.\<close>

theorem stream_recv_data_exact:
  "case ffi E (XferC (ucp_stream_recv_data_nb (ep_handle e) 0)) w of (ret, w1) \<Rightarrow>
     snd (Ep_stream_recv_data E e w) = w1 \<and>
     (fst (Ep_stream_recv_data E e w) = Inr None \<longleftrightarrow> ret_ptr ret = 0) \<and>
     (fst (Ep_stream_recv_data E e w) = Inr (Some d) \<longleftrightarrow>
        ret_ptr ret \<noteq> 0 \<and> uint (ret_ptr ret) < 2 ^ 64 - 100 \<and>
        d = \<lparr>sd_ep = e, sd_data = ret_ptr ret, sd_length = out_len ret\<rparr>) \<and>
     (fst (Ep_stream_recv_data E e w) = Inl x \<longleftrightarrow>
        2 ^ 64 - 100 \<le> uint (ret_ptr ret) \<and> x = Status (status_from_ptr (ret_ptr ret))) \<and>
     trace (StreamData_drop E \<lparr>sd_ep = e, sd_data = ret_ptr ret, sd_length = out_len ret\<rparr> w1) =
       trace w1 @ [XferC (ucp_stream_data_release (ep_handle e) (ret_ptr ret))]"
proof -
  obtain ret w1 where f: "ffi E (XferC (ucp_stream_recv_data_nb (ep_handle e) 0)) w = (ret, w1)"
    by fastforce
  have "ret_ptr ret \<noteq> 0" if "2 ^ 64 - 100 \<le> uint (ret_ptr ret)" using that by auto
  then show ?thesis
    by (auto simp: Ep_stream_recv_data_def f StreamData_drop_def Status_from_def Let_def
        status_ptr_is_err_iff)
qed

end
