(* ===== verification/Mt_Worker.thy ===== *)
theory Mt_Worker
  imports Endpoint
begin

text \<open>
  \<^verbatim>\<open>MtWorker\<close> of \<^verbatim>\<open>src/worker/worker.rs\<close>: shared handles on one worker behind a mutex.  The
  value behind the \<^verbatim>\<open>Arc\<close> is its strong count and the worker; the mutex makes every operation
  one step on it, and a poisoned mutex is entered all the same.  Here each operation is what one
  thread does when no other runs; \<open>Mt_Code\<close> has them instruction by instruction, with the lock.
\<close>

record MtWorker =
  mt_strong :: nat
  mt_worker :: Worker

subsection \<open>Creation and handles\<close>

definition refuse :: "'u env \<Rightarrow> Worker \<Rightarrow> Status \<Rightarrow> ('u world, Status + MtWorker) prog" where
  "refuse E wk e = bnd (Worker_drop E wk) (\<lambda>_ w. (Ret (Inl e), w))"

text \<open>A worker that is refused was moved in, so it is dropped.\<close>

definition MtWorker_new :: "'u env \<Rightarrow> Worker \<Rightarrow> ('u world, Status + MtWorker) prog" where
  "MtWorker_new E wk w = (case Worker_query E wk WorkerAttrFields_THREAD_MODE w of
      (Inl e, w1) \<Rightarrow> refuse E wk e w1
    | (Inr attr, w1) \<Rightarrow> (case wat_thread_mode attr of
        None \<Rightarrow> refuse E wk (Status_from UCS_ERR_INVALID_PARAM) w1
      | Some mode \<Rightarrow>
          if \<not> (mode = TM_Serialized \<or> mode = TM_Multi)
          then refuse E wk (Status UCS_ERR_INVALID_PARAM) w1
          else (Ret (Inr \<lparr>mt_strong = 1, mt_worker = wk\<rparr>), w1)))"

definition MtWorker_clone :: "MtWorker \<Rightarrow> MtWorker" where
  "MtWorker_clone m = m\<lparr>mt_strong := Suc (mt_strong m)\<rparr>"

definition MtWorker_drop :: "'u env \<Rightarrow> MtWorker \<Rightarrow> ('u world, MtWorker option) prog" where
  "MtWorker_drop E m w =
     (if mt_strong m \<le> 1 then bnd (Worker_drop E (mt_worker m)) (\<lambda>_ w. (Ret None, w)) w
      else (Ret (Some (m\<lparr>mt_strong := mt_strong m - 1\<rparr>)), w))"

text \<open>What the lock gives access to.\<close>

definition MtWorker_lock :: "MtWorker \<Rightarrow> Worker" where
  "MtWorker_lock m = mt_worker m"

subsection \<open>Operations\<close>

definition MtWorker_with_worker :: "MtWorker \<Rightarrow> (Worker \<Rightarrow> ('u world, 'a) prog) \<Rightarrow> ('u world, 'a) prog" where
  "MtWorker_with_worker m operation = operation (MtWorker_lock m)"

definition MtWorker_progress :: "'u env \<Rightarrow> MtWorker \<Rightarrow> ('u world, bool) prog" where
  "MtWorker_progress E m = Worker_progress E (MtWorker_lock m)"

definition MtWorker_flush ::
  "'u env \<Rightarrow> MtWorker \<Rightarrow> RequestParam \<Rightarrow> ('u world, Status + Request option) prog" where
  "MtWorker_flush E m = Worker_flush E (MtWorker_lock m)"

definition MtWorker_fence :: "'u env \<Rightarrow> MtWorker \<Rightarrow> 'u world \<Rightarrow> (Status + unit) \<times> 'u world" where
  "MtWorker_fence E m = Worker_fence E (MtWorker_lock m)"

definition MtWorker_wait :: "'u env \<Rightarrow> MtWorker \<Rightarrow> 'u world \<Rightarrow> (Status + unit) \<times> 'u world" where
  "MtWorker_wait E m = Worker_wait E (MtWorker_lock m)"

definition MtWorker_arm :: "'u env \<Rightarrow> MtWorker \<Rightarrow> 'u world \<Rightarrow> (Status + unit) \<times> 'u world" where
  "MtWorker_arm E m = Worker_arm E (MtWorker_lock m)"

definition MtWorker_signal :: "'u env \<Rightarrow> MtWorker \<Rightarrow> 'u world \<Rightarrow> (Status + unit) \<times> 'u world" where
  "MtWorker_signal E m = Worker_signal E (MtWorker_lock m)"

definition MtWorker_get_efd :: "'u env \<Rightarrow> MtWorker \<Rightarrow> 'u world \<Rightarrow> (Status + i32) \<times> 'u world" where
  "MtWorker_get_efd E m = Worker_get_efd E (MtWorker_lock m)"

definition MtWorker_cancel_request :: "'u env \<Rightarrow> MtWorker \<Rightarrow> Request \<Rightarrow> 'u world \<Rightarrow> 'u world" where
  "MtWorker_cancel_request E m = Worker_cancel_request E (MtWorker_lock m)"

text \<open>The check is made without the lock, each progress call takes it.\<close>

fun MtWorker_wait_rounds ::
  "'u env \<Rightarrow> MtWorker \<Rightarrow> Request \<Rightarrow> nat \<Rightarrow> ('u world, Status + bool) prog" where
  "MtWorker_wait_rounds E m req 0 w = (Ret (Inr False), w)"
| "MtWorker_wait_rounds E m req (Suc n) w = (case Request_check_finished E req w of
      (Inr True, w1) \<Rightarrow> (Ret (Inr True), w1)
    | (Inr False, w1) \<Rightarrow> bnd (MtWorker_progress E m) (\<lambda>_. MtWorker_wait_rounds E m req n) w1
    | (Inl error, w1) \<Rightarrow> (Ret (Inl error), w1))"

definition MtWorker_wait_request ::
  "'u env \<Rightarrow> MtWorker \<Rightarrow> Request \<Rightarrow> ('u world, Status + bool) prog" where
  "MtWorker_wait_request E m req = MtWorker_wait_rounds E m req 1000000"

definition MtWorker_create_ep ::
  "'u env \<Rightarrow> MtWorker \<Rightarrow> EpParams \<Rightarrow> 'u world \<Rightarrow> (Status + Ep) \<times> 'u world" where
  "MtWorker_create_ep E m = Worker_create_ep E (MtWorker_lock m)"

text \<open>The packed address is copied and released under the same lock.\<close>

definition MtWorker_pack_address ::
  "'u env \<Rightarrow> MtWorker \<Rightarrow> 'u world \<Rightarrow> (Status + bytes) \<times> 'u world" where
  "MtWorker_pack_address E m w = (case Worker_pack_address E (MtWorker_lock m) w of
      (Inl e, w1) \<Rightarrow> (Inl e, w1)
    | (Inr address, w1) \<Rightarrow> (Inr (WorkerAddress_to_vec address w1), WorkerAddress_drop E address w1))"

interpretation mt_wait: bounded_poll
  "Request_check_finished E req" "MtWorker_progress E m" id
  "\<lambda>w. (Ret (Inr True), w)" "\<lambda>e w. (Ret (Inl e), w)" "\<lambda>w. (Ret (Inr False), w)"
  "MtWorker_wait_rounds E m req"
  for E :: "'u env" and m req
  by unfold_locales (auto simp: bnd_def unwind_def split: prod.splits sum.splits bool.splits outcome.splits)

subsection \<open>Properties\<close>

text \<open>C19: A worker is shared between threads only when UCX granted it a thread-safe mode: a handle is
  returned exactly when the query succeeds with serialized or multi-threaded mode, and it holds
  that worker.  Every worker that is refused is dropped, which is what flushes and destroys it,
  before the error is returned.\<close>

theorem mt_worker_admission:
  "case Worker_query E wk WorkerAttrFields_THREAD_MODE w of (r, w1) \<Rightarrow>
     (let granted = (case r of Inl _ \<Rightarrow> False
            | Inr a \<Rightarrow> wat_thread_mode a = Some TM_Serialized \<or> wat_thread_mode a = Some TM_Multi);
          e = (case r of Inl e \<Rightarrow> e | Inr _ \<Rightarrow> Status_INVALID_PARAM)
      in if granted then MtWorker_new E wk w = (Ret (Inr \<lparr>mt_strong = 1, mt_worker = wk\<rparr>), w1)
         else MtWorker_new E wk w = bnd (Worker_drop E wk) (\<lambda>_ w2. (Ret (Inl e), w2)) w1)"
  by (auto simp: MtWorker_new_def refuse_def Status_from_def Let_def split: prod.splits sum.splits option.splits)

text \<open>Waiting through a shared handle is waiting on the worker: the same outcome after the same
  rounds, and a million rounds are the bound of both.\<close>

theorem mt_wait_request_is_wait_request:
  "MtWorker_wait_request E m req = Worker_wait_request E (mt_worker m) req"
proof -
  have "MtWorker_wait_rounds E m req n w = Worker_wait_rounds E (mt_worker m) req n w" for n w
    unfolding mt_wait.loop_is_spin worker_wait.loop_is_spin
    by (simp add: MtWorker_progress_def MtWorker_lock_def mt_wait.finish_def worker_wait.finish_def)
  then show ?thesis by (simp add: MtWorker_wait_request_def Worker_wait_request_def MAX_ROUNDS_def fun_eq_iff)
qed

text \<open>The worker outlives all handles but the last: after any number of clones, dropping as many
  handles makes no call at all, and the drop of the last one is the worker's.\<close>

theorem mt_last_handle_drops:
  "fold (\<lambda>_ r. case r of (Ret (Some m), w) \<Rightarrow> MtWorker_drop E m w | _ \<Rightarrow> r) [0..<n]
     (Ret (Some ((MtWorker_clone ^^ n) \<lparr>mt_strong = 1, mt_worker = wk\<rparr>)), w) =
   (Ret (Some \<lparr>mt_strong = 1, mt_worker = wk\<rparr>), w) \<and>
   MtWorker_drop E \<lparr>mt_strong = 1, mt_worker = wk\<rparr> w =
     bnd (Worker_drop E wk) (\<lambda>_ w. (Ret None, w)) w"
proof -
  have c: "(MtWorker_clone ^^ n) \<lparr>mt_strong = k, mt_worker = wk\<rparr> = \<lparr>mt_strong = k + n, mt_worker = wk\<rparr>" for n k
    by (induction n) (simp_all add: MtWorker_clone_def)
  have "fold (\<lambda>_ r. case r of (Ret (Some m), w) \<Rightarrow> MtWorker_drop E m w | _ \<Rightarrow> r) xs
      (Ret (Some \<lparr>mt_strong = Suc (length xs), mt_worker = wk\<rparr>), w) =
      (Ret (Some \<lparr>mt_strong = 1, mt_worker = wk\<rparr>), w)" for xs :: "nat list"
    by (induction xs) (simp_all add: MtWorker_drop_def)
  from this [of "[0..<n]"] show ?thesis by (simp add: c MtWorker_drop_def)
qed

end
