(* ===== verification/Formatting.thy ===== *)
theory Formatting
  imports Context_Config Active_Message Listener Ucx_Stream Mt_Worker
begin

text \<open>
  What the crate prints of its own types: the hand-written \<^verbatim>\<open>Debug\<close> and \<^verbatim>\<open>Display\<close>
  implementations, over the standard library's \<^verbatim>\<open>debug_struct\<close> and decimal and hexadecimal
  numbers, and the panic messages that \<^verbatim>\<open>expect\<close>, \<^verbatim>\<open>unwrap\<close> and \<^verbatim>\<open>assert_eq!\<close> build from them.
\<close>

subsection \<open>Numbers and structures\<close>

definition digit_char :: "nat \<Rightarrow> char" where
  "digit_char d = (if d < 10 then char_of (48 + d) else char_of (87 + d))"

function base_digits :: "nat \<Rightarrow> nat \<Rightarrow> string" where
  "base_digits b n = (if b < 2 \<or> n < b then [digit_char n] else base_digits b (n div b) @ [digit_char (n mod b)])"
  by pat_completeness auto

termination
  by (relation "measure snd") auto

declare base_digits.simps [simp del]

definition decimal :: "nat \<Rightarrow> string" where
  "decimal = base_digits 10"

definition debug_ptr :: "ptr \<Rightarrow> string" where
  "debug_ptr p = ''0x'' @ base_digits 16 (unat p)"

definition bytes_of :: "string \<Rightarrow> bytes" where
  "bytes_of s = map of_char s"

definition text_of :: "bytes \<Rightarrow> string" where
  "text_of bs = map (\<lambda>b. char_of (unat b)) bs"

fun joined :: "string \<Rightarrow> string list \<Rightarrow> string" where
  "joined sep [] = []"
| "joined sep [x] = x"
| "joined sep (x # xs) = x @ sep @ joined sep xs"

definition debug_list :: "('a \<Rightarrow> string) \<Rightarrow> 'a list \<Rightarrow> string" where
  "debug_list f xs = ''['' @ joined '', '' (map f xs) @ '']''"

definition debug_bytes :: "bytes \<Rightarrow> string" where
  "debug_bytes = debug_list (\<lambda>b. decimal (unat b))"

text \<open>\<^verbatim>\<open>debug_struct(name).field(..).finish()\<close> and \<^verbatim>\<open>finish_non_exhaustive()\<close>.\<close>

definition debug_struct :: "string \<Rightarrow> (string \<times> string) list \<Rightarrow> string" where
  "debug_struct name fs = (if fs = [] then name
     else name @ '' { '' @ joined '', '' (map (\<lambda>(f, v). f @ '': '' @ v) fs) @ '' }'')"

definition debug_struct_open :: "string \<Rightarrow> (string \<times> string) list \<Rightarrow> string" where
  "debug_struct_open name fs =
     name @ '' { '' @ joined '', '' (map (\<lambda>(f, v). f @ '': '' @ v) fs @ [''..'']) @ '' }''"

subsection \<open>The types\<close>

fun debug_NulError :: "NulError \<Rightarrow> string" where
  "debug_NulError (NulError i s) = ''NulError('' @ decimal i @ '', '' @ debug_bytes s @ '')''"

fun NulError_fmt :: "NulError \<Rightarrow> string" where
  "NulError_fmt (NulError i s) = ''nul byte found in provided data at position: '' @ decimal i"

fun debug_ConfigError :: "ConfigError \<Rightarrow> string" where
  "debug_ConfigError (Nul e) = ''Nul('' @ debug_NulError e @ '')''"
| "debug_ConfigError (Ucs s) = ''Ucs('' @ debug_Status s @ '')''"

fun ConfigError_fmt :: "ConfigError \<Rightarrow> string" where
  "ConfigError_fmt (Nul e) = NulError_fmt e"
| "ConfigError_fmt (Ucs s) = ''UCX error: '' @ debug_Status s"

definition ListenerState_fmt :: "listener_state \<Rightarrow> string" where
  "ListenerState_fmt s = debug_struct_open ''ListenerState'' []"

definition ListenerParams_fmt :: "ListenerParams \<Rightarrow> string" where
  "ListenerParams_fmt p = debug_struct_open ''ListenerParams'' []"

definition MtWorker_fmt :: "MtWorker \<Rightarrow> string" where
  "MtWorker_fmt m = debug_struct_open ''MtWorker'' []"

definition AmHandler_fmt :: "'s AmHandler \<Rightarrow> string" where
  "AmHandler_fmt h = debug_struct_open ''AmHandler'' []"

definition CpuSet_fmt :: "ucs_cpu_set_t \<Rightarrow> string" where
  "CpuSet_fmt c = debug_struct_open ''CpuSet'' []"

text \<open>\<^verbatim>\<open>ss_family\<close> is the first field of the storage; \<^verbatim>\<open>num_entries\<close> the second of the transports.\<close>

definition SockAddrStorage_fmt :: "sockaddr_storage \<Rightarrow> string" where
  "SockAddrStorage_fmt a = debug_struct ''SockAddrStorage''
     [(''family'', decimal (unat (from_le (take 2 a) :: u16)))]"

definition Transports_fmt :: "ucp_transports_t \<Rightarrow> string" where
  "Transports_fmt t = debug_struct ''Transports'' [(''num_entries'', decimal (unat (fst (snd t))))]"

definition StreamPollEp_fmt :: "ucp_stream_poll_ep_t \<Rightarrow> string" where
  "StreamPollEp_fmt e = debug_struct ''StreamPollEp''
     [(''ep'', debug_ptr (spe_ep e)), (''user_data'', debug_ptr (spe_user_data e)),
      (''flags'', decimal (unat (spe_flags e)))]"

subsection \<open>Panic messages\<close>

text \<open>
  \<^verbatim>\<open>Result::expect\<close> panics with its message and the error's \<^verbatim>\<open>Debug\<close> form; \<^verbatim>\<open>unwrap\<close> is the same
  with a fixed message.  \<^verbatim>\<open>assert_eq!\<close> prints both sides.
\<close>

definition expect_failed :: "string \<Rightarrow> string \<Rightarrow> string" where
  "expect_failed msg err = msg @ '': '' @ err"

definition unwrap_msg :: string where
  "unwrap_msg = ''called `Result::unwrap()` on an `Err` value''"

definition newline :: string where
  "newline = [CHR 0x0A]"

definition assert_eq_failed :: "string \<Rightarrow> string \<Rightarrow> string" where
  "assert_eq_failed l r = ''assertion `left == right` failed'' @ newline @ ''  left: '' @ l @ newline @
     '' right: '' @ r"

subsection \<open>Facts\<close>

text \<open>Decimal numbers can be read back.\<close>

definition digits_value :: "string \<Rightarrow> nat" where
  "digits_value s = foldl (\<lambda>n c. 10 * n + (of_char c - 48)) 0 s"

lemma decimal_unfold:
  "decimal n = (if n < 10 then [digit_char n] else decimal (n div 10) @ [digit_char (n mod 10)])"
  by (simp add: decimal_def base_digits.simps [of 10 n])

lemma digit_char_value: "d < 10 \<Longrightarrow> of_char (digit_char d) = 48 + d"
  by (simp add: digit_char_def)

lemma digits_value_decimal: "digits_value (decimal n) = n"
proof (induction n rule: less_induct)
  case (less n)
  show ?case
  proof (cases "n < 10")
    case True
    then show ?thesis by (simp add: decimal_unfold [of n] digits_value_def digit_char_value)
  next
    case False
    then have "digits_value (decimal (n div 10)) = n div 10" by (intro less) simp
    then show ?thesis using False
      by (simp add: decimal_unfold [of n] digits_value_def digit_char_value)
  qed
qed

lemma ConfigError_messages:
  "CString_new s = Inl e \<Longrightarrow> ConfigError_fmt (ConfigError_from e) =
     ''nul byte found in provided data at position: '' @ decimal (length (takeWhile (\<lambda>b. b \<noteq> 0) s))"
proof -
  assume "CString_new s = Inl e"
  then obtain i where i: "i < length s" "s ! i = 0" "0 \<notin> set (take i s)" "e = NulError i s"
    by (auto simp: CString_new_Inl)
  have "takeWhile (\<lambda>b. b \<noteq> 0) s = take i s"
    using i by (subst id_take_nth_drop [OF i(1)]) (auto simp: takeWhile_append)
  then show ?thesis using i by (simp add: ConfigError_from_def)
qed

end
