(* ===== verification/Program.thy ===== *)
theory Program
  imports Scope Formatting
begin

text \<open>
  Programs over the crate, written the way their Rust text reads.  A statement acts on the
  locals of a function and the world behind them; it returns, panics, aborts, or does not end
  (\<open>None\<close>).  Owned values are pushed when a local is bound and removed when they are moved or
  dropped; a panic drops what is left, newest first.  The judgement \<open>typed\<close> says which locals a
  statement leaves, as the borrow checker does, and carries the accounts of theory \<open>Scope\<close>: one
  rule per construct proves them of a whole program.
\<close>

subsection \<open>Statements\<close>

type_synonym ('u, 'a) stmt = "'u scope \<Rightarrow> ('a outcome \<times> 'u scope) option"

definition ret :: "'a \<Rightarrow> ('u, 'a) stmt" where
  "ret x S = Some (Ret x, S)"

definition panic :: "string \<Rightarrow> ('u, 'a) stmt" where
  "panic s S = Some (Panic s, S)"

definition seq :: "('u, 'a) stmt \<Rightarrow> ('a \<Rightarrow> ('u, 'b) stmt) \<Rightarrow> ('u, 'b) stmt" where
  "seq m f S = (case m S of
      None \<Rightarrow> None
    | Some (Ret x, S1) \<Rightarrow> f x S1
    | Some (Panic s, S1) \<Rightarrow> Some (Panic s, S1)
    | Some (Abort, S1) \<Rightarrow> Some (Abort, S1))"

text \<open>A call that may not return, one that returns, one that cannot fail, and a reading of the world.\<close>

definition call_opt :: "('u world \<Rightarrow> ('a outcome \<times> 'u world) option) \<Rightarrow> ('u, 'a) stmt" where
  "call_opt m S = map_option (\<lambda>(r, w1). (r, S\<lparr>sc_world := w1\<rparr>)) (m (sc_world S))"

definition call :: "('u world, 'a) prog \<Rightarrow> ('u, 'a) stmt" where
  "call m = call_opt (\<lambda>w. Some (m w))"

definition returning :: "('u world \<Rightarrow> 'a \<times> 'u world) \<Rightarrow> ('u world, 'a) prog" where
  "returning f w = (case f w of (x, w1) \<Rightarrow> (Ret x, w1))"

definition peek :: "('u world \<Rightarrow> 'a) \<Rightarrow> ('u, 'a) stmt" where
  "peek f = call (\<lambda>w. (Ret (f w), w))"

text \<open>\<^verbatim>\<open>expect\<close>, \<^verbatim>\<open>assert_eq!\<close> on byte arrays, and \<^verbatim>\<open>if let Some(x) = ..\<close>.\<close>

definition expect :: "string \<Rightarrow> ('e \<Rightarrow> string) \<Rightarrow> 'e + 'a \<Rightarrow> ('u, 'a) stmt" where
  "expect msg dbg r = (case r of Inl e \<Rightarrow> panic (expect_failed msg (dbg e)) | Inr x \<Rightarrow> ret x)"

definition assert_eq_bytes :: "bytes \<Rightarrow> bytes \<Rightarrow> ('u, unit) stmt" where
  "assert_eq_bytes l r =
     (if l = r then ret () else panic (assert_eq_failed (debug_bytes l) (debug_bytes r)))"

definition if_some :: "'a option \<Rightarrow> ('a \<Rightarrow> ('u, unit) stmt) \<Rightarrow> ('u, unit) stmt" where
  "if_some x f = (case x of None \<Rightarrow> ret () | Some y \<Rightarrow> f y)"

text \<open>Binding an owned value to a local, moving a local into a call, and dropping it.\<close>

definition own :: "('a \<Rightarrow> owned_val) \<Rightarrow> 'a \<Rightarrow> ('u, 'a) stmt" where
  "own V x S = Some (Ret x, S\<lparr>sc_stack := V x # sc_stack S, sc_created := sc_created S @ handles_of (V x)\<rparr>)"

definition give :: "owned_val \<Rightarrow> ('u world, 'a) prog \<Rightarrow> ('u, 'a) stmt" where
  "give v m S = call m (S\<lparr>sc_stack := remove1 v (sc_stack S)\<rparr>)"

definition drop_local :: "'u env \<Rightarrow> owned_val \<Rightarrow> ('u, unit) stmt" where
  "drop_local E v = give v (drop_value E v)"

definition let_new ::
  "('a \<Rightarrow> owned_val) \<Rightarrow> ('u world \<Rightarrow> ('e + 'a) \<times> 'u world) \<Rightarrow> string \<Rightarrow> ('e \<Rightarrow> string) \<Rightarrow> ('u, 'a) stmt" where
  "let_new V f msg dbg = seq (call (returning f)) (\<lambda>r. seq (expect msg dbg r) (own V))"

text \<open>An optional owned value: none leaves no local.\<close>

definition opt_locals :: "('a \<Rightarrow> owned_val) \<Rightarrow> 'a option \<Rightarrow> owned_val list" where
  "opt_locals V x = (case x of None \<Rightarrow> [] | Some y \<Rightarrow> [V y])"

definition own_opt :: "('a \<Rightarrow> owned_val) \<Rightarrow> 'a option \<Rightarrow> ('u, 'a option) stmt" where
  "own_opt V x = (case x of None \<Rightarrow> ret None | Some y \<Rightarrow> seq (own V y) (\<lambda>_. ret (Some y)))"

text \<open>A call through \<^verbatim>\<open>&mut worker\<close> that leaves another value of the worker in its place.\<close>

definition set_worker :: "Worker \<Rightarrow> Worker \<Rightarrow> ('u, unit) stmt" where
  "set_worker wk wk1 S =
     Some (Ret (), S\<lparr>sc_stack := map (\<lambda>v. if v = V_worker wk then V_worker wk1 else v) (sc_stack S)\<rparr>)"

text \<open>Bytes written to an array or a fresh vector.\<close>

definition mem_write :: "ptr \<Rightarrow> bytes \<Rightarrow> memory \<Rightarrow> memory" where
  "mem_write p bs m = (\<lambda>a. if unat (a - p) < length bs then bs ! unat (a - p) else m a)"

definition store :: "ptr \<Rightarrow> bytes \<Rightarrow> ('u world, unit) prog" where
  "store p bs w = (Ret (), w\<lparr>mem := mem_write p bs (mem w)\<rparr>)"

text \<open>A function's run: its body, then the drop of its locals.\<close>

definition run_main :: "'u env \<Rightarrow> ('u, unit) stmt \<Rightarrow> 'u world \<Rightarrow> (unit outcome \<times> 'u scope) option" where
  "run_main E body w = (case body (empty_scope w) of
      None \<Rightarrow> None
    | Some (Ret _, S) \<Rightarrow> (case exit_stack E (sc_stack S) (sc_world S) of
        (r, w1) \<Rightarrow> Some (r, S\<lparr>sc_world := w1, sc_stack := []\<rparr>))
    | Some (Panic s, S) \<Rightarrow> (case unwound E s (sc_stack S) (sc_world S) of
        (r, w1) \<Rightarrow> Some (r, S\<lparr>sc_world := w1, sc_stack := []\<rparr>))
    | Some (Abort, S) \<Rightarrow> Some (Abort, S))"

subsection \<open>The judgement\<close>

text \<open>
  The accounts balance; unless the program may abort (\<open>ab\<close>) no local is a guard.  A statement
  that starts with the locals \<open>vs\<close> keeps both, and leaves \<open>vs' x\<close> when it returns \<open>x\<close>.
\<close>

definition accounts :: "'u env \<Rightarrow> bool \<Rightarrow> 'u scope \<Rightarrow> bool" where
  "accounts E ab S \<longleftrightarrow> scope_inv E S \<and> (ab \<or> guardless S)"

definition typed ::
  "'u env \<Rightarrow> bool \<Rightarrow> owned_val list \<Rightarrow> ('u, 'a) stmt \<Rightarrow> ('a \<Rightarrow> owned_val list) \<Rightarrow> bool" where
  "typed E ab vs m vs' \<longleftrightarrow> (\<forall>S r S1. accounts E ab S \<and> sc_stack S = vs \<and> m S = Some (r, S1) \<longrightarrow>
     accounts E ab S1 \<and> (r = Abort \<longrightarrow> debug_assertions E \<or> ab) \<and> (\<forall>x. r = Ret x \<longrightarrow> sc_stack S1 = vs' x))"

lemma typedI:
  assumes "\<And>S r S1. accounts E ab S \<Longrightarrow> sc_stack S = vs \<Longrightarrow> m S = Some (r, S1) \<Longrightarrow>
    accounts E ab S1 \<and> (r = Abort \<longrightarrow> debug_assertions E \<or> ab) \<and> (\<forall>x. r = Ret x \<longrightarrow> sc_stack S1 = vs' x)"
  shows "typed E ab vs m vs'"
  unfolding typed_def using assms by blast

lemma typedD:
  assumes "typed E ab vs m vs'" and "accounts E ab S" and "sc_stack S = vs" and "m S = Some (r, S1)"
  shows "accounts E ab S1" and "r = Abort \<Longrightarrow> debug_assertions E \<or> ab" and "r = Ret x \<Longrightarrow> sc_stack S1 = vs' x"
  using assms unfolding typed_def by blast+

text \<open>From one world to another: flags as before, perhaps new cells, and these handles released.\<close>

definition extends :: "handle list \<Rightarrow> 'u world \<Rightarrow> 'u world \<Rightarrow> bool" where
  "extends hs w w1 \<longleftrightarrow> atomics w1 = atomics w \<and> next_cell w \<le> next_cell w1 \<and> rel w1 = rel w @ hs"

lemma adds_extends: "adds hs w w1 \<Longrightarrow> extends hs w w1"
  by (auto simp: extends_def adds_def)

lemma wf_stack_extends: "wf_stack w vs \<Longrightarrow> extends hs w w1 \<Longrightarrow> wf_stack w1 vs"
  by (rule wf_stack_mono) (auto simp: extends_def)

text \<open>A call that releases nothing keeps the accounts.\<close>

definition harmless :: "'u env \<Rightarrow> bool \<Rightarrow> ('u world \<Rightarrow> ('a outcome \<times> 'u world) option) \<Rightarrow> bool" where
  "harmless E ab m \<longleftrightarrow> (\<forall>w r w1. m w = Some (r, w1) \<longrightarrow>
     extends [] w w1 \<and> (r = Abort \<longrightarrow> debug_assertions E \<or> ab))"

lemma accounts_world:
  "accounts E ab S \<Longrightarrow> extends [] (sc_world S) w1 \<Longrightarrow> accounts E ab (S\<lparr>sc_world := w1\<rparr>)"
  using wf_stack_extends by (fastforce simp: accounts_def scope_inv_def extends_def)

named_theorems typing \<open>the rules of the judgement, one per construct\<close>
named_theorems harmless_calls \<open>calls that release nothing\<close>

lemma typed_ret [typing]: "typed E ab vs (ret x) (\<lambda>_. vs)"
  by (simp add: typed_def ret_def)

lemma typed_panic [typing]: "typed E ab vs (panic s) (\<lambda>_. vs)"
  by (simp add: typed_def panic_def)

lemma typed_seq [typing]:
  assumes "typed E ab vs m vs'" and "\<And>x. typed E ab (vs' x) (f x) ws"
  shows "typed E ab vs (seq m f) ws"
proof (rule typedI)
  fix S r S1
  assume S: "accounts E ab S" "sc_stack S = vs" and run: "seq m f S = Some (r, S1)"
  obtain q T where m: "m S = Some (q, T)" using run by (cases "m S") (auto simp: seq_def)
  note T = typedD [OF assms(1) S m]
  show "accounts E ab S1 \<and> (r = Abort \<longrightarrow> debug_assertions E \<or> ab) \<and> (\<forall>x. r = Ret x \<longrightarrow> sc_stack S1 = ws x)"
  proof (cases q)
    case (Ret x)
    have "f x T = Some (r, S1)" using run m Ret by (simp add: seq_def)
    from typedD [OF assms(2) T(1) T(3) [OF Ret] this] show ?thesis by blast
  qed (use run m T in \<open>auto simp: seq_def\<close>)
qed

text \<open>
  A whole body: its last locals are left to the drop at its end, so only the accounts matter.  The
  three forms of sequence differ in what is known of the value: nothing, a property, its parts.
\<close>

definition sound :: "'u env \<Rightarrow> bool \<Rightarrow> owned_val list \<Rightarrow> ('u, 'a) stmt \<Rightarrow> bool" where
  "sound E ab vs m \<longleftrightarrow> (\<forall>S r S1. accounts E ab S \<and> sc_stack S = vs \<and> m S = Some (r, S1) \<longrightarrow>
     accounts E ab S1 \<and> (r = Abort \<longrightarrow> debug_assertions E \<or> ab))"

lemma soundD:
  assumes "sound E ab vs m" and "accounts E ab S" and "sc_stack S = vs" and "m S = Some (r, S1)"
  shows "accounts E ab S1" and "r = Abort \<Longrightarrow> debug_assertions E \<or> ab"
  using assms unfolding sound_def by blast+

lemma sound_typed: "typed E ab vs m vs' \<Longrightarrow> sound E ab vs m"
  unfolding typed_def sound_def by blast

lemma sound_seq_value:
  assumes "typed E ab vs m vs'" and "\<And>S x S1. m S = Some (Ret x, S1) \<Longrightarrow> P x"
    and "\<And>x. P x \<Longrightarrow> sound E ab (vs' x) (f x)"
  shows "sound E ab vs (seq m f)"
  unfolding sound_def
proof clarify
  fix S r S1
  assume S: "accounts E ab S" "vs = sc_stack S" and run: "seq m f S = Some (r, S1)"
  obtain q T where m: "m S = Some (q, T)" using run by (cases "m S") (auto simp: seq_def)
  note T = typedD [OF assms(1) S(1) S(2) [symmetric] m]
  show "accounts E ab S1 \<and> (r = Abort \<longrightarrow> debug_assertions E \<or> ab)"
  proof (cases q)
    case (Ret x)
    have "f x T = Some (r, S1)" using run m Ret by (simp add: seq_def)
    from soundD [OF assms(3) [OF assms(2)] T(1) T(3) this] m Ret show ?thesis by blast
  qed (use run m T in \<open>auto simp: seq_def\<close>)
qed

lemma sound_seq:
  assumes "typed E ab vs m vs'" and "\<And>x. sound E ab (vs' x) (f x)"
  shows "sound E ab vs (seq m f)"
  using sound_seq_value [OF assms(1), of "\<lambda>_. True" f] assms(2) by blast

lemma sound_seq_triple:
  assumes "typed E ab vs m (\<lambda>(x, y, z). vs' x y z)" and "\<And>x y z. sound E ab (vs' x y z) (f x y z)"
  shows "sound E ab vs (seq m (\<lambda>(x, y, z). f x y z))"
  by (rule sound_seq [OF assms(1)]) (use assms(2) in \<open>simp split: prod.split\<close>)

lemma typed_call_opt [typing]: "harmless E ab m \<Longrightarrow> typed E ab vs (call_opt m) (\<lambda>_. vs)"
  by (auto simp: typed_def call_opt_def harmless_def intro: accounts_world)

lemma typed_call [typing]: "harmless E ab (\<lambda>w. Some (m w)) \<Longrightarrow> typed E ab vs (call m) (\<lambda>_. vs)"
  unfolding call_def by (rule typed_call_opt)

lemma harmless_returning [harmless_calls]:
  "(\<And>w. adds [] w (snd (f w))) \<Longrightarrow> harmless E ab (\<lambda>w. Some (returning f w))"
  by (simp add: harmless_def returning_def split_beta adds_extends)

lemma harmless_value [harmless_calls]: "harmless E ab (\<lambda>w. Some (Ret (f w), w))"
  by (simp add: harmless_def adds_extends)

lemma typed_peek [typing]: "typed E ab vs (peek f) (\<lambda>_. vs)"
  unfolding peek_def by (intro typed_call harmless_value)

lemma typed_expect [typing]: "typed E ab vs (expect msg dbg r) (\<lambda>_. vs)"
  by (simp add: expect_def typing split: sum.split)

lemma typed_assert [typing]: "typed E ab vs (assert_eq_bytes l r) (\<lambda>_. vs)"
  by (simp add: assert_eq_bytes_def typing)

lemma typed_if_some [typing]:
  "(\<And>y. x = Some y \<Longrightarrow> typed E ab vs (f y) (\<lambda>_. vs)) \<Longrightarrow> typed E ab vs (if_some x f) (\<lambda>_. vs)"
  by (simp add: if_some_def typing split: option.split)

lemma harmless_store [harmless_calls]: "harmless E ab (\<lambda>w. Some (store p bs w))"
  by (simp add: harmless_def store_def extends_def)

text \<open>Binding a local: what it owns was just created, and its worker, if it has one, is below it.\<close>

fun rests_on :: "owned_val \<Rightarrow> owned_val list \<Rightarrow> bool" where
  "rests_on (V_worker wk) vs = False"
| "rests_on (V_ep e) vs = (ep_worker_alive e \<in> cells vs)"
| "rests_on v vs = True"

lemma wf_stack_rests: "rests_on v vs \<Longrightarrow> wf_stack w vs \<Longrightarrow> wf_stack w (v # vs)"
  by (cases v) simp_all

lemma accounts_own:
  assumes "accounts E ab S" and "wf_stack w1 (v # sc_stack S)" and "rel w1 = rel (sc_world S)"
    and "ab \<or> \<not> is_guard v"
  shows "accounts E ab (S\<lparr>sc_world := w1, sc_stack := v # sc_stack S,
    sc_created := sc_created S @ handles_of v\<rparr>)"
proof -
  have "mset (rel w1) + mset (owns (v # sc_stack S)) =
      mset (rel (sc_world S)) + mset (owns (sc_stack S)) + mset (handles_of v)"
    by (simp add: assms(3) ac_simps)
  then show ?thesis using assms by (auto simp: accounts_def scope_inv_def subset_mset.add_right_mono)
qed

lemma typed_own [typing]:
  assumes "rests_on (V x) vs" and "ab \<or> \<not> is_guard (V x)"
  shows "typed E ab vs (own V x) (\<lambda>y. V y # vs)"
proof (rule typedI)
  fix S r S1
  assume S: "accounts E ab S" "sc_stack S = vs" and run: "own V x S = Some (r, S1)"
  have "wf_stack (sc_world S) (sc_stack S)" using S(1) by (simp add: accounts_def scope_inv_def)
  then have "wf_stack (sc_world S) (V x # sc_stack S)" using wf_stack_rests assms(1) S(2) by blast
  from accounts_own [OF S(1) this refl assms(2)] show "accounts E ab S1 \<and>
      (r = Abort \<longrightarrow> debug_assertions E \<or> ab) \<and> (\<forall>y. r = Ret y \<longrightarrow> sc_stack S1 = V y # vs)"
    using run S(2) by (auto simp: own_def)
qed

lemma typed_own_opt [typing]:
  "(\<And>y. x = Some y \<Longrightarrow> rests_on (V y) vs) \<Longrightarrow> (\<And>y. ab \<or> \<not> is_guard (V y)) \<Longrightarrow>
     typed E ab vs (own_opt V x) (\<lambda>y. opt_locals V y @ vs)"
proof (cases x)
  case (Some y)
  assume "\<And>y. x = Some y \<Longrightarrow> rests_on (V y) vs" and "\<And>y. ab \<or> \<not> is_guard (V y)"
  then have "typed E ab vs (own V y) (\<lambda>y. V y # vs)" using Some by (intro typed_own) auto
  then show ?thesis by (auto simp: Some own_opt_def seq_def typed_def ret_def own_def opt_locals_def)
qed (simp add: own_opt_def typed_def ret_def opt_locals_def)

lemma typed_if_local [typing]:
  assumes "\<And>y. x = Some y \<Longrightarrow> typed E ab (V y # vs) (f y) (\<lambda>_. vs)"
  shows "typed E ab (opt_locals V x @ vs) (if_some x f) (\<lambda>_. vs)"
  using assms typed_ret [of E ab vs "()"] by (cases x) (auto simp: opt_locals_def if_some_def)

text \<open>A failing creation leaves no local, a successful one a new local.\<close>

lemma typed_let_new [typing]:
  assumes "\<And>w. adds [] w (snd (f w))" and "\<And>x. ab \<or> \<not> is_guard (V x)"
    and "\<And>w x. fst (f w) = Inr x \<Longrightarrow> rests_on (V x) vs"
  shows "typed E ab vs (let_new V f msg dbg) (\<lambda>x. V x # vs)"
proof (rule typedI)
  fix S r S1
  assume S: "accounts E ab S" "sc_stack S = vs" and run: "let_new V f msg dbg S = Some (r, S1)"
  obtain q w1 where f: "f (sc_world S) = (q, w1)" by fastforce
  have "extends [] (sc_world S) w1" using adds_extends [OF assms(1) [of "sc_world S"]] f by simp
  note T = accounts_world [OF S(1) this]
  have T2: "sc_stack (S\<lparr>sc_world := w1\<rparr>) = vs" using S(2) by simp
  show "accounts E ab S1 \<and> (r = Abort \<longrightarrow> debug_assertions E \<or> ab) \<and>
      (\<forall>x. r = Ret x \<longrightarrow> sc_stack S1 = V x # vs)"
  proof (cases q)
    case (Inl e)
    then show ?thesis using run f T
      by (auto simp: let_new_def seq_def call_def call_opt_def returning_def expect_def panic_def)
  next
    case (Inr x)
    then have "own V x (S\<lparr>sc_world := w1\<rparr>) = Some (r, S1)" using run f
      by (simp add: let_new_def seq_def call_def call_opt_def returning_def expect_def ret_def)
    moreover have "rests_on (V x) vs" using assms(3) [of "sc_world S"] f Inr by simp
    ultimately show ?thesis using typedD [OF typed_own [where V = V and x = x, OF _ assms(2)] T T2] by blast
  qed
qed

text \<open>A worker brings a fresh flag with it.\<close>

lemma typed_new_worker [typing]:
  "typed E ab vs (let_new V_worker (Context_worker_create E c p) msg dbg) (\<lambda>wk. V_worker wk # vs)"
proof (rule typedI)
  fix S r S1
  assume S: "accounts E ab S" "sc_stack S = vs"
    and run: "let_new V_worker (Context_worker_create E c p) msg dbg S = Some (r, S1)"
  have wf: "wf_stack (sc_world S) (sc_stack S)" using S(1) by (simp add: accounts_def scope_inv_def)
  obtain q w1 where f: "Context_worker_create E c p (sc_world S) = (q, w1)" by fastforce
  note w1 = created_worker [OF f wf]
  show "accounts E ab S1 \<and> (r = Abort \<longrightarrow> debug_assertions E \<or> ab) \<and>
      (\<forall>wk. r = Ret wk \<longrightarrow> sc_stack S1 = V_worker wk # vs)"
  proof (cases q)
    case (Inl e)
    have "accounts E ab (S\<lparr>sc_world := w1\<rparr>)" using S(1) w1(1,2) by (simp add: accounts_def scope_inv_def)
    then show ?thesis using run f Inl
      by (auto simp: let_new_def seq_def call_def call_opt_def returning_def expect_def panic_def)
  next
    case (Inr wk)
    note o = accounts_own [OF S(1) w1(3) [OF Inr] w1(1)]
    show ?thesis using run f Inr o S(2)
      by (auto simp: let_new_def seq_def call_def call_opt_def returning_def expect_def ret_def own_def)
  qed
qed

text \<open>Moving a local into a call that releases what the local owns.\<close>

lemma wf_stack_remove1:
  "wf_stack w vs \<Longrightarrow> \<not> (\<exists>wk. v = V_worker wk) \<Longrightarrow> wf_stack w (remove1 v vs) \<and> cells (remove1 v vs) = cells vs"
  by (induction w vs rule: wf_stack.induct) auto

lemma mset_owns_remove1:
  "v \<in> set vs \<Longrightarrow> mset (owns (remove1 v vs)) + mset (handles_of v) = mset (owns vs)"
  by (induction vs) auto

definition consumes :: "'u env \<Rightarrow> bool \<Rightarrow> owned_val \<Rightarrow> ('u world, 'a) prog \<Rightarrow> bool" where
  "consumes E ab v m \<longleftrightarrow> (\<forall>w r w1. m w = (r, w1) \<longrightarrow>
     extends (handles_of v) w w1 \<and> (r = Abort \<longrightarrow> debug_assertions E \<or> ab))"

lemma typed_give [typing]:
  assumes "v \<in> set vs" and "\<not> (\<exists>wk. v = V_worker wk)" and "consumes E ab v m"
  shows "typed E ab vs (give v m) (\<lambda>_. remove1 v vs)"
proof (rule typedI)
  fix S r S1
  assume S: "accounts E ab S" "sc_stack S = vs" and run: "give v m S = Some (r, S1)"
  obtain w1 where m: "m (sc_world S) = (r, w1)" "S1 = S\<lparr>sc_stack := remove1 v vs, sc_world := w1\<rparr>"
    using run S(2) by (cases "m (sc_world S)") (auto simp: give_def call_def call_opt_def)
  have a: "extends (handles_of v) (sc_world S) w1" "r = Abort \<longrightarrow> debug_assertions E \<or> ab"
    using assms(3) m(1) by (auto simp: consumes_def)
  have inv: "scope_inv E S" using S(1) by (simp add: accounts_def)
  then have wf: "wf_stack (sc_world S) vs" using S(2) by (simp add: scope_inv_def)
  have "wf_stack w1 (remove1 v vs)" using wf_stack_extends [OF _ a(1)] wf_stack_remove1 [OF wf assms(2)] by blast
  moreover have "mset (rel w1) + mset (owns (remove1 v vs)) = mset (rel (sc_world S)) + mset (owns vs)"
    using a(1) mset_owns_remove1 [OF assms(1)] by (simp add: extends_def ac_simps)
  moreover have "ab \<or> \<not> list_ex is_guard (remove1 v vs)"
    using S by (auto simp: accounts_def list_ex_iff dest: notin_set_remove1)
  ultimately show "accounts E ab S1 \<and> (r = Abort \<longrightarrow> debug_assertions E \<or> ab) \<and>
      (\<forall>x. r = Ret x \<longrightarrow> sc_stack S1 = remove1 v vs)"
    using inv S(2) m(2) a(2) by (simp add: accounts_def scope_inv_def)
qed

text \<open>The newest local, and one below an optional one.\<close>

lemma remove1_below: "length us \<le> 1 \<Longrightarrow> remove1 v (us @ v # vs) = us @ vs"
  by (cases us) auto

lemma typed_give_newest [typing]:
  "\<not> (\<exists>wk. v = V_worker wk) \<Longrightarrow> consumes E ab v m \<Longrightarrow> typed E ab (v # vs) (give v m) (\<lambda>_. vs)"
  using typed_give [of v "v # vs" E ab m] by simp

lemma typed_give_below [typing]:
  "\<not> (\<exists>wk. v = V_worker wk) \<Longrightarrow> consumes E ab v m \<Longrightarrow>
     typed E ab (opt_locals V x @ v # vs) (give v m) (\<lambda>_. opt_locals V x @ vs)"
proof -
  have "remove1 v (opt_locals V x @ v # vs) = opt_locals V x @ vs"
    by (rule remove1_below) (simp add: opt_locals_def split: option.split)
  moreover assume "\<not> (\<exists>wk. v = V_worker wk)" and "consumes E ab v m"
  ultimately show ?thesis using typed_give [of v "opt_locals V x @ v # vs" E ab m] by simp
qed

text \<open>The newest local can always be dropped, a worker too.\<close>

lemma typed_drop_newest [typing]: "typed E ab (v # vs) (drop_local E v) (\<lambda>_. vs)"
proof (rule typedI)
  fix S r S1
  assume S: "accounts E ab S" "sc_stack S = v # vs" and run: "drop_local E v S = Some (r, S1)"
  obtain w1 where m: "drop_value E v (sc_world S) = (r, w1)" "S1 = S\<lparr>sc_stack := vs, sc_world := w1\<rparr>"
    using run S(2) by (cases "drop_value E v (sc_world S)") (auto simp: drop_local_def give_def call_def call_opt_def)
  have inv: "scope_inv E S" using S(1) by (simp add: accounts_def)
  then have wf: "wf_stack (sc_world S) (v # vs)" using S(2) by (simp add: scope_inv_def)
  note d = drop_value_rel [OF m(1) wf]
  have le: "mset (rel w1) + mset (owns vs) \<subseteq># mset (rel (sc_world S)) + mset (owns (sc_stack S))"
    using d(2) by (elim disjE) (simp_all add: S(2))
  have eq: "\<not> debug_assertions E \<Longrightarrow>
      mset (rel w1) + mset (owns vs) = mset (rel (sc_world S)) + mset (owns (sc_stack S))"
    using d(3) by (simp add: S(2))
  have "mset (rel w1) + mset (owns vs) \<subseteq># mset (sc_created S)"
    by (rule subset_mset.order_trans [OF le]) (use inv in \<open>simp add: scope_inv_def\<close>)
  moreover have "\<not> debug_assertions E \<Longrightarrow> mset (rel w1) + mset (owns vs) = mset (sc_created S)"
    using inv eq by (simp add: scope_inv_def)
  ultimately have "scope_inv E S1" using d(1) m(2) by (simp add: scope_inv_def)
  then show "accounts E ab S1 \<and> (r = Abort \<longrightarrow> debug_assertions E \<or> ab) \<and>
      (\<forall>x. r = Ret x \<longrightarrow> sc_stack S1 = vs)"
    using S d(4) m(2) by (auto simp: accounts_def)
qed

lemma typed_drop_local:
  "v \<in> set vs \<Longrightarrow> \<not> (\<exists>wk. v = V_worker wk) \<Longrightarrow> consumes E ab v (drop_value E v) \<Longrightarrow>
     typed E ab vs (drop_local E v) (\<lambda>_. remove1 v vs)"
  unfolding drop_local_def by (rule typed_give)

text \<open>Putting another value of a worker in its place: the same handle and flag.\<close>

lemma wf_stack_set_worker:
  assumes "wk_alive wk1 = wk_alive wk"
  shows "cells (map (\<lambda>v. if v = V_worker wk then V_worker wk1 else v) vs) = cells vs"
    and "wf_stack w (map (\<lambda>v. if v = V_worker wk then V_worker wk1 else v) vs) = wf_stack w vs"
proof -
  let ?f = "\<lambda>v. if v = V_worker wk then V_worker wk1 else v"
  show c: "cells (map ?f us) = cells us" for us
  proof (induction us)
    case (Cons v us)
    then show ?case using assms by (cases v) auto
  qed simp
  show "wf_stack w (map ?f vs) = wf_stack w vs"
  proof (induction vs)
    case (Cons v vs)
    then show ?case using assms by (cases v) (auto simp: c)
  qed simp
qed

lemma typed_set_worker [typing]:
  assumes "wk_alive wk1 = wk_alive wk" and "wk_handle wk1 = wk_handle wk"
  shows "typed E ab vs (set_worker wk wk1) (\<lambda>_. map (\<lambda>v. if v = V_worker wk then V_worker wk1 else v) vs)"
proof -
  let ?f = "\<lambda>v. if v = V_worker wk then V_worker wk1 else v"
  have h: "handles_of (?f v) = handles_of v" "is_guard (?f v) = is_guard v" for v using assms(2) by auto
  have o: "owns (map ?f us) = owns us" for us
    by (simp only: map_map comp_def h)
  have g: "list_ex is_guard (map ?f us) = list_ex is_guard us" for us
    by (induction us) auto
  show ?thesis using wf_stack_set_worker [OF assms(1)] o g
    by (auto simp: typed_def set_worker_def accounts_def scope_inv_def)
qed

subsection \<open>The calls programs make\<close>

lemma harmless_nbx:
  assumes "released_by c = []"
  shows "harmless E ab (\<lambda>w. Some (nbx E c w))"
    and "harmless E ab (\<lambda>w. Some (case nbx E c w of (r, w1) \<Rightarrow> (map_ok f r, w1)))"
proof -
  have "adds [] w w1 \<and> r \<noteq> Abort \<and> map_ok f r \<noteq> Abort" if "nbx E c w = (r, w1)" for w r w1
  proof -
    have "adds [] w w1" using adds_nbx [OF that] assms by simp
    moreover have "r \<noteq> Abort"
      using that by (auto simp: nbx_def status_ptr_to_result_def split: prod.splits if_splits)
    moreover from this have "map_ok f r \<noteq> Abort" by (cases r) (simp_all add: map_ok_def)
    ultimately show ?thesis by simp
  qed
  then show "harmless E ab (\<lambda>w. Some (nbx E c w))"
    and "harmless E ab (\<lambda>w. Some (case nbx E c w of (r, w1) \<Rightarrow> (map_ok f r, w1)))"
    by (fastforce simp: harmless_def dest: adds_extends split: prod.splits)+
qed

lemma harmless_posts [harmless_calls]:
  "harmless E ab (\<lambda>w. Some (Ep_flush E e p w))"
  "harmless E ab (\<lambda>w. Some (Ep_tag_send E e wk d tag p w))"
  "harmless E ab (\<lambda>w. Some (Worker_tag_recv E wk wk' d tag m p w))"
  "harmless E ab (\<lambda>w. Some (Ep_am_send E e i d d' p w))"
  by (simp_all add: Ep_flush_def Ep_tag_send_def Worker_tag_recv_def Ep_am_send_def Let_def harmless_nbx)

lemma harmless_progress [harmless_calls]: "harmless E ab (\<lambda>w. Some (Worker_progress E wk w))"
  by (auto simp: harmless_def Worker_progress_eq extends_def split: if_splits)

lemma adds_status_call [simp]: "released_by c = [] \<Longrightarrow> adds [] w (snd (status_call E c w))"
  by (simp add: status_call_def split_beta adds_def)

lemma adds_created [simp]:
  "adds [] w (snd (Config_read E name path w))" "adds [] w (snd (Context_new E cfg p w))"
  "adds [] w (snd (Worker_pack_address E wk w))" "adds [] w (snd (RemoteKey_unpack E e b w))"
  "adds [] w (snd (Worker_create_ep E wk ep w))"
  using created_ep(1) [of E wk ep w "fst (Worker_create_ep E wk ep w)" "snd (Worker_create_ep E wk ep w)"]
  by (simp_all add: created_config created_context created_address created_key)

lemma consumes_quiet:
  "handles_of v = [] \<Longrightarrow> harmless E ab (\<lambda>w. Some (m w)) \<Longrightarrow> consumes E ab v m"
  by (simp add: consumes_def harmless_def)

lemma consumes_close: "consumes E ab (V_ep e) (Ep_close E e wk flags)"
  unfolding consumes_def using adds_Ep_close adds_extends by (fastforce split: outcome.splits)

lemma extends_unit: "released_by c = hs \<Longrightarrow> extends hs w (ffi_unit E c w)"
  using adds_ffi(2) adds_extends by blast

lemma extends_refl [simp]: "extends [] w w"
  by (simp add: extends_def)

lemma consumes_drop:
  "consumes E ab (V_config c) (drop_value E (V_config c))"
  "consumes E ab (V_address a) (drop_value E (V_address a))"
  "consumes E ab (V_memh m) (drop_value E (V_memh m))"
  "consumes E ab (V_key k) (drop_value E (V_key k))"
  by (auto simp: consumes_def Config_drop_def WorkerAddress_drop_def MemHandle_drop_def RemoteKey_drop_def
      extends_unit)

text \<open>A completion loop releases nothing when its ends release nothing.\<close>

definition ends_quietly :: "('u world, 'a) prog \<Rightarrow> bool" where
  "ends_quietly m \<longleftrightarrow> (\<forall>w. adds [] w (snd (m w)) \<and> fst (m w) \<noteq> Abort)"

lemma harmless_loop:
  assumes loop: "bounded_poll (Request_check_finished E req) (Worker_progress E wk) glue d e t loop"
    and ends: "ends_quietly d" "\<And>x. ends_quietly (e x)" "ends_quietly t" "\<And>w. adds [] w (glue w)"
  shows "harmless E ab (\<lambda>w. Some (loop n w))"
proof -
  have "adds [] w (snd (loop n w)) \<and> fst (loop n w) \<noteq> Abort" for w
  proof -
    obtain y u where sp: "spin (Request_check_finished E req) (Worker_progress E wk) n w = (y, u)" by fastforce
    have u: "adds [] w u" using adds_spin [of w E req wk n] sp by simp
    have q: "adds [] w (snd (m u)) \<and> fst (m u) \<noteq> Abort" if "ends_quietly m" for m
      using that adds_quiet [OF u] by (simp add: ends_quietly_def)
    show ?thesis
      using q [OF ends(1)] q [OF ends(2)] q [OF ends(3)] adds_quiet [OF u ends(4)] spin_progress_outcome [OF sp]
      by (auto simp: bounded_poll.loop_is_spin [OF loop] bounded_poll.finish_def [OF loop] sp
          split: outcome.split poll_end.split)
  qed
  then show ?thesis by (metis (no_types, lifting) adds_extends harmless_def option.inject prod.collapse prod.sel)
qed

subsection \<open>The run of a program\<close>

text \<open>
  A program whose body is sound releases nothing twice and nothing it was not given.  In a release
  build, unless it aborts, which needs a guard among its locals, it releases everything, whether it
  returned or panicked.
\<close>

definition balanced :: "'u env \<Rightarrow> bool \<Rightarrow> unit outcome \<times> 'u scope \<Rightarrow> bool" where
  "balanced E ab p = (case p of (r, S) \<Rightarrow>
     (let released_handles = mset (released (trace (sc_world S)))
      in released_handles \<subseteq># mset (sc_created S) \<and>
         (debug_assertions E \<or> (if r = Abort then ab else
            sc_stack S = [] \<and> released_handles = mset (sc_created S)))))"

lemma sound_main:
  assumes "sound E ab [] body" and "run_main E body w = Some p"
  shows "balanced E ab p"
proof -
  have e: "accounts E ab (empty_scope w)" "sc_stack (empty_scope w) = []"
    by (simp_all add: accounts_def scope_inv_def empty_scope_def)
  obtain q S where b: "body (empty_scope w) = Some (q, S)"
    using assms(2) by (cases "body (empty_scope w)") (auto simp: run_main_def)
  note t = soundD [OF assms(1) e b]
  have wf: "wf_stack (sc_world S) (sc_stack S)"
    and le: "mset (rel (sc_world S)) + mset (owns (sc_stack S)) \<subseteq># mset (sc_created S)"
    and eq: "\<not> debug_assertions E \<Longrightarrow> mset (rel (sc_world S)) + mset (owns (sc_stack S)) = mset (sc_created S)"
    and g: "ab \<or> \<not> list_ex is_guard (sc_stack S)"
    using t(1) by (simp_all add: accounts_def scope_inv_def)
  have end_rel: "balanced E ab (r, S\<lparr>sc_world := w1, sc_stack := []\<rparr>)"
    if "rel w1 = rel (sc_world S) @ hs" "mset hs \<subseteq># mset (owns (sc_stack S))"
      "\<not> debug_assertions E \<longrightarrow> r \<noteq> Abort \<and> hs = owns (sc_stack S) \<or> r = Abort \<and> list_ex is_guard (sc_stack S)"
    for r w1 hs
  proof -
    have "mset (rel w1) \<subseteq># mset (rel (sc_world S)) + mset (owns (sc_stack S))"
      using that(1,2) by simp
    from subset_mset.order_trans [OF this le] show ?thesis
      using that(1,3) eq g by (auto simp: balanced_def Let_def)
  qed
  show ?thesis
  proof (cases q)
    case (Ret x)
    obtain r w1 where x: "exit_stack E (sc_stack S) (sc_world S) = (r, w1)" by fastforce
    obtain hs where "rel w1 = rel (sc_world S) @ hs" "mset hs \<subseteq># mset (owns (sc_stack S))"
      "\<not> debug_assertions E \<longrightarrow> r = Ret () \<and> hs = owns (sc_stack S) \<or> r = Abort \<and> list_ex is_guard (sc_stack S)"
      using exit_stack_rel [OF wf x] by blast
    then have "balanced E ab (r, S\<lparr>sc_world := w1, sc_stack := []\<rparr>)" by (intro end_rel) auto
    then show ?thesis using assms(2) b Ret x by (auto simp: run_main_def)
  next
    case (Panic s)
    obtain r w1 where x: "unwound E s (sc_stack S) (sc_world S) = (r, w1)" by fastforce
    obtain hs where "rel w1 = rel (sc_world S) @ hs" "mset hs \<subseteq># mset (owns (sc_stack S))"
      "\<not> debug_assertions E \<longrightarrow> r = Panic s \<and> hs = owns (sc_stack S) \<or> r = Abort \<and> list_ex is_guard (sc_stack S)"
      using unwound_rel [OF wf x] by blast
    then have "balanced E ab (r, S\<lparr>sc_world := w1, sc_stack := []\<rparr>)" by (intro end_rel) auto
    then show ?thesis using assms(2) b Panic x by (auto simp: run_main_def)
  next
    case Abort
    have "mset (rel (sc_world S)) \<subseteq># mset (sc_created S)"
      using le subset_mset.order_trans mset_subset_eq_add_left by blast
    then show ?thesis using assms(2) b Abort t(2) by (auto simp: run_main_def balanced_def Let_def)
  qed
qed

subsection \<open>Programs that end\<close>

definition returns :: "('u, 'a) stmt \<Rightarrow> bool" where
  "returns m \<longleftrightarrow> (\<forall>S. m S \<noteq> None)"

named_theorems returning_rules \<open>statements that always end\<close>

lemma returns_simple [returning_rules]:
  "returns (ret x)" "returns (panic s)" "returns (call m)" "returns (peek f)" "returns (own V x)"
  "returns (give v m)" "returns (drop_local E v)" "returns (set_worker wk wk1)"
  by (simp_all add: returns_def ret_def panic_def call_def call_opt_def peek_def own_def give_def
      drop_local_def set_worker_def)

lemma returns_seq [returning_rules]: "returns m \<Longrightarrow> (\<And>x. returns (f x)) \<Longrightarrow> returns (seq m f)"
  by (auto simp: returns_def seq_def split: option.splits outcome.splits)

lemma returns_expect [returning_rules]: "returns (expect msg dbg r)"
  by (simp add: expect_def returning_rules split: sum.split)

lemma returns_assert [returning_rules]: "returns (assert_eq_bytes l r)"
  by (simp add: assert_eq_bytes_def returning_rules)

lemma returns_let_new [returning_rules]: "returns (let_new V f msg dbg)"
  by (simp add: let_new_def returning_rules)

lemma returns_own_opt [returning_rules]: "returns (own_opt V x)"
  by (simp add: own_opt_def returning_rules split: option.split)

lemma returns_if_some [returning_rules]: "(\<And>y. returns (f y)) \<Longrightarrow> returns (if_some x f)"
  by (simp add: if_some_def returning_rules split: option.split)

lemma returns_main: "returns body \<Longrightarrow> \<exists>r S. run_main E body w = Some (r, S)"
proof -
  assume "returns body"
  then obtain q S where "body (empty_scope w) = Some (q, S)" by (fastforce simp: returns_def)
  then show ?thesis by (auto simp: run_main_def split: outcome.splits prod.splits)
qed

end
