(* ===== verification/Dt_Version.thy ===== *)
theory Dt_Version
  imports Context_Config
begin

text \<open>
  \<^verbatim>\<open>src/dt.rs\<close> and \<^verbatim>\<open>src/version.rs\<close>: datatype words, generic datatypes, and the library's
  version and attributes.
\<close>

subsection \<open>Datatypes\<close>

definition UCP_DATATYPE_CONTIG :: u64 where "UCP_DATATYPE_CONTIG = 0"
definition UCP_DATATYPE_IOV :: u64 where "UCP_DATATYPE_IOV = 2"
definition UCP_DATATYPE_SHIFT :: nat where "UCP_DATATYPE_SHIFT = 3"

definition dt_make_contig :: "usize \<Rightarrow> u64" where
  "dt_make_contig elem_size = push_bit UCP_DATATYPE_SHIFT elem_size OR UCP_DATATYPE_CONTIG"

definition dt_make_iov :: u64 where
  "dt_make_iov = UCP_DATATYPE_IOV"

text \<open>The handle of a generic datatype is a 64-bit value UCX writes.\<close>

definition dt_create_generic ::
  "'u env \<Rightarrow> ptr \<Rightarrow> ptr \<Rightarrow> 'u world \<Rightarrow> (Status + u64) \<times> 'u world" where
  "dt_create_generic E ops context = value_call E (CtxC (ucp_dt_create_generic ops context)) out_ptr"

definition dt_destroy :: "'u env \<Rightarrow> u64 \<Rightarrow> 'u world \<Rightarrow> 'u world" where
  "dt_destroy E datatype = ffi_unit E (CtxC (ucp_dt_destroy datatype))"

record DataTypeAttr =
  dta_packed_size :: usize
  dta_buffer :: ptr
  dta_count :: usize

definition dt_query :: "'u env \<Rightarrow> u64 \<Rightarrow> u64 \<Rightarrow> 'u world \<Rightarrow> (Status + DataTypeAttr) \<times> 'u world" where
  "dt_query E datatype msk =
     value_call E (CtxC (ucp_dt_query datatype (zeroed_ucp_datatype_attr\<lparr>dattr_field_mask := msk\<rparr>)))
       (\<lambda>ret. let attr = out_datatype_attr ret in
         \<lparr>dta_packed_size = dattr_packed_size attr, dta_buffer = dattr_buffer attr,
          dta_count = dattr_count attr\<rparr>)"

subsection \<open>Versions\<close>

definition get_version :: "'u env \<Rightarrow> 'u world \<Rightarrow> (u32 \<times> u32 \<times> u32) \<times> 'u world" where
  "get_version E w = (let (ret, w1) = ffi E (CtxC ucp_get_version) w in (out_version ret, w1))"

definition get_version_string :: "'u env \<Rightarrow> 'u world \<Rightarrow> bytes \<times> 'u world" where
  "get_version_string E w = (let (ret, w1) = ffi E (CtxC ucp_get_version_string) w
     in (to_string_lossy (CStr_from_ptr (ret_str ret)), w1))"

record LibAttr =
  lib_max_thread_level :: ThreadMode

definition UCP_LIB_ATTR_FIELD_MAX_THREAD_LEVEL :: u64 where
  "UCP_LIB_ATTR_FIELD_MAX_THREAD_LEVEL = 1"

definition lib_query :: "'u env \<Rightarrow> 'u world \<Rightarrow> (Status + LibAttr) \<times> 'u world" where
  "lib_query E = value_call E
     (CtxC (ucp_lib_query (zeroed_ucp_lib_attr\<lparr>libattr_field_mask := UCP_LIB_ATTR_FIELD_MAX_THREAD_LEVEL\<rparr>)))
     (\<lambda>ret. \<lparr>lib_max_thread_level = ThreadMode_from_ffi (libattr_max_thread_level (out_lib_attr ret))\<rparr>)"

definition init_raw :: "Status + ptr" where
  "init_raw = Inl (Status UCS_ERR_UNSUPPORTED)"

subsection \<open>Properties\<close>

text \<open>A contiguous datatype word carries the element size above its three class bits: every
  size below 2^61 can be read back and no two of them share a word, the class bits say
  contiguous, and the I/O vector word is no contiguous one.  Larger sizes lose their top bits.\<close>

theorem dt_contig_round_trip:
  "drop_bit 3 (dt_make_contig n) = take_bit 61 n \<and> take_bit 3 (dt_make_contig n) = UCP_DATATYPE_CONTIG \<and>
   (drop_bit 3 (dt_make_contig n) = n \<longleftrightarrow> unat n < 2 ^ 61) \<and>
   dt_make_contig n \<noteq> dt_make_iov"
proof -
  have d: "drop_bit 3 (push_bit 3 n) = take_bit 61 n" for n :: u64
    by (rule bit_eqI) (auto simp: bit_drop_bit_eq bit_push_bit_iff bit_take_bit_iff)
  have t: "take_bit 3 (push_bit 3 n) = 0" for n :: u64
    by (rule bit_eqI) (auto simp: bit_push_bit_iff bit_take_bit_iff)
  have f: "take_bit 61 n = n \<longleftrightarrow> unat n < 2 ^ 61"
    by (metis take_bit_nat_eq_self_iff unsigned_take_bit_eq unsigned_word_eqI)
  have "take_bit 3 (dt_make_contig n) \<noteq> take_bit 3 dt_make_iov"
    by (simp add: dt_make_contig_def dt_make_iov_def UCP_DATATYPE_SHIFT_def UCP_DATATYPE_CONTIG_def
        UCP_DATATYPE_IOV_def t)
  then have "dt_make_contig n \<noteq> dt_make_iov" by metis
  then show ?thesis
    by (simp add: dt_make_contig_def UCP_DATATYPE_SHIFT_def UCP_DATATYPE_CONTIG_def d t f)
qed

text \<open>Whatever bytes UCX keeps as its version string, the crate returns valid UTF-8, and the
  string itself, up to its terminator, when it was valid already.\<close>

theorem version_string_utf8:
  "case ffi E (CtxC ucp_get_version_string) w of (ret, w1) \<Rightarrow>
     snd (get_version_string E w) = w1 \<and> utf8_valid (fst (get_version_string E w)) \<and>
     (if utf8_valid (CStr_from_ptr (ret_str ret))
      then fst (get_version_string E w) = CStr_from_ptr (ret_str ret) else True)"
  by (auto simp: get_version_string_def utf8_valid_lossy lossy_id split: prod.splits)

end
