(* ===== verification/Atomics.thy ===== *)
theory Atomics
  imports Remote_Key Dt_Version
begin

text \<open>
  \<^verbatim>\<open>src/rma/ep_ops.rs\<close> and \<^verbatim>\<open>src/rma/atomic.rs\<close>: puts and gets, the atomic operations on remote
  memory with and without a fetched reply, and the deprecated free functions.  An operand lives
  in the caller's frame, so its bytes are the argument; a Rust slice is its address and length.
\<close>

subsection \<open>Puts and gets\<close>

definition Ep_rma_put ::
  "'u env \<Rightarrow> Ep \<Rightarrow> ptr \<times> usize \<Rightarrow> u64 \<Rightarrow> RemoteKey \<Rightarrow> RequestParam \<Rightarrow>
     ('u world, Status + Request option) prog" where
  "Ep_rma_put E e buffer remote_addr rkey param =
     nbx E (XferC (ucp_put_nbx (ep_handle e) (fst buffer) (snd buffer) remote_addr (rk_handle rkey)
       (rparam_handle param)))"

definition Ep_rma_get ::
  "'u env \<Rightarrow> Ep \<Rightarrow> ptr \<times> usize \<Rightarrow> u64 \<Rightarrow> RemoteKey \<Rightarrow> RequestParam \<Rightarrow>
     ('u world, Status + Request option) prog" where
  "Ep_rma_get E e buffer remote_addr rkey param =
     nbx E (XferC (ucp_get_nbx (ep_handle e) (fst buffer) (snd buffer) remote_addr (rk_handle rkey)
       (rparam_handle param)))"

definition Ep_rma_put_ptr ::
  "'u env \<Rightarrow> Ep \<Rightarrow> ptr \<Rightarrow> usize \<Rightarrow> u64 \<Rightarrow> RemoteKey \<Rightarrow> RequestParam \<Rightarrow>
     ('u world, Status + Request option) prog" where
  "Ep_rma_put_ptr E e p len remote_addr rkey param =
     nbx E (XferC (ucp_put_nbx (ep_handle e) p len remote_addr (rk_handle rkey) (rparam_handle param)))"

definition Ep_rma_get_ptr ::
  "'u env \<Rightarrow> Ep \<Rightarrow> ptr \<Rightarrow> usize \<Rightarrow> u64 \<Rightarrow> RemoteKey \<Rightarrow> RequestParam \<Rightarrow>
     ('u world, Status + Request option) prog" where
  "Ep_rma_get_ptr E e p len remote_addr rkey param =
     nbx E (XferC (ucp_get_nbx (ep_handle e) p len remote_addr (rk_handle rkey) (rparam_handle param)))"

subsection \<open>Atomic operations without a reply\<close>

definition Ep_amo_add64 ::
  "'u env \<Rightarrow> Ep \<Rightarrow> u64 \<Rightarrow> u64 \<Rightarrow> RemoteKey \<Rightarrow> RequestParam \<Rightarrow>
     ('u world, Status + Request option) prog" where
  "Ep_amo_add64 E e operand remote_addr rkey param =
     nbx E (XferC (ucp_atomic_op_nbx (ep_handle e) UCP_ATOMIC_OP_ADD (Holding (to_le 8 operand)) 8
       remote_addr (rk_handle rkey) (rparam_handle param)))"

definition Ep_amo_xor64 ::
  "'u env \<Rightarrow> Ep \<Rightarrow> u64 \<Rightarrow> u64 \<Rightarrow> RemoteKey \<Rightarrow> RequestParam \<Rightarrow>
     ('u world, Status + Request option) prog" where
  "Ep_amo_xor64 E e operand remote_addr rkey param =
     nbx E (XferC (ucp_atomic_op_nbx (ep_handle e) UCP_ATOMIC_OP_XOR (Holding (to_le 8 operand)) 8
       remote_addr (rk_handle rkey) (rparam_handle param)))"

definition Ep_amo_swap64 ::
  "'u env \<Rightarrow> Ep \<Rightarrow> u64 \<Rightarrow> u64 \<Rightarrow> RemoteKey \<Rightarrow> RequestParam \<Rightarrow>
     ('u world, Status + Request option) prog" where
  "Ep_amo_swap64 E e operand remote_addr rkey param =
     nbx E (XferC (ucp_atomic_op_nbx (ep_handle e) UCP_ATOMIC_OP_SWAP (Holding (to_le 8 operand)) 8
       remote_addr (rk_handle rkey) (rparam_handle param)))"

definition Ep_amo_and64 ::
  "'u env \<Rightarrow> Ep \<Rightarrow> u64 \<Rightarrow> u64 \<Rightarrow> RemoteKey \<Rightarrow> RequestParam \<Rightarrow>
     ('u world, Status + Request option) prog" where
  "Ep_amo_and64 E e operand remote_addr rkey param =
     nbx E (XferC (ucp_atomic_op_nbx (ep_handle e) UCP_ATOMIC_OP_AND (Holding (to_le 8 operand)) 8
       remote_addr (rk_handle rkey) (rparam_handle param)))"

definition Ep_amo_or64 ::
  "'u env \<Rightarrow> Ep \<Rightarrow> u64 \<Rightarrow> u64 \<Rightarrow> RemoteKey \<Rightarrow> RequestParam \<Rightarrow>
     ('u world, Status + Request option) prog" where
  "Ep_amo_or64 E e operand remote_addr rkey param =
     nbx E (XferC (ucp_atomic_op_nbx (ep_handle e) UCP_ATOMIC_OP_OR (Holding (to_le 8 operand)) 8
       remote_addr (rk_handle rkey) (rparam_handle param)))"

definition Ep_amo_cswap64 ::
  "'u env \<Rightarrow> Ep \<Rightarrow> u64 \<Rightarrow> u64 \<Rightarrow> u64 \<Rightarrow> RemoteKey \<Rightarrow> RequestParam \<Rightarrow>
     ('u world, Status + Request option) prog" where
  "Ep_amo_cswap64 E e expected new_value remote_addr rkey param =
     nbx E (XferC (ucp_atomic_op_nbx (ep_handle e) UCP_ATOMIC_OP_CSWAP
       (Holding (to_le 8 expected @ to_le 8 new_value)) 16
       remote_addr (rk_handle rkey) (rparam_handle param)))"

definition Ep_amo_add32 ::
  "'u env \<Rightarrow> Ep \<Rightarrow> u32 \<Rightarrow> u64 \<Rightarrow> RemoteKey \<Rightarrow> RequestParam \<Rightarrow>
     ('u world, Status + Request option) prog" where
  "Ep_amo_add32 E e operand remote_addr rkey param =
     nbx E (XferC (ucp_atomic_op_nbx (ep_handle e) UCP_ATOMIC_OP_ADD (Holding (to_le 4 operand)) 4
       remote_addr (rk_handle rkey) (rparam_handle param)))"

definition Ep_amo_xor32 ::
  "'u env \<Rightarrow> Ep \<Rightarrow> u32 \<Rightarrow> u64 \<Rightarrow> RemoteKey \<Rightarrow> RequestParam \<Rightarrow>
     ('u world, Status + Request option) prog" where
  "Ep_amo_xor32 E e operand remote_addr rkey param =
     nbx E (XferC (ucp_atomic_op_nbx (ep_handle e) UCP_ATOMIC_OP_XOR (Holding (to_le 4 operand)) 4
       remote_addr (rk_handle rkey) (rparam_handle param)))"

definition Ep_amo_swap32 ::
  "'u env \<Rightarrow> Ep \<Rightarrow> u32 \<Rightarrow> u64 \<Rightarrow> RemoteKey \<Rightarrow> RequestParam \<Rightarrow>
     ('u world, Status + Request option) prog" where
  "Ep_amo_swap32 E e operand remote_addr rkey param =
     nbx E (XferC (ucp_atomic_op_nbx (ep_handle e) UCP_ATOMIC_OP_SWAP (Holding (to_le 4 operand)) 4
       remote_addr (rk_handle rkey) (rparam_handle param)))"

definition Ep_amo_and32 ::
  "'u env \<Rightarrow> Ep \<Rightarrow> u32 \<Rightarrow> u64 \<Rightarrow> RemoteKey \<Rightarrow> RequestParam \<Rightarrow>
     ('u world, Status + Request option) prog" where
  "Ep_amo_and32 E e operand remote_addr rkey param =
     nbx E (XferC (ucp_atomic_op_nbx (ep_handle e) UCP_ATOMIC_OP_AND (Holding (to_le 4 operand)) 4
       remote_addr (rk_handle rkey) (rparam_handle param)))"

definition Ep_amo_or32 ::
  "'u env \<Rightarrow> Ep \<Rightarrow> u32 \<Rightarrow> u64 \<Rightarrow> RemoteKey \<Rightarrow> RequestParam \<Rightarrow>
     ('u world, Status + Request option) prog" where
  "Ep_amo_or32 E e operand remote_addr rkey param =
     nbx E (XferC (ucp_atomic_op_nbx (ep_handle e) UCP_ATOMIC_OP_OR (Holding (to_le 4 operand)) 4
       remote_addr (rk_handle rkey) (rparam_handle param)))"

definition Ep_amo_cswap32 ::
  "'u env \<Rightarrow> Ep \<Rightarrow> u32 \<Rightarrow> u32 \<Rightarrow> u64 \<Rightarrow> RemoteKey \<Rightarrow> RequestParam \<Rightarrow>
     ('u world, Status + Request option) prog" where
  "Ep_amo_cswap32 E e expected new_value remote_addr rkey param =
     nbx E (XferC (ucp_atomic_op_nbx (ep_handle e) UCP_ATOMIC_OP_CSWAP
       (Holding (to_le 4 expected @ to_le 4 new_value)) 8
       remote_addr (rk_handle rkey) (rparam_handle param)))"

subsection \<open>Atomic operations with a fetched reply\<close>

definition Ep_amo_fadd64 ::
  "'u env \<Rightarrow> Ep \<Rightarrow> Worker \<Rightarrow> u64 \<Rightarrow> u64 \<Rightarrow> RemoteKey \<Rightarrow> ptr \<Rightarrow>
     ('u world, Status + FetchAmoRequest) prog" where
  "Ep_amo_fadd64 E e wk operand remote_addr rkey reply w =
     (let param = RequestParam_fetch_params reply;
          (r, w1) = nbx E (XferC (ucp_atomic_op_nbx (ep_handle e) UCP_ATOMIC_OP_ADD
            (Holding (to_le 8 operand)) 8 remote_addr (rk_handle rkey) (rparam_handle param))) w
      in (map_ok (\<lambda>request. fetch_amo_result request wk) r, w1))"

definition Ep_amo_fxor64 ::
  "'u env \<Rightarrow> Ep \<Rightarrow> Worker \<Rightarrow> u64 \<Rightarrow> u64 \<Rightarrow> RemoteKey \<Rightarrow> ptr \<Rightarrow>
     ('u world, Status + FetchAmoRequest) prog" where
  "Ep_amo_fxor64 E e wk operand remote_addr rkey reply w =
     (let param = RequestParam_fetch_params reply;
          (r, w1) = nbx E (XferC (ucp_atomic_op_nbx (ep_handle e) UCP_ATOMIC_OP_XOR
            (Holding (to_le 8 operand)) 8 remote_addr (rk_handle rkey) (rparam_handle param))) w
      in (map_ok (\<lambda>request. fetch_amo_result request wk) r, w1))"

definition Ep_amo_fswap64 ::
  "'u env \<Rightarrow> Ep \<Rightarrow> Worker \<Rightarrow> u64 \<Rightarrow> u64 \<Rightarrow> RemoteKey \<Rightarrow> ptr \<Rightarrow>
     ('u world, Status + FetchAmoRequest) prog" where
  "Ep_amo_fswap64 E e wk operand remote_addr rkey reply w =
     (let param = RequestParam_fetch_params reply;
          (r, w1) = nbx E (XferC (ucp_atomic_op_nbx (ep_handle e) UCP_ATOMIC_OP_SWAP
            (Holding (to_le 8 operand)) 8 remote_addr (rk_handle rkey) (rparam_handle param))) w
      in (map_ok (\<lambda>request. fetch_amo_result request wk) r, w1))"

definition Ep_amo_fcswap64 ::
  "'u env \<Rightarrow> Ep \<Rightarrow> Worker \<Rightarrow> u64 \<Rightarrow> u64 \<Rightarrow> u64 \<Rightarrow> RemoteKey \<Rightarrow> ptr \<Rightarrow>
     ('u world, Status + FetchAmoRequest) prog" where
  "Ep_amo_fcswap64 E e wk expected new_value remote_addr rkey reply w =
     (let param = RequestParam_fetch_params reply;
          (r, w1) = nbx E (XferC (ucp_atomic_op_nbx (ep_handle e) UCP_ATOMIC_OP_CSWAP
            (Holding (to_le 8 expected @ to_le 8 new_value)) 16 remote_addr
            (rk_handle rkey) (rparam_handle param))) w
      in (map_ok (\<lambda>request. fetch_amo_result request wk) r, w1))"

definition Ep_amo_fadd32 ::
  "'u env \<Rightarrow> Ep \<Rightarrow> Worker \<Rightarrow> u32 \<Rightarrow> u64 \<Rightarrow> RemoteKey \<Rightarrow> ptr \<Rightarrow>
     ('u world, Status + FetchAmoRequest) prog" where
  "Ep_amo_fadd32 E e wk operand remote_addr rkey reply w =
     (let param = RequestParam_fetch_params reply;
          (r, w1) = nbx E (XferC (ucp_atomic_op_nbx (ep_handle e) UCP_ATOMIC_OP_ADD
            (Holding (to_le 4 operand)) 4 remote_addr (rk_handle rkey) (rparam_handle param))) w
      in (map_ok (\<lambda>request. fetch_amo_result request wk) r, w1))"

definition Ep_amo_fxor32 ::
  "'u env \<Rightarrow> Ep \<Rightarrow> Worker \<Rightarrow> u32 \<Rightarrow> u64 \<Rightarrow> RemoteKey \<Rightarrow> ptr \<Rightarrow>
     ('u world, Status + FetchAmoRequest) prog" where
  "Ep_amo_fxor32 E e wk operand remote_addr rkey reply w =
     (let param = RequestParam_fetch_params reply;
          (r, w1) = nbx E (XferC (ucp_atomic_op_nbx (ep_handle e) UCP_ATOMIC_OP_XOR
            (Holding (to_le 4 operand)) 4 remote_addr (rk_handle rkey) (rparam_handle param))) w
      in (map_ok (\<lambda>request. fetch_amo_result request wk) r, w1))"

definition Ep_amo_fswap32 ::
  "'u env \<Rightarrow> Ep \<Rightarrow> Worker \<Rightarrow> u32 \<Rightarrow> u64 \<Rightarrow> RemoteKey \<Rightarrow> ptr \<Rightarrow>
     ('u world, Status + FetchAmoRequest) prog" where
  "Ep_amo_fswap32 E e wk operand remote_addr rkey reply w =
     (let param = RequestParam_fetch_params reply;
          (r, w1) = nbx E (XferC (ucp_atomic_op_nbx (ep_handle e) UCP_ATOMIC_OP_SWAP
            (Holding (to_le 4 operand)) 4 remote_addr (rk_handle rkey) (rparam_handle param))) w
      in (map_ok (\<lambda>request. fetch_amo_result request wk) r, w1))"

definition Ep_amo_fcswap32 ::
  "'u env \<Rightarrow> Ep \<Rightarrow> Worker \<Rightarrow> u32 \<Rightarrow> u32 \<Rightarrow> u64 \<Rightarrow> RemoteKey \<Rightarrow> ptr \<Rightarrow>
     ('u world, Status + FetchAmoRequest) prog" where
  "Ep_amo_fcswap32 E e wk expected new_value remote_addr rkey reply w =
     (let param = RequestParam_fetch_params reply;
          (r, w1) = nbx E (XferC (ucp_atomic_op_nbx (ep_handle e) UCP_ATOMIC_OP_CSWAP
            (Holding (to_le 4 expected @ to_le 4 new_value)) 8 remote_addr
            (rk_handle rkey) (rparam_handle param))) w
      in (map_ok (\<lambda>request. fetch_amo_result request wk) r, w1))"

subsection \<open>The deprecated functions\<close>

definition put_nbx ::
  "'u env \<Rightarrow> Ep \<Rightarrow> ptr \<Rightarrow> usize \<Rightarrow> u64 \<Rightarrow> RemoteKey \<Rightarrow> RequestParam \<Rightarrow>
     ('u world, Status + Request option) prog" where
  "put_nbx E e buffer count remote_addr rkey param =
     nbx E (XferC (ucp_put_nbx (ep_handle e) buffer count remote_addr (rk_handle rkey)
       (rparam_handle param)))"

definition get_nbx ::
  "'u env \<Rightarrow> Ep \<Rightarrow> ptr \<Rightarrow> usize \<Rightarrow> u64 \<Rightarrow> RemoteKey \<Rightarrow> RequestParam \<Rightarrow>
     ('u world, Status + Request option) prog" where
  "get_nbx E e buffer count remote_addr rkey param =
     nbx E (XferC (ucp_get_nbx (ep_handle e) buffer count remote_addr (rk_handle rkey)
       (rparam_handle param)))"

definition atomic_op_nbx ::
  "'u env \<Rightarrow> Ep \<Rightarrow> AtomicOp \<Rightarrow> buffer \<Rightarrow> usize \<Rightarrow> u64 \<Rightarrow> RemoteKey \<Rightarrow> RequestParam \<Rightarrow>
     ('u world, Status + Request option) prog" where
  "atomic_op_nbx E e opcode buffer count remote_addr rkey param =
     nbx E (XferC (ucp_atomic_op_nbx (ep_handle e) (AtomicOp_to_ffi opcode) buffer count remote_addr
       (rk_handle rkey) (rparam_handle param)))"

definition atomic_fetch_nbx ::
  "'u env \<Rightarrow> Ep \<Rightarrow> AtomicOp \<Rightarrow> buffer \<Rightarrow> ptr \<Rightarrow> usize \<Rightarrow> u64 \<Rightarrow> RemoteKey \<Rightarrow> RequestParam \<Rightarrow>
     ('u world, Status + Request option) prog" where
  "atomic_fetch_nbx E e opcode operand reply_buffer count remote_addr rkey param =
     nbx E (XferC (ucp_atomic_op_nbx (ep_handle e) (AtomicOp_to_ffi opcode) operand count remote_addr
       (rk_handle rkey) (rparam_handle param)))"

definition ep_rkey_unpack :: "'u env \<Rightarrow> Ep \<Rightarrow> ptr \<Rightarrow> 'u world \<Rightarrow> (Status + RemoteKey) \<times> 'u world" where
  "ep_rkey_unpack E e rkey_buffer =
     value_call E (EpC (ucp_ep_rkey_unpack (ep_handle e) (At rkey_buffer)))
       (\<lambda>ret. \<lparr>rk_handle = out_ptr ret, rk_worker_alive = ep_worker_alive e\<rparr>)"

definition rkey_ptr :: "'u env \<Rightarrow> RemoteKey \<Rightarrow> u64 \<Rightarrow> 'u world \<Rightarrow> (Status + ptr) \<times> 'u world" where
  "rkey_ptr E rkey raddr w =
     (if rk_handle rkey = 0 then (Inl (Status UCS_ERR_INVALID_PARAM), w)
      else value_call E (MemC (ucp_rkey_ptr (rk_handle rkey) raddr)) out_ptr w)"

definition rkey_destroy :: "'u env \<Rightarrow> RemoteKey \<Rightarrow> 'u world \<Rightarrow> 'u world" where
  "rkey_destroy E rkey = ffi_unit E (MemC (ucp_rkey_destroy (rk_handle rkey)))"

subsection \<open>The deprecated typed wrappers\<close>

definition atomic_fadd32 ::
  "'u env \<Rightarrow> Ep \<Rightarrow> u32 \<Rightarrow> ptr \<Rightarrow> u64 \<Rightarrow> RemoteKey \<Rightarrow> RequestParam \<Rightarrow>
     ('u world, Status + Request option) prog" where
  "atomic_fadd32 E e operand reply_buffer remote_addr rkey param =
     atomic_op_nbx E e AO_Add (Holding (to_le 4 operand)) 1 remote_addr rkey
       (param\<lparr>rparam_handle := (rparam_handle param)\<lparr>rp_datatype := dt_make_contig 4\<rparr>\<rparr>)"

definition atomic_fadd64 ::
  "'u env \<Rightarrow> Ep \<Rightarrow> u64 \<Rightarrow> ptr \<Rightarrow> u64 \<Rightarrow> RemoteKey \<Rightarrow> RequestParam \<Rightarrow>
     ('u world, Status + Request option) prog" where
  "atomic_fadd64 E e operand reply_buffer remote_addr rkey param =
     atomic_op_nbx E e AO_Add (Holding (to_le 8 operand)) 1 remote_addr rkey
       (param\<lparr>rparam_handle := (rparam_handle param)\<lparr>rp_datatype := dt_make_contig 8\<rparr>\<rparr>)"

definition atomic_fswap32 ::
  "'u env \<Rightarrow> Ep \<Rightarrow> u32 \<Rightarrow> ptr \<Rightarrow> u64 \<Rightarrow> RemoteKey \<Rightarrow> RequestParam \<Rightarrow>
     ('u world, Status + Request option) prog" where
  "atomic_fswap32 E e operand reply_buffer remote_addr rkey param =
     atomic_op_nbx E e AO_Swap (Holding (to_le 4 operand)) 1 remote_addr rkey
       (param\<lparr>rparam_handle := (rparam_handle param)\<lparr>rp_datatype := dt_make_contig 4\<rparr>\<rparr>)"

definition atomic_fswap64 ::
  "'u env \<Rightarrow> Ep \<Rightarrow> u64 \<Rightarrow> ptr \<Rightarrow> u64 \<Rightarrow> RemoteKey \<Rightarrow> RequestParam \<Rightarrow>
     ('u world, Status + Request option) prog" where
  "atomic_fswap64 E e operand reply_buffer remote_addr rkey param =
     atomic_op_nbx E e AO_Swap (Holding (to_le 8 operand)) 1 remote_addr rkey
       (param\<lparr>rparam_handle := (rparam_handle param)\<lparr>rp_datatype := dt_make_contig 8\<rparr>\<rparr>)"

definition atomic_fcswap32 ::
  "'u env \<Rightarrow> Ep \<Rightarrow> u32 \<Rightarrow> u32 \<Rightarrow> ptr \<Rightarrow> u64 \<Rightarrow> RemoteKey \<Rightarrow> RequestParam \<Rightarrow>
     ('u world, Status + Request option) prog" where
  "atomic_fcswap32 E e expected new_value reply_buffer remote_addr rkey param =
     atomic_op_nbx E e AO_CSwap (Holding (to_le 4 expected @ to_le 4 new_value)) 1 remote_addr rkey
       (param\<lparr>rparam_handle := (rparam_handle param)\<lparr>rp_datatype := dt_make_contig 4\<rparr>\<rparr>)"

definition atomic_fcswap64 ::
  "'u env \<Rightarrow> Ep \<Rightarrow> u64 \<Rightarrow> u64 \<Rightarrow> ptr \<Rightarrow> u64 \<Rightarrow> RemoteKey \<Rightarrow> RequestParam \<Rightarrow>
     ('u world, Status + Request option) prog" where
  "atomic_fcswap64 E e expected new_value reply_buffer remote_addr rkey param =
     atomic_op_nbx E e AO_CSwap (Holding (to_le 8 expected @ to_le 8 new_value)) 1 remote_addr rkey
       (param\<lparr>rparam_handle := (rparam_handle param)\<lparr>rp_datatype := dt_make_contig 8\<rparr>\<rparr>)"

definition atomic_add32 ::
  "'u env \<Rightarrow> Ep \<Rightarrow> u32 \<Rightarrow> u64 \<Rightarrow> RemoteKey \<Rightarrow> RequestParam \<Rightarrow>
     ('u world, Status + Request option) prog" where
  "atomic_add32 E e operand remote_addr rkey param =
     atomic_op_nbx E e AO_Add (Holding (to_le 4 operand)) 1 remote_addr rkey
       (param\<lparr>rparam_handle := (rparam_handle param)\<lparr>rp_datatype := dt_make_contig 4\<rparr>\<rparr>)"

definition atomic_add64 ::
  "'u env \<Rightarrow> Ep \<Rightarrow> u64 \<Rightarrow> u64 \<Rightarrow> RemoteKey \<Rightarrow> RequestParam \<Rightarrow>
     ('u world, Status + Request option) prog" where
  "atomic_add64 E e operand remote_addr rkey param =
     atomic_op_nbx E e AO_Add (Holding (to_le 8 operand)) 1 remote_addr rkey
       (param\<lparr>rparam_handle := (rparam_handle param)\<lparr>rp_datatype := dt_make_contig 8\<rparr>\<rparr>)"

definition atomic_swap32 ::
  "'u env \<Rightarrow> Ep \<Rightarrow> u32 \<Rightarrow> u64 \<Rightarrow> RemoteKey \<Rightarrow> RequestParam \<Rightarrow>
     ('u world, Status + Request option) prog" where
  "atomic_swap32 E e operand remote_addr rkey param =
     atomic_op_nbx E e AO_Swap (Holding (to_le 4 operand)) 1 remote_addr rkey
       (param\<lparr>rparam_handle := (rparam_handle param)\<lparr>rp_datatype := dt_make_contig 4\<rparr>\<rparr>)"

definition atomic_swap64 ::
  "'u env \<Rightarrow> Ep \<Rightarrow> u64 \<Rightarrow> u64 \<Rightarrow> RemoteKey \<Rightarrow> RequestParam \<Rightarrow>
     ('u world, Status + Request option) prog" where
  "atomic_swap64 E e operand remote_addr rkey param =
     atomic_op_nbx E e AO_Swap (Holding (to_le 8 operand)) 1 remote_addr rkey
       (param\<lparr>rparam_handle := (rparam_handle param)\<lparr>rp_datatype := dt_make_contig 8\<rparr>\<rparr>)"

definition atomic_fxor32 ::
  "'u env \<Rightarrow> Ep \<Rightarrow> u32 \<Rightarrow> ptr \<Rightarrow> u64 \<Rightarrow> RemoteKey \<Rightarrow> RequestParam \<Rightarrow>
     ('u world, Status + Request option) prog" where
  "atomic_fxor32 E e operand reply_buffer remote_addr rkey param =
     atomic_op_nbx E e AO_Xor (Holding (to_le 4 operand)) 1 remote_addr rkey
       (param\<lparr>rparam_handle := (rparam_handle param)\<lparr>rp_datatype := dt_make_contig 4\<rparr>\<rparr>)"

definition atomic_fxor64 ::
  "'u env \<Rightarrow> Ep \<Rightarrow> u64 \<Rightarrow> ptr \<Rightarrow> u64 \<Rightarrow> RemoteKey \<Rightarrow> RequestParam \<Rightarrow>
     ('u world, Status + Request option) prog" where
  "atomic_fxor64 E e operand reply_buffer remote_addr rkey param =
     atomic_op_nbx E e AO_Xor (Holding (to_le 8 operand)) 1 remote_addr rkey
       (param\<lparr>rparam_handle := (rparam_handle param)\<lparr>rp_datatype := dt_make_contig 8\<rparr>\<rparr>)"

definition atomic_xor32 ::
  "'u env \<Rightarrow> Ep \<Rightarrow> u32 \<Rightarrow> u64 \<Rightarrow> RemoteKey \<Rightarrow> RequestParam \<Rightarrow>
     ('u world, Status + Request option) prog" where
  "atomic_xor32 E e operand remote_addr rkey param =
     atomic_op_nbx E e AO_Xor (Holding (to_le 4 operand)) 1 remote_addr rkey
       (param\<lparr>rparam_handle := (rparam_handle param)\<lparr>rp_datatype := dt_make_contig 4\<rparr>\<rparr>)"

definition atomic_xor64 ::
  "'u env \<Rightarrow> Ep \<Rightarrow> u64 \<Rightarrow> u64 \<Rightarrow> RemoteKey \<Rightarrow> RequestParam \<Rightarrow>
     ('u world, Status + Request option) prog" where
  "atomic_xor64 E e operand remote_addr rkey param =
     atomic_op_nbx E e AO_Xor (Holding (to_le 8 operand)) 1 remote_addr rkey
       (param\<lparr>rparam_handle := (rparam_handle param)\<lparr>rp_datatype := dt_make_contig 8\<rparr>\<rparr>)"

subsection \<open>Facts\<close>

lemmas amo_defs =
  Ep_amo_add64_def Ep_amo_xor64_def Ep_amo_swap64_def Ep_amo_and64_def
  Ep_amo_or64_def Ep_amo_cswap64_def Ep_amo_add32_def Ep_amo_xor32_def
  Ep_amo_swap32_def Ep_amo_and32_def Ep_amo_or32_def Ep_amo_cswap32_def

lemmas amo_fetch_defs =
  Ep_amo_fadd64_def Ep_amo_fxor64_def Ep_amo_fswap64_def Ep_amo_fcswap64_def
  Ep_amo_fadd32_def Ep_amo_fxor32_def Ep_amo_fswap32_def Ep_amo_fcswap32_def

lemmas atomic_wrapper_defs =
  atomic_fadd32_def atomic_fadd64_def atomic_fswap32_def atomic_fswap64_def
  atomic_fcswap32_def atomic_fcswap64_def atomic_add32_def atomic_add64_def
  atomic_swap32_def atomic_swap64_def atomic_fxor32_def atomic_fxor64_def
  atomic_xor32_def atomic_xor64_def

lemma nbx_trace [simp]: "trace (snd (nbx E c w)) = trace w @ [c]"
  by (simp add: nbx_def split_beta Let_def)

text \<open>What a call of an atomic operation names.\<close>

fun amo_of :: "ffi_call \<Rightarrow> (ucp_atomic_op_t \<times> bytes \<times> usize) option" where
  "amo_of (XferC (ucp_atomic_op_nbx e op_code (Holding b) n a k p)) = Some (op_code, b, n)"
| "amo_of _ = None"

fun amo_param :: "ffi_call \<Rightarrow> ucp_request_param_t option" where
  "amo_param (XferC (ucp_atomic_op_nbx e op_code b n a k p)) = Some p"
| "amo_param _ = None"

text \<open>
  What an atomic operation sends: one call, on the endpoint, remote address and key it was given,
  with the opcode, the count, and operand bytes that decode, little-endian, to the operand; a
  compare-and-swap sends the expected value and then the replacement.
\<close>

definition amo_sends ::
  "Ep \<Rightarrow> u64 \<Rightarrow> RemoteKey \<Rightarrow> ucp_request_param_t \<Rightarrow> 'u world \<Rightarrow> ucp_atomic_op_t \<Rightarrow> usize \<Rightarrow>
     'n::len word \<Rightarrow> 'r \<times> 'u world \<Rightarrow> bool" where
  "amo_sends e a k q w op n x r \<longleftrightarrow> (\<exists>b. from_le b = x \<and> length b = LENGTH('n) div 8 \<and>
     trace (snd r) = trace w @ [XferC (ucp_atomic_op_nbx (ep_handle e) op (Holding b) n a (rk_handle k) q)])"

definition amo_sends2 ::
  "Ep \<Rightarrow> u64 \<Rightarrow> RemoteKey \<Rightarrow> ucp_request_param_t \<Rightarrow> 'u world \<Rightarrow> ucp_atomic_op_t \<Rightarrow> usize \<Rightarrow>
     'n::len word \<Rightarrow> 'n word \<Rightarrow> 'r \<times> 'u world \<Rightarrow> bool" where
  "amo_sends2 e a k q w op n x y r \<longleftrightarrow> (\<exists>b c. from_le b = x \<and> from_le c = y \<and>
     length b = LENGTH('n) div 8 \<and> length c = LENGTH('n) div 8 \<and>
     trace (snd r) = trace w @ [XferC (ucp_atomic_op_nbx (ep_handle e) op (Holding (b @ c)) n a (rk_handle k) q)])"

lemma nbx_sends:
  "trace (snd r) = trace w @ [XferC (ucp_atomic_op_nbx (ep_handle e) op (Holding (to_le 8 x)) n a (rk_handle k) q)] \<Longrightarrow>
     amo_sends e a k q w op n (x :: u64) r"
  "trace (snd r) = trace w @ [XferC (ucp_atomic_op_nbx (ep_handle e) op (Holding (to_le 4 y)) n a (rk_handle k) q)] \<Longrightarrow>
     amo_sends e a k q w op n (y :: u32) r"
  "trace (snd r) = trace w @ [XferC (ucp_atomic_op_nbx (ep_handle e) op (Holding (to_le 8 x @ to_le 8 x')) n a (rk_handle k) q)] \<Longrightarrow>
     amo_sends2 e a k q w op n (x :: u64) x' r"
  "trace (snd r) = trace w @ [XferC (ucp_atomic_op_nbx (ep_handle e) op (Holding (to_le 4 y @ to_le 4 y')) n a (rk_handle k) q)] \<Longrightarrow>
     amo_sends2 e a k q w op n (y :: u32) y' r"
  unfolding amo_sends_def amo_sends2_def
  by (rule exI [of _ "to_le 8 x"], simp) (rule exI [of _ "to_le 4 y"], simp,
      rule exI [of _ "to_le 8 x"], rule exI [of _ "to_le 8 x'"], simp,
      rule exI [of _ "to_le 4 y"], rule exI [of _ "to_le 4 y'"], simp)

lemma fetch_trace:
  "trace (snd (case nbx E c w of (r, w1) \<Rightarrow> (f r, w1))) = trace w @ [c]"
  by (simp add: nbx_def split_beta Let_def)

subsection \<open>Properties\<close>

text \<open>C40: Every atomic operation of the crate makes one call to UCX, on its endpoint, address and key,
  with its own opcode and its operands, little-endian: the bytes decode to the operand, or to the
  expected value and then the replacement.  The methods of \<^verbatim>\<open>Ep\<close>, plain and fetching, give the
  number of those bytes as the count, and the fetching ones the parameters with the reply buffer;
  the deprecated typed wrappers give one element of a contiguous datatype; the deprecated generic
  functions pass the opcode, buffer and count they were given, and the fetching one drops its
  reply buffer.\<close>

theorem amo_operands_decode:
  "amo_sends e a k (rparam_handle p) w UCP_ATOMIC_OP_ADD 8 x (Ep_amo_add64 E e x a k p w) \<and>
   amo_sends e a k (rparam_handle p) w UCP_ATOMIC_OP_XOR 8 x (Ep_amo_xor64 E e x a k p w) \<and>
   amo_sends e a k (rparam_handle p) w UCP_ATOMIC_OP_SWAP 8 x (Ep_amo_swap64 E e x a k p w) \<and>
   amo_sends e a k (rparam_handle p) w UCP_ATOMIC_OP_AND 8 x (Ep_amo_and64 E e x a k p w) \<and>
   amo_sends e a k (rparam_handle p) w UCP_ATOMIC_OP_OR 8 x (Ep_amo_or64 E e x a k p w) \<and>
   amo_sends2 e a k (rparam_handle p) w UCP_ATOMIC_OP_CSWAP 16 x x' (Ep_amo_cswap64 E e x x' a k p w) \<and>
   amo_sends e a k (rparam_handle p) w UCP_ATOMIC_OP_ADD 4 y (Ep_amo_add32 E e y a k p w) \<and>
   amo_sends e a k (rparam_handle p) w UCP_ATOMIC_OP_XOR 4 y (Ep_amo_xor32 E e y a k p w) \<and>
   amo_sends e a k (rparam_handle p) w UCP_ATOMIC_OP_SWAP 4 y (Ep_amo_swap32 E e y a k p w) \<and>
   amo_sends e a k (rparam_handle p) w UCP_ATOMIC_OP_AND 4 y (Ep_amo_and32 E e y a k p w) \<and>
   amo_sends e a k (rparam_handle p) w UCP_ATOMIC_OP_OR 4 y (Ep_amo_or32 E e y a k p w) \<and>
   amo_sends2 e a k (rparam_handle p) w UCP_ATOMIC_OP_CSWAP 8 y y' (Ep_amo_cswap32 E e y y' a k p w) \<and>
   amo_sends e a k (rparam_handle (RequestParam_fetch_params reply)) w UCP_ATOMIC_OP_ADD 8 x (Ep_amo_fadd64 E e wk x a k reply w) \<and>
   amo_sends e a k (rparam_handle (RequestParam_fetch_params reply)) w UCP_ATOMIC_OP_XOR 8 x (Ep_amo_fxor64 E e wk x a k reply w) \<and>
   amo_sends e a k (rparam_handle (RequestParam_fetch_params reply)) w UCP_ATOMIC_OP_SWAP 8 x (Ep_amo_fswap64 E e wk x a k reply w) \<and>
   amo_sends2 e a k (rparam_handle (RequestParam_fetch_params reply)) w UCP_ATOMIC_OP_CSWAP 16 x x' (Ep_amo_fcswap64 E e wk x x' a k reply w) \<and>
   amo_sends e a k (rparam_handle (RequestParam_fetch_params reply)) w UCP_ATOMIC_OP_ADD 4 y (Ep_amo_fadd32 E e wk y a k reply w) \<and>
   amo_sends e a k (rparam_handle (RequestParam_fetch_params reply)) w UCP_ATOMIC_OP_XOR 4 y (Ep_amo_fxor32 E e wk y a k reply w) \<and>
   amo_sends e a k (rparam_handle (RequestParam_fetch_params reply)) w UCP_ATOMIC_OP_SWAP 4 y (Ep_amo_fswap32 E e wk y a k reply w) \<and>
   amo_sends2 e a k (rparam_handle (RequestParam_fetch_params reply)) w UCP_ATOMIC_OP_CSWAP 8 y y' (Ep_amo_fcswap32 E e wk y y' a k reply w) \<and>
   amo_sends e a k ((rparam_handle p)\<lparr>rp_datatype := dt_make_contig 8\<rparr>) w UCP_ATOMIC_OP_ADD 1 x (atomic_add64 E e x a k p w) \<and>
   amo_sends e a k ((rparam_handle p)\<lparr>rp_datatype := dt_make_contig 8\<rparr>) w UCP_ATOMIC_OP_ADD 1 x (atomic_fadd64 E e x reply a k p w) \<and>
   amo_sends e a k ((rparam_handle p)\<lparr>rp_datatype := dt_make_contig 8\<rparr>) w UCP_ATOMIC_OP_XOR 1 x (atomic_xor64 E e x a k p w) \<and>
   amo_sends e a k ((rparam_handle p)\<lparr>rp_datatype := dt_make_contig 8\<rparr>) w UCP_ATOMIC_OP_XOR 1 x (atomic_fxor64 E e x reply a k p w) \<and>
   amo_sends e a k ((rparam_handle p)\<lparr>rp_datatype := dt_make_contig 8\<rparr>) w UCP_ATOMIC_OP_SWAP 1 x (atomic_swap64 E e x a k p w) \<and>
   amo_sends e a k ((rparam_handle p)\<lparr>rp_datatype := dt_make_contig 8\<rparr>) w UCP_ATOMIC_OP_SWAP 1 x (atomic_fswap64 E e x reply a k p w) \<and>
   amo_sends2 e a k ((rparam_handle p)\<lparr>rp_datatype := dt_make_contig 8\<rparr>) w UCP_ATOMIC_OP_CSWAP 1 x x' (atomic_fcswap64 E e x x' reply a k p w) \<and>
   amo_sends e a k ((rparam_handle p)\<lparr>rp_datatype := dt_make_contig 4\<rparr>) w UCP_ATOMIC_OP_ADD 1 y (atomic_add32 E e y a k p w) \<and>
   amo_sends e a k ((rparam_handle p)\<lparr>rp_datatype := dt_make_contig 4\<rparr>) w UCP_ATOMIC_OP_ADD 1 y (atomic_fadd32 E e y reply a k p w) \<and>
   amo_sends e a k ((rparam_handle p)\<lparr>rp_datatype := dt_make_contig 4\<rparr>) w UCP_ATOMIC_OP_XOR 1 y (atomic_xor32 E e y a k p w) \<and>
   amo_sends e a k ((rparam_handle p)\<lparr>rp_datatype := dt_make_contig 4\<rparr>) w UCP_ATOMIC_OP_XOR 1 y (atomic_fxor32 E e y reply a k p w) \<and>
   amo_sends e a k ((rparam_handle p)\<lparr>rp_datatype := dt_make_contig 4\<rparr>) w UCP_ATOMIC_OP_SWAP 1 y (atomic_swap32 E e y a k p w) \<and>
   amo_sends e a k ((rparam_handle p)\<lparr>rp_datatype := dt_make_contig 4\<rparr>) w UCP_ATOMIC_OP_SWAP 1 y (atomic_fswap32 E e y reply a k p w) \<and>
   amo_sends2 e a k ((rparam_handle p)\<lparr>rp_datatype := dt_make_contig 4\<rparr>) w UCP_ATOMIC_OP_CSWAP 1 y y' (atomic_fcswap32 E e y y' reply a k p w) \<and>
   trace (snd (atomic_op_nbx E e opcode buf n a k p w)) = trace w @
     [XferC (ucp_atomic_op_nbx (ep_handle e) (AtomicOp_to_ffi opcode) buf n a (rk_handle k) (rparam_handle p))] \<and>
   atomic_fetch_nbx E e opcode buf reply n a k p w = atomic_op_nbx E e opcode buf n a k p w"
  by (intro conjI nbx_sends; simp add: amo_defs amo_fetch_defs Let_def fetch_trace
      atomic_wrapper_defs atomic_op_nbx_def atomic_fetch_nbx_def)

text \<open>A fetching operation is the plain one with a reply buffer: the same call, whose parameters
  advertise exactly the reply buffer, and the same result, its request put under the guard
  that keeps the buffer until completion.\<close>

theorem amo_fetch_is_amo_with_reply:
  "(let p = RequestParam_fetch_params reply;
        guard = (\<lambda>(r, w1). (map_ok (\<lambda>request. fetch_amo_result request wk) r, w1 :: 'u world))
    in rp_op_attr_mask (rparam_handle p) = OP_ATTR_FIELD_REPLY_BUFFER \<and>
       rp_reply_buffer (rparam_handle p) = reply \<and>
       Ep_amo_fadd64 E e wk x a k reply w = guard (Ep_amo_add64 E e x a k p w) \<and>
       Ep_amo_fxor64 E e wk x a k reply w = guard (Ep_amo_xor64 E e x a k p w) \<and>
       Ep_amo_fswap64 E e wk x a k reply w = guard (Ep_amo_swap64 E e x a k p w) \<and>
       Ep_amo_fcswap64 E e wk x x' a k reply w = guard (Ep_amo_cswap64 E e x x' a k p w) \<and>
       Ep_amo_fadd32 E e wk y a k reply w = guard (Ep_amo_add32 E e y a k p w) \<and>
       Ep_amo_fxor32 E e wk y a k reply w = guard (Ep_amo_xor32 E e y a k p w) \<and>
       Ep_amo_fswap32 E e wk y a k reply w = guard (Ep_amo_swap32 E e y a k p w) \<and>
       Ep_amo_fcswap32 E e wk y y' a k reply w = guard (Ep_amo_cswap32 E e y y' a k p w))"
  unfolding Let_def amo_defs amo_fetch_defs
  by (simp add: RequestParam_fetch_params_def rpb_build_def rpb_reply_buffer_def
      RequestParamBuilder_new_def)

text \<open>The deprecated typed wrappers send the datatype they set without advertising it, the
  caller's mask is unchanged, and the fetching ones ignore their reply buffer: they are the
  plain operations.\<close>

theorem deprecated_wrappers_unadvertised:
  "(let q = param\<lparr>rparam_handle := (rparam_handle param)\<lparr>rp_datatype := dt_make_contig 4\<rparr>\<rparr>
    in rp_op_attr_mask (rparam_handle q) = rp_op_attr_mask (rparam_handle param) \<and>
       amo_param (last (trace (snd (atomic_add32 E e y a k param w)))) = Some (rparam_handle q) \<and>
       amo_of (last (trace (snd (atomic_add32 E e y a k param w)))) = Some (UCP_ATOMIC_OP_ADD, to_le 4 y, 1) \<and>
       atomic_fadd32 E e y reply a k param w = atomic_add32 E e y a k param w \<and>
       atomic_fadd64 E e x reply a k param w = atomic_add64 E e x a k param w \<and>
       atomic_fswap32 E e y reply a k param w = atomic_swap32 E e y a k param w \<and>
       atomic_fswap64 E e x reply a k param w = atomic_swap64 E e x a k param w \<and>
       atomic_fxor32 E e y reply a k param w = atomic_xor32 E e y a k param w \<and>
       atomic_fxor64 E e x reply a k param w = atomic_xor64 E e x a k param w)"
  by (simp add: atomic_wrapper_defs atomic_op_nbx_def)

text \<open>The deprecated \<^verbatim>\<open>rkey_ptr\<close> refuses a null key without calling UCX; on any other key the safe
  \<^verbatim>\<open>RemoteKey::rkey_ptr\<close> is the same call with the same errors, and differs only in refusing a
  null address.\<close>

theorem rkey_ptr_null_checked:
  "if rk_handle k = 0 then rkey_ptr E k a w = (Inl Status_INVALID_PARAM, w)
   else RemoteKey_rkey_ptr E k a n w = (case rkey_ptr E k a w of
       (Inr p, w1) \<Rightarrow> (if p = 0 then Inl Status_INVALID_ADDR else Inr (p, n), w1)
     | (Inl s, w1) \<Rightarrow> (Inl s, w1))"
  by (auto simp: rkey_ptr_def RemoteKey_rkey_ptr_def value_call_def status_to_result_def
      split: prod.splits)


end
