(* ===== verification/Examples.thy ===== *)
theory Examples
  imports Program Atomics Dt_Version
begin

text \<open>
  The five programs of \<^verbatim>\<open>examples/\<close>, statement by statement: each connects an endpoint to its own
  worker and runs one kind of communication through it.  What they print on standard output is
  left out; the addresses of their arrays and vectors are parameters.
\<close>

subsection \<open>Waiting\<close>

text \<open>
  The examples' own loops over a plain request: the message of a failed check and that of the
  time-out differ between them.  The request is a parameter of the function, dropped at its end
  and by a panic.
\<close>

fun wait_rounds ::
  "'u env \<Rightarrow> Worker \<Rightarrow> string \<Rightarrow> string \<Rightarrow> Request \<Rightarrow> nat \<Rightarrow> ('u world, unit) prog" where
  "wait_rounds E wk failed timed_out request 0 w = (Panic timed_out, Request_drop E request w)"
| "wait_rounds E wk failed timed_out request (Suc n) w = (case Request_check_finished E request w of
      (Inl e, w1) \<Rightarrow> (Panic (expect_failed failed (debug_Status e)), Request_drop E request w1)
    | (Inr True, w1) \<Rightarrow> (Ret (), Request_drop E request w1)
    | (Inr False, w1) \<Rightarrow> bnd (unwind (Request_drop E request) (Worker_progress E wk))
        (\<lambda>_. wait_rounds E wk failed timed_out request n) w1)"

definition am_wait :: "'u env \<Rightarrow> Worker \<Rightarrow> Request \<Rightarrow> ('u world, unit) prog" where
  "am_wait E wk request = wait_rounds E wk ''AM request failed'' ''AM request timed out'' request 1000000"

definition rma_wait :: "'u env \<Rightarrow> Worker \<Rightarrow> Request \<Rightarrow> ('u world, unit) prog" where
  "rma_wait E wk request = wait_rounds E wk ''RMA request failed'' ''RMA request timed out'' request 1000000"

definition flush_wait :: "'u env \<Rightarrow> Worker \<Rightarrow> Request \<Rightarrow> ('u world, unit) prog" where
  "flush_wait E wk request = wait_rounds E wk ''flush failed'' ''flush timed out'' request 1000000"

text \<open>The guard of a tagged transfer completes its request when it is dropped, or aborts.\<close>

definition panic_dropping :: "'u env \<Rightarrow> string \<Rightarrow> TagRequest \<Rightarrow> ('u world, unit) prog" where
  "panic_dropping E s t w = (case TagRequest_drop E t w of
      (Ret _, w1) \<Rightarrow> (Panic s, w1)
    | (_, w1) \<Rightarrow> (Abort, w1))"

fun tag_wait_rounds :: "'u env \<Rightarrow> Worker \<Rightarrow> TagRequest \<Rightarrow> nat \<Rightarrow> ('u world, unit) prog" where
  "tag_wait_rounds E wk request 0 w = panic_dropping E ''tag request timed out'' request w"
| "tag_wait_rounds E wk request (Suc n) w = (case TagRequest_check_finished E request w of
      ((Inl e, t), w1) \<Rightarrow> panic_dropping E (expect_failed ''tag request failed'' (debug_Status e)) t w1
    | ((Inr True, t), w1) \<Rightarrow> TagRequest_drop E t w1
    | ((Inr False, t), w1) \<Rightarrow> (case Worker_progress E wk w1 of
          (Ret _, w2) \<Rightarrow> tag_wait_rounds E wk t n w2
        | (Panic s, w2) \<Rightarrow> panic_dropping E s t w2
        | (Abort, w2) \<Rightarrow> (Abort, w2)))"

definition tag_wait :: "'u env \<Rightarrow> Worker \<Rightarrow> TagRequest \<Rightarrow> ('u world, unit) prog" where
  "tag_wait E wk request = tag_wait_rounds E wk request 1000000"

subsection \<open>An endpoint to the worker itself\<close>

text \<open>
  The opening statements that four of the programs share: a context from the environment's
  configuration (a temporary, dropped at the end of its statement), a worker, its packed address
  copied to a vector at \<open>remote\<close>, and an endpoint to that address.
\<close>

definition connect_self ::
  "'u env \<Rightarrow> ContextParams \<Rightarrow> string \<Rightarrow> ptr \<Rightarrow> ('u, Worker \<times> Context \<times> Ep) stmt" where
  "connect_self E params address_msg remote =
     seq (let_new V_config (Config_read E [] []) ''config'' debug_ConfigError) (\<lambda>config.
     seq (let_new V_context (Context_new E config params) ''context'' debug_Status) (\<lambda>context.
     seq (drop_local E (V_config config)) (\<lambda>_.
     seq (let_new V_worker (Context_worker_create E context (fst (wpb_build WorkerParamsBuilder_new)))
       ''worker'' debug_Status) (\<lambda>worker.
     seq (let_new V_address (Worker_pack_address E worker) address_msg debug_Status) (\<lambda>address.
     seq (peek (WorkerAddress_to_vec address)) (\<lambda>packed.
     seq (call (store remote packed)) (\<lambda>_.
     seq (let_new V_ep (Worker_create_ep E worker (fst (epb_build (epb_set_address
         \<lparr>rwa_data = remote, rwa_len = of_nat (length packed)\<rparr> EpParamsBuilder_new))))
       ''endpoint'' debug_Status) (\<lambda>ep.
     seq (drop_local E (V_address address)) (\<lambda>_.
     ret (worker, context, ep))))))))))"

definition self_params :: "u64 \<Rightarrow> ContextParams" where
  "self_params features = fst (cpb_build (cpb_estimated_num_eps 1 (cpb_mt_workers_shared 1
     (cpb_features features ContextParamsBuilder_new))))"

definition no_imm_cmpl_param :: "('u, RequestParam) stmt" where
  "no_imm_cmpl_param =
     seq (call (\<lambda>w. (rpb_no_imm_cmpl RequestParamBuilder_new, w))) (\<lambda>b. ret (rpb_build b))"

text \<open>\<^verbatim>\<open>ep.close(&worker, 0).expect("close endpoint")\<close>.\<close>

definition close_endpoint :: "'u env \<Rightarrow> Ep \<Rightarrow> Worker \<Rightarrow> ('u, unit) stmt" where
  "close_endpoint E ep worker =
     seq (give (V_ep ep) (Ep_close E ep worker 0)) (expect ''close endpoint'' debug_Status)"

subsection \<open>The programs\<close>

text \<open>\<^verbatim>\<open>tag_pingpong.rs\<close>: the receive is posted before the send, so its guard is dropped last.\<close>

definition tag_pingpong :: "'u env \<Rightarrow> ptr \<Rightarrow> ptr \<Rightarrow> ptr \<Rightarrow> ('u, unit) stmt" where
  "tag_pingpong E remote received hello =
     seq (connect_self E (self_params Flags_Tag) ''pack address'' remote) (\<lambda>(worker, context, ep).
     seq (call (store received [0, 0, 0, 0, 0])) (\<lambda>_.
     seq no_imm_cmpl_param (\<lambda>request_param.
     seq (call (Worker_tag_recv E worker worker (received, 5) 0x44 (- 1) request_param)) (\<lambda>receive.
     seq (expect ''post receive'' debug_Status receive) (\<lambda>receive.
     seq (own V_tag receive) (\<lambda>receive.
     seq (call (store hello (bytes_of ''hello''))) (\<lambda>_.
     seq (call (Ep_tag_send E ep worker (hello, 5) 0x44 request_param)) (\<lambda>send.
     seq (expect ''post send'' debug_Status send) (\<lambda>send.
     seq (own_opt V_tag send) (\<lambda>send.
     seq (give (V_tag receive) (tag_wait E worker receive)) (\<lambda>_.
     seq (if_some send (\<lambda>request. give (V_tag request) (tag_wait E worker request))) (\<lambda>_.
     seq (peek (\<lambda>w. mem_read (mem w) received 5)) (\<lambda>bs.
     seq (assert_eq_bytes bs (bytes_of ''hello'')) (\<lambda>_.
     close_endpoint E ep worker))))))))))))))"

text \<open>\<^verbatim>\<open>am_exchange.rs\<close>: a raw handler, called by UCX, that stores the header's byte.\<close>

definition am_receive :: "ptr \<Rightarrow> ptr \<Rightarrow> usize \<Rightarrow> memory \<Rightarrow> Status \<times> memory" where
  "am_receive arg header header_length m =
     (if arg = 0 \<or> header = 0 \<or> header_length = 0 then (Status_INVALID_PARAM, m)
      else (Status_OK, m(arg := m header)))"

definition am_exchange :: "'u env \<Rightarrow> ptr \<Rightarrow> ptr \<Rightarrow> ptr \<Rightarrow> ptr \<Rightarrow> ptr \<Rightarrow> ('u, unit) stmt" where
  "am_exchange E remote received receive header nodata =
     seq (connect_self E (self_params Flags_Am) ''pack address'' remote) (\<lambda>(worker, context, ep).
     seq (call (store received [0])) (\<lambda>_.
     let handler = fst (hpb_build (hpb_arg received (hpb_cb (User_code receive)
           (hpb_flags CbFlags_WholeMsg (hpb_id 7 HandlerParamsBuilder_new))))) in
     seq (call (returning (am_register E worker handler))) (\<lambda>r.
     seq (expect ''register AM handler'' debug_Status r) (\<lambda>_.
     seq no_imm_cmpl_param (\<lambda>request_param.
     seq (call (store header (bytes_of ''Z''))) (\<lambda>_.
     seq (call (Ep_am_send E ep 7 (header, 1) (nodata, 0) request_param)) (\<lambda>sent.
     seq (expect ''AM send'' debug_Status sent) (\<lambda>sent.
     seq (if_some sent (\<lambda>request. call (am_wait E worker request))) (\<lambda>_.
     seq (peek (\<lambda>w. mem_read (mem w) received 1)) (\<lambda>bs.
     seq (assert_eq_bytes bs (bytes_of ''Z'')) (\<lambda>_.
     close_endpoint E ep worker)))))))))))"

text \<open>\<^verbatim>\<open>rma_put_get.rs\<close>.\<close>

definition rma_put_get :: "'u env \<Rightarrow> ptr \<Rightarrow> ptr \<Rightarrow> ptr \<Rightarrow> ptr \<Rightarrow> ('u, unit) stmt" where
  "rma_put_get E remote target hello result =
     seq (connect_self E (self_params Flags_Rma) ''pack address'' remote) (\<lambda>(worker, context, ep).
     seq (call (store target [0, 0, 0, 0, 0])) (\<lambda>_.
     seq (let_new (\<lambda>memh. V_memh (MemHandleGuard_mem_handle memh)) (MemHandle_map_slice E context (target, 5) 0)
       ''map target memory'' debug_Status) (\<lambda>memh.
     seq (call (returning (RemoteKey_pack E context (MemHandleGuard_mem_handle memh)))) (\<lambda>packed.
     seq (expect ''pack rkey'' debug_Status packed) (\<lambda>packed.
     seq (let_new V_key (RemoteKey_unpack E ep packed) ''unpack rkey'' debug_Status) (\<lambda>rkey.
     seq no_imm_cmpl_param (\<lambda>param.
     seq (call (store hello (bytes_of ''hello''))) (\<lambda>_.
     seq (call (Ep_rma_put E ep (hello, 5) target rkey param)) (\<lambda>put.
     seq (expect ''RMA put'' debug_Status put) (\<lambda>put.
     seq (if_some put (\<lambda>request. call (rma_wait E worker request))) (\<lambda>_.
     seq (peek (\<lambda>w. mem_read (mem w) target 5)) (\<lambda>bs.
     seq (assert_eq_bytes bs (bytes_of ''hello'')) (\<lambda>_.
     seq (call (store result [0, 0, 0, 0, 0])) (\<lambda>_.
     seq (call (Ep_rma_get E ep (result, 5) target rkey param)) (\<lambda>got.
     seq (expect ''RMA get'' debug_Status got) (\<lambda>got.
     seq (if_some got (\<lambda>request. call (rma_wait E worker request))) (\<lambda>_.
     seq (peek (\<lambda>w. mem_read (mem w) result 5)) (\<lambda>bs.
     seq (assert_eq_bytes bs (bytes_of ''hello'')) (\<lambda>_.
     close_endpoint E ep worker)))))))))))))))))))"

text \<open>\<^verbatim>\<open>blocking_flush.rs\<close>: the request of the send waits in a local while the flush completes.\<close>

definition blocking_flush :: "'u env \<Rightarrow> ptr \<Rightarrow> ptr \<Rightarrow> ('u, unit) stmt" where
  "blocking_flush E remote nodata =
     seq (connect_self E
       (self_params (Flags_Am OR Flags_Rma OR Flags_Amo32 OR Flags_Amo64 OR Flags_Tag)) ''address'' remote)
       (\<lambda>(worker, context, ep).
     seq (call (returning (am_register_handler E worker 0 0))) (\<lambda>(r, worker1).
     seq (set_worker worker worker1) (\<lambda>_.
     seq (expect ''register active-message handler'' debug_Status r) (\<lambda>_.
     let request_param = rpb_build RequestParamBuilder_new in
     seq (call (Ep_am_send E ep 0 (nodata, 0) (nodata, 0) request_param)) (\<lambda>operation.
     seq (expect ''active-message send'' debug_Status operation) (\<lambda>operation.
     seq (own_opt V_request operation) (\<lambda>operation.
     seq (call (Ep_flush E ep request_param)) (\<lambda>flush.
     seq (expect ''start flush'' debug_Status flush) (\<lambda>flush.
     seq (own_opt V_request flush) (\<lambda>flush.
     seq (if_some flush (\<lambda>request. give (V_request request) (flush_wait E worker1 request))) (\<lambda>_.
     seq (if_some operation (\<lambda>request. give (V_request request) (flush_wait E worker1 request))) (\<lambda>_.
     close_endpoint E ep worker1))))))))))))"

text \<open>\<^verbatim>\<open>version_and_context.rs\<close>: its loop ends only when UCX has nothing left to do.\<close>

partial_function (option) progress_until_idle ::
  "'u env \<Rightarrow> Worker \<Rightarrow> 'u world \<Rightarrow> (unit outcome \<times> 'u world) option" where
  "progress_until_idle E wk w = (case Worker_progress E wk w of
      (Ret b, w1) \<Rightarrow> if b then progress_until_idle E wk w1 else Some (Ret (), w1)
    | (Panic s, w1) \<Rightarrow> Some (Panic s, w1)
    | (Abort, w1) \<Rightarrow> Some (Abort, w1))"

definition version_and_context :: "'u env \<Rightarrow> ('u, unit) stmt" where
  "version_and_context E =
     seq (call (returning (get_version E))) (\<lambda>_.
     seq (call (returning (get_version_string E))) (\<lambda>_.
     seq (call (returning (lib_query E))) (\<lambda>_.
     seq (expect ''context name'' debug_NulError (cpb_set_name (bytes_of ''ucx-rs-example'')
       (cpb_estimated_num_eps 2 (cpb_mt_workers_shared 1
         (cpb_features (Flags_Tag OR Flags_Rma OR Flags_Am) ContextParamsBuilder_new))))) (\<lambda>pb.
     seq (let_new V_config (Config_read E [] []) ''config read'' debug_ConfigError) (\<lambda>config.
     seq (let_new V_context (Context_new E config (fst (cpb_build pb))) ''Context::new failed'' debug_Status)
       (\<lambda>context.
     seq (let_new V_worker (Context_worker_create E context (fst (wpb_build WorkerParamsBuilder_new)))
       ''worker_create failed'' debug_Status) (\<lambda>worker.
     seq (call_opt (progress_until_idle E worker)) (\<lambda>_.
     seq (let_new V_address (Worker_pack_address E worker) ''pack_address'' debug_Status) (\<lambda>addr.
     seq (drop_local E (V_address addr)) (\<lambda>_.
     seq (drop_local E (V_worker worker)) (\<lambda>_.
     drop_local E (V_context context))))))))))))"

subsection \<open>What the programs leave\<close>

lemma typed_ret_locals: "vs' x = vs \<Longrightarrow> typed E ab vs (ret x) vs'"
  by (auto simp: typed_def ret_def)

lemma ep_shares_flag: "fst (Worker_create_ep E wk p w) = Inr e \<Longrightarrow> ep_worker_alive e = wk_alive wk"
  by (metis created_ep(2) prod.collapse)

lemma typed_new_ep:
  "wk_alive wk \<in> cells vs \<Longrightarrow> typed E ab vs (let_new V_ep (Worker_create_ep E wk p) msg dbg) (\<lambda>e. V_ep e # vs)"
  by (rule typed_let_new) (simp_all add: ep_shares_flag)

lemma typed_drop_temporary:
  assumes "v \<in> set vs" and "\<not> (\<exists>wk. v = V_worker wk)" and "consumes E ab v (drop_value E v)"
    and "remove1 v vs = ws"
  shows "typed E ab vs (drop_local E v) (\<lambda>_. ws)"
  using typed_drop_local [OF assms(1-3)] assms(4) by simp

text \<open>The rules in the order they are tried: each construct has one.\<close>

lemmas program_rules = typed_seq typed_new_ep typed_new_worker typed_let_new typed_drop_newest
  typed_drop_temporary consumes_drop typed_peek typed_expect typed_assert typed_panic
  typed_if_local typed_call harmless_calls typed_own_opt typed_own

lemma typed_connect_self:
  "typed E ab [] (connect_self E params msg remote)
     (\<lambda>(worker, context, ep). [V_ep ep, V_worker worker, V_context context])"
  unfolding connect_self_def by (rule program_rules typed_ret_locals | simp)+

interpretation example_wait: bounded_poll
  "Request_check_finished E request" "Worker_progress E wk" "Request_drop E request"
  "\<lambda>w. (Ret (), Request_drop E request w)"
  "\<lambda>e w. (Panic (expect_failed failed (debug_Status e)), Request_drop E request w)"
  "\<lambda>w. (Panic timed_out, Request_drop E request w)" "wait_rounds E wk failed timed_out request"
  for E :: "'u env" and wk failed timed_out request
  by unfold_locales (auto split: prod.splits sum.splits bool.splits)

lemma quiet_ends [simp]:
  "ends_quietly (\<lambda>w. (Ret x, w))" "ends_quietly (\<lambda>w. (Ret x, Request_drop E request w))"
  "ends_quietly (\<lambda>w. (Panic s, Request_drop E request w))"
  by (simp_all add: ends_quietly_def adds_Request_drop)

lemma harmless_wait [harmless_calls]:
  "harmless E ab (\<lambda>w. Some (wait_rounds E wk failed timed_out request n w))"
  by (rule harmless_loop [OF example_wait.bounded_poll_axioms]) (simp_all add: adds_Request_drop)

lemma harmless_waits [harmless_calls]:
  "harmless E ab (\<lambda>w. Some (am_wait E wk request w))"
  "harmless E ab (\<lambda>w. Some (rma_wait E wk request w))"
  "harmless E ab (\<lambda>w. Some (flush_wait E wk request w))"
  by (simp_all add: am_wait_def rma_wait_def flush_wait_def harmless_wait)

lemma adds_panic_dropping: "panic_dropping E s t w = (r, w1) \<Longrightarrow> adds [] w w1"
  using adds_Tag_drop by (fastforce simp: panic_dropping_def split: prod.splits outcome.splits)

lemma harmless_tag_wait [harmless_calls]: "harmless E True (\<lambda>w. Some (tag_wait E wk request w))"
proof -
  have "adds [] w w1" if "tag_wait_rounds E wk request n w = (r, w1)" for n r w w1
    using that
  proof (induction n arbitrary: w request)
    case 0
    then show ?case by (simp add: adds_panic_dropping)
  next
    case (Suc n)
    obtain q t v where c: "TagRequest_check_finished E request w = ((q, t), v)" by (metis prod.exhaust)
    have v: "adds [] w v"
      using c adds_check by (fastforce simp: TagRequest_check_finished_def split: prod.splits)
    obtain b u where p: "Worker_progress E wk v = (b, u)" by fastforce
    have u: "adds [] w u" using adds_quiet [OF v adds_progress [OF p]] .
    consider e where "q = Inl e" | "q = Inr True" | "q = Inr False" by (cases q) auto
    then show ?case
    proof cases
      case 3
      then show ?thesis
        using Suc.prems c p Suc.IH adds_quiet [OF u adds_panic_dropping] adds_quiet [OF u]
        by (auto split: outcome.splits)
    qed (use Suc.prems c adds_quiet [OF v adds_panic_dropping] adds_quiet [OF v adds_Tag_drop] in auto)
  qed
  then show ?thesis by (auto simp: harmless_def tag_wait_def intro: adds_extends)
qed

lemma typed_close_endpoint:
  "V_ep ep \<in> set vs \<Longrightarrow> remove1 (V_ep ep) vs = ws \<Longrightarrow> typed E ab vs (close_endpoint E ep wk) (\<lambda>_. ws)"
  unfolding close_endpoint_def by (rule typed_seq, rule typed_give) (auto intro: consumes_close typed_expect)

lemma typed_no_imm_cmpl: "typed E ab vs no_imm_cmpl_param (\<lambda>_. vs)"
  unfolding no_imm_cmpl_param_def
  by (rule typed_seq, rule typed_call)
    (auto simp: harmless_def rpb_no_imm_cmpl_def intro: typed_ret)

text \<open>The statements of a body, one rule each.\<close>

lemmas sound_rules = sound_seq_triple [OF typed_connect_self] sound_seq typed_no_imm_cmpl typed_new_worker
  typed_let_new typed_drop_newest typed_peek typed_expect typed_assert typed_panic
  typed_give_below typed_give_newest typed_if_local typed_if_some typed_call_opt typed_call
  typed_own_opt typed_own harmless_calls

lemma sound_tag_pingpong: "sound E True [] (tag_pingpong E remote received hello)"
  unfolding tag_pingpong_def
  by (rule sound_rules consumes_quiet sound_typed typed_close_endpoint | simp)+

lemma adds_mapped [simp]: "adds [] w (snd (MemHandle_map_slice E c m flags w))"
  by (simp add: MemHandle_map_slice_def Let_def split_beta created_memh split: option.split)

lemma adds_packed [simp]: "adds [] w (snd (RemoteKey_pack E c m w))"
  by (auto simp: RemoteKey_pack_def adds_def ffi_world split: prod.split sum.split)

lemma adds_registered [simp]: "adds [] w (snd (am_register E wk p w))"
  by (simp add: am_register_def)

lemma harmless_rma [harmless_calls]:
  "harmless E ab (\<lambda>w. Some (Ep_rma_put E e d a k p w))"
  "harmless E ab (\<lambda>w. Some (Ep_rma_get E e d a k p w))"
  by (simp_all add: Ep_rma_put_def Ep_rma_get_def harmless_nbx)

lemma sound_am_exchange: "sound E ab [] (am_exchange E remote received receive header nodata)"
  unfolding am_exchange_def Let_def
  by (rule sound_rules harmless_calls sound_typed typed_close_endpoint | simp)+

lemma sound_rma_put_get: "sound E ab [] (rma_put_get E remote target hello result)"
  unfolding rma_put_get_def
  by (rule sound_rules harmless_calls sound_typed typed_close_endpoint | simp)+

text \<open>Registering a handler allocates a cell, and leaves a worker with the same handle and flag.\<close>

lemma harmless_register:
  "harmless E ab (\<lambda>w. Some (returning (am_register_handler E wk i flags) w))"
proof -
  let ?c = "\<lambda>w. WorkerC (ucp_worker_set_am_recv_handler (wk_handle wk)
    (closure_params i flags (Arc_as_ptr (next_cell w))))"
  have "extends [] w (snd (am_register_handler E wk i flags w))" for w
  proof -
    obtain r u where q: "status_call E (?c w) (w\<lparr>next_cell := Suc (next_cell w)\<rparr>) = (r, u)" by fastforce
    then have "adds [] (w\<lparr>next_cell := Suc (next_cell w)\<rparr>) u"
      using adds_status_call [of "?c w" "w\<lparr>next_cell := Suc (next_cell w)\<rparr>" E] by simp
    then have "extends [] w u" by (auto simp: adds_def extends_def)
    then show ?thesis by (simp add: am_register_handler_eq q split: sum.split)
  qed
  then show ?thesis by (simp add: harmless_def returning_def split_beta)
qed

lemma registered_worker:
  "call (returning (am_register_handler E wk i flags)) S = Some (Ret x, S1) \<Longrightarrow>
     wk_alive (snd x) = wk_alive wk \<and> wk_handle (snd x) = wk_handle wk"
  by (auto simp: call_def call_opt_def returning_def am_register_handler_eq
      split: prod.splits sum.splits)

lemma typed_set_only_worker:
  "wk_alive wk1 = wk_alive wk \<Longrightarrow> wk_handle wk1 = wk_handle wk \<Longrightarrow>
     typed E ab [V_ep e, V_worker wk, V_context c] (set_worker wk wk1) (\<lambda>_. [V_ep e, V_worker wk1, V_context c])"
  using typed_set_worker [of wk1 wk E ab "[V_ep e, V_worker wk, V_context c]"] by simp

lemma sound_blocking_flush: "sound E ab [] (blocking_flush E remote nodata)"
  unfolding blocking_flush_def Let_def
  apply (rule sound_seq_triple [OF typed_connect_self])
  apply (rule sound_seq_value [OF typed_call [OF harmless_register] registered_worker], assumption)
  apply (clarsimp simp only: prod.case snd_conv split: prod.split)
  apply (rule sound_seq, rule typed_set_only_worker, assumption, assumption)
  by (rule sound_rules harmless_calls consumes_quiet sound_typed typed_close_endpoint | simp)+

text \<open>The one unbounded loop.\<close>

lemma idle_calls:
  assumes "progress_until_idle E wk w = Some p"
  shows "adds [] w (snd p) \<and> fst p \<noteq> Abort"
proof (rule progress_until_idle.raw_induct [OF _ assms])
  fix loop :: "'a env \<Rightarrow> Worker \<Rightarrow> 'a world \<Rightarrow> (unit outcome \<times> 'a world) option" and E wk w p
  assume IH: "\<And>E wk w p. loop E wk w = Some p \<Longrightarrow> adds [] w (snd p) \<and> fst p \<noteq> Abort"
    and body: "(case Worker_progress E wk w of
        (Ret b, w1) \<Rightarrow> if b then loop E wk w1 else Some (Ret (), w1)
      | (Panic s, w1) \<Rightarrow> Some (Panic s, w1)
      | (Abort, w1) \<Rightarrow> Some (Abort, w1)) = Some p"
  obtain q v where q: "Worker_progress E wk w = (q, v)" by fastforce
  note v = adds_progress [OF q]
  have "q \<noteq> Abort" using q by (auto simp: Worker_progress_eq split: if_splits)
  then show "adds [] w (snd p) \<and> fst p \<noteq> Abort"
    using body IH [of E wk v] q v adds_quiet [OF v] by (auto split: outcome.splits if_splits)
qed

lemma harmless_idle: "harmless E ab (progress_until_idle E wk)"
  using idle_calls by (fastforce simp: harmless_def intro: adds_extends)

lemma adds_versions [simp]:
  "adds [] w (snd (get_version E w))" "adds [] w (snd (get_version_string E w))"
  "adds [] w (snd (lib_query E w))"
  by (simp_all add: get_version_def get_version_string_def lib_query_def split_beta)
    (simp_all add: adds_def)

lemma sound_version_and_context: "sound E ab [] (version_and_context E)"
  unfolding version_and_context_def
  by (rule sound_rules harmless_calls harmless_idle sound_typed | simp)+

subsection \<open>They end\<close>

lemma returns_connect_self: "returns (connect_self E params msg remote)"
  unfolding connect_self_def by (intro returning_rules)

lemma returns_pieces: "returns no_imm_cmpl_param" "returns (close_endpoint E ep wk)"
  unfolding no_imm_cmpl_param_def close_endpoint_def by (intro returning_rules)+

lemma returns_triple: "returns m \<Longrightarrow> (\<And>x y z. returns (f x y z)) \<Longrightarrow> returns (seq m (\<lambda>(x, y, z). f x y z))"
  by (rule returns_seq) (auto split: prod.split)

lemmas ending_rules = returns_triple [OF returns_connect_self] returning_rules returns_pieces

lemma bounded_programs_return:
  "returns (tag_pingpong E remote received hello)"
  "returns (am_exchange E remote received receive header nodata)"
  "returns (rma_put_get E remote target hello result)"
  "returns (blocking_flush E remote nodata)"
  unfolding tag_pingpong_def am_exchange_def rma_put_get_def blocking_flush_def Let_def
  by (rule ending_rules | simp split: prod.split | intro allI impI)+

subsection \<open>Properties\<close>

text \<open>The programs, with the addresses each is given.\<close>

datatype example =
    Tag_pingpong ptr ptr ptr
  | Am_exchange ptr ptr ptr ptr ptr
  | Rma_put_get ptr ptr ptr ptr
  | Blocking_flush ptr ptr
  | Version_and_context

fun example_main :: "'u env \<Rightarrow> example \<Rightarrow> ('u, unit) stmt" where
  "example_main E (Tag_pingpong a b c) = tag_pingpong E a b c"
| "example_main E (Am_exchange a b c d e) = am_exchange E a b c d e"
| "example_main E (Rma_put_get a b c d) = rma_put_get E a b c d"
| "example_main E (Blocking_flush a b) = blocking_flush E a b"
| "example_main E Version_and_context = version_and_context E"

text \<open>C4: The examples clean up after themselves.  Whatever UCX answers, whichever step fails and
  wherever a panic starts, no example releases a handle twice or one it was not given, and in a
  release build each gives back every handle UCX gave it, its locals dropped, unless it aborts,
  which only the tagged transfer can.  Only the loop of \<^verbatim>\<open>version_and_context\<close> can run forever.\<close>

theorem examples_release_everything:
  "case run_main E (example_main E ex) w of
     None \<Rightarrow> ex = Version_and_context
   | Some (r, S) \<Rightarrow>
       (let released_handles = mset (released (trace (sc_world S)))
        in released_handles \<subseteq># mset (sc_created S) \<and>
           (debug_assertions E \<or>
             (if r = Abort then \<exists>a b c. ex = Tag_pingpong a b c
              else sc_stack S = [] \<and> released_handles = mset (sc_created S))))"
proof -
  let ?ab = "\<exists>a b c. ex = Tag_pingpong a b c"
  have s: "sound E ?ab [] (example_main E ex)"
    by (cases ex) (simp_all add: sound_tag_pingpong sound_am_exchange sound_rma_put_get
        sound_blocking_flush sound_version_and_context)
  have b: "run_main E (example_main E ex) w = Some p \<Longrightarrow> balanced E ?ab p" for p
    by (rule sound_main [OF s])
  have "ex \<noteq> Version_and_context \<Longrightarrow> returns (example_main E ex)"
    by (cases ex) (simp_all add: bounded_programs_return)
  then have "run_main E (example_main E ex) w = None \<Longrightarrow> ex = Version_and_context"
    using returns_main [of "example_main E ex" E w] by auto
  then show ?thesis using b by (auto simp: balanced_def Let_def split: option.split)
qed

text \<open>
  A library that accepts every call, reports every request as complete when first asked and moves no
  data: what UCX may do before a flush, and before the receiver has made progress.
\<close>

definition silent :: "unit env" where
  "silent = \<lparr>lib = \<lambda>c u m. (ffi_ret0\<lparr>out_ptr := 64, ret_ptr := 64\<rparr>, u, m), debug_assertions = False\<rparr>"

definition blank_world :: "unit world" where
  "blank_world = \<lparr>ucx = (), mem = \<lambda>_. 0, atomics = \<lambda>_. False, next_cell = 0, listeners = \<lambda>_. None,
     trace = [], stderr = []\<rparr>"

text \<open>
  A completed put only says that the source may be reused.  Against such a library the assertions of
  \<^verbatim>\<open>rma_put_get\<close>, which does not flush, and of \<^verbatim>\<open>am_exchange\<close>, which waits for the send alone, fail.
\<close>

lemmas run_simps = seq_def call_def call_opt_def returning_def let_new_def expect_def own_def
  drop_local_def ret_def panic_def peek_def store_def no_imm_cmpl_param_def assert_eq_bytes_def
  if_some_def

definition silent_ret :: ffi_ret where
  "silent_ret = ffi_ret0\<lparr>out_ptr := 64, ret_ptr := 64\<rparr>"

lemma silent_ret_simps [simp]:
  "ret_status silent_ret = UCS_OK" "out_ptr silent_ret = 64" "out_len silent_ret = 0" "ret_ptr silent_ret = 64"
  by (simp_all add: silent_ret_def ffi_ret0_def)

lemma silent_ffi: "ffi silent c w = (silent_ret, w\<lparr>trace := trace w @ [c]\<rparr>)"
  by (simp add: ffi_def silent_def silent_ret_def)

lemma silent_calls:
  "value_call silent c f w = (Inr (f silent_ret), w\<lparr>trace := trace w @ [c]\<rparr>)"
  "status_call silent c w = (Inr (), w\<lparr>trace := trace w @ [c]\<rparr>)"
  "ffi_unit silent c w = w\<lparr>trace := trace w @ [c]\<rparr>"
  by (simp_all add: value_call_def status_call_def ffi_unit_def silent_ffi)

lemma silent_release [simp]: "debug_assertions silent = False"
  by (simp add: silent_def)

abbreviation silent_request :: Request where
  "silent_request \<equiv> \<lparr>req_handle = Some 64\<rparr>"

lemma silent_nbx: "nbx silent c w = (Ret (Inr (Some silent_request)), w\<lparr>trace := trace w @ [c]\<rparr>)"
  by (simp add: nbx_def silent_ffi status_ptr_to_result_def status_ptr_is_err_def status_as_usize_def
      Request_new_def NonNull_new_def word_le_nat_alt)

lemma silent_wait: "0 < n \<Longrightarrow> wait_rounds silent wk failed timed_out silent_request n w =
    (Ret (), w\<lparr>trace := trace w @ [ReqC (ucp_request_check_status 64), ReqC (ucp_request_free 64)]\<rparr>)"
  by (cases n) (simp_all add: Request_check_finished_def Request_drop_def silent_ffi silent_calls
      status_ptr_is_err_def status_as_usize_def)

lemma silent_config: "Config_read silent [] [] w =
    (Inr \<lparr>config_handle = 64\<rparr>, w\<lparr>trace := trace w @ [CtxC (ucp_config_read [] [])]\<rparr>)"
  by (simp add: Config_read_def silent_calls CString_new_def)

definition blank_stack :: "owned_val list" where
  "blank_stack = [V_ep \<lparr>ep_handle = 64, ep_worker_alive = 0\<rparr>,
     V_worker \<lparr>wk_handle = 64, wk_alive = 0, wk_am_handlers = [], wk_progressing = 1\<rparr>,
     V_context \<lparr>context_handle = 64\<rparr>]"

lemma silent_connect:
  assumes "features \<noteq> 0"
  obtains w1 cr where
    "connect_self silent (self_params features) msg remote (empty_scope blank_world) =
       Some (Ret (\<lparr>wk_handle = 64, wk_alive = 0, wk_am_handlers = [], wk_progressing = 1\<rparr>,
         \<lparr>context_handle = 64\<rparr>, \<lparr>ep_handle = 64, ep_worker_alive = 0\<rparr>),
         \<lparr>sc_world = w1, sc_stack = blank_stack, sc_created = cr\<rparr>)"
    "mem w1 = (\<lambda>_. 0)" "atomics w1 0" "0 < next_cell w1"
  using assms by (simp add: connect_self_def run_simps give_def silent_calls silent_config Context_new_def
      self_params_def Context_worker_create_def Worker_new_def Worker_pack_address_def
      Worker_create_ep_def Ep_new_def EpParams_drop_def Let_def silent_ffi atomic_new_def
      empty_scope_def blank_world_def ContextParamsBuilder_new_def cpb_features_def
      cpb_mt_workers_shared_def cpb_estimated_num_eps_def cpb_build_def WorkerAddress_to_vec_def
      WorkerAddress_to_slice_def mem_read_def mem_write_def EpParamsBuilder_new_def epb_build_def
      epb_set_address_def Config_drop_def WorkerAddress_drop_def blank_stack_def)

lemma run_main_panic:
  assumes "\<exists>S. body (empty_scope w) = Some (Panic s, S) \<and> wf_stack (sc_world S) (sc_stack S) \<and> guardless S"
    and "\<not> debug_assertions E"
  shows "map_option fst (run_main E body w) = Some (Panic s)"
proof -
  obtain S where S: "body (empty_scope w) = Some (Panic s, S)" "wf_stack (sc_world S) (sc_stack S)"
    "guardless S" using assms(1) by blast
  obtain r w2 where u: "unwound E s (sc_stack S) (sc_world S) = (r, w2)" by fastforce
  from unwound_rel [OF S(2) u] S(3) assms(2) show ?thesis by (auto simp: run_main_def S(1) u)
qed

lemma silent_put: "Ep_rma_put silent e d a k p w = (Ret (Inr (Some silent_request)), w\<lparr>trace := trace w @
    [XferC (ucp_put_nbx (ep_handle e) (fst d) (snd d) a (rk_handle k) (rparam_handle p))]\<rparr>)"
  by (simp add: Ep_rma_put_def silent_nbx)

lemma silent_am_send: "Ep_am_send silent e i h d p w = (Ret (Inr (Some silent_request)), w\<lparr>trace := trace w @
    [XferC (ucp_am_send_nbx (ep_handle e) i (fst h) (snd h) (fst d) (snd d) (rparam_handle p))]\<rparr>)"
  by (simp add: Ep_am_send_def silent_nbx)

lemmas silent_run = run_simps silent_calls silent_ffi silent_wait mem_read_def mem_write_def
  bytes_of_def rpb_no_imm_cmpl_def RequestParamBuilder_new_def blank_stack_def Let_def

lemma rma_put_get_needs_flush:
  "map_option fst (run_main silent (rma_put_get silent 1000 2000 3000 4000) blank_world) =
     Some (Panic (assert_eq_failed (debug_bytes [0, 0, 0, 0, 0]) (debug_bytes (bytes_of ''hello''))))"
proof (rule run_main_panic)
  obtain w1 cr where c: "connect_self silent (self_params Flags_Rma) ''pack address'' 1000
      (empty_scope blank_world) = Some (Ret (\<lparr>wk_handle = 64, wk_alive = 0, wk_am_handlers = [],
        wk_progressing = 1\<rparr>, \<lparr>context_handle = 64\<rparr>, \<lparr>ep_handle = 64, ep_worker_alive = 0\<rparr>),
        \<lparr>sc_world = w1, sc_stack = blank_stack, sc_created = cr\<rparr>)"
    and m: "mem w1 = (\<lambda>_. 0)" "atomics w1 0" "0 < next_cell w1"
    by (rule silent_connect [of Flags_Rma]) simp_all
  note c = c [unfolded Flags_Rma_def]
  show "\<exists>S. rma_put_get silent 1000 2000 3000 4000 (empty_scope blank_world) =
      Some (Panic (assert_eq_failed (debug_bytes [0, 0, 0, 0, 0]) (debug_bytes (bytes_of ''hello''))), S) \<and>
      wf_stack (sc_world S) (sc_stack S) \<and> guardless S"
    unfolding rma_put_get_def
    by (subst seq_def) (simp add: c m silent_run MemHandle_map_slice_def u32_try_from_def
        MemHandle_map_def mmb_build_def RemoteKey_pack_def frame_rkey_payload_def
        RemoteKey_unpack_def unframe_rkey_payload_def silent_put rma_wait_def upt_rec)
qed simp

lemma am_exchange_needs_progress:
  "map_option fst (run_main silent (am_exchange silent 1000 2000 receive 3000 4000) blank_world) =
     Some (Panic (assert_eq_failed (debug_bytes [0]) (debug_bytes (bytes_of ''Z''))))"
proof (rule run_main_panic)
  obtain w1 cr where c: "connect_self silent (self_params Flags_Am) ''pack address'' 1000
      (empty_scope blank_world) = Some (Ret (\<lparr>wk_handle = 64, wk_alive = 0, wk_am_handlers = [],
        wk_progressing = 1\<rparr>, \<lparr>context_handle = 64\<rparr>, \<lparr>ep_handle = 64, ep_worker_alive = 0\<rparr>),
        \<lparr>sc_world = w1, sc_stack = blank_stack, sc_created = cr\<rparr>)"
    and m: "mem w1 = (\<lambda>_. 0)" "atomics w1 0" "0 < next_cell w1"
    by (rule silent_connect [of Flags_Am]) simp_all
  note c = c [unfolded Flags_Am_def]
  show "\<exists>S. am_exchange silent 1000 2000 receive 3000 4000 (empty_scope blank_world) =
      Some (Panic (assert_eq_failed (debug_bytes [0]) (debug_bytes (bytes_of ''Z''))), S) \<and>
      wf_stack (sc_world S) (sc_stack S) \<and> guardless S"
    unfolding am_exchange_def
    by (subst seq_def) (simp add: c m silent_run silent_am_send am_wait_def am_register_def)
qed simp

end
