(* ===== verification/Mt_Code.thy ===== *)
theory Mt_Code
  imports Mt_Worker
begin

text \<open>
  The operations of \<^verbatim>\<open>MtWorker\<close> (\<^verbatim>\<open>src/worker/worker.rs\<close>) instruction by instruction: taking the
  mutex and giving it back, each foreign call, and the compare-exchange and the store of the debug
  guard in \<^verbatim>\<open>Worker::progress\<close>.  Where an operation takes the lock, and whether it does, is in its
  code.  Run alone, the instructions of an operation are the operation of \<open>Mt_Worker\<close>.
\<close>

subsection \<open>Instructions\<close>

text \<open>What a call returns decides how the code goes on; \<open>Op_read\<close> looks at the memory.\<close>

datatype ('u, 'r) mt_code =
    Op_done 'r
  | Op_panic string
  | Op_lock "('u, 'r) mt_code"
  | Op_unlock "('u, 'r) mt_code"
  | Op_call ffi_call "ffi_ret \<Rightarrow> ('u, 'r) mt_code"
  | Op_enter "('u, 'r) mt_code"
  | Op_leave "('u, 'r) mt_code"
  | Op_local "'u world \<Rightarrow> 'u world" "('u, 'r) mt_code"
  | Op_read "'u world \<Rightarrow> ('u, 'r) mt_code"

primrec and_then :: "('u, 'a) mt_code \<Rightarrow> ('a \<Rightarrow> ('u, 'b) mt_code) \<Rightarrow> ('u, 'b) mt_code" where
  "and_then (Op_done x) f = f x"
| "and_then (Op_panic s) f = Op_panic s"
| "and_then (Op_lock k) f = Op_lock (and_then k f)"
| "and_then (Op_unlock k) f = Op_unlock (and_then k f)"
| "and_then (Op_call c k) f = Op_call c (\<lambda>r. and_then (k r) f)"
| "and_then (Op_enter k) f = Op_enter (and_then k f)"
| "and_then (Op_leave k) f = Op_leave (and_then k f)"
| "and_then (Op_local g k) f = Op_local g (and_then k f)"
| "and_then (Op_read k) f = Op_read (\<lambda>w. and_then (k w) f)"

text \<open>One thread on its own: a free lock is taken and given back without effect on the world.\<close>

primrec run_code :: "'u env \<Rightarrow> nat \<Rightarrow> ('u, 'r) mt_code \<Rightarrow> ('u world, 'r) prog" where
  "run_code E flag (Op_done x) = (\<lambda>w. (Ret x, w))"
| "run_code E flag (Op_panic s) = (\<lambda>w. (Panic s, w))"
| "run_code E flag (Op_lock k) = run_code E flag k"
| "run_code E flag (Op_unlock k) = run_code E flag k"
| "run_code E flag (Op_call c k) = (\<lambda>w. run_code E flag (k (fst (ffi E c w))) (snd (ffi E c w)))"
| "run_code E flag (Op_enter k) = bnd (ProgressGuard_new flag) (\<lambda>_. run_code E flag k)"
| "run_code E flag (Op_leave k) = (\<lambda>w. run_code E flag k (ProgressGuard_drop flag w))"
| "run_code E flag (Op_local g k) = (\<lambda>w. run_code E flag k (g w))"
| "run_code E flag (Op_read k) = (\<lambda>w. run_code E flag (k w) w)"

lemma run_and_then:
  "run_code E flag (and_then c f) = bnd (run_code E flag c) (\<lambda>x. run_code E flag (f x))"
  by (induction c) (auto simp: bnd_def fun_eq_iff split: prod.split outcome.split)

subsection \<open>The methods of \<^verbatim>\<open>Worker\<close>\<close>

definition call_code :: "ffi_call \<Rightarrow> (ffi_ret \<Rightarrow> 'r) \<Rightarrow> ('u, 'r) mt_code" where
  "call_code c f = Op_call c (\<lambda>ret. Op_done (f ret))"

definition status_code :: "ffi_call \<Rightarrow> ('u, Status + unit) mt_code" where
  "status_code c = call_code c (\<lambda>ret. status_to_result (ret_status ret))"

definition progress_code :: "'u env \<Rightarrow> Worker \<Rightarrow> ('u, bool) mt_code" where
  "progress_code E wk =
     (let call = (\<lambda>k. Op_call (WorkerC (ucp_worker_progress (wk_handle wk))) (\<lambda>ret. k (0 < ret_uint ret)))
      in if debug_assertions E then Op_enter (call (\<lambda>made. Op_leave (Op_done made))) else call Op_done)"

definition flush_code :: "'u env \<Rightarrow> Worker \<Rightarrow> RequestParam \<Rightarrow> ('u, Status + Request option) mt_code" where
  "flush_code E wk params =
     Op_call (WorkerC (ucp_worker_flush_nbx (wk_handle wk) (rparam_handle params))) (\<lambda>ret.
       case status_ptr_to_result E (ret_ptr ret) of
         Ret r \<Rightarrow> Op_done r
       | Panic s \<Rightarrow> Op_panic s
       | Abort \<Rightarrow> Op_panic [])"

definition fence_code :: "Worker \<Rightarrow> ('u, Status + unit) mt_code" where
  "fence_code wk = status_code (WorkerC (ucp_worker_fence (wk_handle wk)))"

definition wait_code :: "Worker \<Rightarrow> ('u, Status + unit) mt_code" where
  "wait_code wk = status_code (WorkerC (ucp_worker_wait (wk_handle wk)))"

definition arm_code :: "Worker \<Rightarrow> ('u, Status + unit) mt_code" where
  "arm_code wk = status_code (WorkerC (ucp_worker_arm (wk_handle wk)))"

definition signal_code :: "Worker \<Rightarrow> ('u, Status + unit) mt_code" where
  "signal_code wk = status_code (WorkerC (ucp_worker_signal (wk_handle wk)))"

definition get_efd_code :: "Worker \<Rightarrow> ('u, Status + i32) mt_code" where
  "get_efd_code wk = call_code (WorkerC (ucp_worker_get_efd (wk_handle wk) (- 1)))
     (\<lambda>ret. result_map (\<lambda>_. out_int ret) (status_to_result (ret_status ret)))"

definition cancel_request_code :: "Worker \<Rightarrow> Request \<Rightarrow> ('u, unit) mt_code" where
  "cancel_request_code wk req = (case req_handle req of
      None \<Rightarrow> Op_done ()
    | Some h \<Rightarrow> call_code (ReqC (ucp_request_cancel (wk_handle wk) h)) (\<lambda>_. ()))"

text \<open>Creating an endpoint consumes its parameters; a connection request in them is dropped after
  the call.\<close>

definition create_ep_code :: "'u env \<Rightarrow> Worker \<Rightarrow> EpParams \<Rightarrow> ('u, Status + Ep) mt_code" where
  "create_ep_code E wk p =
     (let q = p\<lparr>epar_handle := (epar_handle p)\<lparr>ep_conn_request := EpParams_conn_request_ptr p\<rparr>\<rparr>
      in Op_call (EpC (ucp_ep_create (wk_handle wk) (epar_handle q))) (\<lambda>ret.
           Op_local (EpParams_drop E q) (Op_done (result_map
             (\<lambda>_. \<lparr>ep_handle = out_ptr ret, ep_worker_alive = wk_alive wk\<rparr>)
             (status_to_result (ret_status ret))))))"

definition pack_address_code :: "Worker \<Rightarrow> ('u, Status + WorkerAddress) mt_code" where
  "pack_address_code wk = call_code (WorkerC (ucp_worker_get_address (wk_handle wk)))
     (\<lambda>ret. result_map (\<lambda>_. \<lparr>wa_handle = out_ptr ret, wa_size = out_len ret, wa_parent = wk\<rparr>)
       (status_to_result (ret_status ret)))"

definition check_finished_code :: "Request \<Rightarrow> ('u, Status + bool) mt_code" where
  "check_finished_code req = (case req_handle req of
      None \<Rightarrow> Op_done (Inr True)
    | Some h \<Rightarrow> call_code (ReqC (ucp_request_check_status h)) (\<lambda>ret.
        let status_ptr = status_as_usize (ret_status ret)
        in if status_ptr_is_err status_ptr then Inl (Status_from (status_from_ptr status_ptr))
           else Inr (ret_status ret = UCS_OK)))"

lemma run_worker_code:
  "run_code E (wk_progressing wk) (progress_code E wk) = Worker_progress E wk"
  "run_code E flag (flush_code E wk params) = Worker_flush E wk params"
  "run_code E flag (fence_code wk) w = (Ret (fst (Worker_fence E wk w)), snd (Worker_fence E wk w))"
  "run_code E flag (wait_code wk) w = (Ret (fst (Worker_wait E wk w)), snd (Worker_wait E wk w))"
  "run_code E flag (arm_code wk) w = (Ret (fst (Worker_arm E wk w)), snd (Worker_arm E wk w))"
  "run_code E flag (signal_code wk) w = (Ret (fst (Worker_signal E wk w)), snd (Worker_signal E wk w))"
  "run_code E flag (get_efd_code wk) w = (Ret (fst (Worker_get_efd E wk w)), snd (Worker_get_efd E wk w))"
  "run_code E flag (cancel_request_code wk req) w = (Ret (), Worker_cancel_request E wk req w)"
  "run_code E flag (create_ep_code E wk p) w =
     (Ret (fst (Worker_create_ep E wk p w)), snd (Worker_create_ep E wk p w))"
  "run_code E flag (pack_address_code wk) w =
     (Ret (fst (Worker_pack_address E wk w)), snd (Worker_pack_address E wk w))"
  "run_code E flag (check_finished_code req) w =
     (Ret (fst (Request_check_finished E req w)), snd (Request_check_finished E req w))"
proof -
  show "run_code E (wk_progressing wk) (progress_code E wk) = Worker_progress E wk"
    by (auto simp: progress_code_def Worker_progress_def bnd_def Let_def fun_eq_iff
        split: prod.split outcome.split)
  show "run_code E flag (flush_code E wk params) = Worker_flush E wk params"
    using status_ptr_no_abort [of E]
    by (auto simp: flush_code_def Worker_flush_def nbx_def Let_def fun_eq_iff split_beta split: outcome.split)
qed (auto simp: fence_code_def wait_code_def arm_code_def signal_code_def get_efd_code_def
    cancel_request_code_def create_ep_code_def pack_address_code_def check_finished_code_def
    status_code_def call_code_def Worker_fence_def Worker_wait_def Worker_arm_def Worker_signal_def
    Worker_get_efd_def Worker_cancel_request_def Worker_create_ep_def Ep_new_def
    Worker_pack_address_def Request_check_finished_def status_call_def value_call_def ffi_unit_def
    Let_def split_beta split: option.split)

subsection \<open>The methods of \<^verbatim>\<open>MtWorker\<close>\<close>

text \<open>\<^verbatim>\<open>self.lock()\<close> at the head of a method: the guard is a temporary of the method's one expression
  and is dropped when its value has been computed.\<close>

definition MtWorker_locked :: "MtWorker \<Rightarrow> (Worker \<Rightarrow> ('u, 'r) mt_code) \<Rightarrow> ('u, 'r) mt_code" where
  "MtWorker_locked m body =
     Op_lock (and_then (body (MtWorker_lock m)) (\<lambda>r. Op_unlock (Op_done r)))"

definition MtWorker_with_worker_code ::
  "MtWorker \<Rightarrow> (Worker \<Rightarrow> ('u, 'r) mt_code) \<Rightarrow> ('u, 'r) mt_code" where
  "MtWorker_with_worker_code m operation = MtWorker_locked m operation"

definition MtWorker_progress_code :: "'u env \<Rightarrow> MtWorker \<Rightarrow> ('u, bool) mt_code" where
  "MtWorker_progress_code E m = MtWorker_locked m (progress_code E)"

definition MtWorker_flush_code ::
  "'u env \<Rightarrow> MtWorker \<Rightarrow> RequestParam \<Rightarrow> ('u, Status + Request option) mt_code" where
  "MtWorker_flush_code E m params = MtWorker_locked m (\<lambda>wk. flush_code E wk params)"

definition MtWorker_fence_code :: "MtWorker \<Rightarrow> ('u, Status + unit) mt_code" where
  "MtWorker_fence_code m = MtWorker_locked m fence_code"

definition MtWorker_wait_code :: "MtWorker \<Rightarrow> ('u, Status + unit) mt_code" where
  "MtWorker_wait_code m = MtWorker_locked m wait_code"

definition MtWorker_arm_code :: "MtWorker \<Rightarrow> ('u, Status + unit) mt_code" where
  "MtWorker_arm_code m = MtWorker_locked m arm_code"

definition MtWorker_signal_code :: "MtWorker \<Rightarrow> ('u, Status + unit) mt_code" where
  "MtWorker_signal_code m = MtWorker_locked m signal_code"

definition MtWorker_get_efd_code :: "MtWorker \<Rightarrow> ('u, Status + i32) mt_code" where
  "MtWorker_get_efd_code m = MtWorker_locked m get_efd_code"

definition MtWorker_cancel_request_code :: "MtWorker \<Rightarrow> Request \<Rightarrow> ('u, unit) mt_code" where
  "MtWorker_cancel_request_code m req = MtWorker_locked m (\<lambda>wk. cancel_request_code wk req)"

text \<open>The request is checked without the lock.\<close>

fun MtWorker_wait_rounds_code ::
  "'u env \<Rightarrow> MtWorker \<Rightarrow> Request \<Rightarrow> nat \<Rightarrow> ('u, Status + bool) mt_code" where
  "MtWorker_wait_rounds_code E m req 0 = Op_done (Inr False)"
| "MtWorker_wait_rounds_code E m req (Suc n) = and_then (check_finished_code req) (\<lambda>r. case r of
      Inr finished \<Rightarrow> if finished then Op_done (Inr True)
        else and_then (MtWorker_progress_code E m) (\<lambda>_. MtWorker_wait_rounds_code E m req n)
    | Inl error \<Rightarrow> Op_done (Inl error))"

definition MtWorker_wait_request_code ::
  "'u env \<Rightarrow> MtWorker \<Rightarrow> Request \<Rightarrow> ('u, Status + bool) mt_code" where
  "MtWorker_wait_request_code E m req = MtWorker_wait_rounds_code E m req 1000000"

definition MtWorker_create_ep_code ::
  "'u env \<Rightarrow> MtWorker \<Rightarrow> EpParams \<Rightarrow> ('u, Status + Ep) mt_code" where
  "MtWorker_create_ep_code E m p = MtWorker_locked m (\<lambda>wk. create_ep_code E wk p)"

text \<open>The address is copied and released before the lock is.\<close>

definition MtWorker_pack_address_code :: "MtWorker \<Rightarrow> ('u, Status + bytes) mt_code" where
  "MtWorker_pack_address_code m = MtWorker_locked m (\<lambda>wk.
     and_then (pack_address_code wk) (\<lambda>r. case r of
       Inl e \<Rightarrow> Op_done (Inl e)
     | Inr address \<Rightarrow> Op_read (\<lambda>w.
         Op_call (WorkerC (ucp_worker_release_address (wk_handle (wa_parent address)) (wa_handle address)))
           (\<lambda>_. Op_done (Inr (WorkerAddress_to_vec address w))))))"

lemma run_locked: "run_code E flag (MtWorker_locked m body) = run_code E flag (body (mt_worker m))"
  by (auto simp: MtWorker_locked_def MtWorker_lock_def run_and_then bnd_def fun_eq_iff
      split: prod.split outcome.split)

lemma run_wait_rounds_code:
  "run_code E (wk_progressing (mt_worker m)) (MtWorker_wait_rounds_code E m req n) w =
     MtWorker_wait_rounds E m req n w"
proof (induction n arbitrary: w)
  case (Suc n)
  then show ?case
    by (simp add: run_and_then run_worker_code MtWorker_progress_code_def run_locked
        MtWorker_progress_def MtWorker_lock_def bnd_def
        split: prod.split sum.split bool.split outcome.split)
qed simp

text \<open>Run alone, the code of every method is the method.\<close>

lemma run_mt_code:
  "run_code E (wk_progressing (mt_worker m)) (MtWorker_progress_code E m) = MtWorker_progress E m"
  "run_code E flag (MtWorker_flush_code E m params) = MtWorker_flush E m params"
  "run_code E flag (MtWorker_fence_code m) w = (Ret (fst (MtWorker_fence E m w)), snd (MtWorker_fence E m w))"
  "run_code E flag (MtWorker_wait_code m) w = (Ret (fst (MtWorker_wait E m w)), snd (MtWorker_wait E m w))"
  "run_code E flag (MtWorker_arm_code m) w = (Ret (fst (MtWorker_arm E m w)), snd (MtWorker_arm E m w))"
  "run_code E flag (MtWorker_signal_code m) w = (Ret (fst (MtWorker_signal E m w)), snd (MtWorker_signal E m w))"
  "run_code E flag (MtWorker_get_efd_code m) w = (Ret (fst (MtWorker_get_efd E m w)), snd (MtWorker_get_efd E m w))"
  "run_code E flag (MtWorker_cancel_request_code m req) w = (Ret (), MtWorker_cancel_request E m req w)"
  "run_code E (wk_progressing (mt_worker m)) (MtWorker_wait_request_code E m req) = MtWorker_wait_request E m req"
  "run_code E flag (MtWorker_create_ep_code E m p) w =
     (Ret (fst (MtWorker_create_ep E m p w)), snd (MtWorker_create_ep E m p w))"
  "run_code E flag (MtWorker_pack_address_code m) w =
     (Ret (fst (MtWorker_pack_address E m w)), snd (MtWorker_pack_address E m w))"
proof -
  show "run_code E flag (MtWorker_pack_address_code m) w =
     (Ret (fst (MtWorker_pack_address E m w)), snd (MtWorker_pack_address E m w))"
    by (auto simp: MtWorker_pack_address_code_def run_locked run_and_then run_worker_code bnd_def
        MtWorker_pack_address_def MtWorker_lock_def WorkerAddress_drop_def ffi_unit_def
        split: prod.split sum.split)
qed (simp_all add: MtWorker_progress_code_def MtWorker_flush_code_def MtWorker_fence_code_def
    MtWorker_wait_code_def MtWorker_arm_code_def MtWorker_signal_code_def MtWorker_get_efd_code_def
    MtWorker_cancel_request_code_def MtWorker_wait_request_code_def MtWorker_create_ep_code_def
    run_locked run_worker_code run_wait_rounds_code MtWorker_progress_def MtWorker_flush_def
    MtWorker_fence_def MtWorker_wait_def MtWorker_arm_def MtWorker_signal_def MtWorker_get_efd_def
    MtWorker_cancel_request_def MtWorker_wait_request_def MtWorker_create_ep_def MtWorker_lock_def
    fun_eq_iff)

subsection \<open>What threads do\<close>

text \<open>
  An operation of a thread is a method call on its handle.  The closure of \<^verbatim>\<open>with_worker\<close> is a
  sequence of methods of the worker, among them any that makes one foreign call, such as the
  fetching atomics; it must not use the handle again, and an address it packs is dropped in it.  Results are not kept.
\<close>

datatype worker_step =
    W_progress | W_flush RequestParam | W_fence | W_wait | W_arm | W_signal | W_get_efd
  | W_cancel Request | W_create_ep EpParams | W_pack_address | W_other ffi_call

datatype mt_step =
    Mt_with_worker "worker_step list"
  | Mt_progress | Mt_flush RequestParam | Mt_fence | Mt_wait | Mt_arm | Mt_signal | Mt_get_efd
  | Mt_cancel Request | Mt_wait_request Request | Mt_create_ep EpParams | Mt_pack_address

definition forget :: "('u, 'r) mt_code \<Rightarrow> ('u, unit) mt_code" where
  "forget c = and_then c (\<lambda>_. Op_done ())"

fun worker_code :: "'u env \<Rightarrow> Worker \<Rightarrow> worker_step \<Rightarrow> ('u, unit) mt_code" where
  "worker_code E wk W_progress = forget (progress_code E wk)"
| "worker_code E wk (W_flush params) = forget (flush_code E wk params)"
| "worker_code E wk W_fence = forget (fence_code wk)"
| "worker_code E wk W_wait = forget (wait_code wk)"
| "worker_code E wk W_arm = forget (arm_code wk)"
| "worker_code E wk W_signal = forget (signal_code wk)"
| "worker_code E wk W_get_efd = forget (get_efd_code wk)"
| "worker_code E wk (W_cancel req) = forget (cancel_request_code wk req)"
| "worker_code E wk (W_create_ep p) = forget (create_ep_code E wk p)"
| "worker_code E wk W_pack_address = and_then (pack_address_code wk) (\<lambda>r. case r of
      Inl e \<Rightarrow> Op_done ()
    | Inr address \<Rightarrow> call_code
        (WorkerC (ucp_worker_release_address (wk_handle (wa_parent address)) (wa_handle address))) (\<lambda>_. ()))"
| "worker_code E wk (W_other c) = call_code c (\<lambda>_. ())"

primrec steps_code :: "'u env \<Rightarrow> worker_step list \<Rightarrow> Worker \<Rightarrow> ('u, unit) mt_code" where
  "steps_code E [] wk = Op_done ()"
| "steps_code E (s # ss) wk = and_then (worker_code E wk s) (\<lambda>_. steps_code E ss wk)"

fun code_of :: "'u env \<Rightarrow> MtWorker \<Rightarrow> mt_step \<Rightarrow> ('u, unit) mt_code" where
  "code_of E m (Mt_with_worker ss) = MtWorker_with_worker_code m (steps_code E ss)"
| "code_of E m Mt_progress = forget (MtWorker_progress_code E m)"
| "code_of E m (Mt_flush params) = forget (MtWorker_flush_code E m params)"
| "code_of E m Mt_fence = forget (MtWorker_fence_code m)"
| "code_of E m Mt_wait = forget (MtWorker_wait_code m)"
| "code_of E m Mt_arm = forget (MtWorker_arm_code m)"
| "code_of E m Mt_signal = forget (MtWorker_signal_code m)"
| "code_of E m Mt_get_efd = forget (MtWorker_get_efd_code m)"
| "code_of E m (Mt_cancel req) = forget (MtWorker_cancel_request_code m req)"
| "code_of E m (Mt_wait_request req) = forget (MtWorker_wait_request_code E m req)"
| "code_of E m (Mt_create_ep p) = forget (MtWorker_create_ep_code E m p)"
| "code_of E m Mt_pack_address = forget (MtWorker_pack_address_code m)"

text \<open>The same operations run whole.\<close>

fun worker_exec :: "'u env \<Rightarrow> Worker \<Rightarrow> worker_step \<Rightarrow> ('u world, unit) prog" where
  "worker_exec E wk W_progress = bnd (Worker_progress E wk) (\<lambda>_ w. (Ret (), w))"
| "worker_exec E wk (W_flush params) = bnd (Worker_flush E wk params) (\<lambda>_ w. (Ret (), w))"
| "worker_exec E wk W_fence = (\<lambda>w. (Ret (), snd (Worker_fence E wk w)))"
| "worker_exec E wk W_wait = (\<lambda>w. (Ret (), snd (Worker_wait E wk w)))"
| "worker_exec E wk W_arm = (\<lambda>w. (Ret (), snd (Worker_arm E wk w)))"
| "worker_exec E wk W_signal = (\<lambda>w. (Ret (), snd (Worker_signal E wk w)))"
| "worker_exec E wk W_get_efd = (\<lambda>w. (Ret (), snd (Worker_get_efd E wk w)))"
| "worker_exec E wk (W_cancel req) = (\<lambda>w. (Ret (), Worker_cancel_request E wk req w))"
| "worker_exec E wk (W_create_ep p) = (\<lambda>w. (Ret (), snd (Worker_create_ep E wk p w)))"
| "worker_exec E wk W_pack_address = (\<lambda>w. (Ret (), case Worker_pack_address E wk w of
      (Inl e, w1) \<Rightarrow> w1 | (Inr address, w1) \<Rightarrow> WorkerAddress_drop E address w1))"
| "worker_exec E wk (W_other c) = (\<lambda>w. (Ret (), ffi_unit E c w))"

primrec steps_exec :: "'u env \<Rightarrow> worker_step list \<Rightarrow> Worker \<Rightarrow> ('u world, unit) prog" where
  "steps_exec E [] wk = (\<lambda>w. (Ret (), w))"
| "steps_exec E (s # ss) wk = bnd (worker_exec E wk s) (\<lambda>_. steps_exec E ss wk)"

fun mt_exec :: "'u env \<Rightarrow> MtWorker \<Rightarrow> mt_step \<Rightarrow> ('u world, unit) prog" where
  "mt_exec E m (Mt_with_worker ss) = MtWorker_with_worker m (steps_exec E ss)"
| "mt_exec E m Mt_progress = bnd (MtWorker_progress E m) (\<lambda>_ w. (Ret (), w))"
| "mt_exec E m (Mt_flush params) = bnd (MtWorker_flush E m params) (\<lambda>_ w. (Ret (), w))"
| "mt_exec E m Mt_fence = (\<lambda>w. (Ret (), snd (MtWorker_fence E m w)))"
| "mt_exec E m Mt_wait = (\<lambda>w. (Ret (), snd (MtWorker_wait E m w)))"
| "mt_exec E m Mt_arm = (\<lambda>w. (Ret (), snd (MtWorker_arm E m w)))"
| "mt_exec E m Mt_signal = (\<lambda>w. (Ret (), snd (MtWorker_signal E m w)))"
| "mt_exec E m Mt_get_efd = (\<lambda>w. (Ret (), snd (MtWorker_get_efd E m w)))"
| "mt_exec E m (Mt_cancel req) = (\<lambda>w. (Ret (), MtWorker_cancel_request E m req w))"
| "mt_exec E m (Mt_wait_request req) = bnd (MtWorker_wait_request E m req) (\<lambda>_ w. (Ret (), w))"
| "mt_exec E m (Mt_create_ep p) = (\<lambda>w. (Ret (), snd (MtWorker_create_ep E m p w)))"
| "mt_exec E m Mt_pack_address = (\<lambda>w. (Ret (), snd (MtWorker_pack_address E m w)))"

lemma run_forget: "run_code E flag (forget c) = bnd (run_code E flag c) (\<lambda>_ w. (Ret (), w))"
  by (simp add: forget_def run_and_then)

lemma bnd_pair: "bnd (\<lambda>w. (Ret (f w), g w)) h = (\<lambda>w. h (f w) (g w))"
  by (simp add: bnd_def fun_eq_iff)

lemma run_steps_code:
  "run_code E (wk_progressing wk) (steps_code E ss wk) = steps_exec E ss wk"
proof (induction ss)
  case (Cons s ss)
  have "run_code E (wk_progressing wk) (worker_code E wk s) = worker_exec E wk s"
    by (cases s) (simp_all add: run_forget run_worker_code [abs_def] run_and_then bnd_pair call_code_def
        ffi_unit_def WorkerAddress_drop_def fun_eq_iff split_beta split: sum.split)
  then show ?case using Cons by (simp add: run_and_then)
qed simp

lemma run_code_of: "run_code E (wk_progressing (mt_worker m)) (code_of E m op) = mt_exec E m op"
  by (cases op) (simp_all add: run_forget run_mt_code [abs_def] bnd_pair run_locked run_steps_code
      MtWorker_with_worker_code_def MtWorker_with_worker_def MtWorker_lock_def)

end
