(* ===== verification/Mt_Lock.thy ===== *)
theory Mt_Lock
  imports Mt_Code
begin

text \<open>
  Threads that share a worker through \<^verbatim>\<open>MtWorker\<close> (\<^verbatim>\<open>src/worker/worker.rs\<close>) and run the code of its
  operations, one instruction at a time and in any order.  A foreign call takes two steps, so that
  calls of different threads can overlap; it takes effect when it returns.  That no two calls on
  the worker do overlap is not built in: it follows from where the operations take the lock.
\<close>

subsection \<open>Threads\<close>

text \<open>
  A thread has operations it has not started, and an operation it is in, with the code that is left
  of it; it may be inside a foreign call.  A thread that panics unwinds through the guard of the
  lock, which releases it, and is dead.  The history is the operations in the order in which they
  took the lock.
\<close>

record 'u mt_system =
  sy_world :: "'u world"
  sy_lock :: "nat option"
  sy_pending :: "nat \<Rightarrow> mt_step list"
  sy_running :: "nat \<Rightarrow> (mt_step \<times> ('u, unit) mt_code) option"
  sy_inside :: "nat \<Rightarrow> bool"
  sy_dead :: "nat \<Rightarrow> bool"
  sy_collided :: bool
  sy_history :: "(nat \<times> mt_step) list"

text \<open>A thread goes on with the rest of its code.\<close>

definition goes_on :: "nat \<Rightarrow> mt_step \<Rightarrow> ('u, unit) mt_code \<Rightarrow> 'u mt_system \<Rightarrow> 'u mt_system" where
  "goes_on t op k S = S\<lparr>sy_running := (sy_running S)(t := Some (op, k))\<rparr>"

text \<open>
  The steps.  The mutex is that of the standard library: taking it waits until it is free, and a
  poisoned one is entered all the same.  \<open>blocks\<close> tells which foreign calls do not return yet in
  which state of UCX.  \<open>Collide\<close> is the debug guard finding the flag set.
\<close>

inductive mt_micro_step ::
  "'u env \<Rightarrow> (ffi_call \<Rightarrow> 'u \<Rightarrow> bool) \<Rightarrow> MtWorker \<Rightarrow> 'u mt_system \<Rightarrow> 'u mt_system \<Rightarrow> bool"
  for E blocks m where
  Start: "sy_running S t = None \<Longrightarrow> \<not> sy_dead S t \<Longrightarrow> sy_pending S t = op # ops \<Longrightarrow>
    mt_micro_step E blocks m S
      (goes_on t op (code_of E m op) (S\<lparr>sy_pending := (sy_pending S)(t := ops)\<rparr>))"
| Lock: "sy_running S t = Some (op, Op_lock k) \<Longrightarrow> sy_lock S = None \<Longrightarrow>
    mt_micro_step E blocks m S
      (goes_on t op k (S\<lparr>sy_lock := Some t, sy_history := sy_history S @ [(t, op)]\<rparr>))"
| Unlock: "sy_running S t = Some (op, Op_unlock k) \<Longrightarrow>
    mt_micro_step E blocks m S (goes_on t op k (S\<lparr>sy_lock := None\<rparr>))"
| Call: "sy_running S t = Some (op, Op_call c k) \<Longrightarrow> \<not> sy_inside S t \<Longrightarrow>
    mt_micro_step E blocks m S (S\<lparr>sy_inside := (sy_inside S)(t := True)\<rparr>)"
| Return: "sy_running S t = Some (op, Op_call c k) \<Longrightarrow> sy_inside S t \<Longrightarrow>
    \<not> blocks c (ucx (sy_world S)) \<Longrightarrow> ffi E c (sy_world S) = (r, w1) \<Longrightarrow>
    mt_micro_step E blocks m S
      (goes_on t op (k r) (S\<lparr>sy_world := w1, sy_inside := (sy_inside S)(t := False)\<rparr>))"
| Local: "sy_running S t = Some (op, Op_local f k) \<Longrightarrow>
    mt_micro_step E blocks m S (goes_on t op k (S\<lparr>sy_world := f (sy_world S)\<rparr>))"
| Read: "sy_running S t = Some (op, Op_read k) \<Longrightarrow>
    mt_micro_step E blocks m S (goes_on t op (k (sy_world S)) S)"
| Enter: "sy_running S t = Some (op, Op_enter k) \<Longrightarrow>
    ProgressGuard_new (wk_progressing (mt_worker m)) (sy_world S) = (Ret (), w1) \<Longrightarrow>
    mt_micro_step E blocks m S (goes_on t op k (S\<lparr>sy_world := w1\<rparr>))"
| Collide: "sy_running S t = Some (op, Op_enter k) \<Longrightarrow>
    ProgressGuard_new (wk_progressing (mt_worker m)) (sy_world S) = (Panic s, w1) \<Longrightarrow>
    mt_micro_step E blocks m S (goes_on t op (Op_panic s) (S\<lparr>sy_world := w1, sy_collided := True\<rparr>))"
| Leave: "sy_running S t = Some (op, Op_leave k) \<Longrightarrow>
    mt_micro_step E blocks m S
      (goes_on t op k (S\<lparr>sy_world := ProgressGuard_drop (wk_progressing (mt_worker m)) (sy_world S)\<rparr>))"
| Unwind: "sy_running S t = Some (op, Op_panic s) \<Longrightarrow>
    mt_micro_step E blocks m S (S\<lparr>sy_running := (sy_running S)(t := None),
      sy_dead := (sy_dead S)(t := True), sy_lock := (if sy_lock S = Some t then None else sy_lock S)\<rparr>)"
| Finish: "sy_running S t = Some (op, Op_done ()) \<Longrightarrow>
    mt_micro_step E blocks m S (S\<lparr>sy_running := (sy_running S)(t := None)\<rparr>)"

inductive_cases mt_micro_stepE: "mt_micro_step E blocks m S S'"

lemma goes_on_simps [simp]:
  "sy_world (goes_on t op k S) = sy_world S" "sy_lock (goes_on t op k S) = sy_lock S"
  "sy_pending (goes_on t op k S) = sy_pending S" "sy_inside (goes_on t op k S) = sy_inside S"
  "sy_dead (goes_on t op k S) = sy_dead S" "sy_collided (goes_on t op k S) = sy_collided S"
  "sy_history (goes_on t op k S) = sy_history S"
  "sy_running (goes_on t op k S) = (sy_running S)(t := Some (op, k))"
  by (simp_all add: goes_on_def)

text \<open>Threads that have not started.\<close>

definition fresh_system :: "'u world \<Rightarrow> (nat \<Rightarrow> mt_step list) \<Rightarrow> 'u mt_system" where
  "fresh_system w programs = \<lparr>sy_world = w, sy_lock = None, sy_pending = programs,
     sy_running = \<lambda>_. None, sy_inside = \<lambda>_. False, sy_dead = \<lambda>_. False, sy_collided = False,
     sy_history = []\<rparr>"

subsection \<open>The discipline of the code\<close>

text \<open>
  Code that starts with or without the lock, and with the progress flag set or clear, and ends with
  or without the lock and with the flag clear.  It never takes a lock it has or gives back one it
  has not, the guard is used under the lock and balanced, and every foreign call but the check of
  a request's status is made under the lock.
\<close>

fun needs_lock :: "ffi_call \<Rightarrow> bool" where
  "needs_lock (ReqC (ucp_request_check_status h)) = False"
| "needs_lock _ = True"

primrec disciplined :: "('u, 'r) mt_code \<Rightarrow> bool \<Rightarrow> bool \<Rightarrow> bool \<Rightarrow> bool" where
  "disciplined (Op_done x) l b l' = (l = l' \<and> \<not> b)"
| "disciplined (Op_panic s) l b l' = (\<not> b)"
| "disciplined (Op_lock k) l b l' = (\<not> l \<and> \<not> b \<and> disciplined k True False l')"
| "disciplined (Op_unlock k) l b l' = (l \<and> \<not> b \<and> disciplined k False False l')"
| "disciplined (Op_call c k) l b l' = ((needs_lock c \<longrightarrow> l) \<and> (\<forall>r. disciplined (k r) l b l'))"
| "disciplined (Op_enter k) l b l' = (l \<and> \<not> b \<and> disciplined k l True l')"
| "disciplined (Op_leave k) l b l' = (l \<and> b \<and> disciplined k l False l')"
| "disciplined (Op_local f k) l b l' = ((\<forall>w. atomics (f w) = atomics w) \<and> disciplined k l b l')"
| "disciplined (Op_read k) l b l' = (\<forall>w. disciplined (k w) l b l')"

lemma disciplined_and_then:
  "disciplined c l b mid \<Longrightarrow> (\<And>x. disciplined (f x) mid False l') \<Longrightarrow> disciplined (and_then c f) l b l'"
  by (induction c arbitrary: l b) auto

lemma disciplined_forget: "disciplined c l b l' \<Longrightarrow> disciplined (forget c) l b l'"
  unfolding forget_def by (erule disciplined_and_then) simp

lemma disciplined_locked:
  "disciplined (body (mt_worker m)) True False True \<Longrightarrow>
     disciplined (MtWorker_locked m body) False False False"
  by (auto simp: MtWorker_locked_def MtWorker_lock_def intro: disciplined_and_then)

lemma EpParams_drop_atomics: "atomics (EpParams_drop E p w) = atomics w"
  by (simp add: EpParams_drop_def ConnRequest_drop_def Arc_drop_trace split: option.split)

lemma disciplined_worker:
  "disciplined (progress_code E wk) True False True" "disciplined (flush_code E wk params) True False True"
  "disciplined (fence_code wk) True False True" "disciplined (wait_code wk) True False True"
  "disciplined (arm_code wk) True False True" "disciplined (signal_code wk) True False True"
  "disciplined (get_efd_code wk) True False True" "disciplined (cancel_request_code wk req) True False True"
  "disciplined (create_ep_code E wk p) True False True" "disciplined (pack_address_code wk) True False True"
  "disciplined (check_finished_code req) False False False"
  by (auto simp: progress_code_def flush_code_def fence_code_def wait_code_def arm_code_def
      signal_code_def get_efd_code_def cancel_request_code_def create_ep_code_def pack_address_code_def
      check_finished_code_def status_code_def call_code_def EpParams_drop_atomics Let_def
      split: option.split outcome.split)

lemma disciplined_steps: "disciplined (steps_code E ss wk) True False True"
proof (induction ss)
  case (Cons s ss)
  have "disciplined (worker_code E wk s) True False True"
    by (cases s) (auto simp: call_code_def intro!: disciplined_forget disciplined_worker
        disciplined_and_then [where mid = True] split: sum.split)
  then show ?case using Cons by (auto intro: disciplined_and_then)
qed simp

lemma disciplined_wait_rounds: "disciplined (MtWorker_wait_rounds_code E m req n) False False False"
proof (induction n)
  case (Suc n)
  have "disciplined (MtWorker_progress_code E m) False False False"
    by (simp add: MtWorker_progress_code_def disciplined_locked disciplined_worker)
  then show ?case using Suc
    by (auto intro!: disciplined_and_then [where mid = False] disciplined_worker split: sum.split)
qed simp

lemma disciplined_pack_address: "disciplined (MtWorker_pack_address_code m) False False False"
  unfolding MtWorker_pack_address_code_def
  by (rule disciplined_locked) (auto intro!: disciplined_and_then [where mid = True] disciplined_worker
      split: sum.split)

text \<open>Every operation keeps the discipline, from its start without the lock to its end without it.\<close>

lemma code_of_disciplined: "disciplined (code_of E m op) False False False"
  by (cases op) (auto intro!: disciplined_forget disciplined_locked simp: disciplined_steps
      disciplined_worker disciplined_wait_rounds disciplined_pack_address
      MtWorker_with_worker_code_def MtWorker_progress_code_def MtWorker_flush_code_def
      MtWorker_fence_code_def MtWorker_wait_code_def MtWorker_arm_code_def MtWorker_signal_code_def
      MtWorker_get_efd_code_def MtWorker_cancel_request_code_def MtWorker_wait_request_code_def
      MtWorker_create_ep_code_def)

subsection \<open>The invariant\<close>

abbreviation flag_set :: "MtWorker \<Rightarrow> 'u mt_system \<Rightarrow> bool" where
  "flag_set m S \<equiv> atomics (sy_world S) (wk_progressing (mt_worker m))"

definition thread_ok :: "MtWorker \<Rightarrow> 'u mt_system \<Rightarrow> nat \<Rightarrow> bool" where
  "thread_ok m S t \<longleftrightarrow> (case sy_running S t of
      None \<Rightarrow> sy_lock S \<noteq> Some t \<and> \<not> sy_inside S t
    | Some (op, k) \<Rightarrow> disciplined k (sy_lock S = Some t) (sy_lock S = Some t \<and> flag_set m S) False \<and>
        (sy_inside S t \<longrightarrow> (\<exists>c f. k = Op_call c f)))"

definition lock_inv :: "MtWorker \<Rightarrow> 'u mt_system \<Rightarrow> bool" where
  "lock_inv m S \<longleftrightarrow> \<not> sy_collided S \<and> (sy_lock S = None \<longrightarrow> \<not> flag_set m S) \<and> (\<forall>t. thread_ok m S t)"

lemma lock_inv_running:
  assumes "lock_inv m S" and "sy_running S t = Some (op, k)"
  shows "disciplined k (sy_lock S = Some t) (sy_lock S = Some t \<and> flag_set m S) False"
    and "sy_inside S t \<Longrightarrow> \<exists>c f. k = Op_call c f"
  using assms by (auto simp: lock_inv_def thread_ok_def dest: spec [of _ t])

lemma guard_new_cases:
  "ProgressGuard_new cell w =
     (if atomics w cell then (Panic ''concurrent progress() on the same worker'', w)
      else (Ret (), atomic_store cell True w))"
  by (simp add: ProgressGuard_new_def)

text \<open>A step of \<open>t\<close> keeps the invariant when \<open>t\<close> itself is fine afterwards and the others see the same
  lock and, if one of them holds it, the same flag.\<close>

lemma lock_inv_other:
  assumes "lock_inv m S" and "thread_ok m S' t" and "\<not> sy_collided S'"
    and "sy_lock S' = None \<longrightarrow> \<not> flag_set m S'"
    and "\<And>u. u \<noteq> t \<Longrightarrow> sy_running S' u = sy_running S u \<and> sy_inside S' u = sy_inside S u \<and>
      (sy_lock S' = Some u \<longleftrightarrow> sy_lock S = Some u) \<and>
      (sy_lock S = Some u \<longrightarrow> flag_set m S' = flag_set m S)"
  shows "lock_inv m S'"
proof -
  have "thread_ok m S' u" for u
  proof (cases "u = t")
    case False
    have "thread_ok m S u" using assms(1) by (simp add: lock_inv_def)
    then show ?thesis using assms(5) [OF False]
      by (auto simp: thread_ok_def split: option.splits)
  qed (simp add: assms(2))
  then show ?thesis using assms(3,4) by (simp add: lock_inv_def)
qed

lemma lock_inv_step:
  assumes "mt_micro_step E blocks m S S'" and i: "lock_inv m S"
  shows "lock_inv m S'"
  using assms(1)
proof cases
  case (Start t op ops)
  have "thread_ok m S t" using i by (simp add: lock_inv_def)
  then show ?thesis using Start i code_of_disciplined [of E m op]
    by (intro lock_inv_other [of m S S' t]) (auto simp: thread_ok_def lock_inv_def)
next
  case (Lock t op k)
  then show ?thesis using i lock_inv_running [OF i Lock(2)]
    by (intro lock_inv_other [of m S S' t]) (auto simp: thread_ok_def lock_inv_def)
next
  case (Unlock t op k)
  then show ?thesis using i lock_inv_running [OF i Unlock(2)]
    by (intro lock_inv_other [of m S S' t]) (auto simp: thread_ok_def lock_inv_def)
next
  case (Call t op c k)
  then show ?thesis using i lock_inv_running [OF i Call(2)]
    by (intro lock_inv_other [of m S S' t]) (auto simp: thread_ok_def lock_inv_def)
next
  case (Return t op c k r w1)
  then show ?thesis using i lock_inv_running [OF i Return(2)]
    by (intro lock_inv_other [of m S S' t]) (auto simp: thread_ok_def lock_inv_def world_simps)
next
  case (Local t op f k)
  then show ?thesis using i lock_inv_running [OF i Local(2)]
    by (intro lock_inv_other [of m S S' t]) (auto simp: thread_ok_def lock_inv_def)
next
  case (Read t op k)
  then show ?thesis using i lock_inv_running [OF i Read(2)]
    by (intro lock_inv_other [of m S S' t]) (auto simp: thread_ok_def lock_inv_def)
next
  case (Enter t op k w1)
  then show ?thesis using i lock_inv_running [OF i Enter(2)]
    by (intro lock_inv_other [of m S S' t])
      (auto simp: thread_ok_def lock_inv_def guard_new_cases split: if_splits)
next
  case (Collide t op k s w1)
  then show ?thesis using lock_inv_running [OF i Collide(2)]
    by (auto simp: guard_new_cases split: if_splits)
next
  case (Leave t op k)
  then show ?thesis using i lock_inv_running [OF i Leave(2)]
    by (intro lock_inv_other [of m S S' t]) (auto simp: thread_ok_def lock_inv_def ProgressGuard_drop_def)
next
  case (Unwind t op s)
  then show ?thesis using i lock_inv_running [OF i Unwind(2)]
    by (intro lock_inv_other [of m S S' t]) (auto simp: thread_ok_def lock_inv_def)
next
  case (Finish t op)
  then show ?thesis using i lock_inv_running [OF i Finish(2)]
    by (intro lock_inv_other [of m S S' t]) (auto simp: thread_ok_def lock_inv_def)
qed

lemma lock_inv_steps: "(mt_micro_step E blocks m)\<^sup>*\<^sup>* S S' \<Longrightarrow> lock_inv m S \<Longrightarrow> lock_inv m S'"
  by (induction rule: rtranclp_induct) (auto intro: lock_inv_step)

lemma fresh_lock_inv:
  "\<not> atomics w (wk_progressing (mt_worker m)) \<Longrightarrow> lock_inv m (fresh_system w programs)"
  by (simp add: lock_inv_def thread_ok_def fresh_system_def)

lemmas lock_inv_reach = lock_inv_steps [OF _ fresh_lock_inv]

text \<open>What the lock is for: two threads that ran \<^verbatim>\<open>progress\<close> on the worker without it could collide
  in a debug build.\<close>

lemma unlocked_threads_collide:
  assumes "debug_assertions E" and "\<not> flag_set m S"
    and "sy_running S = (\<lambda>t. if t < 2 then Some (Mt_progress, forget (progress_code E (mt_worker m))) else None)"
  shows "\<exists>S'. (mt_micro_step E blocks m)\<^sup>*\<^sup>* S S' \<and> sy_collided S'"
proof -
  let ?flag = "wk_progressing (mt_worker m)"
  obtain k where k: "forget (progress_code E (mt_worker m)) = Op_enter k"
    using assms(1) by (simp add: progress_code_def forget_def)
  let ?S1 = "goes_on 0 Mt_progress k (S\<lparr>sy_world := atomic_store ?flag True (sy_world S)\<rparr>)"
  have "mt_micro_step E blocks m S ?S1"
    using Enter [of S 0 Mt_progress k m] assms k by (simp add: guard_new_cases)
  moreover have "\<exists>S2. mt_micro_step E blocks m ?S1 S2 \<and> sy_collided S2"
    using Collide [of ?S1 1 Mt_progress k m] assms k by (fastforce simp: guard_new_cases)
  ultimately show ?thesis by (meson converse_rtranclp_into_rtranclp rtranclp.rtrancl_refl)
qed

subsection \<open>Serialisability\<close>

text \<open>
  Every operation but \<^verbatim>\<open>wait_request\<close>, which checks its request between the locks, is one section:
  it takes the lock first and gives it back last.
\<close>

primrec lock_free :: "('u, 'r) mt_code \<Rightarrow> bool" where
  "lock_free (Op_done x) = True"
| "lock_free (Op_panic s) = True"
| "lock_free (Op_lock k) = False"
| "lock_free (Op_unlock k) = False"
| "lock_free (Op_call c k) = (\<forall>r. lock_free (k r))"
| "lock_free (Op_enter k) = lock_free k"
| "lock_free (Op_leave k) = lock_free k"
| "lock_free (Op_local f k) = lock_free k"
| "lock_free (Op_read k) = (\<forall>w. lock_free (k w))"

primrec unlocks_last :: "('u, 'r) mt_code \<Rightarrow> bool" where
  "unlocks_last (Op_done x) = False"
| "unlocks_last (Op_panic s) = True"
| "unlocks_last (Op_lock k) = False"
| "unlocks_last (Op_unlock k) = (\<exists>x. k = Op_done x)"
| "unlocks_last (Op_call c k) = (\<forall>r. unlocks_last (k r))"
| "unlocks_last (Op_enter k) = unlocks_last k"
| "unlocks_last (Op_leave k) = unlocks_last k"
| "unlocks_last (Op_local f k) = unlocks_last k"
| "unlocks_last (Op_read k) = (\<forall>w. unlocks_last (k w))"

definition one_section :: "('u, 'r) mt_code \<Rightarrow> bool" where
  "one_section c \<longleftrightarrow> (\<exists>k. c = Op_lock k \<and> unlocks_last k)"

lemma lock_free_and_then: "lock_free c \<Longrightarrow> (\<And>x. lock_free (f x)) \<Longrightarrow> lock_free (and_then c f)"
  by (induction c) auto

lemma lock_free_forget: "lock_free c \<Longrightarrow> lock_free (forget c)"
  unfolding forget_def by (erule lock_free_and_then) simp

lemma unlocks_last_body: "lock_free c \<Longrightarrow> unlocks_last (and_then c (\<lambda>r. Op_unlock (Op_done r)))"
  by (induction c) auto

lemma unlocks_last_forget: "unlocks_last c \<Longrightarrow> unlocks_last (and_then c (\<lambda>_. Op_done ()))"
  by (induction c) auto

lemma one_section_forget: "one_section c \<Longrightarrow> one_section (forget c)"
  by (auto simp: one_section_def forget_def unlocks_last_forget)

lemma one_section_locked: "lock_free (body (mt_worker m)) \<Longrightarrow> one_section (MtWorker_locked m body)"
  by (simp add: one_section_def MtWorker_locked_def MtWorker_lock_def unlocks_last_body)

lemma lock_free_worker:
  "lock_free (progress_code E wk)" "lock_free (flush_code E wk params)" "lock_free (fence_code wk)"
  "lock_free (wait_code wk)" "lock_free (arm_code wk)" "lock_free (signal_code wk)"
  "lock_free (get_efd_code wk)" "lock_free (cancel_request_code wk req)"
  "lock_free (create_ep_code E wk p)" "lock_free (pack_address_code wk)"
  by (auto simp: progress_code_def flush_code_def fence_code_def wait_code_def arm_code_def
      signal_code_def get_efd_code_def cancel_request_code_def create_ep_code_def pack_address_code_def
      status_code_def call_code_def Let_def split: option.split outcome.split)

lemma lock_free_steps: "lock_free (steps_code E ss wk)"
proof (induction ss)
  case (Cons s ss)
  have "lock_free (worker_code E wk s)"
    by (cases s) (auto simp: call_code_def intro!: lock_free_forget lock_free_worker lock_free_and_then
        split: sum.split)
  then show ?case using Cons by (auto intro: lock_free_and_then)
qed simp

fun waits_for_request :: "mt_step \<Rightarrow> bool" where
  "waits_for_request (Mt_wait_request req) = True"
| "waits_for_request _ = False"

lemma code_of_section: "\<not> waits_for_request op \<Longrightarrow> one_section (code_of E m op)"
  by (cases op) (auto intro!: one_section_forget one_section_locked lock_free_and_then
      simp: lock_free_worker lock_free_steps
      MtWorker_with_worker_code_def MtWorker_progress_code_def MtWorker_flush_code_def
      MtWorker_fence_code_def MtWorker_wait_code_def MtWorker_arm_code_def MtWorker_signal_code_def
      MtWorker_get_efd_code_def MtWorker_cancel_request_code_def MtWorker_create_ep_code_def
      MtWorker_pack_address_code_def split: sum.split)

text \<open>
  The operation a thread has started but not taken the lock for, and the world a list of operations
  leaves, each run whole.
\<close>

definition waiting :: "'u mt_system \<Rightarrow> nat \<Rightarrow> mt_step list" where
  "waiting S t = (case sy_running S t of Some (op, Op_lock k) \<Rightarrow> [op] | _ \<Rightarrow> [])"

definition run_serially :: "'u env \<Rightarrow> MtWorker \<Rightarrow> mt_step list \<Rightarrow> 'u world \<Rightarrow> 'u world" where
  "run_serially E m = fold (\<lambda>op v. snd (mt_exec E m op v))"

abbreviation rest_of :: "'u env \<Rightarrow> MtWorker \<Rightarrow> ('u, unit) mt_code \<Rightarrow> 'u world \<Rightarrow> 'u world" where
  "rest_of E m k v \<equiv> snd (run_code E (wk_progressing (mt_worker m)) k v)"

text \<open>
  The holder of the lock is inside its section, the others are before or after theirs; while the
  lock is held, what is left of the section leads where the serial run of the history leads.
\<close>

definition thread_serial ::
  "'u env \<Rightarrow> MtWorker \<Rightarrow> (nat \<Rightarrow> mt_step list) \<Rightarrow> 'u mt_system \<Rightarrow> nat \<Rightarrow> bool" where
  "thread_serial E m programs S t \<longleftrightarrow>
     (case sy_running S t of
        None \<Rightarrow> sy_lock S \<noteq> Some t
      | Some (op, k) \<Rightarrow> if sy_lock S = Some t then unlocks_last k
          else k = Op_done () \<or> (k = code_of E m op \<and> one_section k)) \<and>
     map snd (filter (\<lambda>p. fst p = t) (sy_history S)) @ waiting S t @ sy_pending S t = programs t"

definition serial_inv ::
  "'u env \<Rightarrow> MtWorker \<Rightarrow> 'u world \<Rightarrow> (nat \<Rightarrow> mt_step list) \<Rightarrow> 'u mt_system \<Rightarrow> bool" where
  "serial_inv E m w programs S \<longleftrightarrow> (\<forall>t. thread_serial E m programs S t) \<and>
     run_serially E m (map snd (sy_history S)) w =
       (case sy_lock S of
          None \<Rightarrow> sy_world S
        | Some t \<Rightarrow> (case sy_running S t of None \<Rightarrow> sy_world S
          | Some (op, k) \<Rightarrow> rest_of E m k (sy_world S)))"

lemma serial_inv_thread: "serial_inv E m w programs S \<Longrightarrow> thread_serial E m programs S t"
  by (simp add: serial_inv_def)

lemma serial_other:
  assumes "serial_inv E m w programs S" and "thread_serial E m programs S' t"
    and "\<And>u. u \<noteq> t \<Longrightarrow> sy_running S' u = sy_running S u \<and> sy_pending S' u = sy_pending S u \<and>
      (sy_lock S' = Some u \<longleftrightarrow> sy_lock S = Some u) \<and>
      filter (\<lambda>p. fst p = u) (sy_history S') = filter (\<lambda>p. fst p = u) (sy_history S)"
  shows "thread_serial E m programs S' u"
proof (cases "u = t")
  case False
  then show ?thesis using serial_inv_thread [OF assms(1), of u] assms(3) [OF False]
    by (auto simp: thread_serial_def waiting_def split: option.splits if_splits)
qed (simp add: assms(2))

text \<open>A step inside a section.\<close>

lemma serial_section:
  assumes i: "serial_inv E m w programs S" and r: "sy_running S t = Some (op, k)"
    and k: "k \<noteq> Op_done ()" "\<And>k'. k \<noteq> Op_lock k'"
  shows "sy_lock S = Some t" and "unlocks_last k"
  using serial_inv_thread [OF i, of t] r k
  by (auto simp: thread_serial_def one_section_def split: if_splits)

lemma serial_run:
  assumes i: "serial_inv E m w programs S" and r: "sy_running S t = Some (op, k)"
    and k: "k \<noteq> Op_done ()" "\<And>k'. k \<noteq> Op_lock k'" and "unlocks_last k'"
    and "rest_of E m k' (sy_world S') = rest_of E m k (sy_world S)"
    and "sy_running S' = (sy_running S)(t := Some (op, k'))" and "sy_lock S' = sy_lock S"
    and "sy_history S' = sy_history S" and "sy_pending S' = sy_pending S"
  shows "serial_inv E m w programs S'"
proof -
  note h = serial_section [OF i r k]
  have "\<not> (\<exists>q. k' = Op_lock q)" using assms(5) by auto
  then have "waiting S' t = waiting S t"
    using k r assms(7) by (auto simp: waiting_def split: mt_code.split)
  then have "thread_serial E m programs S' t"
    using serial_inv_thread [OF i, of t] h r assms(5,7-) by (simp add: thread_serial_def)
  then have "thread_serial E m programs S' u" for u
    by (rule serial_other [OF i]) (simp add: assms(7-))
  then show ?thesis using i h r assms(6-) by (simp add: serial_inv_def)
qed

lemma serial_inv_step:
  assumes "mt_micro_step E blocks m S S'" and l: "lock_inv m S" and i: "serial_inv E m w programs S"
    and p: "\<And>t. list_all (\<lambda>op. \<not> waits_for_request op) (programs t)"
  shows "serial_inv E m w programs S'"
  using assms(1)
proof cases
  case (Start t op ops)
  have th: "thread_serial E m programs S t" by (rule serial_inv_thread [OF i])
  then have lk: "sy_lock S \<noteq> Some t" and pr: "programs t = map snd (filter (\<lambda>p. fst p = t) (sy_history S)) @ op # ops"
    using Start(2,4) by (auto simp: thread_serial_def waiting_def)
  have "\<not> waits_for_request op" using p [of t] pr by simp
  then have o: "one_section (code_of E m op)" by (rule code_of_section)
  then have "thread_serial E m programs S' t"
    using lk pr by (auto simp: Start(1) thread_serial_def waiting_def one_section_def)
  then have "thread_serial E m programs S' u" for u
    by (rule serial_other [OF i]) (simp add: Start(1))
  moreover have "sy_running S' u = sy_running S u" if "sy_lock S = Some u" for u
    using that lk by (auto simp: Start(1))
  ultimately show ?thesis using i by (auto simp: serial_inv_def Start(1) split: option.splits)
next
  case (Lock t op k)
  have th: "thread_serial E m programs S t" by (rule serial_inv_thread [OF i])
  then have c: "Op_lock k = code_of E m op" and u: "unlocks_last k"
    using Lock(2,3) by (auto simp: thread_serial_def one_section_def)
  have "thread_serial E m programs S' t"
    using th u Lock(2,3) by (auto simp: Lock(1) thread_serial_def waiting_def split: mt_code.split)
  then have t: "thread_serial E m programs S' u" for u
    by (rule serial_other [OF i]) (simp add: Lock(1,3))
  have "run_code E (wk_progressing (mt_worker m)) k = mt_exec E m op"
    using run_code_of [of E m op] unfolding c [symmetric] by simp
  then show ?thesis using i t Lock(3) by (simp add: serial_inv_def Lock(1) run_serially_def)
next
  case (Unlock t op k)
  have h: "sy_lock S = Some t" "k = Op_done ()"
    using serial_section [OF i Unlock(2)] by auto
  have "thread_serial E m programs S' t"
    using serial_inv_thread [OF i, of t] Unlock(2) h by (simp add: Unlock(1) thread_serial_def waiting_def)
  then have "thread_serial E m programs S' u" for u
    by (rule serial_other [OF i]) (simp add: Unlock(1) h)
  then show ?thesis using i h Unlock(2) by (simp add: serial_inv_def Unlock(1))
next
  case (Call t op c k)
  have "thread_serial E m programs S' u = thread_serial E m programs S u" for u
    by (cases "sy_running S u") (auto simp: Call(1) thread_serial_def waiting_def)
  then show ?thesis using i by (simp add: serial_inv_def Call(1) split: option.split prod.split)
next
  case (Return t op c k r w1)
  have "unlocks_last (Op_call c k)" using serial_section [OF i Return(2)] by simp
  then show ?thesis using Return by (intro serial_run [OF i Return(2)]) auto
next
  case (Local t op f k)
  have "unlocks_last (Op_local f k)" using serial_section [OF i Local(2)] by simp
  then show ?thesis using Local by (intro serial_run [OF i Local(2)]) auto
next
  case (Read t op k)
  have "unlocks_last (Op_read k)" using serial_section [OF i Read(2)] by simp
  then show ?thesis using Read by (intro serial_run [OF i Read(2)]) auto
next
  case (Enter t op k w1)
  have "unlocks_last (Op_enter k)" using serial_section [OF i Enter(2)] by simp
  then show ?thesis using Enter by (intro serial_run [OF i Enter(2)]) auto
next
  case (Collide t op k s w1)
  then show ?thesis using lock_inv_running [OF l Collide(2)]
    by (auto simp: guard_new_cases split: if_splits)
next
  case (Leave t op k)
  have "unlocks_last (Op_leave k)" using serial_section [OF i Leave(2)] by simp
  then show ?thesis using Leave by (intro serial_run [OF i Leave(2)]) auto
next
  case (Unwind t op s)
  have h: "sy_lock S = Some t" using serial_section [OF i Unwind(2)] by simp
  have "thread_serial E m programs S' t"
    using serial_inv_thread [OF i, of t] Unwind(2) h by (simp add: Unwind(1) thread_serial_def waiting_def)
  then have "thread_serial E m programs S' u" for u
    by (rule serial_other [OF i]) (simp add: Unwind(1) h)
  then show ?thesis using i h Unwind(2) by (simp add: serial_inv_def Unwind(1))
next
  case (Finish t op)
  have th: "thread_serial E m programs S t" by (rule serial_inv_thread [OF i])
  then have lk: "sy_lock S \<noteq> Some t" using Finish(2) by (auto simp: thread_serial_def)
  then have "thread_serial E m programs S' t"
    using th Finish(2) by (simp add: Finish(1) thread_serial_def waiting_def)
  then have t: "thread_serial E m programs S' u" for u
    by (rule serial_other [OF i]) (simp add: Finish(1))
  moreover have "sy_running S' u = sy_running S u" if "sy_lock S = Some u" for u
    using that lk by (auto simp: Finish(1))
  ultimately show ?thesis using i by (auto simp: serial_inv_def Finish(1) split: option.splits)
qed

lemma serial_inv_steps:
  assumes "(mt_micro_step E blocks m)\<^sup>*\<^sup>* S S'" and "lock_inv m S" and "serial_inv E m w programs S"
    and "\<And>t. list_all (\<lambda>op. \<not> waits_for_request op) (programs t)"
  shows "serial_inv E m w programs S'"
  using assms(1)
proof (induction rule: rtranclp_induct)
  case (step T T')
  from serial_inv_step [OF step(2) lock_inv_steps [OF step(1) assms(2)] step(3) assms(4)] show ?case .
qed (rule assms(3))

subsection \<open>Properties\<close>

text \<open>A thread inside a foreign call that needs the lock: any but the check of a request's status.\<close>

definition in_call :: "'u mt_system \<Rightarrow> nat \<Rightarrow> bool" where
  "in_call S t \<longleftrightarrow> sy_inside S t \<and> (\<exists>op c k. sy_running S t = Some (op, Op_call c k) \<and> needs_lock c)"

text \<open>C6: The operations of a shared worker exclude each other, by where their code takes the lock.
  Whatever methods the threads call, closures of \<^verbatim>\<open>with_worker\<close> and waits for requests included,
  and however their steps interleave: no two threads are inside foreign calls at once, request
  status checks apart, and the thread that is inside one holds the lock; the debug guard of
  \<^verbatim>\<open>progress\<close> never finds its flag set; and the flag is set only while the lock is held.\<close>

theorem mt_lock_excludes:
  assumes "\<not> atomics w (wk_progressing (mt_worker m))"
    and "(mt_micro_step E blocks m)\<^sup>*\<^sup>* (fresh_system w programs) S"
  shows "(\<forall>t u. in_call S t \<and> in_call S u \<longrightarrow> t = u) \<and>
    (\<forall>t. in_call S t \<longrightarrow> sy_lock S = Some t) \<and>
    \<not> sy_collided S \<and> (flag_set m S \<longrightarrow> sy_lock S \<noteq> None)"
proof -
  have i: "lock_inv m S" by (rule lock_inv_reach [OF assms(2,1)])
  have h: "sy_lock S = Some t" if "in_call S t" for t
    using that lock_inv_running(1) [OF i] by (fastforce simp: in_call_def)
  have "t = u" if "in_call S t" "in_call S u" for t u
    using h [OF that(1)] h [OF that(2)] by simp
  then show ?thesis using i h by (auto simp: lock_inv_def)
qed

text \<open>C7: Shared operations are serialisable in the order in which they take the lock, for threads that
  do not call \<^verbatim>\<open>wait_request\<close> (its checks of the request run between the sections of other
  threads).  Whenever the lock is free, the world is the one that the operations of the history
  leave when they are run whole, one after the other; and each thread's program is its part of
  the history, then the operation it waits to take the lock for, then what it has not started.\<close>

theorem mt_serializable:
  assumes "\<not> atomics w (wk_progressing (mt_worker m))"
    and "\<And>t. list_all (\<lambda>op. \<not> waits_for_request op) (programs t)"
    and "(mt_micro_step E blocks m)\<^sup>*\<^sup>* (fresh_system w programs) S" and "sy_lock S = None"
  shows "sy_world S = run_serially E m (map snd (sy_history S)) w \<and>
    map snd (filter (\<lambda>p. fst p = t) (sy_history S)) @ waiting S t @ sy_pending S t = programs t"
proof -
  have "serial_inv E m w programs (fresh_system w programs)"
    by (simp add: serial_inv_def thread_serial_def waiting_def run_serially_def fresh_system_def)
  from serial_inv_steps [OF assms(3) fresh_lock_inv [OF assms(1)] this assms(2)]
  show ?thesis using assms(4) by (simp add: serial_inv_def thread_serial_def)
qed

subsection \<open>Witnesses\<close>

text \<open>Two threads on a debug build of a library that answers every call with zeros: while one is
  inside a fence the other has to wait to progress.\<close>

definition zero_env :: "unit env" where
  "zero_env = \<lparr>lib = \<lambda>c u m. (ffi_ret0, u, m), debug_assertions = True\<rparr>"

definition shared_worker :: MtWorker where
  "shared_worker = \<lparr>mt_strong = 2,
     mt_worker = \<lparr>wk_handle = 1, wk_alive = 0, wk_am_handlers = [], wk_progressing = 1\<rparr>\<rparr>"

definition idle_world :: "unit world" where
  "idle_world = \<lparr>ucx = (), mem = \<lambda>_. 0, atomics = \<lambda>i. i = 0, next_cell = 2, listeners = \<lambda>_. None,
     trace = [], stderr = []\<rparr>"

definition two_programs :: "nat \<Rightarrow> mt_step list" where
  "two_programs t = (if t = 0 then [Mt_progress] else if t = 1 then [Mt_fence] else [])"

abbreviation never_blocks :: "ffi_call \<Rightarrow> unit \<Rightarrow> bool" where
  "never_blocks \<equiv> \<lambda>c u. False"

abbreviation fence_rest :: "ffi_ret \<Rightarrow> (unit, unit) mt_code" where
  "fence_rest \<equiv> \<lambda>_. Op_unlock (Op_done ())"

lemma fence_code_of:
  "code_of E shared_worker Mt_fence = Op_lock (Op_call (WorkerC (ucp_worker_fence 1)) fence_rest)"
  by (simp add: forget_def MtWorker_fence_code_def MtWorker_locked_def MtWorker_lock_def fence_code_def
      status_code_def call_code_def shared_worker_def)

text \<open>Thread 1 starts its fence, takes the lock and makes the call.\<close>

definition fencing :: "unit mt_system" where
  "fencing = (fresh_system idle_world two_programs)\<lparr>
     sy_pending := two_programs(1 := []), sy_lock := Some 1, sy_history := [(1, Mt_fence)],
     sy_running := (\<lambda>_. None)(1 := Some (Mt_fence, Op_call (WorkerC (ucp_worker_fence 1)) fence_rest)),
     sy_inside := (\<lambda>_. False)(1 := True)\<rparr>"

lemma run_to_fencing:
  "(mt_micro_step zero_env never_blocks shared_worker)\<^sup>*\<^sup>* (fresh_system idle_world two_programs) fencing"
proof -
  let ?step = "mt_micro_step zero_env never_blocks shared_worker"
  let ?S0 = "fresh_system idle_world two_programs"
  let ?k = "Op_call (WorkerC (ucp_worker_fence 1)) fence_rest"
  let ?S1 = "goes_on 1 Mt_fence (Op_lock ?k) (?S0\<lparr>sy_pending := (sy_pending ?S0)(1 := [])\<rparr>)"
  let ?S2 = "goes_on 1 Mt_fence ?k (?S1\<lparr>sy_lock := Some 1, sy_history := sy_history ?S1 @ [(1, Mt_fence)]\<rparr>)"
  have "?step ?S0 ?S1"
    using Start [of ?S0 1 Mt_fence "[]" zero_env never_blocks shared_worker]
    by (simp add: fresh_system_def two_programs_def fence_code_of del: code_of.simps)
  moreover have "?step ?S1 ?S2"
    using Lock [of ?S1 1 Mt_fence ?k zero_env never_blocks shared_worker] by (simp add: fresh_system_def)
  moreover have "?step ?S2 fencing"
    using Call [of ?S2 1 Mt_fence _ fence_rest zero_env never_blocks shared_worker]
    by (simp add: fresh_system_def goes_on_def fencing_def)
  ultimately show ?thesis by (meson converse_rtranclp_into_rtranclp rtranclp.rtrancl_refl)
qed

theorem mt_lock_excludes_witness:
  "in_call fencing 1 \<and> \<not> in_call fencing 0 \<and> sy_lock fencing = Some 1 \<and> \<not> sy_collided fencing"
proof -
  have f: "\<not> atomics idle_world (wk_progressing (mt_worker shared_worker))"
    by (simp add: idle_world_def shared_worker_def)
  have "in_call fencing 1" by (simp add: in_call_def fencing_def)
  then show ?thesis using mt_lock_excludes [OF f run_to_fencing] by (metis zero_neq_one)
qed

theorem mt_serializable_witness:
  "\<exists>S. (mt_micro_step zero_env never_blocks shared_worker)\<^sup>*\<^sup>* (fresh_system idle_world two_programs) S \<and>
     sy_history S = [(1, Mt_fence)] \<and> sy_pending S 0 = [Mt_progress] \<and>
     sy_world S = run_serially zero_env shared_worker [Mt_fence] idle_world"
proof -
  let ?step = "mt_micro_step zero_env never_blocks shared_worker"
  let ?c = "WorkerC (ucp_worker_fence 1)"
  let ?S1 = "goes_on 1 Mt_fence (Op_unlock (Op_done ()))
    (fencing\<lparr>sy_world := snd (ffi zero_env ?c (sy_world fencing)), sy_inside := (sy_inside fencing)(1 := False)\<rparr>)"
  let ?S2 = "goes_on 1 Mt_fence (Op_done ()) (?S1\<lparr>sy_lock := None\<rparr>)"
  have "?step fencing ?S1"
    using Return [of fencing 1 Mt_fence ?c fence_rest never_blocks zero_env _ _ shared_worker]
    by (simp add: fencing_def prod_eq_iff)
  moreover have "?step ?S1 ?S2"
    using Unlock [of ?S1 1 Mt_fence "Op_done ()" zero_env never_blocks shared_worker] by simp
  ultimately have run: "?step\<^sup>*\<^sup>* (fresh_system idle_world two_programs) ?S2"
    using run_to_fencing by (meson rtranclp.rtrancl_into_rtrancl)
  have f: "\<not> atomics idle_world (wk_progressing (mt_worker shared_worker))"
    by (simp add: idle_world_def shared_worker_def)
  have p: "list_all (\<lambda>op. \<not> waits_for_request op) (two_programs t)" for t by (simp add: two_programs_def)
  have "sy_world ?S2 = run_serially zero_env shared_worker (map snd (sy_history ?S2)) idle_world"
    using mt_serializable [OF f p run] by simp
  then show ?thesis using run
    by (intro exI [of _ ?S2]) (simp add: fencing_def two_programs_def)
qed

end
