(* ===== verification/Mt_Finish.thy ===== *)
theory Mt_Finish
  imports Mt_Lock "HOL-Library.Multiset"
begin

text \<open>
  Progress of the threads that share a worker (\<^verbatim>\<open>MtWorker\<close>, \<^verbatim>\<open>src/worker/worker.rs\<close>).  Threads
  that do not wait on the worker all come to their end: no reachable state is stuck while a thread
  has something left to do, and no run goes on for ever.  A thread in \<^verbatim>\<open>MtWorker::wait\<close> holds the
  lock while UCX waits for an event, so a thread that would signal it cannot.
\<close>

subsection \<open>Code that does not wait\<close>

text \<open>The calls that UCX documents to return only when something happens.\<close>

fun is_wait :: "ffi_call \<Rightarrow> bool" where
  "is_wait (WorkerC (ucp_worker_wait h)) = True"
| "is_wait (WorkerC (ucp_worker_wait_mem h a)) = True"
| "is_wait _ = False"

fun step_waits :: "worker_step \<Rightarrow> bool" where
  "step_waits W_wait = True"
| "step_waits (W_other c) = is_wait c"
| "step_waits _ = False"

fun op_waits :: "mt_step \<Rightarrow> bool" where
  "op_waits Mt_wait = True"
| "op_waits (Mt_with_worker ss) = list_ex step_waits ss"
| "op_waits _ = False"

text \<open>No call of the code waits, and it panics only if \<open>d\<close>, which is a debug build.\<close>

primrec prompt :: "bool \<Rightarrow> ('u, 'r) mt_code \<Rightarrow> bool" where
  "prompt d (Op_done x) = True"
| "prompt d (Op_panic s) = d"
| "prompt d (Op_lock k) = prompt d k"
| "prompt d (Op_unlock k) = prompt d k"
| "prompt d (Op_call c k) = (\<not> is_wait c \<and> (\<forall>r. prompt d (k r)))"
| "prompt d (Op_enter k) = prompt d k"
| "prompt d (Op_leave k) = prompt d k"
| "prompt d (Op_local f k) = prompt d k"
| "prompt d (Op_read k) = (\<forall>w. prompt d (k w))"

lemma prompt_and_then: "prompt d c \<Longrightarrow> (\<And>x. prompt d (f x)) \<Longrightarrow> prompt d (and_then c f)"
  by (induction c) auto

lemma prompt_forget: "prompt d c \<Longrightarrow> prompt d (forget c)"
  unfolding forget_def by (erule prompt_and_then) simp

lemma prompt_locked: "prompt d (body (mt_worker m)) \<Longrightarrow> prompt d (MtWorker_locked m body)"
  by (auto simp: MtWorker_locked_def MtWorker_lock_def intro: prompt_and_then)

lemma prompt_worker:
  "prompt d (progress_code E wk)" "prompt (debug_assertions E) (flush_code E wk params)"
  "prompt d (fence_code wk)" "prompt d (arm_code wk)" "prompt d (signal_code wk)"
  "prompt d (get_efd_code wk)" "prompt d (cancel_request_code wk req)"
  "prompt d (create_ep_code E wk p)" "prompt d (pack_address_code wk)"
  "prompt d (check_finished_code req)"
  using status_ptr_no_abort [of E]
  by (auto simp: progress_code_def flush_code_def fence_code_def arm_code_def
      signal_code_def get_efd_code_def cancel_request_code_def create_ep_code_def pack_address_code_def
      check_finished_code_def status_code_def call_code_def Let_def
      dest: status_ptr_panic_debug split: option.split outcome.split)

lemma prompt_steps:
  "\<not> list_ex step_waits ss \<Longrightarrow> prompt (debug_assertions E) (steps_code E ss wk)"
proof (induction ss)
  case (Cons s ss)
  then have "prompt (debug_assertions E) (worker_code E wk s)"
    by (cases s) (auto simp: call_code_def intro!: prompt_forget prompt_worker prompt_and_then
        split: sum.split)
  then show ?case using Cons by (auto intro: prompt_and_then)
qed simp

lemma prompt_wait_rounds: "prompt d (MtWorker_wait_rounds_code E m req n)"
proof (induction n)
  case (Suc n)
  have "prompt d (MtWorker_progress_code E m)"
    by (simp add: MtWorker_progress_code_def prompt_locked prompt_worker)
  then show ?case using Suc by (auto intro!: prompt_and_then prompt_worker split: sum.split)
qed simp

lemma code_of_prompt: "\<not> op_waits op \<Longrightarrow> prompt (debug_assertions E) (code_of E m op)"
  by (cases op) (auto intro!: prompt_forget prompt_locked prompt_and_then
      simp: prompt_steps prompt_worker prompt_wait_rounds
      MtWorker_with_worker_code_def MtWorker_progress_code_def MtWorker_flush_code_def
      MtWorker_fence_code_def MtWorker_arm_code_def MtWorker_signal_code_def
      MtWorker_get_efd_code_def MtWorker_cancel_request_code_def MtWorker_wait_request_code_def
      MtWorker_create_ep_code_def MtWorker_pack_address_code_def split: sum.split)

text \<open>The threads of \<open>T\<close>, none of which waits; only a debug build kills a thread.\<close>

definition prompt_inv :: "'u env \<Rightarrow> nat set \<Rightarrow> 'u mt_system \<Rightarrow> bool" where
  "prompt_inv E T S \<longleftrightarrow>
     (\<forall>t. list_all (\<lambda>op. \<not> op_waits op) (sy_pending S t) \<and>
        (case sy_running S t of None \<Rightarrow> True | Some (op, k) \<Rightarrow> t \<in> T \<and> prompt (debug_assertions E) k) \<and>
        (sy_pending S t \<noteq> [] \<longrightarrow> t \<in> T) \<and> (sy_dead S t \<longrightarrow> debug_assertions E))"

lemma prompt_inv_running:
  "prompt_inv E T S \<Longrightarrow> sy_running S t = Some (op, k) \<Longrightarrow> t \<in> T \<and> prompt (debug_assertions E) k"
  by (auto simp: prompt_inv_def dest: spec [of _ t])

lemma prompt_inv_thread:
  assumes "prompt_inv E T S"
    and "\<And>u. u \<noteq> t \<Longrightarrow> sy_running S' u = sy_running S u \<and> sy_pending S' u = sy_pending S u \<and>
      sy_dead S' u = sy_dead S u"
    and "list_all (\<lambda>op. \<not> op_waits op) (sy_pending S' t)" and "t \<in> T"
    and "case sy_running S' t of None \<Rightarrow> True | Some (op, k) \<Rightarrow> prompt (debug_assertions E) k"
    and "sy_dead S' t \<longrightarrow> debug_assertions E"
  shows "prompt_inv E T S'"
  unfolding prompt_inv_def
proof
  fix u
  show "list_all (\<lambda>op. \<not> op_waits op) (sy_pending S' u) \<and>
      (case sy_running S' u of None \<Rightarrow> True | Some (op, k) \<Rightarrow> u \<in> T \<and> prompt (debug_assertions E) k) \<and>
      (sy_pending S' u \<noteq> [] \<longrightarrow> u \<in> T) \<and> (sy_dead S' u \<longrightarrow> debug_assertions E)"
  proof (cases "u = t")
    case True
    then show ?thesis using assms(3-6) by (auto split: option.splits)
  next
    case False
    then show ?thesis using assms(1) assms(2) [OF False] by (simp add: prompt_inv_def)
  qed
qed

subsection \<open>Every step uses something up\<close>

text \<open>What the code of a thread can become in one step: its next instruction, or nothing at its end.\<close>

inductive next_code :: "('u, unit) mt_code option \<Rightarrow> ('u, unit) mt_code option \<Rightarrow> bool" where
  "next_code None (Some (Op_done x))"
| "next_code None (Some (Op_panic s))"
| "next_code (Some k) (Some (Op_lock k))"
| "next_code (Some k) (Some (Op_unlock k))"
| "next_code (Some (f r)) (Some (Op_call c f))"
| "next_code (Some k) (Some (Op_enter k))"
| "next_code (Some k) (Some (Op_leave k))"
| "next_code (Some k) (Some (Op_local g k))"
| "next_code (Some (f w)) (Some (Op_read f))"

inductive_cases next_codeE: "next_code x (Some k)"
inductive_cases next_code_NoneE: "next_code x None"

lemma accp_next_None: "Wellfounded.accp next_code None"
  by (rule accp.accI) (erule next_code_NoneE)

lemma accp_next_code: "Wellfounded.accp next_code (Some k)"
proof (induction k)
  case (Op_done x)
  show ?case by (rule accp.accI) (erule next_codeE; simp add: accp_next_None)
next
  case (Op_panic s)
  show ?case by (rule accp.accI) (erule next_codeE; simp add: accp_next_None)
next
  case (Op_lock k)
  show ?case by (rule accp.accI) (use Op_lock in \<open>auto elim!: next_codeE\<close>)
next
  case (Op_unlock k)
  show ?case by (rule accp.accI) (use Op_unlock in \<open>auto elim!: next_codeE\<close>)
next
  case (Op_call c f)
  show ?case by (rule accp.accI) (use Op_call in \<open>auto elim!: next_codeE\<close>)
next
  case (Op_enter k)
  show ?case by (rule accp.accI) (use Op_enter in \<open>auto elim!: next_codeE\<close>)
next
  case (Op_leave k)
  show ?case by (rule accp.accI) (use Op_leave in \<open>auto elim!: next_codeE\<close>)
next
  case (Op_local g k)
  show ?case by (rule accp.accI) (use Op_local in \<open>auto elim!: next_codeE\<close>)
next
  case (Op_read f)
  show ?case by (rule accp.accI) (use Op_read in \<open>auto elim!: next_codeE\<close>)
qed

lemma wf_next_code: "wfp (next_code :: ('u, unit) mt_code option \<Rightarrow> ('u, unit) mt_code option \<Rightarrow> bool)"
proof (rule accp_wfpI, rule allI)
  fix x :: "('u, unit) mt_code option"
  show "Wellfounded.accp next_code x"
    by (cases x) (simp_all only: accp_next_None accp_next_code)
qed

text \<open>
  A step uses up an operation its thread had not started, or an instruction, or the wait for a call
  to be made; the others keep what they have.  So the multiset of what the threads have left falls.
\<close>

definition thread_left :: "'u mt_system \<Rightarrow> nat \<Rightarrow> nat \<times> ('u, unit) mt_code option \<times> bool" where
  "thread_left S t = (length (sy_pending S t), map_option snd (sy_running S t), sy_inside S t)"

definition less_left ::
  "((nat \<times> ('u, unit) mt_code option \<times> bool) \<times> nat \<times> ('u, unit) mt_code option \<times> bool) set" where
  "less_left = less_than <*lex*> {(x, y). next_code x y} <*lex*> {(True, False)}"

lemma wf_less_left: "wf (less_left :: ((nat \<times> ('u, unit) mt_code option \<times> bool) \<times> _) set)"
proof -
  have "wf {(True, False)}" by (rule wf_subset [OF wf_measure [of "\<lambda>b. if b then 0 else 1"]]) auto
  then show ?thesis unfolding less_left_def using wf_next_code
    by (intro wf_lex_prod) (auto simp: wfp_def)
qed

definition all_left :: "nat set \<Rightarrow> 'u mt_system \<Rightarrow> (nat \<times> ('u, unit) mt_code option \<times> bool) multiset" where
  "all_left T S = image_mset (thread_left S) (mset_set T)"

lemma all_left_falls:
  assumes "finite T" and "t \<in> T" and "(thread_left S' t, thread_left S t) \<in> less_left"
    and "\<And>u. u \<noteq> t \<Longrightarrow> thread_left S' u = thread_left S u"
  shows "(all_left T S', all_left T S) \<in> mult less_left"
proof -
  have T: "mset_set T = add_mset t (mset_set (T - {t}))" using assms(1,2) by (simp add: mset_set.remove)
  have same: "image_mset (thread_left S') (mset_set (T - {t})) = image_mset (thread_left S) (mset_set (T - {t}))"
    using assms(1,4) by (intro image_mset_cong) auto
  have "(all_left T S', all_left T S) \<in> mult1 less_left"
    unfolding all_left_def T image_mset_add_mset same
    by (rule mult1I [where K = "{#thread_left S' t#}"]) (use assms(3) in auto)
  then show ?thesis unfolding mult_def by blast
qed

lemma step_uses_up:
  assumes "mt_micro_step E blocks m S S'" and l: "lock_inv m S" and p: "prompt_inv E T S" and f: "finite T"
  shows "(all_left T S', all_left T S) \<in> mult less_left \<and> prompt_inv E T S'"
  using assms(1)
proof cases
  case (Start t op ops)
  have t: "t \<in> T" and o: "\<not> op_waits op" "list_all (\<lambda>op. \<not> op_waits op) ops"
    using p Start(4) by (auto simp: prompt_inv_def dest: spec [of _ t])
  show ?thesis using t code_of_prompt [OF o(1), of E m] o(2) p Start
    by (intro conjI all_left_falls [OF f t] prompt_inv_thread [OF p, of t])
      (auto simp: thread_left_def less_left_def prompt_inv_def)
next
  case (Lock t op k)
  from prompt_inv_running [OF p Lock(2)] show ?thesis using p Lock
    by (intro conjI all_left_falls [OF f, of t] prompt_inv_thread [OF p, of t])
      (auto simp: thread_left_def less_left_def prompt_inv_def next_code.intros)
next
  case (Unlock t op k)
  from prompt_inv_running [OF p Unlock(2)] show ?thesis using p Unlock
    by (intro conjI all_left_falls [OF f, of t] prompt_inv_thread [OF p, of t])
      (auto simp: thread_left_def less_left_def prompt_inv_def next_code.intros)
next
  case (Call t op c k)
  from prompt_inv_running [OF p Call(2)] show ?thesis using p Call
    by (intro conjI all_left_falls [OF f, of t] prompt_inv_thread [OF p, of t])
      (auto simp: thread_left_def less_left_def prompt_inv_def)
next
  case (Return t op c k r w1)
  from prompt_inv_running [OF p Return(2)] show ?thesis using p Return
    by (intro conjI all_left_falls [OF f, of t] prompt_inv_thread [OF p, of t])
      (auto simp: thread_left_def less_left_def prompt_inv_def next_code.intros)
next
  case (Local t op g k)
  from prompt_inv_running [OF p Local(2)] show ?thesis using p Local
    by (intro conjI all_left_falls [OF f, of t] prompt_inv_thread [OF p, of t])
      (auto simp: thread_left_def less_left_def prompt_inv_def next_code.intros)
next
  case (Read t op k)
  from prompt_inv_running [OF p Read(2)] show ?thesis using p Read
    by (intro conjI all_left_falls [OF f, of t] prompt_inv_thread [OF p, of t])
      (auto simp: thread_left_def less_left_def prompt_inv_def next_code.intros)
next
  case (Enter t op k w1)
  from prompt_inv_running [OF p Enter(2)] show ?thesis using p Enter
    by (intro conjI all_left_falls [OF f, of t] prompt_inv_thread [OF p, of t])
      (auto simp: thread_left_def less_left_def prompt_inv_def next_code.intros)
next
  case (Collide t op k s w1)
  then show ?thesis using lock_inv_running [OF l Collide(2)]
    by (auto simp: guard_new_cases split: if_splits)
next
  case (Leave t op k)
  from prompt_inv_running [OF p Leave(2)] show ?thesis using p Leave
    by (intro conjI all_left_falls [OF f, of t] prompt_inv_thread [OF p, of t])
      (auto simp: thread_left_def less_left_def prompt_inv_def next_code.intros)
next
  case (Unwind t op s)
  from prompt_inv_running [OF p Unwind(2)] show ?thesis using p Unwind
    by (intro conjI all_left_falls [OF f, of t] prompt_inv_thread [OF p, of t])
      (auto simp: thread_left_def less_left_def prompt_inv_def next_code.intros)
next
  case (Finish t op)
  from prompt_inv_running [OF p Finish(2)] show ?thesis using p Finish
    by (intro conjI all_left_falls [OF f, of t] prompt_inv_thread [OF p, of t])
      (auto simp: thread_left_def less_left_def prompt_inv_def next_code.intros)
qed

lemma no_endless_run:
  assumes "lock_inv m (f 0)" and "prompt_inv E T (f 0)" and "finite T"
  shows "\<not> (\<forall>i. mt_micro_step E blocks m (f i) (f (Suc i)))"
proof
  assume steps: "\<forall>i. mt_micro_step E blocks m (f i) (f (Suc i))"
  have inv: "lock_inv m (f i) \<and> prompt_inv E T (f i)" for i
  proof (induction i)
    case (Suc i)
    then show ?case using steps lock_inv_step [of E blocks m "f i" "f (Suc i)"]
      step_uses_up [of E blocks m "f i" "f (Suc i)" T] assms(3) by blast
  qed (use assms in simp)
  have "(all_left T (f (Suc i)), all_left T (f i)) \<in> mult less_left" for i
    using inv [of i] steps step_uses_up [of E blocks m "f i" "f (Suc i)" T] assms(3) by blast
  moreover have "wf (mult (less_left :: ((nat \<times> ('a, unit) mt_code option \<times> bool) \<times> _) set))"
    by (rule wf_mult [OF wf_less_left])
  moreover have "\<exists>g. \<forall>i. (g (Suc i), g i) \<in> mult (less_left :: ((nat \<times> ('a, unit) mt_code option \<times> bool) \<times> _) set)"
    by (rule exI [of _ "\<lambda>i. all_left T (f i)"]) (use calculation(1) in simp)
  ultimately show False unfolding wf_iff_no_infinite_down_chain by blast
qed

lemma prompt_inv_reach:
  assumes "(mt_micro_step E blocks m)\<^sup>*\<^sup>* S S'" and "lock_inv m S" and "prompt_inv E T S" and "finite T"
  shows "prompt_inv E T S'"
  using assms(1)
proof (induction rule: rtranclp_induct)
  case (step S1 S2)
  from step_uses_up [OF step(2) lock_inv_steps [OF step(1) assms(2)] step(3) assms(4)] show ?case by simp
qed (rule assms(3))

subsection \<open>No deadlock\<close>

text \<open>A thread in an operation can go on, unless it wants a lock that is held.\<close>

lemma running_steps:
  assumes r: "sy_running S t = Some (op, k)" and p: "prompt d k"
    and b: "\<forall>c u. blocks c u \<longrightarrow> is_wait c"
  shows "(\<exists>S'. mt_micro_step E blocks m S S') \<or> ((\<exists>k'. k = Op_lock k') \<and> sy_lock S \<noteq> None)"
proof (cases k)
  case (Op_done x)
  show ?thesis using Finish [of S t op E blocks m] r Op_done by auto
next
  case (Op_panic s)
  show ?thesis using Unwind [of S t op s E blocks m] r Op_panic by blast
next
  case (Op_lock k')
  show ?thesis using Lock [of S t op k' E blocks m] r Op_lock by blast
next
  case (Op_unlock k')
  show ?thesis using Unlock [of S t op k' E blocks m] r Op_unlock by blast
next
  case (Op_call c f)
  obtain x w1 where c: "ffi E c (sy_world S) = (x, w1)" by fastforce
  have "\<not> blocks c (ucx (sy_world S))" using p Op_call b by auto
  then show ?thesis
    using Call [of S t op c f E blocks m] Return [of S t op c f blocks E x w1 m] r Op_call c by blast
next
  case (Op_enter k')
  show ?thesis
  proof (cases "flag_set m S")
    case True
    then show ?thesis using Collide [where S = S and t = t and m = m and E = E and blocks = blocks] r Op_enter
      by (auto simp: guard_new_cases)
  next
    case False
    then show ?thesis using Enter [where S = S and t = t and m = m and E = E and blocks = blocks] r Op_enter
      by (auto simp: guard_new_cases)
  qed
next
  case (Op_leave k')
  show ?thesis using Leave [of S t op k' E blocks m] r Op_leave by blast
next
  case (Op_local g k')
  show ?thesis using Local [of S t op g k' E blocks m] r Op_local by blast
next
  case (Op_read f)
  show ?thesis using Read [of S t op f E blocks m] r Op_read by blast
qed

lemma no_deadlock:
  assumes l: "lock_inv m S" and p: "prompt_inv E T S" and b: "\<forall>c u. blocks c u \<longrightarrow> is_wait c"
    and stop: "\<not> (\<exists>S'. mt_micro_step E blocks m S S')"
  shows "sy_running S t = None" and "sy_lock S = None" and "sy_pending S t = [] \<or> sy_dead S t"
proof -
  have idle: "sy_lock S \<noteq> None \<and> sy_lock S \<noteq> Some u" if "sy_running S u = Some (op, k)" for u op k
  proof -
    have k: "prompt (debug_assertions E) k" using prompt_inv_running [OF p that] by simp
    have "(\<exists>k'. k = Op_lock k') \<and> sy_lock S \<noteq> None"
      using running_steps [where E = E and m = m and blocks = blocks, OF that k b] stop by blast
    then show ?thesis using lock_inv_running(1) [OF l that] by auto
  qed
  show n: "sy_lock S = None"
  proof (rule ccontr)
    assume "sy_lock S \<noteq> None"
    then obtain u where u: "sy_lock S = Some u" by blast
    have "thread_ok m S u" using l by (simp add: lock_inv_def)
    then obtain op k where "sy_running S u = Some (op, k)" using u by (auto simp: thread_ok_def split: option.splits)
    from idle [OF this] u show False by simp
  qed
  show r: "sy_running S t = None" using idle n by (cases "sy_running S t") auto
  show "sy_pending S t = [] \<or> sy_dead S t"
    using Start [of S t _ _ E blocks m] r stop by (cases "sy_pending S t") blast+
qed

subsection \<open>Property\<close>

text \<open>C8: Threads that share a worker and do not wait on it all come to their end.  With finitely many
  threads that have a program, none of which calls \<^verbatim>\<open>wait\<close> (nor waits in a closure), and every
  foreign call but a wait returning: no run of their steps goes on for ever, whatever the scheduler
  does, and in a reachable state without a next step no thread is inside an operation, the lock is
  free, the progress guard never collided, and every program was run to its end, but for a thread
  that a debug build killed for a status pointer against UCX's contract.\<close>

theorem mt_threads_finish:
  assumes "\<not> atomics w (wk_progressing (mt_worker m))" and "finite {t. programs t \<noteq> []}"
    and "\<And>t. list_all (\<lambda>op. \<not> op_waits op) (programs t)" and "\<And>c u. blocks c u \<Longrightarrow> is_wait c"
  shows "\<not> (\<exists>f. f 0 = fresh_system w programs \<and> (\<forall>i. mt_micro_step E blocks m (f i) (f (Suc i)))) \<and>
    (\<forall>S. (mt_micro_step E blocks m)\<^sup>*\<^sup>* (fresh_system w programs) S \<and>
        \<not> (\<exists>S'. mt_micro_step E blocks m S S') \<longrightarrow>
      (\<forall>t. sy_running S t = None \<and> (sy_pending S t = [] \<or> sy_dead S t \<and> debug_assertions E)) \<and>
      sy_lock S = None \<and> \<not> sy_collided S)"
proof -
  let ?S0 = "fresh_system w programs" and ?T = "{t. programs t \<noteq> []}"
  have l: "lock_inv m ?S0" by (rule fresh_lock_inv [OF assms(1)])
  have p: "prompt_inv E ?T ?S0" using assms(3) by (simp add: prompt_inv_def fresh_system_def)
  have "\<not> (\<exists>f. f 0 = ?S0 \<and> (\<forall>i. mt_micro_step E blocks m (f i) (f (Suc i))))"
    using no_endless_run [of m _ E ?T blocks] l p assms(2) by metis
  moreover have "(\<forall>t. sy_running S t = None \<and> (sy_pending S t = [] \<or> sy_dead S t \<and> debug_assertions E)) \<and>
      sy_lock S = None \<and> \<not> sy_collided S"
    if run: "(mt_micro_step E blocks m)\<^sup>*\<^sup>* ?S0 S" and stop: "\<not> (\<exists>S'. mt_micro_step E blocks m S S')" for S
  proof -
    have i: "lock_inv m S" "prompt_inv E ?T S"
      using lock_inv_steps [OF run l] prompt_inv_reach [OF run l p assms(2)] by simp_all
    have "sy_running S t = None" "sy_lock S = None" "sy_pending S t = [] \<or> sy_dead S t" for t
      using no_deadlock [OF i _ stop] assms(4) by blast+
    then show ?thesis using i by (auto simp: lock_inv_def prompt_inv_def)
  qed
  ultimately show ?thesis by blast
qed

theorem mt_threads_finish_witness:
  "\<not> (\<exists>f. f 0 = fresh_system idle_world two_programs \<and>
     (\<forall>i. mt_micro_step zero_env (\<lambda>c u. is_wait c) shared_worker (f i) (f (Suc i))))"
proof -
  have "{t. two_programs t \<noteq> []} \<subseteq> {0, 1}" by (auto simp: two_programs_def split: if_splits)
  then have "finite {t. two_programs t \<noteq> []}" by (rule finite_subset) simp
  moreover have "\<not> atomics idle_world (wk_progressing (mt_worker shared_worker))"
    by (simp add: idle_world_def shared_worker_def)
  moreover have "list_all (\<lambda>op. \<not> op_waits op) (two_programs t)" for t by (simp add: two_programs_def)
  ultimately show ?thesis
    using mt_threads_finish [of idle_world shared_worker two_programs "\<lambda>c u. is_wait c" zero_env] by blast
qed

subsection \<open>Waiting while holding the lock\<close>

text \<open>
  A library whose wait returns once the worker was signalled.  A thread that waits and a thread that
  signals can hang: the first is inside UCX with the lock, the second cannot take it.
\<close>

definition signal_env :: "bool env" where
  "signal_env = \<lparr>lib = \<lambda>c u m. (ffi_ret0, u \<or> (\<exists>h. c = WorkerC (ucp_worker_signal h)), m),
     debug_assertions = False\<rparr>"

definition unsignalled :: "ffi_call \<Rightarrow> bool \<Rightarrow> bool" where
  "unsignalled c signalled \<longleftrightarrow> is_wait c \<and> \<not> signalled"

definition wait_and_signal :: "nat \<Rightarrow> mt_step list" where
  "wait_and_signal t = (if t = 0 then [Mt_wait] else if t = 1 then [Mt_signal] else [])"

lemma wait_signal_code:
  "code_of E shared_worker Mt_wait =
     Op_lock (Op_call (WorkerC (ucp_worker_wait 1)) (\<lambda>_. Op_unlock (Op_done ())))"
  "code_of E shared_worker Mt_signal =
     Op_lock (Op_call (WorkerC (ucp_worker_signal 1)) (\<lambda>_. Op_unlock (Op_done ())))"
  by (simp_all add: forget_def MtWorker_wait_code_def MtWorker_signal_code_def MtWorker_locked_def
      MtWorker_lock_def wait_code_def signal_code_def status_code_def call_code_def shared_worker_def)

lemma wait_beside_signal_hangs:
  assumes "\<not> ucx w"
  shows "\<exists>S. (mt_micro_step signal_env unsignalled shared_worker)\<^sup>*\<^sup>* (fresh_system w wait_and_signal) S \<and>
    \<not> (\<exists>S'. mt_micro_step signal_env unsignalled shared_worker S S') \<and>
    sy_inside S 0 \<and> waiting S 1 = [Mt_signal]"
proof -
  let ?step = "mt_micro_step signal_env unsignalled shared_worker"
  let ?S0 = "fresh_system w wait_and_signal"
  let ?wait = "Op_call (WorkerC (ucp_worker_wait 1)) (\<lambda>_. Op_unlock (Op_done ())) :: (bool, unit) mt_code"
  let ?signal = "Op_lock (Op_call (WorkerC (ucp_worker_signal 1)) (\<lambda>_. Op_unlock (Op_done ()))) :: (bool, unit) mt_code"
  let ?S1 = "goes_on 0 Mt_wait (Op_lock ?wait) (?S0\<lparr>sy_pending := wait_and_signal(0 := [])\<rparr>)"
  let ?S2 = "goes_on 0 Mt_wait ?wait (?S1\<lparr>sy_lock := Some 0, sy_history := [(0, Mt_wait)]\<rparr>)"
  let ?S3 = "?S2\<lparr>sy_inside := (\<lambda>_. False)(0 := True)\<rparr>"
  let ?S4 = "goes_on 1 Mt_signal ?signal (?S3\<lparr>sy_pending := (wait_and_signal(0 := []))(1 := [])\<rparr>)"
  have "?step ?S0 ?S1"
    using Start [of ?S0 0 Mt_wait "[]" signal_env unsignalled shared_worker]
    by (simp add: fresh_system_def wait_and_signal_def wait_signal_code del: code_of.simps)
  moreover have "?step ?S1 ?S2"
    using Lock [of ?S1 0 Mt_wait ?wait signal_env unsignalled shared_worker] by (simp add: fresh_system_def)
  moreover have "?step ?S2 ?S3"
    using Call [of ?S2 0 Mt_wait _ "\<lambda>_. Op_unlock (Op_done ())" signal_env unsignalled shared_worker]
    by (simp add: fresh_system_def)
  moreover have "?step ?S3 ?S4"
    using Start [of ?S3 1 Mt_signal "[]" signal_env unsignalled shared_worker]
    by (simp add: fresh_system_def wait_and_signal_def wait_signal_code goes_on_def del: code_of.simps)
  ultimately have run: "?step\<^sup>*\<^sup>* ?S0 ?S4" by (meson converse_rtranclp_into_rtranclp rtranclp.rtrancl_refl)
  have "\<not> ?step ?S4 S'" for S'
    using assms by (auto elim!: mt_micro_stepE simp: fresh_system_def goes_on_def wait_and_signal_def
        unsignalled_def split: if_splits)
  moreover have "sy_inside ?S4 0" "waiting ?S4 1 = [Mt_signal]" by (simp_all add: waiting_def goes_on_def)
  ultimately show ?thesis using run by blast
qed

end
