(* ===== verification/Liveness.thy ===== *)
theory Liveness
  imports Tag Ucx_Stream Mt_Worker
begin

text \<open>
  Liveness of the completion loops.  Nothing completes a request but UCX, so the claim rests on
  what \<^verbatim>\<open>ucp_worker_progress\<close> promises: while a request is pending, progressing its worker
  brings its completion nearer.  \<open>drains\<close> states that promise with a measure of UCX's state,
  and the loops are shown to end with the request complete when fewer than a million rounds are
  needed.
\<close>

definition drains :: "'u env \<Rightarrow> Worker \<Rightarrow> ptr \<Rightarrow> ('u \<Rightarrow> nat) \<Rightarrow> bool" where
  "drains E wk h left \<longleftrightarrow>
     (\<forall>u m. case lib E (ReqC (ucp_request_check_status h)) u m of (r, u1, _) \<Rightarrow>
        ret_status r = (if left u = 0 then UCS_OK else UCS_INPROGRESS) \<and> left u1 = left u) \<and>
     (\<forall>u m. case lib E (WorkerC (ucp_worker_progress (wk_handle wk))) u m of (_, u1, _) \<Rightarrow>
        0 < left u \<longrightarrow> left u1 < left u)"

lemma drains_check_call:
  "drains E wk h left \<Longrightarrow> lib E (ReqC (ucp_request_check_status h)) u m = (r, u1, m1) \<Longrightarrow>
     ret_status r = (if left u = 0 then UCS_OK else UCS_INPROGRESS) \<and> left u1 = left u"
  unfolding drains_def by (drule conjunct1, drule spec [of _ u], drule spec [of _ m], simp)

lemma drains_progress_call:
  "drains E wk h left \<Longrightarrow> lib E (WorkerC (ucp_worker_progress (wk_handle wk))) u m = (r, u1, m1) \<Longrightarrow>
     0 < left u \<Longrightarrow> left u1 < left u"
  unfolding drains_def by (drule conjunct2, drule spec [of _ u], drule spec [of _ m], simp)

lemma drains_check:
  assumes "drains E wk h left"
  obtains v where "Request_check_finished E \<lparr>req_handle = Some h\<rparr> w = (Inr (left (ucx w) = 0), v)"
    and "left (ucx v) = left (ucx w)" and "atomics v = atomics w"
proof -
  let ?c = "ReqC (ucp_request_check_status h)"
  obtain r u1 m1 where l: "lib E ?c (ucx w) (mem w) = (r, u1, m1)" by (metis prod_cases3)
  have s: "ret_status r = (if left (ucx w) = 0 then UCS_OK else UCS_INPROGRESS)" "left u1 = left (ucx w)"
    using drains_check_call [OF assms l] by simp_all
  have "Request_check_finished E \<lparr>req_handle = Some h\<rparr> w =
      (Inr (left (ucx w) = 0), w\<lparr>ucx := u1, mem := m1, trace := trace w @ [?c]\<rparr>)"
    using s(1) by (simp add: Request_check_finished_live ffi_def l Let_def)
  then show thesis using that s(2) by simp
qed

lemma drains_progress:
  assumes "drains E wk h left" and "0 < left (ucx w)"
    and "\<not> (debug_assertions E \<and> atomics w (wk_progressing wk))"
  obtains b v where "Worker_progress E wk w = (Ret b, v)"
    and "left (ucx v) < left (ucx w)" and "atomics v = atomics w"
proof -
  let ?c = "WorkerC (ucp_worker_progress (wk_handle wk))"
  obtain r u1 m1 where l: "lib E ?c (ucx w) (mem w) = (r, u1, m1)" by (metis prod_cases3)
  have "left u1 < left (ucx w)" by (rule drains_progress_call [OF assms(1) l assms(2)])
  then show thesis using that assms(3) by (simp add: Worker_progress_eq ffi_def l)
qed

text \<open>After at most as many rounds as UCX needs, a check finds the request complete.\<close>

lemma drains_rounds:
  assumes "drains E wk h left" and "\<not> (debug_assertions E \<and> atomics w (wk_progressing wk))"
  shows "\<exists>k\<le>left (ucx w). \<exists>v w'. rounds (Request_check_finished E \<lparr>req_handle = Some h\<rparr>)
      (Worker_progress E wk) k w = Some v \<and>
    Request_check_finished E \<lparr>req_handle = Some h\<rparr> v = (Inr True, w')"
  using assms(2)
proof (induction "left (ucx w)" arbitrary: w rule: less_induct)
  case less
  obtain v where v: "Request_check_finished E \<lparr>req_handle = Some h\<rparr> w = (Inr (left (ucx w) = 0), v)"
    "left (ucx v) = left (ucx w)" "atomics v = atomics w"
    using drains_check [OF assms(1)] by blast
  show ?case
  proof (cases "left (ucx w) = 0")
    case True
    then show ?thesis using v by (intro exI [of _ 0]) simp
  next
    case False
    obtain b u where u: "Worker_progress E wk v = (Ret b, u)" "left (ucx u) < left (ucx v)"
      "atomics u = atomics v"
      using drains_progress [OF assms(1), of v] False v less.prems by auto
    obtain k x w' where k: "k \<le> left (ucx u)"
      "rounds (Request_check_finished E \<lparr>req_handle = Some h\<rparr>) (Worker_progress E wk) k u = Some x"
      "Request_check_finished E \<lparr>req_handle = Some h\<rparr> x = (Inr True, w')"
      using less.hyps [of u] u v less.prems by auto
    have "Suc k \<le> left (ucx w)" using k(1) u(2) v(2) by simp
    moreover have "rounds (Request_check_finished E \<lparr>req_handle = Some h\<rparr>) (Worker_progress E wk)
        (Suc k) w = Some x"
      using False v(1) u(1) k(2) by simp
    ultimately show ?thesis using k(3) by blast
  qed
qed

text \<open>C5: If progressing the worker drains the request, every completion loop ends with it complete,
  given that fewer than a million rounds are needed and the worker is not already progressing:
  waiting, on a worker or through a shared handle, returns \<^verbatim>\<open>Ok(true)\<close>; the tag guard returns
  \<^verbatim>\<open>Ok(())\<close> and does not abort; the stream guard frees the request instead of leaking it; and the
  loop of \<^verbatim>\<open>Ep::close\<close> does not time out.\<close>

theorem requests_complete:
  assumes "drains E wk h left" and "left (ucx w) < 1000000"
    and "\<not> (debug_assertions E \<and> atomics w (wk_progressing wk))"
  shows "fst (Worker_wait_request E wk \<lparr>req_handle = Some h\<rparr> w) = Ret (Inr True) \<and>
    fst (MtWorker_wait_request E \<lparr>mt_strong = n, mt_worker = wk\<rparr> \<lparr>req_handle = Some h\<rparr> w) = Ret (Inr True) \<and>
    fst (TagRequest_complete E \<lparr>tr_worker = wk, tr_handle = Some h\<rparr> w) =
      Ret (Inr (), \<lparr>tr_worker = wk, tr_handle = None\<rparr>) \<and>
    (let r = StreamRequest_free E
         \<lparr>sr_request = Some \<lparr>req_handle = Some h\<rparr>, sr_worker = wk, sr_length = len\<rparr> w
     in fst r = Ret () \<and> last (trace (snd r)) = ReqC (ucp_request_free h)) \<and>
    fst (Ep_close_rounds E wk \<lparr>req_handle = Some h\<rparr> 1000000 w) = Ret (Inr ())"
proof -
  let ?r = "\<lparr>req_handle = Some h\<rparr>"
  obtain k v w' where k: "k < 1000000"
    "rounds (Request_check_finished E ?r) (Worker_progress E wk) k w = Some v"
    "Request_check_finished E ?r v = (Inr True, w')"
    using drains_rounds [OF assms(1,3)] assms(2) by (metis le_less_trans)
  have wait: "Worker_wait_request E wk ?r w = (Ret (Inr True), w')"
    using worker_wait.loop_done [OF k] by (simp add: Worker_wait_request_def MAX_ROUNDS_def)
  have mt: "MtWorker_wait_request E \<lparr>mt_strong = n, mt_worker = wk\<rparr> ?r w = (Ret (Inr True), w')"
    using mt_wait.loop_done [where m = "\<lparr>mt_strong = n, mt_worker = wk\<rparr>", OF k(1) _ k(3)] k(2)
    by (simp add: MtWorker_wait_request_def MtWorker_progress_def MtWorker_lock_def)
  have tag: "TagRequest_complete E \<lparr>tr_worker = wk, tr_handle = Some h\<rparr> w =
      tag_done E \<lparr>tr_worker = wk, tr_handle = Some h\<rparr> (Inr ()) w'"
    using tag_loop.loop_done [where t = "\<lparr>tr_worker = wk, tr_handle = Some h\<rparr>", OF k(1)] k(2,3)
    by (simp add: TagRequest_complete_def)
  have guard: "guard_rounds E wk ?r 1000000 w = (Ret (), Request_free E ?r w')"
    by (rule guard_loop.loop_done [OF k])
  have stream: "StreamRequest_free E \<lparr>sr_request = Some ?r, sr_worker = wk, sr_length = len\<rparr> w =
      (Ret (), Request_free E ?r w')"
    by (simp add: StreamRequest_free_drop StreamRequest_drop_def MAX_PROGRESS_def guard)
  have close: "Ep_close_rounds E wk ?r 1000000 w = (Ret (Inr ()), Request_free E ?r w')"
    by (rule ep_close_loop.loop_done [OF k])
  show ?thesis
    by (simp add: wait mt tag tag_done_def stream close Request_free_drop Request_drop_trace)
qed

text \<open>A library that completes every request after as many progress calls as its state counts.\<close>

definition countdown :: "nat env" where
  "countdown = \<lparr>lib = \<lambda>c u m. case c of
       ReqC (ucp_request_check_status h) \<Rightarrow>
         (ffi_ret0\<lparr>ret_status := if u = 0 then UCS_OK else UCS_INPROGRESS\<rparr>, u, m)
     | WorkerC (ucp_worker_progress h) \<Rightarrow> (ffi_ret0, u - 1, m)
     | _ \<Rightarrow> (ffi_ret0, u, m), debug_assertions = True\<rparr>"

theorem requests_complete_witness:
  "fst (TagRequest_complete countdown
      \<lparr>tr_worker = \<lparr>wk_handle = 1, wk_alive = 0, wk_am_handlers = [], wk_progressing = 1\<rparr>, tr_handle = Some 7\<rparr>
      \<lparr>ucx = 3, mem = \<lambda>_. 0, atomics = \<lambda>i. i = 0, next_cell = 2, listeners = \<lambda>_. None,
        trace = [], stderr = []\<rparr>) =
    Ret (Inr (), \<lparr>tr_worker = \<lparr>wk_handle = 1, wk_alive = 0, wk_am_handlers = [], wk_progressing = 1\<rparr>,
      tr_handle = None\<rparr>)"
proof -
  let ?wk = "\<lparr>wk_handle = 1, wk_alive = 0, wk_am_handlers = [], wk_progressing = 1\<rparr>"
  have "drains countdown ?wk 7 id" by (simp add: drains_def countdown_def ffi_ret0_def)
  from requests_complete [OF this, of "\<lparr>ucx = 3, mem = \<lambda>_. 0, atomics = \<lambda>i. i = 0, next_cell = 2,
      listeners = \<lambda>_. None, trace = [], stderr = []\<rparr>"]
  show ?thesis by simp
qed

end
