(* ===== verification/Am_Dispatch.thy ===== *)
theory Am_Dispatch
  imports Active_Message
begin

text \<open>
  Active messages delivered from inside \<^verbatim>\<open>Worker::progress\<close> (\<^verbatim>\<open>src/worker/worker.rs\<close>): while
  \<^verbatim>\<open>ucp_worker_progress\<close> runs, UCX calls the trampoline of \<^verbatim>\<open>src/am.rs\<close> once for each message that
  has arrived, with the handler that was registered for it, and the worker's progress guard is
  held all the while.  Which messages arrive is up to UCX: they are a parameter.  A closure is
  \<^verbatim>\<open>Send + 'static\<close> and a \<^verbatim>\<open>Worker\<close> is not \<^verbatim>\<open>Send\<close>, so a closure acts on its own state only; one
  that holds a shared handle to the worker and enters it again is left out.
\<close>

record message =
  msg_handler :: nat
  msg_header :: ptr
  msg_header_length :: usize
  msg_data :: ptr
  msg_length :: usize

type_synonym 's handler_table = "nat \<Rightarrow> 's AmHandler"

text \<open>The statuses the trampoline returned to UCX, in order, and the handlers afterwards.\<close>

fun deliver_all ::
  "(nat \<Rightarrow> 's am_callback) \<Rightarrow> memory \<Rightarrow> message list \<Rightarrow> 's handler_table \<Rightarrow>
     Status list outcome \<times> 's handler_table" where
  "deliver_all cb m [] T = (Ret [], T)"
| "deliver_all cb m (x # xs) T =
     (case am_trampoline (cb (msg_handler x)) m (msg_header x) (msg_header_length x) (msg_data x)
        (msg_length x) (T (msg_handler x)) of
        (Ret status, h) \<Rightarrow> (case deliver_all cb m xs (T(msg_handler x := h)) of
            (Ret statuses, T1) \<Rightarrow> (Ret (status # statuses), T1)
          | (Panic s, T1) \<Rightarrow> (Panic s, T1)
          | (Abort, T1) \<Rightarrow> (Abort, T1))
      | (Panic s, h) \<Rightarrow> (Panic s, T(msg_handler x := h))
      | (Abort, h) \<Rightarrow> (Abort, T(msg_handler x := h)))"

definition progress_delivering ::
  "'u env \<Rightarrow> Worker \<Rightarrow> (nat \<Rightarrow> 's am_callback) \<Rightarrow> message list \<Rightarrow> 's handler_table \<Rightarrow> 'u world \<Rightarrow>
     (bool \<times> Status list) outcome \<times> 's handler_table \<times> 'u world" where
  "progress_delivering E wk cb ms T w =
     (case (if debug_assertions E then ProgressGuard_new (wk_progressing wk) w else (Ret (), w)) of
        (Panic s, w1) \<Rightarrow> (Panic s, T, w1)
      | (Abort, w1) \<Rightarrow> (Abort, T, w1)
      | (Ret _, w1) \<Rightarrow>
          (let (ret, w2) = ffi E (WorkerC (ucp_worker_progress (wk_handle wk))) w1;
               unguard = (\<lambda>w. if debug_assertions E then ProgressGuard_drop (wk_progressing wk) w else w)
           in case deliver_all cb (mem w2) ms T of
                (Ret statuses, T1) \<Rightarrow> (Ret (0 < ret_uint ret, statuses), T1, unguard w2)
              | (Panic s, T1) \<Rightarrow> (Panic s, T1, unguard w2)
              | (Abort, T1) \<Rightarrow> (Abort, T1, w2)))"

text \<open>With no message it is the worker's progress.\<close>

lemma progress_delivering_none:
  "progress_delivering E wk cb [] T w =
     (case Worker_progress E wk w of
        (Ret b, w1) \<Rightarrow> (Ret (b, []), T, w1)
      | (Panic s, w1) \<Rightarrow> (Panic s, T, w1)
      | (Abort, w1) \<Rightarrow> (Abort, T, w1))"
  by (auto simp: progress_delivering_def Worker_progress_def bnd_def Let_def
      split: prod.splits outcome.splits)

subsection \<open>What a handler sees\<close>

text \<open>The header and data of a message, when its buffers are well formed.\<close>

definition buffers_of :: "memory \<Rightarrow> message \<Rightarrow> (bytes \<times> bytes) option" where
  "buffers_of m x = (case am_buffer m (msg_header x) (msg_header_length x) of
      None \<Rightarrow> None
    | Some hs \<Rightarrow> (case am_buffer m (msg_data x) (msg_length x) of
        None \<Rightarrow> None
      | Some d \<Rightarrow> Some (hs, d)))"

text \<open>The messages a handler is invoked for, and the state its closure ends in.\<close>

definition inbox :: "memory \<Rightarrow> nat \<Rightarrow> message list \<Rightarrow> (bytes \<times> bytes) list" where
  "inbox m i ms = List.map_filter (buffers_of m) (filter (\<lambda>x. msg_handler x = i) ms)"

definition invoked :: "'s am_callback \<Rightarrow> (bytes \<times> bytes) list \<Rightarrow> 's AmHandler \<Rightarrow> 's AmHandler" where
  "invoked cb xs h = (if ah_poisoned h then h
     else h\<lparr>ah_state := fold (\<lambda>(hs, d) s. snd (cb hs d s)) xs (ah_state h)\<rparr>)"

lemma trampoline_invoked:
  assumes "am_trampoline cb m (msg_header x) (msg_header_length x) (msg_data x) (msg_length x) h = (r, h1)"
  shows "h1 = invoked cb (case buffers_of m x of None \<Rightarrow> [] | Some b \<Rightarrow> [b]) h"
    and "r = Ret status \<Longrightarrow> status = Status_OK \<or> Status_is_err status"
    and "r \<noteq> Panic s"
    and "r = Abort \<Longrightarrow> \<exists>hs d s. buffers_of m x = Some (hs, d) \<and> fst (cb hs d s) = Abort"
  using assms
  by (auto simp: am_trampoline_def buffers_of_def invoked_def Status_is_err_def
      split: option.splits if_splits prod.splits outcome.splits sum.splits) (metis fst_conv)+

lemma invoked_invoked: "invoked cb ys (invoked cb xs h) = invoked cb (xs @ ys) h"
  by (simp add: invoked_def)

lemma invoked_none [simp]: "invoked cb [] h = h"
  by (simp add: invoked_def)

lemma inbox_simps [simp]:
  "inbox m i [] = []"
  "inbox m i (x # xs) = (if msg_handler x = i
     then (case buffers_of m x of None \<Rightarrow> [] | Some b \<Rightarrow> [b]) else []) @ inbox m i xs"
  by (simp_all add: inbox_def List.map_filter_def split: option.split)

lemma deliver_all_Ret:
  "deliver_all cb m ms T = (Ret statuses, T1) \<Longrightarrow>
     length statuses = length ms \<and> (\<forall>st\<in>set statuses. st = Status_OK \<or> Status_is_err st) \<and>
     (\<forall>i. T1 i = invoked (cb i) (inbox m i ms) (T i))"
proof (induction ms arbitrary: T statuses)
  case Nil
  then show ?case by simp
next
  case (Cons x xs)
  let ?i = "msg_handler x"
  obtain r h where t: "am_trampoline (cb ?i) m (msg_header x) (msg_header_length x) (msg_data x)
      (msg_length x) (T ?i) = (r, h)" by fastforce
  obtain status sts where r: "r = Ret status" "statuses = status # sts"
    "deliver_all cb m xs (T(?i := h)) = (Ret sts, T1)"
    using Cons.prems by (auto simp: t split: outcome.splits prod.splits)
  note h = trampoline_invoked [OF t]
  show ?case using Cons.IH [OF r(3)] h(1) h(2) [OF r(1)] r(2) by (auto simp: invoked_invoked)
qed

lemma deliver_all_ends:
  "deliver_all cb m ms T = (r, T1) \<Longrightarrow> \<not> (\<exists>statuses. r = Ret statuses) \<Longrightarrow>
     r = Abort \<and> (\<exists>x\<in>set ms. \<exists>hs d s. buffers_of m x = Some (hs, d) \<and> fst (cb (msg_handler x) hs d s) = Abort)"
proof (induction ms arbitrary: T r T1)
  case Nil
  then show ?case by auto
next
  case (Cons x xs)
  let ?i = "msg_handler x"
  obtain q h where t: "am_trampoline (cb ?i) m (msg_header x) (msg_header_length x) (msg_data x)
      (msg_length x) (T ?i) = (q, h)" by fastforce
  note h = trampoline_invoked [OF t]
  show ?case
  proof (cases q)
    case (Ret status)
    obtain r1 T2 where d: "deliver_all cb m xs (T(?i := h)) = (r1, T2)" by fastforce
    have "\<not> (\<exists>statuses. r1 = Ret statuses)" "r = r1" if "r1 = Abort \<or> (\<exists>s. r1 = Panic s)"
      using that Cons.prems by (auto simp: t Ret d)
    then show ?thesis using Cons.IH [OF d] Cons.prems by (cases r1) (auto simp: t Ret d)
  next
    case (Panic s)
    then show ?thesis using h(3) by simp
  next
    case Abort
    then show ?thesis using h(4) Cons.prems by (auto simp: t)
  qed
qed

text \<open>C18: Active messages are dispatched in isolation.  Whatever messages UCX delivers inside one call
  of progress, every one is answered with \<^verbatim>\<open>OK\<close> or an error status, each handler ends in the
  state that its closure reaches from its own messages in order of arrival, whether other
  closures failed or panicked in between, and the progress guard is released.  A closure that
  panicked is called again for its next message, because the guard of the handler's mutex is
  dropped after the panic was caught and nothing is poisoned (the comment in the trampoline says
  that a panic poisons the mutex and that the handler is not invoked again; the code does not do
  that).  Progress panics only on the debug guard, before anything is delivered, and the
  process aborts only if a closure that a message reached did.\<close>

theorem am_dispatch_isolated:
  "case progress_delivering E wk cb ms T w of
     (Ret (made, statuses), T1, w1) \<Rightarrow>
       trace w1 = trace w @ [WorkerC (ucp_worker_progress (wk_handle wk))] \<and>
       atomics w1 = atomics w \<and> length statuses = length ms \<and>
       list_all (\<lambda>st. st = Status_OK \<or> Status_is_err st) statuses \<and>
       (\<forall>i. ah_poisoned (T1 i) = ah_poisoned (T i) \<and> T1 i = invoked (cb i) (inbox (mem w1) i ms) (T i))
   | (Panic _, T1, w1) \<Rightarrow> debug_assertions E \<and> atomics w (wk_progressing wk) \<and> T1 = T \<and> w1 = w
   | (Abort, _, w1) \<Rightarrow> list_ex (\<lambda>x. case buffers_of (mem w1) x of
       None \<Rightarrow> False
     | Some (hs, d) \<Rightarrow> (\<exists>s. fst (cb (msg_handler x) hs d s) = Abort)) ms"
proof (cases "debug_assertions E \<and> atomics w (wk_progressing wk)")
  case True
  then show ?thesis by (simp add: progress_delivering_def ProgressGuard_new_def)
next
  case False
  let ?w = "if debug_assertions E then atomic_store (wk_progressing wk) True w else w"
  let ?c = "WorkerC (ucp_worker_progress (wk_handle wk))"
  let ?u = "\<lambda>w. if debug_assertions E then ProgressGuard_drop (wk_progressing wk) w else w"
  obtain ret w2 where f: "ffi E ?c ?w = (ret, w2)" by fastforce
  obtain r T1 where d: "deliver_all cb (mem w2) ms T = (r, T1)" by fastforce
  have p: "progress_delivering E wk cb ms T w =
      (case r of Ret statuses \<Rightarrow> (Ret (0 < ret_uint ret, statuses), T1, ?u w2)
       | Panic s \<Rightarrow> (Panic s, T1, ?u w2) | Abort \<Rightarrow> (Abort, T1, w2))"
    using False f d by (auto simp: progress_delivering_def ProgressGuard_new_def Let_def split: outcome.splits)
  have w2: "trace (?u w2) = trace w @ [?c]" "atomics (?u w2) = atomics w" "mem (?u w2) = mem w2"
    using ffi_world [OF f] False by (auto simp: ProgressGuard_drop_def fun_upd_idem)
  show ?thesis
  proof (cases r)
    case (Ret statuses)
    have "ah_poisoned (invoked (cb i) xs h) = ah_poisoned h" for i xs h
      by (simp add: invoked_def)
    then show ?thesis using deliver_all_Ret [OF d [unfolded Ret]] w2 by (simp add: p Ret list_all_iff)
  next
    case (Panic s)
    then show ?thesis using deliver_all_ends [OF d] by simp
  next
    case Abort
    then obtain x hs dat s where "x \<in> set ms" "buffers_of (mem w2) x = Some (hs, dat)"
      "fst (cb (msg_handler x) hs dat s) = Abort"
      using deliver_all_ends [OF d] by auto
    then show ?thesis by (auto simp: p Abort list_ex_iff intro!: bexI [of _ x])
  qed
qed

end
