(* ===== verification/Unit_Tests.thy ===== *)
theory Unit_Tests
  imports Formatting Tag Atomics
begin

text \<open>
  The crate's own unit tests, as far as they run without UCX: each test of the \<^verbatim>\<open>mod tests\<close>
  blocks below is a predicate over the model, and evaluates to true.  Tests are debug builds, so
  the environment is one with debug assertions; where a test does not look at a value (a
  configuration UCX returned, the address of a local) it is a parameter.
\<close>

definition debug_env :: "'u lib \<Rightarrow> 'u env" where
  "debug_env l = \<lparr>lib = l, debug_assertions = True\<rparr>"

definition panics_with :: "string \<Rightarrow> 'a outcome \<Rightarrow> bool" where
  "panics_with expected r = (case r of
      Panic s \<Rightarrow> (\<exists>i<Suc (length s). take (length expected) (drop i s) = expected)
    | _ \<Rightarrow> False)"

subsection \<open>Statuses and operation parameters (\<^verbatim>\<open>src/status.rs\<close>)\<close>

definition status_ptr_to_result_immediate_completion :: "'u lib \<Rightarrow> bool" where
  "status_ptr_to_result_immediate_completion l \<longleftrightarrow>
     status_ptr_to_result (debug_env l) (status_as_usize UCS_OK) = Ret (Inr None)"

definition status_ptr_to_result_decodes_error :: "'u lib \<Rightarrow> bool" where
  "status_ptr_to_result_decodes_error l \<longleftrightarrow>
     status_ptr_to_result (debug_env l) (status_as_usize UCS_ERR_NO_MEMORY) =
       Ret (Inl (Status UCS_ERR_NO_MEMORY))"

definition status_ptr_to_result_panics_on_in_progress_in_debug :: "'u lib \<Rightarrow> bool" where
  "status_ptr_to_result_panics_on_in_progress_in_debug l \<longleftrightarrow>
     panics_with ''UCX returned UCS_INPROGRESS through a ucs_status_ptr_t API''
       (status_ptr_to_result (debug_env l) (status_as_usize UCS_INPROGRESS))"

definition status_from_ptr_unknown_error_is_generic :: bool where
  "status_from_ptr_unknown_error_is_generic \<longleftrightarrow> status_from_ptr (word_of_int (- 101)) = UCS_ERR_LAST"

definition request_check_finished_on_freed_handle_is_complete :: "'u lib \<Rightarrow> 'u world \<Rightarrow> bool" where
  "request_check_finished_on_freed_handle_is_complete l w \<longleftrightarrow>
     (let request = \<lparr>req_handle = None\<rparr>
      in fst (Request_check_finished (debug_env l) request w) = Inr True)"

definition request_params_no_imm_cmpl_sets_flag_in_op_attr_mask_only :: bool where
  "request_params_no_imm_cmpl_sets_flag_in_op_attr_mask_only \<longleftrightarrow>
     (case rpb_no_imm_cmpl RequestParamBuilder_new of
        Ret builder \<Rightarrow>
          (let params = rpb_build builder
           in rp_op_attr_mask (rparam_handle params) AND OP_ATTR_FLAG_NO_IMM_CMPL \<noteq> 0 \<and>
              rp_flags (rparam_handle params) = 0)
      | _ \<Rightarrow> False)"

definition request_params_reply_buffer_does_not_set_flags_field_mask :: "ptr \<Rightarrow> bool" where
  "request_params_reply_buffer_does_not_set_flags_field_mask reply \<longleftrightarrow>
     (let params = rpb_build (rpb_reply_buffer reply RequestParamBuilder_new)
      in rp_op_attr_mask (rparam_handle params) AND OP_ATTR_FIELD_REPLY_BUFFER \<noteq> 0 \<and>
         rp_op_attr_mask (rparam_handle params) AND OP_ATTR_FIELD_FLAGS = 0)"

definition request_params_flags_preserves_reply_buffer_field_mask :: "ptr \<Rightarrow> bool" where
  "request_params_flags_preserves_reply_buffer_field_mask reply \<longleftrightarrow>
     (let flags = 0x1234;
          params = rpb_build (rpb_flags flags (rpb_reply_buffer reply RequestParamBuilder_new))
      in rp_flags (rparam_handle params) = flags \<and>
         rp_op_attr_mask (rparam_handle params) AND OP_ATTR_FIELD_FLAGS \<noteq> 0 \<and>
         rp_op_attr_mask (rparam_handle params) AND OP_ATTR_FIELD_REPLY_BUFFER \<noteq> 0)"

definition request_params_force_and_no_imm_cmpl_remain_mutually_exclusive :: bool where
  "request_params_force_and_no_imm_cmpl_remain_mutually_exclusive \<longleftrightarrow>
     (case rpb_force_imm_cmpl (rpb_flags 1 RequestParamBuilder_new) of
        Ret builder \<Rightarrow> panics_with ''UCP_OP_ATTR_FLAG_NO_IMM_CMPL'' (rpb_no_imm_cmpl builder)
      | _ \<Rightarrow> False)"

definition constants_wrap_matching_raw_codes :: bool where
  "constants_wrap_matching_raw_codes \<longleftrightarrow>
     Status_OK = Status UCS_OK \<and> Status_IN_PROGRESS = Status UCS_INPROGRESS \<and>
     Status_INVALID_PARAM = Status UCS_ERR_INVALID_PARAM \<and>
     Status_ENDPOINT_TIMEOUT = Status UCS_ERR_ENDPOINT_TIMEOUT \<and>
     \<not> Status_is_err Status_OK \<and> \<not> Status_is_err Status_IN_PROGRESS \<and> Status_is_err Status_CANCELED"

lemma panics_with_refl: "panics_with e (Panic (us @ e @ vs))"
  by (auto simp: panics_with_def intro: exI [of _ "length us"])

lemma status_tests:
  "status_ptr_to_result_immediate_completion l"
  "status_ptr_to_result_decodes_error l"
  "status_ptr_to_result_panics_on_in_progress_in_debug l"
  "status_from_ptr_unknown_error_is_generic"
  "request_check_finished_on_freed_handle_is_complete l w"
proof -
  show "status_ptr_to_result_panics_on_in_progress_in_debug l"
    using panics_with_refl [of "''UCX returned UCS_INPROGRESS through a ucs_status_ptr_t API''" "[]"
      "'' - violates the status_ptr contract, see status_ptr_to_result docs''"]
    by (simp add: status_ptr_to_result_panics_on_in_progress_in_debug_def debug_env_def
        status_ptr_to_result_def status_as_usize_is_err)
qed (simp_all add: status_ptr_to_result_immediate_completion_def status_ptr_to_result_decodes_error_def
    status_from_ptr_unknown_error_is_generic_def request_check_finished_on_freed_handle_is_complete_def
    debug_env_def status_ptr_to_result_def status_as_usize_is_err status_from_ptr_as_usize Status_from_def
    status_from_ptr_def status_as_usize_def Request_check_finished_def status_ptr_is_err_iff)

lemma request_param_tests:
  "request_params_no_imm_cmpl_sets_flag_in_op_attr_mask_only"
  "request_params_reply_buffer_does_not_set_flags_field_mask reply"
  "request_params_flags_preserves_reply_buffer_field_mask reply"
  "request_params_force_and_no_imm_cmpl_remain_mutually_exclusive"
  "constants_wrap_matching_raw_codes"
proof -
  show "request_params_force_and_no_imm_cmpl_remain_mutually_exclusive"
    using panics_with_refl [of "''UCP_OP_ATTR_FLAG_NO_IMM_CMPL''" "''Requesting ''"
      "'' while UCP_OP_ATTR_FLAG_FORCE_IMM_CMPL is also set''"]
    by (simp add: request_params_force_and_no_imm_cmpl_remain_mutually_exclusive_def
        rpb_force_imm_cmpl_def rpb_no_imm_cmpl_def rpb_flags_def RequestParamBuilder_new_def)
qed (simp_all add: request_params_no_imm_cmpl_sets_flag_in_op_attr_mask_only_def
    request_params_reply_buffer_does_not_set_flags_field_mask_def
    request_params_flags_preserves_reply_buffer_field_mask_def constants_wrap_matching_raw_codes_def
    rpb_no_imm_cmpl_def rpb_flags_def rpb_reply_buffer_def rpb_build_def RequestParamBuilder_new_def
    zeroed_ucp_request_param_t_def Let_def Status_is_err_def)

subsection \<open>Datatypes and enums\<close>

definition test_dt_make_contig :: bool where
  "test_dt_make_contig \<longleftrightarrow> dt_make_contig 0 = 0 \<and> dt_make_contig 1 = 8 \<and> dt_make_contig 4 = 32 \<and>
     dt_make_contig 8 = 64"

definition test_dt_make_contig_composes_size_shift_and_class :: bool where
  "test_dt_make_contig_composes_size_shift_and_class \<longleftrightarrow>
     list_all (\<lambda>elem_size. dt_make_contig elem_size =
       (push_bit UCP_DATATYPE_SHIFT elem_size OR UCP_DATATYPE_CONTIG)) [2, 16]"

definition test_dt_make_iov :: bool where
  "test_dt_make_iov \<longleftrightarrow> dt_make_iov = 2"

definition test_dt_query_contig :: bool where
  "test_dt_query_contig \<longleftrightarrow> (let dt = dt_make_contig 4 in dt \<noteq> dt_make_contig 8 \<and>
     dt_make_contig 1 = 8 \<and> dt_make_contig 4 = 32 \<and> dt_make_contig 8 = 64)"

definition memory_type_unknown_maps_to_ucx_unknown :: bool where
  "memory_type_unknown_maps_to_ucx_unknown \<longleftrightarrow>
     MemoryType_to_ffi MT_Unknown = UCS_MEMORY_TYPE_UNKNOWN \<and>
     MemoryType_from_ffi UCS_MEMORY_TYPE_UNKNOWN = MT_Unknown"

definition memory_type_known_variants_round_trip :: bool where
  "memory_type_known_variants_round_trip \<longleftrightarrow>
     list_all (\<lambda>memory_type. MemoryType_from_ffi (MemoryType_to_ffi memory_type) = memory_type)
       [MT_Host, MT_Cuda, MT_CudaManaged, MT_Rocm, MT_RocmManaged, MT_Rdma, MT_ZeHost,
        MT_ZeDevice, MT_ZeManaged]"

definition thread_mode_unknown_is_requested_as_multi :: bool where
  "thread_mode_unknown_is_requested_as_multi \<longleftrightarrow>
     ThreadMode_to_ffi TM_Unknown = UCS_THREAD_MODE_MULTI \<and>
     ThreadMode_from_ffi UCS_THREAD_MODE_LAST = TM_Unknown"

definition thread_mode_known_variants_round_trip :: bool where
  "thread_mode_known_variants_round_trip \<longleftrightarrow>
     list_all (\<lambda>mode. ThreadMode_from_ffi (ThreadMode_to_ffi mode) = mode)
       [TM_Single, TM_Serialized, TM_Multi]"

definition error_handler_mode_round_trip :: bool where
  "error_handler_mode_round_trip \<longleftrightarrow>
     list_all (\<lambda>mode. ErrorHandlerMode_from_ffi (ErrorHandlerMode_to_ffi mode) = mode)
       [EHM_None, EHM_Peer]"

lemma datatype_tests:
  test_dt_make_contig test_dt_make_contig_composes_size_shift_and_class test_dt_make_iov
  test_dt_query_contig
  by (simp_all add: test_dt_make_contig_def test_dt_make_contig_composes_size_shift_and_class_def
      test_dt_make_iov_def test_dt_query_contig_def dt_make_contig_def dt_make_iov_def
      UCP_DATATYPE_CONTIG_def UCP_DATATYPE_IOV_def UCP_DATATYPE_SHIFT_def)

lemma enum_tests:
  memory_type_unknown_maps_to_ucx_unknown memory_type_known_variants_round_trip
  thread_mode_unknown_is_requested_as_multi thread_mode_known_variants_round_trip
  error_handler_mode_round_trip
  by (simp_all add: memory_type_unknown_maps_to_ucx_unknown_def memory_type_known_variants_round_trip_def
      thread_mode_unknown_is_requested_as_multi_def thread_mode_known_variants_round_trip_def
      error_handler_mode_round_trip_def ErrorHandlerMode_from_ffi_def)

subsection \<open>Remote keys and memory (\<^verbatim>\<open>src/rma/\<close>, \<^verbatim>\<open>src/memh.rs\<close>)\<close>

definition rkey_framing_round_trip_preserves_payload :: bool where
  "rkey_framing_round_trip_preserves_payload \<longleftrightarrow>
     (let payload = [0x12, 0x34, 0xab, 0xcd]
      in case frame_rkey_payload payload of
           Inl _ \<Rightarrow> False
         | Inr framed \<Rightarrow> take 4 framed = to_le 4 (of_nat (length payload) :: u32) \<and>
             unframe_rkey_payload framed = Inr payload)"

definition rkey_unpack_accepts_public_framed_bytes :: bool where
  "rkey_unpack_accepts_public_framed_bytes \<longleftrightarrow>
     (let payload = [0x12, 0x34, 0xab, 0xcd]
      in case frame_rkey_payload payload of
           Inl _ \<Rightarrow> False
         | Inr framed \<Rightarrow> unframe_rkey_payload framed = Inr payload)"

definition remote_key_compare_rejects_dead_worker_before_ffi :: "'u lib \<Rightarrow> 'u world \<Rightarrow> bool" where
  "remote_key_compare_rejects_dead_worker_before_ffi l w \<longleftrightarrow>
     (let (alive, w1) = atomic_new False w;
          first = \<lparr>rk_handle = 0, rk_worker_alive = alive\<rparr>;
          second = \<lparr>rk_handle = 0, rk_worker_alive = alive\<rparr>;
          (progressing, w2) = atomic_new False w1;
          worker = \<lparr>wk_handle = 0, wk_alive = alive, wk_am_handlers = [], wk_progressing = progressing\<rparr>
      in fst (RemoteKey_compare (debug_env l) first second worker w2) = Inl (Status UCS_ERR_INVALID_PARAM))"

definition test_rkey_ptr_invalid :: "'u lib \<Rightarrow> 'u world \<Rightarrow> bool" where
  "test_rkey_ptr_invalid l w \<longleftrightarrow>
     (let (alive, w1) = atomic_new False w; rkey = \<lparr>rk_handle = 0, rk_worker_alive = alive\<rparr>
      in fst (rkey_ptr (debug_env l) rkey 0 w1) = Inl (Status UCS_ERR_INVALID_PARAM))"

definition packed_rkey_as_bytes_is_framed_wire_data :: bool where
  "packed_rkey_as_bytes_is_framed_wire_data \<longleftrightarrow>
     (let packed = \<lparr>prb_buffer = 0, prb_size = 3, prb_framed = [3, 0, 0, 0, 0xaa, 0xbb, 0xcc]\<rparr>
      in PackedRkeyBuffer_as_bytes packed = [3, 0, 0, 0, 0xaa, 0xbb, 0xcc] \<and>
         drop 4 (PackedRkeyBuffer_as_bytes packed) = [0xaa, 0xbb, 0xcc])"

lemma rma_tests:
  rkey_framing_round_trip_preserves_payload rkey_unpack_accepts_public_framed_bytes
  "remote_key_compare_rejects_dead_worker_before_ffi l w" "test_rkey_ptr_invalid l w"
  packed_rkey_as_bytes_is_framed_wire_data
proof -
  have framed: "frame_rkey_payload [0x12, 0x34, 0xab, 0xcd] =
      Inr (to_le 4 (4 :: u32) @ [0x12, 0x34, 0xab, 0xcd])"
    by (simp add: frame_rkey_payload_def)
  show rkey_framing_round_trip_preserves_payload rkey_unpack_accepts_public_framed_bytes
    using unframe_frame [OF framed]
    by (simp_all add: rkey_framing_round_trip_preserves_payload_def
        rkey_unpack_accepts_public_framed_bytes_def framed Let_def)
qed (simp_all add: remote_key_compare_rejects_dead_worker_before_ffi_def test_rkey_ptr_invalid_def
    packed_rkey_as_bytes_is_framed_wire_data_def RemoteKey_compare_def rkey_ptr_def atomic_new_def
    PackedRkeyBuffer_as_bytes_def)

subsection \<open>Messages (\<^verbatim>\<open>src/tag.rs\<close>, \<^verbatim>\<open>src/am.rs\<close>)\<close>

definition tag_recv_test_maps_completed_status_to_info :: bool where
  "tag_recv_test_maps_completed_status_to_info \<longleftrightarrow>
     (let info = \<lparr>tinfo_sender_tag = 0xfeed, tinfo_length = 37\<rparr>
      in case map_tag_recv_test_status UCS_OK info of
           Inr (Some info) \<Rightarrow> ti_sender_tag info = 0xfeed \<and> ti_length info = 37
         | _ \<Rightarrow> False)"

definition tag_recv_test_maps_inprogress_status_to_none :: "ucp_tag_recv_info_t \<Rightarrow> bool" where
  "tag_recv_test_maps_inprogress_status_to_none uninit \<longleftrightarrow>
     map_tag_recv_test_status UCS_INPROGRESS uninit = Inr None"

definition tag_recv_test_maps_error_status_to_error :: "ucp_tag_recv_info_t \<Rightarrow> bool" where
  "tag_recv_test_maps_error_status_to_error uninit \<longleftrightarrow>
     map_tag_recv_test_status UCS_ERR_IO_ERROR uninit = Inl (Status UCS_ERR_IO_ERROR)"

definition am_recv_param_reply_ep_requires_field_bit :: bool where
  "am_recv_param_reply_ep_requires_field_bit \<longleftrightarrow>
     (let fake = 0x40;
          without_bit = AmRecvParam \<lparr>arp_recv_attr = 0, arp_reply_ep = fake\<rparr>;
          recv_attr = AM_RECV_ATTR_FIELD_REPLY_EP OR AM_RECV_ATTR_FLAG_DATA;
          with_bit = AmRecvParam \<lparr>arp_recv_attr = recv_attr, arp_reply_ep = fake\<rparr>;
          null_ep = AmRecvParam \<lparr>arp_recv_attr = recv_attr, arp_reply_ep = 0\<rparr>
      in AmRecvParam_recv_attr without_bit = 0 \<and> AmRecvParam_reply_ep without_bit = None \<and>
         flags_contains (AmRecvParam_recv_attr with_bit) AM_RECV_ATTR_FLAG_DATA \<and>
         map_option ep_raw (AmRecvParam_reply_ep with_bit) = Some fake \<and>
         AmRecvParam_reply_ep null_ep = None)"

lemma message_tests:
  tag_recv_test_maps_completed_status_to_info "tag_recv_test_maps_inprogress_status_to_none uninit"
  "tag_recv_test_maps_error_status_to_error uninit" am_recv_param_reply_ep_requires_field_bit
  by (simp_all add: tag_recv_test_maps_completed_status_to_info_def
      tag_recv_test_maps_inprogress_status_to_none_def tag_recv_test_maps_error_status_to_error_def
      am_recv_param_reply_ep_requires_field_bit_def TagInfo_from_ffi_def Status_from_def Let_def
      AmRecvParam_recv_attr_def AmRecvParam_reply_ep_def flags_contains_def
      AM_RECV_ATTR_FIELD_REPLY_EP_def AM_RECV_ATTR_FLAG_DATA_def)

subsection \<open>Configuration (\<^verbatim>\<open>src/config.rs\<close>, \<^verbatim>\<open>src/context.rs\<close>)\<close>

definition config_read_rejects_interior_nul :: "'u lib \<Rightarrow> 'u world \<Rightarrow> bool" where
  "config_read_rejects_interior_nul l w \<longleftrightarrow>
     (case fst (Config_read (debug_env l) (bytes_of ''bad'' @ [0] @ bytes_of ''name'') [] w) of
        Inl (Nul _) \<Rightarrow> True | _ \<Rightarrow> False)"

definition config_modify_rejects_interior_nul :: "'u lib \<Rightarrow> Config \<Rightarrow> 'u world \<Rightarrow> bool" where
  "config_modify_rejects_interior_nul l config w \<longleftrightarrow>
     (case fst (config_modify (debug_env l) (config_handle config)
        (bytes_of ''bad'' @ [0] @ bytes_of ''name'') (bytes_of ''y'') w) of
        Inl (Nul _) \<Rightarrow> True | _ \<Rightarrow> False)"

definition config_modify_rejects_nul_in_value :: "'u lib \<Rightarrow> Config \<Rightarrow> 'u world \<Rightarrow> bool" where
  "config_modify_rejects_nul_in_value l config w \<longleftrightarrow>
     (case fst (config_modify (debug_env l) (config_handle config) (bytes_of ''PROTO_ENABLE'')
        (bytes_of ''y'' @ [0]) w) of
        Inl (Nul _) \<Rightarrow> True | _ \<Rightarrow> False)"

definition context_params_name_rejects_interior_nul :: bool where
  "context_params_name_rejects_interior_nul \<longleftrightarrow>
     isl (cpb_set_name (bytes_of ''bad'' @ [0] @ bytes_of ''name'') ContextParamsBuilder_new)"

definition context_rejects_missing_features_before_ffi :: "'u lib \<Rightarrow> Config \<Rightarrow> 'u world \<Rightarrow> bool" where
  "context_rejects_missing_features_before_ffi l config w \<longleftrightarrow>
     (let params = fst (cpb_build (cpb_mt_workers_shared 1 ContextParamsBuilder_new))
      in fst (Context_new (debug_env l) config params w) = Inl (Status UCS_ERR_INVALID_PARAM))"

definition context_rejects_unshared_mt_context :: "'u lib \<Rightarrow> Config \<Rightarrow> 'u world \<Rightarrow> bool" where
  "context_rejects_unshared_mt_context l config w \<longleftrightarrow>
     (let params = fst (cpb_build (cpb_features Flags_Tag ContextParamsBuilder_new))
      in fst (Context_new (debug_env l) config params w) = Inl (Status UCS_ERR_INVALID_PARAM))"

lemma nul_rejected: "0 \<in> set s \<Longrightarrow> \<exists>e. CString_new s = Inl e"
  by (cases "CString_new s") auto

lemma config_tests:
  "config_read_rejects_interior_nul l w" "config_modify_rejects_interior_nul l config w"
  "config_modify_rejects_nul_in_value l config w" context_params_name_rejects_interior_nul
proof -
  obtain e1 e2 where "CString_new (bytes_of ''bad'' @ [0] @ bytes_of ''name'') = Inl e1"
    "CString_new (bytes_of ''y'' @ [0]) = Inl e2"
    using nul_rejected [of "bytes_of ''bad'' @ [0] @ bytes_of ''name''"]
      nul_rejected [of "bytes_of ''y'' @ [0]"] by auto
  then show "config_read_rejects_interior_nul l w" "config_modify_rejects_interior_nul l config w"
    "config_modify_rejects_nul_in_value l config w" context_params_name_rejects_interior_nul
    by (auto simp: config_read_rejects_interior_nul_def config_modify_rejects_interior_nul_def
        config_modify_rejects_nul_in_value_def context_params_name_rejects_interior_nul_def
        Config_read_def config_modify_def cpb_set_name_def ConfigError_from_def split: sum.splits)
qed

lemma context_tests:
  "context_rejects_missing_features_before_ffi l config w" "context_rejects_unshared_mt_context l config w"
  by (simp_all add: context_rejects_missing_features_before_ffi_def
      context_rejects_unshared_mt_context_def Context_new_def cpb_build_def cpb_mt_workers_shared_def
      cpb_features_def ContextParamsBuilder_new_def PARAM_FIELD_FEATURES_def zeroed_ucp_params_t_def Let_def)

subsection \<open>Endpoints (\<^verbatim>\<open>src/ep/mod.rs\<close>)\<close>

definition modify_params_only_sets_supported_fields :: bool where
  "modify_params_only_sets_supported_fields \<longleftrightarrow>
     (let params = mpb_build (mpb_user_data 0 ModifyParamsBuilder_new)
      in ep_field_mask (mpar_handle params) = EP_PARAM_FIELD_USER_DATA)"

definition modify_params_sets_error_handler_argument :: bool where
  "modify_params_sets_error_handler_argument \<longleftrightarrow>
     (let argument = 42; params = mpb_build (mpb_err_handler_arg argument ModifyParamsBuilder_new)
      in ep_err_handler_arg (mpar_handle params) = argument)"

definition params_builder_sets_error_handling_mode :: bool where
  "params_builder_sets_error_handling_mode \<longleftrightarrow>
     (let params = fst (epb_build (epb_err_mode EHM_Peer EpParamsBuilder_new))
      in ep_field_mask (epar_handle params) AND EP_PARAM_FIELD_ERR_HANDLING_MODE \<noteq> 0 \<and>
         ep_err_mode (epar_handle params) = UCP_ERR_HANDLING_MODE_PEER)"

definition params_builder_sets_error_callback_fields :: "code \<Rightarrow> bool" where
  "params_builder_sets_error_callback_fields callback \<longleftrightarrow>
     (let params = fst (epb_build (epb_user_data 0 (epb_err_handler (Some callback) EpParamsBuilder_new)))
      in ep_field_mask (epar_handle params) AND EP_PARAM_FIELD_ERR_HANDLER \<noteq> 0 \<and>
         ep_field_mask (epar_handle params) AND EP_PARAM_FIELD_USER_DATA \<noteq> 0)"

definition err_handler_arg_alone_does_not_advertise_callback :: bool where
  "err_handler_arg_alone_does_not_advertise_callback \<longleftrightarrow>
     (let params = fst (epb_build (epb_err_handler_arg 0 EpParamsBuilder_new))
      in ep_field_mask (epar_handle params) AND EP_PARAM_FIELD_ERR_HANDLER = 0)"

text \<open>The tests parse the address from its text, 127.0.0.1:13337.\<close>

definition ep_params_sockaddr_points_at_borrowed_address :: bool where
  "ep_params_sockaddr_points_at_borrowed_address \<longleftrightarrow>
     (let sock = SockAddr_new (SocketAddrV4 (ip_from_octets [127, 0, 0, 1]) 13337);
          params = fst (epb_build (epb_set_sockaddr sock EpParamsBuilder_new));
          raw = SockAddr_to_ffi sock
      in ep_field_mask (epar_handle params) AND EP_PARAM_FIELD_SOCK_ADDR \<noteq> 0 \<and>
         sa_addr (ep_sockaddr (epar_handle params)) = sa_addr raw \<and>
         sa_addrlen (ep_sockaddr (epar_handle params)) = sa_addrlen raw)"

lemma endpoint_tests:
  modify_params_only_sets_supported_fields modify_params_sets_error_handler_argument
  params_builder_sets_error_handling_mode "params_builder_sets_error_callback_fields callback"
  err_handler_arg_alone_does_not_advertise_callback ep_params_sockaddr_points_at_borrowed_address
  by (simp_all add: modify_params_only_sets_supported_fields_def
      modify_params_sets_error_handler_argument_def params_builder_sets_error_handling_mode_def
      params_builder_sets_error_callback_fields_def err_handler_arg_alone_does_not_advertise_callback_def
      ep_params_sockaddr_points_at_borrowed_address_def mpb_build_def mpb_user_data_def
      mpb_err_handler_arg_def ModifyParamsBuilder_new_def epb_build_def EpParamsBuilder_new_def
      epb_err_mode_def epb_user_data_def epb_err_handler_def epb_err_handler_arg_def
      epb_set_sockaddr_def zeroed_ucp_ep_params_t_def Let_def)

subsection \<open>Listeners (\<^verbatim>\<open>src/listener.rs\<close>)\<close>

text \<open>The bytes of the structure are copied over a zeroed storage.\<close>

definition masks_and_ipv4_conversion :: bool where
  "masks_and_ipv4_conversion \<longleftrightarrow> UCP_LISTENER_PARAM_FIELD_SOCK_ADDR = 1 \<and>
     (let addr = SocketAddrV4 (ip_from_octets [127, 0, 0, 1]) 42;
          sock = SockAddr_new addr;
          ss = storage_of sock (replicate 128 0)
      in sa_addrlen (SockAddr_to_ffi sock) = 16 \<and> from_storage ss = Some addr)"

definition ipv6_conversion_round_trip :: bool where
  "ipv6_conversion_round_trip \<longleftrightarrow>
     (let addr = SocketAddrV6 (ip_from_octets ([0xfe, 0x80] @ replicate 13 0 @ [1])) 42 0 0;
          sock = SockAddr_new addr;
          ss = storage_of sock (replicate 128 0)
      in sa_addrlen (SockAddr_to_ffi sock) = 28 \<and> from_storage ss = Some addr)"

definition params_sockaddr_points_at_borrowed_address :: bool where
  "params_sockaddr_points_at_borrowed_address \<longleftrightarrow>
     (let sock = SockAddr_new (SocketAddrV4 (ip_from_octets [127, 0, 0, 1]) 0);
          params = lpb_build (lpb_sockaddr sock ListenerParamsBuilder_new);
          raw = SockAddr_to_ffi sock
      in lp_field_mask (lpar_params params) AND UCP_LISTENER_PARAM_FIELD_SOCK_ADDR \<noteq> 0 \<and>
         sa_addr (lp_sockaddr (lpar_params params)) = sa_addr raw \<and>
         sa_addrlen (lp_sockaddr (lpar_params params)) = sa_addrlen raw)"

definition panicking_connection_handler_is_contained :: "'u lib \<Rightarrow> 'u world \<Rightarrow> bool" where
  "panicking_connection_handler_is_contained l w \<longleftrightarrow>
     (let (handler, w1) = Arc_new \<lparr>ls_strong = 1, ls_handle = 0, ls_handle_poisoned = False,
            ls_has_handler = True, ls_handler_poisoned = False\<rparr> w;
          arg = Arc_as_ptr handler;
          closure = (\<lambda>request w. (Panic ''handler'', ConnRequest_drop (debug_env l) request w))
      in fst (conn_trampoline (debug_env l) closure 0 arg w1) = Ret ())"

lemma listener_tests:
  masks_and_ipv4_conversion ipv6_conversion_round_trip params_sockaddr_points_at_borrowed_address
proof -
  show masks_and_ipv4_conversion
    by (simp add: masks_and_ipv4_conversion_def sockaddr_decodes UCP_LISTENER_PARAM_FIELD_SOCK_ADDR_def)
      (simp add: SockAddr_to_ffi_def SockAddr_new_def SocketStorage_len_def)
  show ipv6_conversion_round_trip
    by (simp add: ipv6_conversion_round_trip_def sockaddr_decodes Let_def)
      (simp add: SockAddr_to_ffi_def SockAddr_new_def SocketStorage_len_def)
qed (simp_all add: params_sockaddr_points_at_borrowed_address_def lpb_build_def lpb_sockaddr_def
    ListenerParamsBuilder_new_def UCP_LISTENER_PARAM_FIELD_SOCK_ADDR_def zeroed_ucp_listener_params_t_def)

lemma panicking_handler_test: "panicking_connection_handler_is_contained l w"
  by (simp add: panicking_connection_handler_is_contained_def conn_trampoline_def Let_def
      Arc_new_def split: prod.splits option.splits)

end
