(* ===== verification/Library_Tests.thy ===== *)
theory Library_Tests
  imports Examples
begin

text \<open>
  The crate's tests that need a UCX library, as programs: the set-up they share
  (\<^verbatim>\<open>src/tests.rs\<close>) and the tests of the modules.  As with the examples the addresses of arrays,
  vectors and callbacks are parameters, and every test gives back what UCX gave it, whether it
  passes or panics.
\<close>

subsection \<open>Statements the tests share\<close>

text \<open>\<^verbatim>\<open>unwrap\<close> on a result and on an option, \<^verbatim>\<open>assert!\<close> and \<^verbatim>\<open>assert_eq!\<close> on numbers.\<close>

definition unwrap :: "('e \<Rightarrow> string) \<Rightarrow> 'e + 'a \<Rightarrow> ('u, 'a) stmt" where
  "unwrap dbg r = expect unwrap_msg dbg r"

definition unwrap_option :: "'a option \<Rightarrow> ('u, 'a) stmt" where
  "unwrap_option x = (case x of
      None \<Rightarrow> panic ''called `Option::unwrap()` on a `None` value'' | Some y \<Rightarrow> ret y)"

definition assert_that :: "bool \<Rightarrow> string \<Rightarrow> ('u, unit) stmt" where
  "assert_that b msg = (if b then ret () else panic msg)"

definition assert_eq_num :: "nat \<Rightarrow> nat \<Rightarrow> ('u, unit) stmt" where
  "assert_eq_num l r = assert_that (l = r) (assert_eq_failed (decimal l) (decimal r))"

text \<open>
  \<^verbatim>\<open>while !request.check_finished()? { worker.progress(); }\<close>: a loop without a bound.  The check
  leaves the request as it was, so the local that holds it does not change.
\<close>

partial_function (option) until_finished ::
  "'u env \<Rightarrow> Worker \<Rightarrow> Request \<Rightarrow> string \<Rightarrow> 'u world \<Rightarrow> (unit outcome \<times> 'u world) option" where
  "until_finished E wk request failed w = (case Request_check_finished E request w of
      (Inl e, w1) \<Rightarrow> Some (Panic (expect_failed failed (debug_Status e)), w1)
    | (Inr b, w1) \<Rightarrow> if b then Some (Ret (), w1) else
        (case Worker_progress E wk w1 of
           (Ret _, w2) \<Rightarrow> until_finished E wk request failed w2
         | (Panic s, w2) \<Rightarrow> Some (Panic s, w2)
         | (Abort, w2) \<Rightarrow> Some (Abort, w2)))"

text \<open>The guard of a tagged transfer checks the request it holds.\<close>

definition tag_until_finished ::
  "'u env \<Rightarrow> Worker \<Rightarrow> TagRequest \<Rightarrow> string \<Rightarrow> 'u world \<Rightarrow> (unit outcome \<times> 'u world) option" where
  "tag_until_finished E wk t = until_finished E wk \<lparr>req_handle = tr_handle t\<rparr>"

subsection \<open>The set-up\<close>

definition new_context ::
  "'u env \<Rightarrow> ContextParams \<Rightarrow> string \<Rightarrow> string \<Rightarrow> ('u, Context) stmt" where
  "new_context E params config_msg context_msg =
     seq (let_new V_config (Config_read E [] []) config_msg debug_ConfigError) (\<lambda>config.
     seq (let_new V_context (Context_new E config params) context_msg debug_Status) (\<lambda>context.
     seq (drop_local E (V_config config)) (\<lambda>_.
     ret context)))"

definition new_worker ::
  "'u env \<Rightarrow> Context \<Rightarrow> WorkerParamsBuilder \<Rightarrow> string \<Rightarrow> ('u, Worker) stmt" where
  "new_worker E context b msg =
     let_new V_worker (Context_worker_create E context (fst (wpb_build b))) msg debug_Status"

text \<open>An endpoint to the worker itself, from an address copied to a vector at \<open>remote\<close>.\<close>

definition new_self_ep ::
  "'u env \<Rightarrow> Worker \<Rightarrow> ptr \<Rightarrow> string \<Rightarrow> string \<Rightarrow> ('u, Ep) stmt" where
  "new_self_ep E worker remote address_msg ep_msg =
     seq (let_new V_address (Worker_pack_address E worker) address_msg debug_Status) (\<lambda>address.
     seq (peek (WorkerAddress_to_vec address)) (\<lambda>packed.
     seq (call (store remote packed)) (\<lambda>_.
     seq (let_new V_ep (Worker_create_ep E worker (fst (epb_build (epb_set_address
         \<lparr>rwa_data = remote, rwa_len = of_nat (length packed)\<rparr> EpParamsBuilder_new)))) ep_msg debug_Status)
       (\<lambda>ep.
     seq (drop_local E (V_address address)) (\<lambda>_.
     ret ep)))))"

text \<open>
  \<^verbatim>\<open>setup_default\<close>; \<open>init\<close> and \<open>cleanup\<close> are the addresses of its two callbacks.  The fields of
  \<^verbatim>\<open>CommsContext\<close> drop in the order endpoint, worker, context, as the locals here do.
\<close>

definition setup_default ::
  "'u env \<Rightarrow> ptr \<Rightarrow> ptr \<Rightarrow> ptr \<Rightarrow> ('u, Worker \<times> Context \<times> Ep) stmt" where
  "setup_default E init cleanup remote =
     (let features = Flags_Am OR Flags_Rma OR Flags_Amo32 OR Flags_Amo64 OR Flags_Tag
      in seq (expect ''context name'' debug_NulError (cpb_set_name (bytes_of ''My Awesome Test'')
           (cpb_request_size 8 (cpb_request_cleanup cleanup (cpb_request_init init
             (cpb_mt_workers_shared 1 (cpb_features features ContextParamsBuilder_new))))))) (\<lambda>b.
         let params = fst (cpb_build (cpb_estimated_num_ppn 2 (cpb_estimated_num_eps 4
             (cpb_tag_sender_mask (- 1) b))))
         in seq (new_context E params ''config read'' unwrap_msg) (\<lambda>context.
            seq (new_worker E context (wpb_thread_mode TM_Multi WorkerParamsBuilder_new) unwrap_msg) (\<lambda>worker.
            seq (new_self_ep E worker remote unwrap_msg unwrap_msg) (\<lambda>ep.
            seq (call_opt (progress_until_idle E worker)) (\<lambda>_.
            ret (worker, context, ep)))))))"

text \<open>The set-ups of the modules' own tests: a context with one shared worker, and a worker.\<close>

definition setup_worker ::
  "'u env \<Rightarrow> u64 \<Rightarrow> WorkerParamsBuilder \<Rightarrow> ('u, Worker \<times> Context) stmt" where
  "setup_worker E features b =
     seq (new_context E (fst (cpb_build (cpb_mt_workers_shared 1 (cpb_features features
         ContextParamsBuilder_new)))) ''config read'' ''context create'') (\<lambda>context.
     seq (new_worker E context b ''worker create'') (\<lambda>worker.
     ret (worker, context)))"

definition stream_setup_worker :: "'u env \<Rightarrow> ('u, Worker \<times> Context) stmt" where
  "stream_setup_worker E = setup_worker E (Flags_Tag OR Flags_Stream) WorkerParamsBuilder_new"

definition mt_setup_worker :: "'u env \<Rightarrow> ('u, Worker \<times> Context) stmt" where
  "mt_setup_worker E =
     setup_worker E Flags_Tag (wpb_thread_mode TM_Serialized WorkerParamsBuilder_new)"

subsection \<open>Requests and tagged messages\<close>

definition request_setup :: "'u env \<Rightarrow> ptr \<Rightarrow> ptr \<Rightarrow> ptr \<Rightarrow> ('u, unit) stmt" where
  "request_setup E init cleanup remote =
     seq (setup_default E init cleanup remote) (\<lambda>(worker, context, ep). ret ())"

text \<open>The raw handler of \<^verbatim>\<open>request.rs\<close>: indexing an empty header would panic out of a C function.\<close>

definition am_cb :: "ptr \<Rightarrow> ptr \<Rightarrow> usize \<Rightarrow> memory \<Rightarrow> Status outcome \<times> memory" where
  "am_cb arg header header_length m =
     (if header_length = 0 then (Abort, m) else (Ret Status_OK, m(arg := m header)))"

definition request_am ::
  "'u env \<Rightarrow> ptr \<Rightarrow> ptr \<Rightarrow> ptr \<Rightarrow> ptr \<Rightarrow> ptr \<Rightarrow> ptr \<Rightarrow> ptr \<Rightarrow> ('u, unit) stmt" where
  "request_am E init cleanup remote send_buffer recv_buffer cb nodata =
     seq (setup_default E init cleanup remote) (\<lambda>(worker, context, ep).
     seq (call (store send_buffer [32])) (\<lambda>_.
     seq (call (store recv_buffer [0])) (\<lambda>_.
     seq (call (returning (am_register E worker (fst (hpb_build (hpb_arg recv_buffer
         (hpb_cb (User_code cb) (hpb_id 5 HandlerParamsBuilder_new)))))))) (\<lambda>r.
     seq (unwrap debug_Status r) (\<lambda>_.
     seq no_imm_cmpl_param (\<lambda>am_flags.
     seq (call (Ep_am_send E ep 5 (send_buffer, 1) (nodata, 0) am_flags)) (\<lambda>req.
     seq (unwrap debug_Status req) (\<lambda>req.
     seq (if_some req (\<lambda>req. seq (own V_request req) (\<lambda>req.
       seq (call_opt (until_finished E worker req unwrap_msg)) (\<lambda>_.
       drop_local E (V_request req))))) (\<lambda>_.
     seq (peek (\<lambda>w. (mem w send_buffer, mem w recv_buffer))) (\<lambda>(sent, received).
     assert_eq_num (unat sent) (unat received)))))))))))"

definition tag_recv_test_real_completed_request ::
  "'u env \<Rightarrow> ptr \<Rightarrow> ptr \<Rightarrow> ptr \<Rightarrow> ptr \<Rightarrow> ptr \<Rightarrow> ('u, unit) stmt" where
  "tag_recv_test_real_completed_request E init cleanup remote recv_buffer send_buffer =
     seq (setup_default E init cleanup remote) (\<lambda>(worker, context, ep).
     seq (call (store recv_buffer [0, 0, 0, 0, 0])) (\<lambda>_.
     seq no_imm_cmpl_param (\<lambda>param.
     seq (call (Worker_tag_recv E worker worker (recv_buffer, 5) 0x1234 (- 1) param)) (\<lambda>r.
     seq (expect ''post tag receive'' debug_Status r) (\<lambda>recv_request.
     seq (own V_tag recv_request) (\<lambda>recv_request.
     seq (call (store send_buffer (bytes_of ''hello''))) (\<lambda>_.
     seq (call (Ep_tag_send E ep worker (send_buffer, 5) 0x1234 param)) (\<lambda>s.
     seq (expect ''post tag send'' debug_Status s) (\<lambda>send_request.
     seq (own_opt V_tag send_request) (\<lambda>send_request.
     seq (call_opt (tag_until_finished E worker recv_request ''test tag receive'')) (\<lambda>_.
     seq (give (V_tag recv_request) (TagRequest_into_inner E recv_request)) (\<lambda>request.
     seq (own V_request request) (\<lambda>request.
     seq (call (returning (Request_tag_recv_test E request))) (\<lambda>r.
     seq (expect ''test completed tag receive'' debug_Status r) (\<lambda>info.
     seq (case info of None \<Rightarrow> panic ''completed receive should include info'' | Some i \<Rightarrow> ret i) (\<lambda>info.
     seq (drop_local E (V_request request)) (\<lambda>_.
     seq (assert_eq_num (unat (ti_sender_tag info)) 0x1234) (\<lambda>_.
     seq (assert_eq_num (unat (ti_length info)) 5) (\<lambda>_.
     seq (peek (\<lambda>w. (mem_read (mem w) recv_buffer 5, mem_read (mem w) send_buffer 5))) (\<lambda>(received, sent).
     seq (assert_eq_bytes received sent) (\<lambda>_.
     if_some send_request (\<lambda>s. drop_local E (V_tag s)))))))))))))))))))))))"

definition tag_send_test ::
  "'u env \<Rightarrow> ptr \<Rightarrow> ptr \<Rightarrow> ptr \<Rightarrow> ptr \<Rightarrow> ptr \<Rightarrow> ('u, unit) stmt" where
  "tag_send_test E init cleanup remote recv_buff send_buff =
     seq (setup_default E init cleanup remote) (\<lambda>(worker, context, ep).
     seq (call (store recv_buff [0])) (\<lambda>_.
     seq (call (store send_buff [32])) (\<lambda>_.
     seq no_imm_cmpl_param (\<lambda>tag_flags.
     seq (call (Ep_tag_send E ep worker (send_buff, 1) (- 1) tag_flags)) (\<lambda>s.
     seq (unwrap debug_Status s) (\<lambda>s.
     seq (own_opt V_tag s) (\<lambda>_.
     seq (call (Worker_tag_recv E worker worker (recv_buff, 1) (- 1) (- 1) tag_flags)) (\<lambda>r.
     seq (unwrap debug_Status r) (\<lambda>r.
     seq (own V_tag r) (\<lambda>recv_req.
     seq (call_opt (tag_until_finished E worker recv_req unwrap_msg)) (\<lambda>_.
     seq (drop_local E (V_tag recv_req)) (\<lambda>_.
     seq (peek (\<lambda>w. (mem w send_buff, mem w recv_buff))) (\<lambda>(sent, received).
     assert_eq_num (unat sent) (unat received))))))))))))))"

text \<open>\<^verbatim>\<open>tag_probe\<close>: probing until the message is there.\<close>

partial_function (option) probe_until ::
  "'u env \<Rightarrow> Worker \<Rightarrow> 'u world \<Rightarrow> (MessageHandle outcome \<times> 'u world) option" where
  "probe_until E wk w = (case Worker_tag_probe E wk (- 1) (- 1) True w of
      (Some msg, w1) \<Rightarrow> Some (Ret msg, w1)
    | (None, w1) \<Rightarrow> (case Worker_progress E wk w1 of
          (Ret _, w2) \<Rightarrow> probe_until E wk w2
        | (Panic s, w2) \<Rightarrow> Some (Panic s, w2)
        | (Abort, w2) \<Rightarrow> Some (Abort, w2)))"

definition tag_probe_test ::
  "'u env \<Rightarrow> ptr \<Rightarrow> ptr \<Rightarrow> ptr \<Rightarrow> ptr \<Rightarrow> ptr \<Rightarrow> ('u, unit) stmt" where
  "tag_probe_test E init cleanup remote recv_buff send_buff =
     seq (setup_default E init cleanup remote) (\<lambda>(worker, context, ep).
     seq (call (store recv_buff [0])) (\<lambda>_.
     seq (call (store send_buff [32])) (\<lambda>_.
     seq no_imm_cmpl_param (\<lambda>tag_flags.
     seq (call (Ep_tag_send E ep worker (send_buff, 1) (- 1) tag_flags)) (\<lambda>s.
     seq (unwrap debug_Status s) (\<lambda>s.
     seq (own_opt V_tag s) (\<lambda>_.
     seq (call_opt (probe_until E worker)) (\<lambda>msg.
     seq (call (Worker_tag_msg_recv E worker (recv_buff, 1) msg tag_flags)) (\<lambda>r.
     seq (unwrap debug_Status r) (\<lambda>r.
     seq (unwrap_option r) (\<lambda>r.
     seq (own V_request r) (\<lambda>recv_req.
     seq (call_opt (until_finished E worker recv_req unwrap_msg)) (\<lambda>_.
     seq (peek (\<lambda>w. (mem w send_buff, mem w recv_buff))) (\<lambda>(sent, received).
     assert_eq_num (unat sent) (unat received)))))))))))))))"

subsection \<open>Active messages\<close>

text \<open>The closure of \<^verbatim>\<open>safe_handler_receives_self_am\<close>: it checks the message and counts it at \<open>counter\<close>.\<close>

definition count_at :: "ptr \<Rightarrow> memory \<Rightarrow> u32" where
  "count_at counter m = from_le (mem_read m counter 4)"

definition count_message :: "ptr \<Rightarrow> bytes \<Rightarrow> bytes \<Rightarrow> memory \<Rightarrow> (Status + unit) outcome \<times> memory" where
  "count_message counter header payload m =
     (if header \<noteq> bytes_of ''h''
      then (Panic (assert_eq_failed (debug_bytes header) (debug_bytes (bytes_of ''h''))), m)
      else if payload \<noteq> bytes_of ''d''
      then (Panic (assert_eq_failed (debug_bytes payload) (debug_bytes (bytes_of ''d''))), m)
      else (Ret (Inr ()), mem_write counter (to_le 4 (count_at counter m + 1)) m))"

fun progress_until_counted :: "'u env \<Rightarrow> Worker \<Rightarrow> ptr \<Rightarrow> nat \<Rightarrow> ('u world, unit) prog" where
  "progress_until_counted E wk counter 0 w = (Ret (), w)"
| "progress_until_counted E wk counter (Suc n) w =
     bnd (Worker_progress E wk) (\<lambda>_ w1. if count_at counter (mem w1) = 1 then (Ret (), w1)
       else progress_until_counted E wk counter n w1) w"

definition wait_completed :: "'u env \<Rightarrow> Worker \<Rightarrow> string \<Rightarrow> Request \<Rightarrow> ('u, unit) stmt" where
  "wait_completed E worker msg request =
     seq (own V_request request) (\<lambda>request.
     seq (call (Worker_wait_request E worker request)) (\<lambda>r.
     seq (unwrap debug_Status r) (\<lambda>completed.
     seq (assert_that completed (''assertion failed: '' @ msg)) (\<lambda>_.
     drop_local E (V_request request)))))"

definition safe_handler_receives_self_am ::
  "'u env \<Rightarrow> ptr \<Rightarrow> ptr \<Rightarrow> ptr \<Rightarrow> ptr \<Rightarrow> ('u, unit) stmt" where
  "safe_handler_receives_self_am E remote counter header data =
     seq (new_context E (fst (cpb_build (cpb_mt_workers_shared 1 (cpb_features Flags_Am
         ContextParamsBuilder_new)))) unwrap_msg unwrap_msg) (\<lambda>context.
     seq (new_worker E context WorkerParamsBuilder_new unwrap_msg) (\<lambda>worker.
     seq (let_new V_address (Worker_pack_address E worker) unwrap_msg debug_Status) (\<lambda>packed.
     seq (peek (WorkerAddress_to_vec packed)) (\<lambda>address.
     seq (call (store remote address)) (\<lambda>_.
     seq (drop_local E (V_address packed)) (\<lambda>_.
     seq (let_new V_ep (Worker_create_ep E worker (fst (epb_build (epb_set_address
         \<lparr>rwa_data = remote, rwa_len = of_nat (length address)\<rparr> EpParamsBuilder_new)))) unwrap_msg debug_Status)
       (\<lambda>endpoint.
     seq (call (store counter [0, 0, 0, 0])) (\<lambda>_.
     seq (call (returning (am_register_handler E worker 23 CbFlags_WholeMsg))) (\<lambda>(r, worker1).
     seq (set_worker worker worker1) (\<lambda>_.
     seq (unwrap debug_Status r) (\<lambda>_.
     seq no_imm_cmpl_param (\<lambda>request_param.
     seq (call (store header (bytes_of ''h''))) (\<lambda>_.
     seq (call (store data (bytes_of ''d''))) (\<lambda>_.
     seq (call (Ep_am_send E endpoint 23 (header, 1) (data, 1) request_param)) (\<lambda>sent.
     seq (unwrap debug_Status sent) (\<lambda>sent.
     seq (if_some sent (wait_completed E worker1 ''worker.wait_request(&request).unwrap()'')) (\<lambda>_.
     seq (call (progress_until_counted E worker1 counter 1000)) (\<lambda>_.
     seq (peek (\<lambda>w. count_at counter (mem w))) (\<lambda>seen.
     assert_eq_num (unat seen) 1)))))))))))))))))))"

text \<open>\<^verbatim>\<open>record_recv_param\<close>; \<open>param\<close> is what UCX passed, if its pointer is not null.\<close>

definition record_recv_param ::
  "ptr \<Rightarrow> ptr \<Rightarrow> usize \<Rightarrow> AmRecvParam option \<Rightarrow> memory \<Rightarrow> Status \<times> memory" where
  "record_recv_param arg header header_length param m =
     (let m1 = (if header_length = 1 \<and> header \<noteq> 0 then m(arg := m header) else m);
          code = (case param of
              Some p \<Rightarrow> if AmRecvParam_reply_ep p = None then 1 else 2
            | None \<Rightarrow> 3)
      in (Status_OK, m1(arg + 1 := code)))"

fun progress_until_seen :: "'u env \<Rightarrow> Worker \<Rightarrow> ptr \<Rightarrow> nat \<Rightarrow> ('u world, unit) prog" where
  "progress_until_seen E wk seen 0 w = (Ret (), w)"
| "progress_until_seen E wk seen (Suc n) w =
     (if mem w seen \<noteq> 0 then (Ret (), w)
      else bnd (Worker_progress E wk) (\<lambda>_. progress_until_seen E wk seen n) w)"

definition raw_callback_receives_native_recv_param ::
  "'u env \<Rightarrow> ptr \<Rightarrow> ptr \<Rightarrow> ptr \<Rightarrow> ptr \<Rightarrow> ptr \<Rightarrow> ptr \<Rightarrow> ptr \<Rightarrow> ('u, unit) stmt" where
  "raw_callback_receives_native_recv_param E init cleanup remote seen cb header nodata =
     seq (setup_default E init cleanup remote) (\<lambda>(worker, context, ep).
     seq (call (store seen [0, 0])) (\<lambda>_.
     seq (call (returning (am_register E worker (fst (hpb_build (hpb_arg seen
         (hpb_cb (User_code cb) (hpb_id 24 HandlerParamsBuilder_new)))))))) (\<lambda>r.
     seq (unwrap debug_Status r) (\<lambda>_.
     seq no_imm_cmpl_param (\<lambda>request_param.
     seq (call (store header (bytes_of ''q''))) (\<lambda>_.
     seq (call (Ep_am_send E ep 24 (header, 1) (nodata, 0) request_param)) (\<lambda>sent.
     seq (unwrap debug_Status sent) (\<lambda>sent.
     seq (if_some sent (wait_completed E worker ''comms.worker.wait_request(&request).unwrap()'')) (\<lambda>_.
     seq (call (progress_until_seen E worker seen 1000)) (\<lambda>_.
     seq (peek (\<lambda>w. mem_read (mem w) seen 2)) (\<lambda>bs.
     assert_eq_bytes bs (bytes_of ''q'' @ [1]))))))))))))"

subsection \<open>Streams\<close>

text \<open>Every answer to the send is accepted; a guard is dropped at the end of its arm.\<close>

definition test_stream_api_compiles :: "'u env \<Rightarrow> ptr \<Rightarrow> ptr \<Rightarrow> ('u, unit) stmt" where
  "test_stream_api_compiles E remote data =
     seq (stream_setup_worker E) (\<lambda>(worker, context).
     seq (new_self_ep E worker remote ''pack address'' ''create ep'') (\<lambda>ep.
     let param = rpb_build RequestParamBuilder_new in
     seq (call (store data (bytes_of ''hello''))) (\<lambda>_.
     seq (call (Ep_stream_send E ep worker (data, 5) param)) (\<lambda>result.
     case result of
       Inr None \<Rightarrow> ret ()
     | Inr (Some guard) \<Rightarrow> call (StreamRequest_drop E guard)
     | Inl status \<Rightarrow> ret ()))))"

definition test_stream_poll_empty_worker :: "'u env \<Rightarrow> ('u, unit) stmt" where
  "test_stream_poll_empty_worker E =
     seq (stream_setup_worker E) (\<lambda>(worker, context).
     seq (call (Worker_stream_poll E worker 0)) (\<lambda>r.
     seq (expect ''poll with zero capacity'' debug_Status r) (\<lambda>events.
     assert_that (events = [])
       ''assertion failed: worker.stream_poll(0).expect(\"poll with zero capacity\").is_empty()'')))"

definition decimal_int :: "int \<Rightarrow> string" where
  "decimal_int i = (if i < 0 then ''-'' @ decimal (nat (- i)) else decimal (nat i))"

definition stream_worker_poll_fills_native_entries :: "'u env \<Rightarrow> ('u, unit) stmt" where
  "stream_worker_poll_fills_native_entries E =
     seq (stream_setup_worker E) (\<lambda>(worker, context).
     let entries = replicate 4 StreamPollEp_default in
     seq (call (returning (stream_worker_poll E worker entries 4 0))) (\<lambda>(polled, entries).
     seq (assert_that (polled = 0) (assert_eq_failed (decimal_int (sint polled)) ''0'')) (\<lambda>_.
     assert_that (list_all (\<lambda>entry. StreamPollEp_flags entry = 0 \<and> StreamPollEp_user_data entry = 0) entries)
       ''assertion failed: entries.iter().all(|entry| entry.flags() == 0 && entry.user_data().is_null())'')))"

subsection \<open>Workers and endpoints\<close>

definition progress_works_with_a_real_worker :: "'u env \<Rightarrow> ('u, unit) stmt" where
  "progress_works_with_a_real_worker E =
     seq (mt_setup_worker E) (\<lambda>(worker, context).
     seq (call (Worker_progress E worker)) (\<lambda>_. ret ()))"

definition close_self_endpoint_immediately_or_with_request :: "'u env \<Rightarrow> ptr \<Rightarrow> ('u, unit) stmt" where
  "close_self_endpoint_immediately_or_with_request E remote =
     seq (setup_worker E Flags_Tag WorkerParamsBuilder_new) (\<lambda>(worker, context).
     seq (new_self_ep E worker remote ''pack address'' ''endpoint create'') (\<lambda>ep.
     seq (give (V_ep ep) (Ep_close E ep worker 0)) (\<lambda>r.
     seq (expect ''endpoint close should complete'' debug_Status r) (\<lambda>_.
     seq (drop_local E (V_worker worker)) (\<lambda>_.
     drop_local E (V_context context))))))"

subsection \<open>Remote memory\<close>

text \<open>\<^verbatim>\<open>transport()\<close>; \<open>tls\<close> is the \<^verbatim>\<open>Debug\<close> text of the environment's \<^verbatim>\<open>UCX_TLS\<close>.\<close>

definition transport :: "'u env \<Rightarrow> string \<Rightarrow> 'u world \<Rightarrow> string \<times> 'u world" where
  "transport E tls w = (let (v, w1) = get_version_string E w
     in (''UCX '' @ text_of v @ '', UCX_TLS='' @ tls, w1))"

fun test_wait_rounds :: "'u env \<Rightarrow> string \<Rightarrow> Worker \<Rightarrow> Request \<Rightarrow> string \<Rightarrow> nat \<Rightarrow> ('u world, unit) prog" where
  "test_wait_rounds E tls wk request what 0 w = (case transport E tls w of
      (t, w1) \<Rightarrow> (Panic (what @ '' did not complete ('' @ t @ '')''), Request_drop E request w1))"
| "test_wait_rounds E tls wk request what (Suc n) w = (case Request_check_finished E request w of
      (Inr True, w1) \<Rightarrow> (Ret (), Request_drop E request w1)
    | (Inr False, w1) \<Rightarrow> bnd (unwind (Request_drop E request) (Worker_progress E wk))
        (\<lambda>_. test_wait_rounds E tls wk request what n) w1
    | (Inl status, w1) \<Rightarrow> (case transport E tls w1 of
        (t, w2) \<Rightarrow> (Panic (what @ '' failed with '' @ Status_fmt status @ '' ('' @ t @ '')''),
          Request_drop E request w2)))"

definition test_wait ::
  "'u env \<Rightarrow> string \<Rightarrow> Worker \<Rightarrow> Request option \<Rightarrow> string \<Rightarrow> ('u, unit) stmt" where
  "test_wait E tls worker request what =
     if_some request (\<lambda>request. call (test_wait_rounds E tls worker request what 1000000))"

text \<open>\<^verbatim>\<open>unwrap_or_else(|status| panic!(..))\<close>.\<close>

definition posted ::
  "'u env \<Rightarrow> string \<Rightarrow> string \<Rightarrow> Status + 'a \<Rightarrow> ('u, 'a) stmt" where
  "posted E tls what r = (case r of
      Inr x \<Rightarrow> ret x
    | Inl status \<Rightarrow> seq (call (returning (transport E tls)))
        (\<lambda>t. panic (what @ '': '' @ Status_fmt status @ '' ('' @ t @ '')'')))"

definition rma_self_put_get_round_trip ::
  "'u env \<Rightarrow> string \<Rightarrow> ptr \<Rightarrow> ptr \<Rightarrow> ptr \<Rightarrow> ptr \<Rightarrow> ('u, unit) stmt" where
  "rma_self_put_get_round_trip E tls remote target source fetched =
     seq (connect_self E (self_params Flags_Rma) ''pack address'' remote) (\<lambda>(worker, context, ep).
     seq (call (store target [0, 0, 0, 0, 0, 0, 0, 0])) (\<lambda>_.
     seq (let_new (\<lambda>memh. V_memh (MemHandleGuard_mem_handle memh)) (MemHandle_map_slice E context (target, 8) 0)
       ''map target'' debug_Status) (\<lambda>memh.
     seq (call (returning (RemoteKey_pack E context (MemHandleGuard_mem_handle memh)))) (\<lambda>packed.
     seq (expect ''pack rkey'' debug_Status packed) (\<lambda>packed.
     seq (let_new V_key (RemoteKey_unpack E ep packed) ''unpack rkey'' debug_Status) (\<lambda>rkey.
     let param = rpb_build RequestParamBuilder_new in
     seq (call (store source (bytes_of ''ucx-rs!!''))) (\<lambda>_.
     seq (call (Ep_rma_put E ep (source, 8) target rkey param)) (\<lambda>put.
     seq (posted E tls ''post RMA put'' put) (\<lambda>put.
     seq (test_wait E tls worker put ''RMA put'') (\<lambda>_.
     seq (call (Ep_flush E ep param)) (\<lambda>flush.
     seq (posted E tls ''post endpoint flush'' flush) (\<lambda>flush.
     seq (test_wait E tls worker flush ''endpoint flush'') (\<lambda>_.
     seq (call (store fetched [0, 0, 0, 0, 0, 0, 0, 0])) (\<lambda>_.
     seq (call (Ep_rma_get E ep (fetched, 8) target rkey param)) (\<lambda>got.
     seq (posted E tls ''post RMA get'' got) (\<lambda>got.
     seq (test_wait E tls worker got ''RMA get'') (\<lambda>_.
     seq (drop_local E (V_key rkey)) (\<lambda>_.
     seq (drop_local E (V_memh (MemHandleGuard_mem_handle memh))) (\<lambda>_.
     seq (peek (\<lambda>w. (mem_read (mem w) target 8, mem_read (mem w) fetched 8))) (\<lambda>(t, f).
     seq (if t = bytes_of ''ucx-rs!!'' \<and> f = bytes_of ''ucx-rs!!'' then ret () else
       (let expected = debug_bytes (bytes_of ''ucx-rs!!'')
        in seq (call (returning (transport E tls))) (\<lambda>s.
           panic (''assertion `left == right` failed: (RMA put target, RMA get result) ('' @ s @ '')'' @
             newline @ ''  left: ('' @ debug_bytes t @ '', '' @ debug_bytes f @ '')'' @
             newline @ '' right: ('' @ expected @ '', '' @ expected @ '')'')))) (\<lambda>_.
     close_endpoint E ep worker)))))))))))))))))))))"

subsection \<open>Configuration and versions\<close>

text \<open>The text of the result in a failed assertion, by \<^verbatim>\<open>Debug\<close>.\<close>

definition debug_result :: "ConfigError + unit \<Rightarrow> string" where
  "debug_result r = (case r of Inl e \<Rightarrow> ''Err('' @ debug_ConfigError e @ '')'' | Inr _ \<Rightarrow> ''Ok(())'')"

definition test_config_modify :: "'u env \<Rightarrow> ('u, unit) stmt" where
  "test_config_modify E =
     seq (let_new V_config (Config_read E [] []) ''config read'' debug_ConfigError) (\<lambda>config.
     seq (call (returning (config_modify E (config_handle config) (bytes_of ''PROTO_ENABLE'') (bytes_of ''y''))))
       (\<lambda>result.
     assert_that (\<not> isl result)
       (''config_modify should succeed for known key '' @ [CHR 0x27] @ ''PROTO_ENABLE'' @ [CHR 0x27] @ '', got '' @
         debug_result result)))"

definition test_context_query :: "'u env \<Rightarrow> ('u, unit) stmt" where
  "test_context_query E =
     seq (let_new V_config (Config_read E [] []) ''config read'' debug_ConfigError) (\<lambda>config.
     seq (let_new V_context (Context_new E config (fst (cpb_build (cpb_mt_workers_shared 1
         (cpb_features Flags_Tag ContextParamsBuilder_new))))) ''init'' debug_Status) (\<lambda>ctx.
     seq (call (returning (context_query E (context_handle ctx) UCP_CONTEXT_ATTR_FIELD_REQUEST_SIZE))) (\<lambda>r.
     seq (expect ''context_query'' debug_Status r) (\<lambda>attr.
     assert_that (0 < ca_request_size attr) ''assertion failed: attr.request_size > 0''))))"

definition test_get_version :: "'u env \<Rightarrow> ('u, unit) stmt" where
  "test_get_version E =
     seq (call (returning (get_version E))) (\<lambda>(major, minor, release).
     assert_that (0 < major \<or> 0 < minor) ''Version should be non-zero'')"

definition test_get_version_string :: "'u env \<Rightarrow> ('u, unit) stmt" where
  "test_get_version_string E =
     seq (call (returning (get_version_string E))) (\<lambda>s.
     assert_that (s \<noteq> []) ''Version string should not be empty'')"

definition test_lib_query :: "'u env \<Rightarrow> ('u, unit) stmt" where
  "test_lib_query E =
     seq (call (returning (lib_query E))) (\<lambda>r.
     seq (expect ''lib_query should succeed'' debug_Status r) (\<lambda>_. ret ()))"

subsection \<open>Calls that release nothing\<close>

lemma until_calls:
  assumes "until_finished E wk request failed w = Some p"
  shows "adds [] w (snd p) \<and> fst p \<noteq> Abort"
proof (rule until_finished.raw_induct [OF _ assms])
  fix loop :: "'a env \<Rightarrow> Worker \<Rightarrow> Request \<Rightarrow> string \<Rightarrow> 'a world \<Rightarrow> (unit outcome \<times> 'a world) option"
    and E wk request failed w p
  assume IH: "\<And>E wk request failed w p. loop E wk request failed w = Some p \<Longrightarrow>
      adds [] w (snd p) \<and> fst p \<noteq> Abort"
    and body: "(case Request_check_finished E request w of
        (Inl e, w1) \<Rightarrow> Some (Panic (expect_failed failed (debug_Status e)), w1)
      | (Inr b, w1) \<Rightarrow> if b then Some (Ret (), w1) else
          (case Worker_progress E wk w1 of
             (Ret _, w2) \<Rightarrow> loop E wk request failed w2
           | (Panic s, w2) \<Rightarrow> Some (Panic s, w2)
           | (Abort, w2) \<Rightarrow> Some (Abort, w2))) = Some p"
  obtain c v where c: "Request_check_finished E request w = (c, v)" by fastforce
  obtain q u where q: "Worker_progress E wk v = (q, u)" by fastforce
  have v: "adds [] w v" and u: "adds [] w u"
    using adds_check [OF c] adds_quiet [OF adds_check [OF c] adds_progress [OF q]] by simp_all
  have "q \<noteq> Abort" using q by (auto simp: Worker_progress_eq split: if_splits)
  then show "adds [] w (snd p) \<and> fst p \<noteq> Abort"
    using body IH [of E wk request failed u] c q v adds_quiet [OF u]
    by (auto split: sum.splits outcome.splits if_splits)
qed

lemma harmless_until [harmless_calls]:
  "harmless E ab (until_finished E wk request failed)"
  "harmless E ab (tag_until_finished E wk t failed)"
  unfolding tag_until_finished_def using until_calls by (fastforce simp: harmless_def intro: adds_extends)+

lemma probe_calls:
  assumes "probe_until E wk w = Some p"
  shows "adds [] w (snd p) \<and> fst p \<noteq> Abort"
proof (rule probe_until.raw_induct [OF _ assms])
  fix loop :: "'a env \<Rightarrow> Worker \<Rightarrow> 'a world \<Rightarrow> (MessageHandle outcome \<times> 'a world) option" and E wk w p
  assume IH: "\<And>E wk w p. loop E wk w = Some p \<Longrightarrow> adds [] w (snd p) \<and> fst p \<noteq> Abort"
    and body: "(case Worker_tag_probe E wk (- 1) (- 1) True w of
        (Some msg, w1) \<Rightarrow> Some (Ret msg, w1)
      | (None, w1) \<Rightarrow> (case Worker_progress E wk w1 of
            (Ret _, w2) \<Rightarrow> loop E wk w2
          | (Panic s, w2) \<Rightarrow> Some (Panic s, w2)
          | (Abort, w2) \<Rightarrow> Some (Abort, w2))) = Some p"
  obtain m v where m: "Worker_tag_probe E wk (- 1) (- 1) True w = (m, v)" by fastforce
  obtain q u where q: "Worker_progress E wk v = (q, u)" by fastforce
  have v: "adds [] w v"
    using m adds_ffi(1) [of "XferC (ucp_tag_probe_nb (wk_handle wk) (- 1) (- 1) 1)" w E]
    by (auto simp: Worker_tag_probe_def Let_def split: prod.splits if_splits)
  note u = adds_quiet [OF v adds_progress [OF q]]
  have "q \<noteq> Abort" using q by (auto simp: Worker_progress_eq split: if_splits)
  then show "adds [] w (snd p) \<and> fst p \<noteq> Abort"
    using body IH [of E wk u] m q v u adds_quiet [OF u]
    by (auto split: option.splits outcome.splits if_splits)
qed

lemma harmless_probe [harmless_calls]: "harmless E ab (probe_until E wk)"
  using probe_calls by (fastforce simp: harmless_def intro: adds_extends)

interpretation test_rounds: bounded_poll
  "Request_check_finished E request" "Worker_progress E wk" "Request_drop E request"
  "\<lambda>w. (Ret (), Request_drop E request w)"
  "\<lambda>status w. (case transport E tls w of
     (t, w2) \<Rightarrow> (Panic (what @ '' failed with '' @ Status_fmt status @ '' ('' @ t @ '')''), Request_drop E request w2))"
  "\<lambda>w. (case transport E tls w of
     (t, w1) \<Rightarrow> (Panic (what @ '' did not complete ('' @ t @ '')''), Request_drop E request w1))"
  "test_wait_rounds E tls wk request what"
  for E :: "'u env" and tls wk request what
  by unfold_locales (auto split: prod.splits sum.splits bool.splits)

lemma adds_transport [simp]: "adds [] w (snd (transport E tls w))"
  using adds_versions(2) [of w E] by (simp add: transport_def split_beta)

lemma ends_transport:
  "ends_quietly (\<lambda>w. case transport E tls w of (t, w1) \<Rightarrow> (Panic (f t), Request_drop E request w1))"
  by (simp add: ends_quietly_def split_beta adds_quiet [OF adds_transport adds_Request_drop])

lemma harmless_test_wait [harmless_calls]:
  "harmless E ab (\<lambda>w. Some (test_wait_rounds E tls wk request what n w))"
  by (rule harmless_loop [OF test_rounds.bounded_poll_axioms]) (simp_all add: adds_Request_drop ends_transport)

lemma harmless_wait_request [harmless_calls]: "harmless E ab (\<lambda>w. Some (Worker_wait_request E wk req w))"
  unfolding Worker_wait_request_def by (rule harmless_loop [OF worker_wait.bounded_poll_axioms]) simp_all

lemma harmless_stream_drop [harmless_calls]: "harmless E ab (\<lambda>w. Some (StreamRequest_drop E g w))"
proof (cases "sr_request g")
  case None
  then show ?thesis by (simp add: StreamRequest_drop_def harmless_def)
next
  case (Some request)
  have "harmless E ab (\<lambda>w. Some (guard_rounds E (sr_worker g) request MAX_PROGRESS w))"
    by (rule harmless_loop [OF guard_loop.bounded_poll_axioms])
      (simp_all add: ends_quietly_def Request_free_drop adds_Request_drop)
  then show ?thesis by (simp add: StreamRequest_drop_def Some)
qed

lemma harmless_bnd_progress:
  assumes "\<And>x. harmless E ab (\<lambda>w. Some (f x w))"
  shows "harmless E ab (\<lambda>w. Some (bnd (Worker_progress E wk) f w))"
  unfolding harmless_def
proof clarify
  fix w r w1
  assume run: "bnd (Worker_progress E wk) f w = (r, w1)"
  obtain q v where q: "Worker_progress E wk w = (q, v)" by fastforce
  note v = adds_extends [OF adds_progress [OF q]]
  have na: "q \<noteq> Abort" using q by (auto simp: Worker_progress_eq split: if_splits)
  show "extends [] w w1 \<and> (r = Abort \<longrightarrow> debug_assertions E \<or> ab)"
  proof (cases q)
    case (Ret x)
    then have "f x v = (r, w1)" using run q by (simp add: bnd_def)
    then have "extends [] v w1 \<and> (r = Abort \<longrightarrow> debug_assertions E \<or> ab)"
      using assms [of x] by (auto simp: harmless_def)
    then show ?thesis using v by (auto simp: extends_def)
  qed (use run q v na in \<open>auto simp: bnd_def\<close>)
qed

lemma harmless_counted [harmless_calls]:
  "harmless E ab (\<lambda>w. Some (progress_until_counted E wk counter n w))"
proof (induction n)
  case 0
  then show ?case by (simp add: harmless_def)
next
  case (Suc n)
  have "harmless E ab (\<lambda>w. Some (if count_at counter (mem w) = 1 then (Ret (), w)
      else progress_until_counted E wk counter n w))"
    using Suc by (auto simp: harmless_def)
  then show ?case unfolding progress_until_counted.simps by (rule harmless_bnd_progress)
qed

lemma harmless_seen [harmless_calls]:
  "harmless E ab (\<lambda>w. Some (progress_until_seen E wk seen n w))"
proof (induction n)
  case 0
  then show ?case by (simp add: harmless_def)
next
  case (Suc n)
  from harmless_bnd_progress [OF this] show ?case by (auto simp: harmless_def)
qed

lemma harmless_stream_send [harmless_calls]: "harmless E ab (\<lambda>w. Some (Ep_stream_send E e wk d p w))"
  using harmless_nbx(2) [of "XferC (ucp_stream_send_nbx (ep_handle e) (fst d) (snd d) (rparam_handle p))" E ab
      "map_option (\<lambda>request. \<lparr>sr_request = Some request, sr_worker = wk, sr_length = 0\<rparr>)"]
  by (auto simp: Ep_stream_send_def harmless_def Let_def)

lemma harmless_poll [harmless_calls]: "harmless E ab (\<lambda>w. Some (Worker_stream_poll E wk n w))"
  unfolding harmless_def
proof clarify
  fix w r w1
  assume "Worker_stream_poll E wk n w = (r, w1)"
  then show "extends [] w w1 \<and> (r = Abort \<longrightarrow> debug_assertions E \<or> ab)"
    using adds_ffi(1) [of "XferC (ucp_stream_worker_poll (wk_handle wk)
        (replicate (unat n) zeroed_ucp_stream_poll_ep_t) n 0)" w E]
    by (auto simp: Worker_stream_poll_def Let_def split: prod.splits if_splits intro: adds_extends)
qed

lemma harmless_msg_recv [harmless_calls]: "harmless E ab (\<lambda>w. Some (Worker_tag_msg_recv E wk d m p w))"
  using harmless_nbx(1) [of "XferC (ucp_tag_msg_recv_nbx (wk_handle wk) (fst d) (snd d) (mh_handle m)
      (rparam_handle p))" E ab]
  by (auto simp: Worker_tag_msg_recv_def harmless_def)

lemma adds_config_modify [simp]: "adds [] w (snd (config_modify E h name val w))"
proof -
  have "adds [] w v" if "status_call E (CtxC (ucp_config_modify h n c)) w = (r, v)" for n c r v
    using adds_status_call [of "CtxC (ucp_config_modify h n c)" w E] that by simp
  then show ?thesis by (auto simp: config_modify_def split: sum.split prod.split)
qed

lemma adds_reads [simp]:
  "adds [] w (snd (stream_worker_poll E wk es n flags w))"
  "adds [] w (snd (Request_tag_recv_test E req w))"
  "adds [] w (snd (context_query E h msk w))"
  using adds_ffi(1) [of "XferC (ucp_stream_worker_poll (wk_handle wk) (map raw_poll_ep es) n flags)" w E]
    adds_ffi(1) [of "ReqC (ucp_tag_recv_request_test (the (req_handle req)))" w E]
  by (auto simp: stream_worker_poll_def Request_tag_recv_test_def context_query_def Let_def
      split: prod.splits option.splits)

lemma consumes_into_inner: "consumes E True (V_tag t) (TagRequest_into_inner E t)"
proof -
  have "adds [] w w1" if "TagRequest_into_inner E t w = (r, w1)" for w r w1
    using that adds_Tag_drop [of E "t\<lparr>tr_handle := None\<rparr>" w]
    by (auto simp: TagRequest_into_inner_def bnd_def split: prod.splits outcome.splits)
  then show ?thesis by (auto simp: consumes_def intro: adds_extends)
qed

subsection \<open>The set-up is typed\<close>

lemma typed_unwrap [typing]: "typed E ab vs (unwrap dbg r) (\<lambda>_. vs)"
  by (simp add: unwrap_def typing)

lemma typed_unwrap_option [typing]: "typed E ab vs (unwrap_option x) (\<lambda>_. vs)"
  by (simp add: unwrap_option_def typing split: option.split)

lemma typed_assert_that [typing]: "typed E ab vs (assert_that b msg) (\<lambda>_. vs)"
  by (simp add: assert_that_def typing)

lemma typed_assert_eq_num [typing]: "typed E ab vs (assert_eq_num l r) (\<lambda>_. vs)"
  by (simp add: assert_eq_num_def typing)

lemma typed_new_context: "typed E ab [] (new_context E params m1 m2) (\<lambda>c. [V_context c])"
  unfolding new_context_def by (rule program_rules typed_ret_locals | simp)+

lemma typed_fresh_worker: "typed E ab vs (new_worker E c b msg) (\<lambda>wk. V_worker wk # vs)"
  unfolding new_worker_def by (rule typed_new_worker)

lemma typed_new_self_ep:
  "wk_alive wk \<in> cells vs \<Longrightarrow> typed E ab vs (new_self_ep E wk remote m1 m2) (\<lambda>ep. V_ep ep # vs)"
  unfolding new_self_ep_def by (rule program_rules typed_ret_locals | simp)+

lemma typed_setup_default:
  "typed E ab [] (setup_default E init cleanup remote)
     (\<lambda>(worker, context, ep). [V_ep ep, V_worker worker, V_context context])"
  unfolding setup_default_def Let_def
  by (rule typed_seq typed_expect typed_new_context typed_fresh_worker typed_new_self_ep typed_call_opt
      harmless_idle typed_ret_locals | simp)+

lemma typed_setup_worker:
  "typed E ab [] (setup_worker E features b) (\<lambda>(worker, context). [V_worker worker, V_context context])"
  "typed E ab [] (stream_setup_worker E) (\<lambda>(worker, context). [V_worker worker, V_context context])"
  "typed E ab [] (mt_setup_worker E) (\<lambda>(worker, context). [V_worker worker, V_context context])"
proof -
  show "typed E ab [] (setup_worker E features b) (\<lambda>(worker, context). [V_worker worker, V_context context])"
    for features b
    unfolding setup_worker_def
    by (rule typed_seq typed_new_context typed_fresh_worker typed_ret_locals | simp)+
  then show "typed E ab [] (stream_setup_worker E) (\<lambda>(worker, context). [V_worker worker, V_context context])"
    "typed E ab [] (mt_setup_worker E) (\<lambda>(worker, context). [V_worker worker, V_context context])"
    by (simp_all add: stream_setup_worker_def mt_setup_worker_def)
qed

subsection \<open>The tests are sound\<close>

lemma sound_seq_pair:
  assumes "typed E ab vs m (\<lambda>(x, y). vs' x y)" and "\<And>x y. sound E ab (vs' x y) (f x y)"
  shows "sound E ab vs (seq m (\<lambda>(x, y). f x y))"
  by (rule sound_seq [OF assms(1)]) (use assms(2) in \<open>simp split: prod.split\<close>)

lemma sound_seq_read:
  assumes "typed E ab vs m (\<lambda>_. vs')" and "\<And>x y. sound E ab vs' (f x y)"
  shows "sound E ab vs (seq m (\<lambda>(x, y). f x y))"
  by (rule sound_seq [OF assms(1)]) (use assms(2) in \<open>simp split: prod.split\<close>)

lemma typed_option_case:
  "typed E ab vs (case x of None \<Rightarrow> panic msg | Some i \<Rightarrow> ret i) (\<lambda>_. vs)"
  by (simp add: typing split: option.split)

lemma typed_keep_request:
  assumes "\<And>r. typed E ab (V_request r # vs) (f r) (\<lambda>_. V_request r # vs)"
  shows "typed E ab vs (seq (own V_request r) (\<lambda>r. seq (f r) (\<lambda>_. drop_local E (V_request r)))) (\<lambda>_. vs)"
  by (rule typed_seq [OF typed_own], simp, simp, rule typed_seq [OF assms typed_drop_newest])

lemma typed_wait_completed: "typed E ab vs (wait_completed E wk msg r) (\<lambda>_. vs)"
  unfolding wait_completed_def
  by (rule typed_seq typed_own typed_call harmless_wait_request typed_unwrap typed_assert_that typed_drop_newest
      | simp)+

lemma typed_posted: "typed E ab vs (posted E tls what r) (\<lambda>_. vs)"
  unfolding posted_def
  by (cases r) (auto intro!: typed_seq typed_call harmless_returning typed_panic typed_ret)

lemma typed_test_wait: "typed E ab vs (test_wait E tls wk request what) (\<lambda>_. vs)"
  unfolding test_wait_def by (intro typed_if_some typed_call harmless_test_wait)

lemmas test_rules = sound_seq_triple [OF typed_setup_default] sound_seq_triple [OF typed_connect_self]
  sound_seq_pair [OF typed_setup_worker(1)] sound_seq_pair [OF typed_setup_worker(2)]
  sound_seq_pair [OF typed_setup_worker(3)] sound_seq_read [OF typed_peek]
  sound_seq typed_new_context typed_fresh_worker typed_new_self_ep typed_new_ep typed_no_imm_cmpl
  typed_new_worker typed_let_new typed_drop_newest typed_peek typed_expect typed_assert typed_panic
  typed_unwrap typed_unwrap_option typed_assert_that typed_assert_eq_num typed_option_case
  typed_keep_request typed_wait_completed typed_posted typed_test_wait
  typed_give_below typed_give_newest typed_if_local typed_if_some typed_call_opt typed_call
  typed_own_opt typed_own consumes_into_inner harmless_idle harmless_calls

lemma sound_request_tests:
  "sound E ab [] (request_setup E init cleanup remote)"
  "sound E ab [] (request_am E init cleanup remote send_buffer recv_buffer cb nodata)"
  unfolding request_setup_def request_am_def
  by (rule test_rules sound_typed typed_ret | simp)+

lemma sound_tag_tests:
  "sound E True [] (tag_recv_test_real_completed_request E init cleanup remote recv_buffer send_buffer)"
  "sound E True [] (tag_send_test E init cleanup remote recv_buffer send_buffer)"
  "sound E True [] (tag_probe_test E init cleanup remote recv_buffer send_buffer)"
  unfolding tag_recv_test_real_completed_request_def tag_send_test_def tag_probe_test_def
  by (rule test_rules sound_typed typed_ret | simp)+

lemma sound_raw_callback:
  "sound E ab [] (raw_callback_receives_native_recv_param E init cleanup remote seen cb header nodata)"
  unfolding raw_callback_receives_native_recv_param_def
  by (rule test_rules sound_typed typed_ret | simp)+

lemma sound_safe_handler: "sound E ab [] (safe_handler_receives_self_am E remote counter header data)"
  unfolding safe_handler_receives_self_am_def
  apply (rule sound_seq [OF typed_new_context])
  apply (rule sound_seq [OF typed_fresh_worker])
  apply (rule sound_seq [OF typed_let_new], simp, simp, simp)
  apply (rule sound_seq [OF typed_peek])
  apply (rule sound_seq [OF typed_call [OF harmless_store]])
  apply (rule sound_seq [OF typed_drop_newest])
  apply (rule sound_seq [OF typed_new_ep], simp)
  apply (rule sound_seq [OF typed_call [OF harmless_store]])
  apply (rule sound_seq_value [OF typed_call [OF harmless_register] registered_worker], assumption)
  apply (clarsimp simp only: prod.case snd_conv split: prod.split)
  apply (rule sound_seq, rule typed_set_only_worker, assumption, assumption)
  by (rule test_rules sound_typed typed_ret | simp)+

lemma sound_stream_tests:
  "sound E ab [] (test_stream_api_compiles E remote data)"
  "sound E ab [] (test_stream_poll_empty_worker E)"
  "sound E ab [] (stream_worker_poll_fills_native_entries E)"
proof -
  have arm: "typed E ab vs (case result of
       Inr None \<Rightarrow> ret ()
     | Inr (Some guard) \<Rightarrow> call (StreamRequest_drop E guard)
     | Inl status \<Rightarrow> ret ()) (\<lambda>_. vs)" for vs and result :: "Status + StreamRequest option"
    by (simp add: typing harmless_calls split: sum.split option.split)
  show "sound E ab [] (test_stream_api_compiles E remote data)"
    unfolding test_stream_api_compiles_def Let_def
    by (rule test_rules sound_typed [OF arm] | simp)+
  show "sound E ab [] (test_stream_poll_empty_worker E)"
    unfolding test_stream_poll_empty_worker_def by (rule test_rules sound_typed | simp)+
  show "sound E ab [] (stream_worker_poll_fills_native_entries E)"
    unfolding stream_worker_poll_fills_native_entries_def Let_def
    by (rule test_rules sound_seq_read sound_typed | simp)+
qed

lemma sound_other_tests:
  "sound E ab [] (progress_works_with_a_real_worker E)"
  "sound E ab [] (close_self_endpoint_immediately_or_with_request E remote)"
  "sound E ab [] (test_config_modify E)"
  "sound E ab [] (test_context_query E)"
  "sound E ab [] (test_get_version_string E)"
  "sound E ab [] (test_lib_query E)"
  unfolding progress_works_with_a_real_worker_def close_self_endpoint_immediately_or_with_request_def
    test_config_modify_def test_context_query_def test_get_version_string_def test_lib_query_def
  by (rule test_rules consumes_close sound_typed typed_ret | simp)+

lemma sound_get_version: "sound E ab [] (test_get_version E)"
  unfolding test_get_version_def
  by (rule sound_seq [OF typed_call], rule harmless_returning, simp)
    (auto split: prod.split intro: sound_typed [OF typed_assert_that])

lemma sound_rma_test: "sound E ab [] (rma_self_put_get_round_trip E tls remote target source fetched)"
proof -
  have check: "typed E ab vs (if b then ret () else
      (let e = x in seq (call (returning (transport E tls))) (\<lambda>s. panic (g e s)))) (\<lambda>_. vs)"
    for vs b and x :: string and g
    unfolding Let_def
    by (cases b) (auto intro!: typed_seq typed_call harmless_returning typed_panic typed_ret)
  show ?thesis
    unfolding rma_self_put_get_round_trip_def Let_def [of "rpb_build RequestParamBuilder_new"]
    by (rule test_rules check sound_typed typed_close_endpoint | simp)+
qed

subsection \<open>Properties\<close>

datatype library_test =
    Request_setup ptr ptr ptr
  | Request_am ptr ptr ptr ptr ptr ptr ptr
  | Tag_recv_test ptr ptr ptr ptr ptr
  | Tag_send ptr ptr ptr ptr ptr
  | Tag_probe ptr ptr ptr ptr ptr
  | Safe_handler ptr ptr ptr ptr
  | Raw_callback ptr ptr ptr ptr ptr ptr ptr
  | Stream_api ptr ptr
  | Stream_poll_empty
  | Stream_poll_native
  | Real_progress
  | Close_self ptr
  | Rma_round_trip string ptr ptr ptr ptr
  | Config_modify
  | Context_query
  | Get_version
  | Get_version_string
  | Lib_query

fun test_body :: "'u env \<Rightarrow> library_test \<Rightarrow> ('u, unit) stmt" where
  "test_body E (Request_setup a b c) = request_setup E a b c"
| "test_body E (Request_am a b c d e f g) = request_am E a b c d e f g"
| "test_body E (Tag_recv_test a b c d e) = tag_recv_test_real_completed_request E a b c d e"
| "test_body E (Tag_send a b c d e) = tag_send_test E a b c d e"
| "test_body E (Tag_probe a b c d e) = tag_probe_test E a b c d e"
| "test_body E (Safe_handler a b c d) = safe_handler_receives_self_am E a b c d"
| "test_body E (Raw_callback a b c d e f g) = raw_callback_receives_native_recv_param E a b c d e f g"
| "test_body E (Stream_api a b) = test_stream_api_compiles E a b"
| "test_body E Stream_poll_empty = test_stream_poll_empty_worker E"
| "test_body E Stream_poll_native = stream_worker_poll_fills_native_entries E"
| "test_body E Real_progress = progress_works_with_a_real_worker E"
| "test_body E (Close_self a) = close_self_endpoint_immediately_or_with_request E a"
| "test_body E (Rma_round_trip t a b c d) = rma_self_put_get_round_trip E t a b c d"
| "test_body E Config_modify = test_config_modify E"
| "test_body E Context_query = test_context_query E"
| "test_body E Get_version = test_get_version E"
| "test_body E Get_version_string = test_get_version_string E"
| "test_body E Lib_query = test_lib_query E"

fun uses_tag_guard :: "library_test \<Rightarrow> bool" where
  "uses_tag_guard (Tag_recv_test a b c d e) = True"
| "uses_tag_guard (Tag_send a b c d e) = True"
| "uses_tag_guard (Tag_probe a b c d e) = True"
| "uses_tag_guard _ = False"

text \<open>Whatever UCX answers and whichever assertion fails, a test that ends gives nothing back twice,
  and in a release build everything it was given, unless it aborts, which only the guards of
  tagged transfers can.\<close>

theorem tests_release_everything:
  "case run_main E (test_body E t) w of
     None \<Rightarrow> True
   | Some (r, S) \<Rightarrow>
       (let released_handles = mset (released (trace (sc_world S)))
        in released_handles \<subseteq># mset (sc_created S) \<and>
           (debug_assertions E \<or>
             (if r = Abort then uses_tag_guard t
              else sc_stack S = [] \<and> released_handles = mset (sc_created S))))"
proof -
  have s: "sound E (uses_tag_guard t) [] (test_body E t)"
    by (cases t) (simp_all add: sound_request_tests sound_tag_tests sound_safe_handler sound_raw_callback
        sound_stream_tests sound_other_tests sound_get_version sound_rma_test)
  have "run_main E (test_body E t) w = Some p \<Longrightarrow> balanced E (uses_tag_guard t) p" for p
    by (rule sound_main [OF s])
  then show ?thesis by (auto simp: balanced_def Let_def split: option.split)
qed

end
