(* ===== verification/Build_Check.thy ===== *)
theory Build_Check
  imports Cstr
begin

text \<open>
  \<^verbatim>\<open>build.rs\<close>: where the build looks for UCX, and the check of UCX's version.  The process
  environment and the file system are parameters.  The output of the compiled check program is
  bytes; strings of the script's own are written as their ASCII codes.
\<close>

subsection \<open>Finding UCX\<close>

definition path_join :: "string \<Rightarrow> string \<Rightarrow> string" where
  "path_join base p =
     (if p \<noteq> [] \<and> hd p = CHR ''/'' then p
      else if base = [] \<or> last base = CHR ''/'' then base @ p
      else base @ ''/'' @ p)"

text \<open>The first candidate with a header or the library, as the loop over the candidates finds it.\<close>

fun find_candidate :: "(string \<Rightarrow> bool) \<Rightarrow> string list \<Rightarrow> (string \<times> string) option" where
  "find_candidate exists [] = None"
| "find_candidate exists (p # ps) =
     (let inc = path_join p ''include''; lib = path_join p ''lib''
      in if exists (path_join (path_join (path_join inc ''ucp'') ''api'') ''ucp.h'') \<or>
            exists (path_join inc ''ucp.h'') \<or> exists (path_join lib ''libucp.so'')
         then Some (inc, lib) else find_candidate exists ps)"

definition discover_ucx :: "(string \<Rightarrow> string option) \<Rightarrow> (string \<Rightarrow> bool) \<Rightarrow> string \<times> string" where
  "discover_ucx env_var exists = (case env_var ''UCX_PREFIX'' of
      Some prefix \<Rightarrow> (path_join prefix ''include'', path_join prefix ''lib'')
    | None \<Rightarrow> (case (env_var ''UCX_INCLUDE_DIR'', env_var ''UCX_LIB_DIR'') of
        (Some inc, Some lib) \<Rightarrow> (inc, lib)
      | _ \<Rightarrow> (case find_candidate exists [''/usr'', ''/usr/local'', ''/opt/ucx''] of
            Some r \<Rightarrow> r
          | None \<Rightarrow> (''/usr/include'', ''/usr/lib''))))"

subsection \<open>Parsing the version\<close>

text \<open>\<^verbatim>\<open>UCX_VERSION=\<close>, and the bytes of a line feed, a carriage return, a dot and a plus sign.\<close>

definition version_prefix :: bytes where
  "version_prefix = [85, 67, 88, 95, 86, 69, 82, 83, 73, 79, 78, 61]"

fun split_on :: "u8 \<Rightarrow> bytes \<Rightarrow> bytes list" where
  "split_on d [] = [[]]"
| "split_on d (b # bs) = (if b = d then [] # split_on d bs
     else (case split_on d bs of [] \<Rightarrow> [[b]] | p # ps \<Rightarrow> (b # p) # ps))"

definition strip_cr :: "bytes \<Rightarrow> bytes" where
  "strip_cr s = (if s \<noteq> [] \<and> last s = 13 then butlast s else s)"

text \<open>\<^verbatim>\<open>str::lines\<close>: a carriage return is part of the line end only before a line feed.\<close>

definition str_lines :: "bytes \<Rightarrow> bytes list" where
  "str_lines s = (let ps = split_on 10 s
     in map strip_cr (butlast ps) @ (if last ps = [] then [] else [last ps]))"

definition starts_with :: "bytes \<Rightarrow> bytes \<Rightarrow> bool" where
  "starts_with pat s \<longleftrightarrow> take (length pat) s = pat"

lemma length_version_prefix [simp]: "length version_prefix = 12"
  by (simp add: version_prefix_def)

lemma starts_with_length:
  assumes "starts_with version_prefix s"
  shows "12 \<le> length s"
proof -
  have "take 12 s = version_prefix" using assms by (simp add: starts_with_def)
  then have "length (take 12 s) = 12" by simp
  then show ?thesis by simp
qed

text \<open>\<^verbatim>\<open>trim_start_matches\<close> removes the prefix as often as it occurs.\<close>

function trim_version :: "bytes \<Rightarrow> bytes" where
  "trim_version s = (if starts_with version_prefix s then trim_version (drop 12 s) else s)"
  by auto
termination
proof (relation "measure length")
  fix s
  assume "starts_with version_prefix s"
  then show "(drop 12 s, s) \<in> measure length" using starts_with_length [of s] by simp
qed simp

declare trim_version.simps [simp del]

text \<open>\<^verbatim>\<open>str::parse::<u32>\<close>: an optional plus sign and digits, without overflow.\<close>

fun parse_digits :: "nat \<Rightarrow> bytes \<Rightarrow> nat option" where
  "parse_digits acc [] = Some acc"
| "parse_digits acc (b # bs) =
     (if 48 \<le> b \<and> b \<le> 57 \<and> acc * 10 + (unat b - 48) < 2 ^ 32
      then parse_digits (acc * 10 + (unat b - 48)) bs else None)"

definition parse_u32 :: "bytes \<Rightarrow> nat option" where
  "parse_u32 s = (if s = [] \<or> s = [43] then None
     else if hd s = 43 then parse_digits 0 (tl s) else parse_digits 0 s)"

subsection \<open>The check\<close>

definition MIN_MAJOR :: nat where "MIN_MAJOR = 1"
definition MIN_MINOR :: nat where "MIN_MINOR = 19"
definition MAX_MAJOR :: nat where "MAX_MAJOR = 1"
definition MAX_MINOR :: nat where "MAX_MINOR = 22"

datatype build_result = Pregenerated | Check_skipped | Version_supported

definition version_check :: "bytes \<Rightarrow> build_result outcome" where
  "version_check stdout =
     (let version_str = to_string_lossy stdout;
          version_line = (case find (starts_with version_prefix) (str_lines version_str) of
              Some l \<Rightarrow> l | None \<Rightarrow> version_prefix @ [48, 46, 48, 46, 48]);
          parts = split_on 46 (trim_version version_line)
      in if length parts < 3 then Ret Check_skipped
         else (case (parse_u32 (parts ! 0), parse_u32 (parts ! 1)) of
             (Some major, Some minor) \<Rightarrow>
               if major < MIN_MAJOR \<or> (major = MIN_MAJOR \<and> minor < MIN_MINOR)
               then Panic ''UCX version is below the minimum supported''
               else if major > MAX_MAJOR \<or> (major = MAX_MAJOR \<and> minor > MAX_MINOR)
               then Panic ''UCX version is above the maximum supported''
               else Ret Version_supported
           | _ \<Rightarrow> Ret Check_skipped))"

text \<open>
  \<^verbatim>\<open>main\<close> after the link directives: the committed bindings are used, and nothing is checked,
  unless generation is asked for.  Whether the check program compiles, and what it prints, are
  parameters.
\<close>

definition build_main :: "(string \<Rightarrow> string option) \<Rightarrow> bool \<Rightarrow> bytes \<Rightarrow> build_result outcome" where
  "build_main env_var compiles stdout =
     (if env_var ''UCX_GENERATE_BINDINGS'' \<noteq> Some ''1'' then Ret Pregenerated
      else if \<not> compiles then Ret Check_skipped
      else version_check stdout)"

subsection \<open>Printing a version\<close>

text \<open>The decimal digits of a number, as \<^verbatim>\<open>printf("%d")\<close> writes them.\<close>

fun dec :: "nat \<Rightarrow> bytes" where
  "dec n = (if n < 10 then [48 + of_nat n] else dec (n div 10) @ [48 + of_nat (n mod 10)])"

declare dec.simps [simp del]

definition version_output :: "nat \<Rightarrow> nat \<Rightarrow> nat \<Rightarrow> bytes" where
  "version_output major minor release =
     version_prefix @ dec major @ [46] @ dec minor @ [46] @ dec release @ [10]"

subsection \<open>Lemmas\<close>

definition digit :: "u8 \<Rightarrow> bool" where
  "digit b \<longleftrightarrow> 48 \<le> b \<and> b \<le> 57"

lemma digit_of_nat:
  assumes "d < 10"
  shows "digit (48 + of_nat d)" and "unat (48 + of_nat d :: u8) = 48 + d"
proof -
  have "d \<in> {0, 1, 2, 3, 4, 5, 6, 7, 8, 9}" using assms by auto
  then show "digit (48 + of_nat d)" "unat (48 + of_nat d :: u8) = 48 + d"
    by (auto simp: digit_def)
qed

lemma dec_digits: "list_all digit (dec n)"
proof (induction n rule: dec.induct)
  case (1 n)
  then show ?case
    by (subst dec.simps) (auto simp: digit_of_nat(1))
qed

lemma dec_not_Nil [simp]: "dec n \<noteq> []"
  by (subst dec.simps) simp

lemma digit_not [simp]: "\<not> digit 10" "\<not> digit 46" "\<not> digit 13" "\<not> digit 43" "\<not> digit 85" "\<not> digit 0"
  by (simp_all add: digit_def)

lemma dec_not_in: "\<not> digit b \<Longrightarrow> b \<notin> set (dec n)"
  using dec_digits [of n] by (auto simp: list_all_iff)

lemma parse_digits_snoc:
  "parse_digits acc (bs @ [b]) = (case parse_digits acc bs of None \<Rightarrow> None
     | Some a \<Rightarrow> if digit b \<and> a * 10 + (unat b - 48) < 2 ^ 32 then Some (a * 10 + (unat b - 48)) else None)"
  by (induction bs arbitrary: acc) (auto simp: digit_def)

lemma parse_digits_dec: "parse_digits 0 (dec n) = (if n < 2 ^ 32 then Some n else None)"
proof (induction n rule: dec.induct)
  case (1 n)
  show ?case
  proof (cases "n < 10")
    case True
    then show ?thesis using digit_of_nat [OF True]
      by (subst dec.simps) (simp add: digit_def)
  next
    case False
    have m: "n div 10 * 10 + n mod 10 = n" by simp
    have l: "n < 2 ^ 32 \<Longrightarrow> n div 10 < 2 ^ 32" by (rule le_less_trans [OF div_le_dividend])
    show ?thesis using False 1 [OF False] digit_of_nat [of "n mod 10"] m l
      by (subst dec.simps) (auto simp: parse_digits_snoc)
  qed
qed

lemma parse_u32_dec: "parse_u32 (dec n) = (if n < 2 ^ 32 then Some n else None)"
proof -
  have "hd (dec n) \<noteq> 43" "dec n \<noteq> [43]"
    using dec_not_in [of 43 n] hd_in_set [OF dec_not_Nil [of n]] by (metis digit_not(4), force)
  then show ?thesis by (simp add: parse_u32_def parse_digits_dec)
qed

lemma split_on_append: "d \<notin> set s \<Longrightarrow> split_on d (s @ d # t) = s # split_on d t"
  by (induction s) auto

lemma split_on_none: "d \<notin> set s \<Longrightarrow> split_on d s = [s]"
  by (induction s) auto

lemma ascii_utf8_valid: "(\<forall>b\<in>set s. b < 0x80) \<Longrightarrow> utf8_valid s"
proof (induction s)
  case Nil
  then show ?case by (simp add: utf8_valid.simps)
next
  case (Cons b s)
  then show ?case
    by (subst utf8_valid.simps) (simp add: utf8_next_def utf8_step_def ascii_def safe_get_def)
qed

lemma digit_ascii: "digit b \<Longrightarrow> b < 0x80"
  by (auto simp: digit_def word_le_nat_alt word_less_nat_alt)

lemma version_output_lossy: "to_string_lossy (version_output a b c) = version_output a b c"
proof (rule lossy_id, rule ascii_utf8_valid, rule ballI)
  fix x
  assume "x \<in> set (version_output a b c)"
  then have "digit x \<or> x \<in> set (version_prefix @ [46, 10])"
    using dec_digits by (auto simp: version_output_def list_all_iff)
  then show "x < 0x80" by (auto simp: version_prefix_def dest: digit_ascii)
qed

text \<open>The line of the output, and its parts.\<close>

lemma version_output_lines:
  "str_lines (version_output a b c) = [version_prefix @ dec a @ [46] @ dec b @ [46] @ dec c]"
proof -
  let ?l = "version_prefix @ dec a @ [46] @ dec b @ [46] @ dec c"
  have "10 \<notin> set ?l" using dec_not_in [of 10] by (auto simp: version_prefix_def)
  then have "split_on 10 (?l @ 10 # []) = [?l, []]" using split_on_append [of 10 ?l "[]"] by simp
  moreover have "version_output a b c = ?l @ [10]" by (simp add: version_output_def)
  moreover have "last ?l \<noteq> 13"
    using dec_not_in [of 13 c] last_in_set [OF dec_not_Nil [of c]] by (simp, metis)
  ultimately show ?thesis by (simp add: str_lines_def strip_cr_def)
qed

lemma trim_version_line:
  assumes "s \<noteq> []" and "hd s \<noteq> 85"
  shows "trim_version (version_prefix @ s) = s"
proof -
  have "starts_with version_prefix (version_prefix @ s)" by (simp add: starts_with_def)
  moreover have "drop 12 (version_prefix @ s) = s" by (simp add: version_prefix_def)
  moreover have "\<not> starts_with version_prefix s"
    using assms by (cases s) (auto simp: starts_with_def version_prefix_def)
  ultimately show ?thesis by (simp add: trim_version.simps [of "version_prefix @ s"] trim_version.simps [of s])
qed

lemma version_parts:
  "split_on 46 (trim_version (version_prefix @ dec a @ [46] @ dec b @ [46] @ dec c)) = [dec a, dec b, dec c]"
proof -
  have "hd (dec a @ x) \<noteq> 85" for x
    using dec_not_in [of 85 a] hd_in_set [OF dec_not_Nil [of a]] by (simp, metis)
  then have t: "trim_version (version_prefix @ dec a @ [46] @ dec b @ [46] @ dec c) =
      dec a @ [46] @ dec b @ [46] @ dec c"
    by (intro trim_version_line) simp_all
  have d: "46 \<notin> set (dec n)" for n by (rule dec_not_in) simp
  show ?thesis unfolding t by (simp add: split_on_append d split_on_none)
qed

text \<open>What the parser accepts, by itself: the decimal digits of a number of 32 bits, with leading
  zeros or a plus sign.\<close>

definition decimal :: "bytes \<Rightarrow> nat" where
  "decimal ds = foldl (\<lambda>n d. n * 10 + (unat d - 48)) 0 ds"

definition is_number :: "bytes \<Rightarrow> nat \<Rightarrow> bool" where
  "is_number s n \<longleftrightarrow> n < 2 ^ 32 \<and>
     (\<exists>ds. ds \<noteq> [] \<and> list_all digit ds \<and> decimal ds = n \<and> (s = ds \<or> s = 43 # ds))"

lemma foldl_decimal_ge: "acc \<le> foldl (\<lambda>n d. n * 10 + (unat d - 48)) acc (ds :: bytes)"
proof (induction ds arbitrary: acc)
  case (Cons d ds)
  have "acc \<le> acc * 10 + (unat d - 48)" by simp
  also have "\<dots> \<le> foldl (\<lambda>n d. n * 10 + (unat d - 48)) (acc * 10 + (unat d - 48)) ds" by (rule Cons)
  finally show ?case by simp
qed simp

lemma parse_digits_iff:
  "acc < 2 ^ 32 \<Longrightarrow> parse_digits acc ds = Some n \<longleftrightarrow>
     n < 2 ^ 32 \<and> list_all digit ds \<and> foldl (\<lambda>n d. n * 10 + (unat d - 48)) acc ds = n"
proof (induction ds arbitrary: acc)
  case Nil
  then show ?case by auto
next
  case (Cons d ds)
  let ?acc = "acc * 10 + (unat d - 48)"
  show ?case
  proof (cases "?acc < 2 ^ 32")
    case True
    then show ?thesis using Cons.IH [OF True] by (auto simp: digit_def)
  next
    case False
    then have "\<not> foldl (\<lambda>n d. n * 10 + (unat d - 48)) ?acc ds < 2 ^ 32"
      using foldl_decimal_ge [of ?acc ds] by linarith
    then show ?thesis using False by auto
  qed
qed

lemma parse_digits_decimal:
  "parse_digits 0 ds = Some n \<longleftrightarrow> n < 2 ^ 32 \<and> list_all digit ds \<and> decimal ds = n"
  unfolding decimal_def by (rule parse_digits_iff) simp

lemma is_number_signed: "is_number (43 # t) n \<longleftrightarrow> t \<noteq> [] \<and> parse_digits 0 t = Some n"
proof
  assume "is_number (43 # t) n"
  then obtain ds where ds: "n < 2 ^ 32" "ds \<noteq> []" "list_all digit ds" "decimal ds = n"
    "43 # t = ds \<or> 43 # t = 43 # ds"
    unfolding is_number_def by blast
  from ds(3,5) have "t = ds" by (elim disjE) auto
  then show "t \<noteq> [] \<and> parse_digits 0 t = Some n" using ds unfolding parse_digits_decimal by blast
next
  assume "t \<noteq> [] \<and> parse_digits 0 t = Some n"
  then show "is_number (43 # t) n" unfolding parse_digits_decimal is_number_def by blast
qed

lemma is_number_unsigned: "c \<noteq> 43 \<Longrightarrow> is_number (c # t) n \<longleftrightarrow> parse_digits 0 (c # t) = Some n"
  unfolding parse_digits_decimal is_number_def by blast

lemma parse_u32_iff: "parse_u32 s = Some n \<longleftrightarrow> is_number s n"
proof (cases s)
  case Nil
  then show ?thesis by (simp add: parse_u32_def is_number_def)
next
  case (Cons c t)
  show ?thesis
  proof (cases "c = 43")
    case True
    then show ?thesis unfolding Cons True is_number_signed by (cases t) (simp_all add: parse_u32_def)
  next
    case False
    then show ?thesis unfolding Cons is_number_unsigned [OF False] by (simp add: parse_u32_def)
  qed
qed

lemma is_number_functional: "is_number s m \<Longrightarrow> is_number s n \<Longrightarrow> m = n"
  using parse_u32_iff [of s m] parse_u32_iff [of s n] by simp

lemma parse_u32_None: "parse_u32 s = None \<longleftrightarrow> \<not> (\<exists>n. is_number s n)"
  unfolding parse_u32_iff [symmetric] by (cases "parse_u32 s") simp_all

text \<open>What the check program prints for a version below 2^32 is accepted as that version.\<close>

lemma version_output_checked:
  "version_check (version_output major minor release) =
     (if 2 ^ 32 \<le> major \<or> 2 ^ 32 \<le> minor then Ret Check_skipped
      else if major = 1 \<and> 19 \<le> minor \<and> minor \<le> 22 then Ret Version_supported
      else if major < 1 \<or> (major = 1 \<and> minor < 19) then Panic ''UCX version is below the minimum supported''
      else Panic ''UCX version is above the maximum supported'')"
proof -
  have s: "starts_with version_prefix (version_prefix @ x)" for x by (simp add: starts_with_def)
  have f: "find (starts_with version_prefix) (str_lines (version_output major minor release)) =
      Some (version_prefix @ dec major @ [46] @ dec minor @ [46] @ dec release)"
    by (simp only: version_output_lines find.simps s if_True)
  show ?thesis unfolding version_check_def Let_def version_output_lossy f option.case version_parts
    by (auto simp: parse_u32_dec MIN_MAJOR_def MIN_MINOR_def MAX_MAJOR_def MAX_MINOR_def)
qed

text \<open>The dot-separated fields the gate reads: those of the first line of the output that begins with
  the prefix, all of its leading prefixes removed, or 0.0.0 when no line does.\<close>

definition version_fields :: "bytes \<Rightarrow> bytes list" where
  "version_fields output = (case find (starts_with version_prefix) (str_lines (to_string_lossy output)) of
      Some line \<Rightarrow> split_on 46 (trim_version line)
    | None \<Rightarrow> [[48], [48], [48]])"

lemma no_version_line:
  "split_on 46 (trim_version (version_prefix @ [48, 46, 48, 46, 48])) = [[48], [48], [48]]"
  by (subst trim_version_line) simp_all

lemma version_check_fields:
  "version_check output = (let parts = version_fields output in
     if length parts < 3 then Ret Check_skipped
     else (case (parse_u32 (parts ! 0), parse_u32 (parts ! 1)) of
         (Some major, Some minor) \<Rightarrow>
           if major < 1 \<or> (major = 1 \<and> minor < 19)
           then Panic ''UCX version is below the minimum supported''
           else if major > 1 \<or> (major = 1 \<and> minor > 22)
           then Panic ''UCX version is above the maximum supported''
           else Ret Version_supported
       | _ \<Rightarrow> Ret Check_skipped))"
  unfolding version_check_def version_fields_def Let_def
    MIN_MAJOR_def MIN_MINOR_def MAX_MAJOR_def MAX_MINOR_def
  by (cases "find (starts_with version_prefix) (str_lines (to_string_lossy output))")
    (simp_all only: option.case no_version_line)

subsection \<open>Properties\<close>

text \<open>C35: What the version gate decides, for any output of the check program.  It reads the first two
  dot-separated fields of the first line that begins with the prefix.  The build goes on as
  supported exactly when there are three fields, the first reads as 1 and the second as a number
  from 19 to 22; it panics when both read as 32-bit numbers of an older or a newer version, and
  so when no line has the prefix, which counts as 0.0.0; it skips the check when there are fewer
  than three fields or one of the two is no 32-bit number.  Without the request to generate
  bindings nothing is checked, and a check program that does not compile skips the check.  (The
  check program of this commit does not compile against UCX's headers, so that is its fate.)\<close>

theorem version_gate_range:
  "let fields = version_fields output;
       reads = (\<lambda>P. 3 \<le> length fields \<and>
         (\<exists>major minor. is_number (fields ! 0) major \<and> is_number (fields ! 1) minor \<and> P major minor))
   in (version_check output = Ret Version_supported \<longleftrightarrow>
         reads (\<lambda>major minor. major = 1 \<and> 19 \<le> minor \<and> minor \<le> 22)) \<and>
      (version_check output = Panic ''UCX version is below the minimum supported'' \<longleftrightarrow>
         reads (\<lambda>major minor. major < 1 \<or> (major = 1 \<and> minor < 19))) \<and>
      (version_check output = Panic ''UCX version is above the maximum supported'' \<longleftrightarrow>
         reads (\<lambda>major minor. 1 < major \<or> (major = 1 \<and> 22 < minor))) \<and>
      (version_check output = Ret Check_skipped \<longleftrightarrow> \<not> reads (\<lambda>_ _. True)) \<and>
      (build_main env_var compiles output =
         (if env_var ''UCX_GENERATE_BINDINGS'' \<noteq> Some ''1'' then Ret Pregenerated
          else if compiles then version_check output else Ret Check_skipped))"
proof -
  let ?fs = "version_fields output"
  have build: "build_main env_var compiles output =
      (if env_var ''UCX_GENERATE_BINDINGS'' \<noteq> Some ''1'' then Ret Pregenerated
       else if compiles then version_check output else Ret Check_skipped)"
    by (simp add: build_main_def)
  consider "length ?fs < 3"
    | "3 \<le> length ?fs" "parse_u32 (?fs ! 0) = None \<or> parse_u32 (?fs ! 1) = None"
    | a b where "3 \<le> length ?fs" "parse_u32 (?fs ! 0) = Some a" "parse_u32 (?fs ! 1) = Some b"
    by (cases "length ?fs < 3"; cases "parse_u32 (?fs ! 0)"; cases "parse_u32 (?fs ! 1)") auto
  then show ?thesis
  proof cases
    case 1
    then have "version_check output = Ret Check_skipped" by (simp add: version_check_fields)
    then show ?thesis using 1 unfolding Let_def build by simp
  next
    case 2
    then have "version_check output = Ret Check_skipped"
      by (auto simp: version_check_fields Let_def split: option.splits)
    then show ?thesis using 2 unfolding Let_def build parse_u32_None by auto
  next
    case (3 a b)
    have n: "is_number (?fs ! 0) x \<longleftrightarrow> x = a" "is_number (?fs ! 1) x \<longleftrightarrow> x = b" for x
      using 3 by (auto simp flip: parse_u32_iff)
    have v: "version_check output =
        (if a < 1 \<or> (a = 1 \<and> b < 19) then Panic ''UCX version is below the minimum supported''
         else if 1 < a \<or> (a = 1 \<and> 22 < b) then Panic ''UCX version is above the maximum supported''
         else Ret Version_supported)"
      using 3 by (simp add: version_check_fields)
    have r: "(3 \<le> length ?fs \<and> (\<exists>major minor. is_number (?fs ! 0) major \<and> is_number (?fs ! 1) minor \<and>
        P major minor)) = P a b" for P
      using 3(1) n by auto
    show ?thesis unfolding Let_def r build v by auto
  qed
qed

text \<open>The gate is off by default: unless bindings are to be generated, the build succeeds with
  any UCX, whatever its version, and the environment's directories are taken as they are.\<close>

theorem version_gate_off_by_default:
  "(if env_var ''UCX_GENERATE_BINDINGS'' = Some ''1'' then True
    else build_main env_var compiles stdout = Ret Pregenerated) \<and>
   (case env_var ''UCX_PREFIX'' of
      Some p \<Rightarrow> discover_ucx env_var exists = (path_join p ''include'', path_join p ''lib'')
    | None \<Rightarrow> (case (env_var ''UCX_INCLUDE_DIR'', env_var ''UCX_LIB_DIR'') of
        (Some i, Some l) \<Rightarrow> discover_ucx env_var exists = (i, l)
      | _ \<Rightarrow> fst (discover_ucx env_var exists) \<in>
          {''/usr/include'', ''/usr/local/include'', ''/opt/ucx/include''}))"
  by (auto simp: build_main_def discover_ucx_def Let_def path_join_def split: option.splits)

end
