(* ===== verification/Build_Script.thy ===== *)
theory Build_Script
  imports Build_Check Formatting
begin

text \<open>
  The whole of \<^verbatim>\<open>build.rs\<close>: what it prints for cargo, which files it writes, and when it panics.
  The process environment, the files it starts from, the file system's failures, bindgen, the C
  compiler and the compiled program are parameters.
\<close>

subsection \<open>The script's surroundings\<close>

type_synonym files = "string \<Rightarrow> bytes option"

text \<open>An error of the standard library: its \<^verbatim>\<open>Display\<close> and its \<^verbatim>\<open>Debug\<close> text.\<close>

record io_error =
  io_display :: string
  io_debug :: string

definition not_found :: io_error where
  "not_found = \<lparr>io_display = ''No such file or directory (os error 2)'',
     io_debug = ''Os { code: 2, kind: NotFound, message: \"No such file or directory\" }''\<rparr>"

text \<open>\<^verbatim>\<open>env::VarError\<close>, the value that is not Unicode as its \<^verbatim>\<open>Debug\<close> text.\<close>

datatype var_error = NotPresent | NotUnicode string

fun debug_VarError :: "var_error \<Rightarrow> string" where
  "debug_VarError NotPresent = ''NotPresent''"
| "debug_VarError (NotUnicode s) = ''NotUnicode('' @ s @ '')''"

text \<open>The options given to \<^verbatim>\<open>bindgen::Builder\<close>.\<close>

record bindgen_builder =
  generate_comments :: bool
  rustified_enum :: "string list"
  must_use_type :: "string list"
  opaque_type :: "string list"
  builder_header :: string
  cargo_callbacks :: bool
  clang_arg :: "string list"

record build_env =
  env_var :: "string \<Rightarrow> var_error + string"
  path_exists :: "string \<Rightarrow> bool"
  temp_dir :: string
  copy_fails :: "string \<Rightarrow> string \<Rightarrow> files \<Rightarrow> (io_error \<times> bytes option) option"
  write_fails :: "string \<Rightarrow> bytes \<Rightarrow> files \<Rightarrow> (io_error \<times> bytes option) option"
  bindgen :: "bindgen_builder \<Rightarrow> files \<Rightarrow> string list \<times> (string + bytes)"
  run_cc :: "string list \<Rightarrow> files \<Rightarrow> io_error + bool \<times> bytes option"
  run_program :: "string \<Rightarrow> files \<Rightarrow> io_error + bytes"

text \<open>The files, and the lines printed so far.\<close>

record build_state =
  files :: files
  stdout :: "string list"

type_synonym 'a build = "build_state \<Rightarrow> 'a outcome \<times> build_state"

definition and_then :: "'a build \<Rightarrow> ('a \<Rightarrow> 'b build) \<Rightarrow> 'b build" where
  "and_then m f s = (case m s of
      (Ret x, s1) \<Rightarrow> f x s1
    | (Panic p, s1) \<Rightarrow> (Panic p, s1)
    | (Abort, s1) \<Rightarrow> (Abort, s1))"

definition produce :: "'a \<Rightarrow> 'a build" where
  "produce x s = (Ret x, s)"

definition fails :: "string \<Rightarrow> 'a build" where
  "fails msg s = (Panic msg, s)"

definition print_lines :: "string list \<Rightarrow> unit build" where
  "print_lines ls s = (Ret (), s\<lparr>stdout := stdout s @ ls\<rparr>)"

definition println :: "string \<Rightarrow> unit build" where
  "println l = print_lines [l]"

text \<open>
  \<^verbatim>\<open>fs::copy\<close> and a write.  A failure may leave any content, or none, in the file that was to be
  written; a copy from a file that does not exist fails before it touches the target, and a file
  copied onto itself is truncated.
\<close>

definition fs_copy :: "build_env \<Rightarrow> string \<Rightarrow> string \<Rightarrow> (io_error + unit) build" where
  "fs_copy B src dst s = (case files s src of
      None \<Rightarrow> (Ret (Inl not_found), s)
    | Some content \<Rightarrow> (case copy_fails B src dst (files s) of
        Some (e, left) \<Rightarrow> (Ret (Inl e), s\<lparr>files := (files s)(dst := left)\<rparr>)
      | None \<Rightarrow> (Ret (Inr ()), s\<lparr>files := (files s)(dst \<mapsto> if src = dst then [] else content)\<rparr>)))"

definition fs_write :: "build_env \<Rightarrow> string \<Rightarrow> bytes \<Rightarrow> (io_error + unit) build" where
  "fs_write B path content s = (case write_fails B path content (files s) of
      Some (e, left) \<Rightarrow> (Ret (Inl e), s\<lparr>files := (files s)(path := left)\<rparr>)
    | None \<Rightarrow> (Ret (Inr ()), s\<lparr>files := (files s)(path \<mapsto> content)\<rparr>))"

definition or_fail :: "(io_error \<Rightarrow> string) \<Rightarrow> io_error + 'a \<Rightarrow> 'a build" where
  "or_fail msg r = (case r of Inl e \<Rightarrow> fails (msg e) | Inr x \<Rightarrow> produce x)"

abbreviation io_expect :: "string \<Rightarrow> io_error + 'a \<Rightarrow> 'a build" where
  "io_expect msg \<equiv> or_fail (\<lambda>e. expect_failed msg (io_debug e))"

subsection \<open>The steps of \<^verbatim>\<open>main\<close>\<close>

definition var_ok :: "build_env \<Rightarrow> string \<Rightarrow> string option" where
  "var_ok B name = (case env_var B name of Inl _ \<Rightarrow> None | Inr v \<Rightarrow> Some v)"

definition discover :: "build_env \<Rightarrow> (string \<times> string) build" where
  "discover B = and_then (print_lines [''cargo:rerun-if-env-changed=UCX_PREFIX'',
       ''cargo:rerun-if-env-changed=UCX_INCLUDE_DIR'', ''cargo:rerun-if-env-changed=UCX_LIB_DIR''])
     (\<lambda>_. produce (discover_ucx (var_ok B) (path_exists B)))"

definition link_lines :: "string \<Rightarrow> string list" where
  "link_lines lib_dir = [''cargo:rustc-link-search=native='' @ lib_dir,
     ''cargo:rustc-link-arg=-Wl,-rpath,'' @ lib_dir, ''cargo:rustc-link-lib=ucp'',
     ''cargo:rustc-link-lib=uct'', ''cargo:rustc-link-lib=ucm'', ''cargo:rustc-link-lib=ucs'',
     ''cargo:rerun-if-changed=wrapper.h'']"

definition src_bindings :: string where
  "src_bindings = path_join ''src'' ''bindings.rs''"

definition clang_args :: "build_env \<Rightarrow> string \<Rightarrow> string list" where
  "clang_args B include_dir =
     (let ucp_api = path_join (path_join include_dir ''ucp'') ''api''
      in (''-I'' @ include_dir) # (if path_exists B ucp_api then [''-I'' @ ucp_api] else []))"

definition builder :: "string list \<Rightarrow> bindgen_builder" where
  "builder args = \<lparr>generate_comments = False, rustified_enum = [''.*''],
     must_use_type = [''ucs_status_t'', ''ucs_status_ptr_t''], opaque_type = [''_IO_FILE''],
     builder_header = ''wrapper.h'', cargo_callbacks = True, clang_arg = args\<rparr>"

text \<open>The dash of the messages, in UTF-8.\<close>

definition dash :: string where
  "dash = '' '' @ [CHR 0xE2, CHR 0x80, CHR 0x94] @ '' ''"

definition run_bindgen :: "build_env \<Rightarrow> bindgen_builder \<Rightarrow> (string + bytes) build" where
  "run_bindgen B options s =
     (let (printed, r) = bindgen B options (files s) in (Ret r, s\<lparr>stdout := stdout s @ printed\<rparr>))"

definition generate_bindings :: "build_env \<Rightarrow> string \<Rightarrow> string \<Rightarrow> unit build" where
  "generate_bindings B include_dir out_path =
     and_then (run_bindgen B (builder (clang_args B include_dir))) (\<lambda>r.
     case r of
       Inr bindings \<Rightarrow>
         and_then (println (''cargo:warning=bindgen succeeded'' @ dash @
           ''fresh bindings written to OUT_DIR only'')) (\<lambda>_.
         and_then (fs_write B out_path bindings)
           (io_expect ''Failed to write bindings to OUT_DIR''))
     | Inl e \<Rightarrow>
         and_then (println (''cargo:warning=bindgen failed ('' @ e @ '')'' @ dash @
           ''using pre-generated src/bindings.rs as fallback'')) (\<lambda>_.
         and_then (fs_copy B src_bindings out_path)
           (io_expect ''Failed to copy fallback bindings to OUT_DIR'')))"

definition version_check_code :: string where
  "version_check_code = newline @
     ''#include <ucp/api/ucp.h>'' @ newline @
     ''#include <stdio.h>'' @ newline @ newline @
     ''int main() {'' @ newline @
     ''    unsigned version = ucp_get_version();'' @ newline @
     ''    int major = version / 10000;'' @ newline @
     ''    int minor = (version % 10000) / 100;'' @ newline @
     ''    int release = version % 100;'' @ newline @
     ''    printf('' @ [CHR 0x22] @ ''UCX_VERSION=%d.%d.%d'' @ [CHR 0x5C] @ ''n'' @ [CHR 0x22] @
       '', major, minor, release);'' @ newline @
     ''    return 0;'' @ newline @
     ''}'' @ newline"

text \<open>The compiler writes the program, or not, whether it reports success or not.\<close>

definition compile_check :: "build_env \<Rightarrow> string \<Rightarrow> string \<Rightarrow> string \<Rightarrow> bool build" where
  "compile_check B include_dir src_file bin_file s =
     (case run_cc B [src_file, ''-o'', bin_file, ''-I'' @ include_dir] (files s) of
        Inl e \<Rightarrow> fails (expect_failed ''Failed to compile version check program'' (io_debug e)) s
      | Inr (success, None) \<Rightarrow> (Ret success, s)
      | Inr (success, Some b) \<Rightarrow> (Ret success, s\<lparr>files := (files s)(bin_file \<mapsto> b)\<rparr>))"

definition version_text :: "nat \<Rightarrow> nat \<Rightarrow> string" where
  "version_text major minor = decimal major @ ''.'' @ decimal minor"

definition version_gate :: "bytes \<Rightarrow> unit build" where
  "version_gate output =
     (let version_str = to_string_lossy output;
          version_line = (case find (starts_with version_prefix) (str_lines version_str) of
              Some l \<Rightarrow> l | None \<Rightarrow> version_prefix @ [48, 46, 48, 46, 48]);
          parts = split_on 46 (trim_version version_line);
          skip = println (''cargo:warning=Could not parse UCX version'' @ dash @ ''skipping version validation'')
      in if length parts < 3 then skip
         else (case (parse_u32 (parts ! 0), parse_u32 (parts ! 1)) of
             (Some major, Some minor) \<Rightarrow>
               if major < MIN_MAJOR \<or> (major = MIN_MAJOR \<and> minor < MIN_MINOR)
               then fails (''UCX version '' @ version_text major minor @ '', but minimum supported is '' @
                 version_text MIN_MAJOR MIN_MINOR)
               else if major > MAX_MAJOR \<or> (major = MAX_MAJOR \<and> minor > MAX_MINOR)
               then fails (''UCX version '' @ version_text major minor @ '', but maximum supported is '' @
                 version_text MAX_MAJOR MAX_MINOR)
               else println (''cargo:warning=UCX version '' @ version_text major minor @ ''.'' @
                 text_of (parts ! 2) @ '' is within supported range ('' @
                 version_text MIN_MAJOR MIN_MINOR @ '', '' @ version_text MAX_MAJOR MAX_MINOR @ '')'')
           | _ \<Rightarrow> skip))"

definition check_version :: "build_env \<Rightarrow> string \<Rightarrow> unit build" where
  "check_version B include_dir =
     (let src_file = path_join (temp_dir B) ''ucx_version_check.c'';
          bin_file = path_join (temp_dir B) ''ucx_version_check''
      in and_then (fs_write B src_file (bytes_of version_check_code)) (\<lambda>r.
         and_then (io_expect ''Failed to write version check C file'' r) (\<lambda>_.
         and_then (compile_check B include_dir src_file bin_file) (\<lambda>success.
         if \<not> success
         then println (''cargo:warning=Failed to compile UCX version check'' @ dash @
           ''skipping version validation'')
         else and_then (\<lambda>s. (Ret (run_program B bin_file (files s)), s)) (\<lambda>output.
              and_then (io_expect ''Failed to run version check program'' output) version_gate)))))"

definition build_script :: "build_env \<Rightarrow> unit build" where
  "build_script B =
     and_then (discover B) (\<lambda>(include_dir, lib_dir).
     and_then (print_lines (link_lines lib_dir)) (\<lambda>_.
     case env_var B ''OUT_DIR'' of
       Inl e \<Rightarrow> fails (expect_failed unwrap_msg (debug_VarError e))
     | Inr out_dir \<Rightarrow>
         (let out = path_join out_dir ''bindings.rs''
          in and_then (println (''cargo:rerun-if-changed='' @ src_bindings)) (\<lambda>_.
             if env_var B ''UCX_GENERATE_BINDINGS'' \<noteq> Inr ''1''
             then and_then (fs_copy B src_bindings out) (\<lambda>r.
                  and_then (or_fail (\<lambda>e. ''Failed to copy pre-generated bindings.rs to OUT_DIR: '' @
                    io_display e) r) (\<lambda>_.
                  println ''cargo:warning=using pre-generated src/bindings.rs (set UCX_GENERATE_BINDINGS=1 to regenerate)''))
             else and_then (generate_bindings B include_dir out) (\<lambda>_. check_version B include_dir)))))"

subsection \<open>What a step writes\<close>

definition changes :: "files \<Rightarrow> files \<Rightarrow> string set" where
  "changes f g = {p. f p \<noteq> g p}"

definition writes :: "string set \<Rightarrow> 'a build \<Rightarrow> bool" where
  "writes P m \<longleftrightarrow> (\<forall>s. changes (files s) (files (snd (m s))) \<subseteq> P)"

named_theorems write_rules \<open>the files a step may change\<close>

lemma writesD: "writes P m \<Longrightarrow> m s = (r, s1) \<Longrightarrow> changes (files s) (files s1) \<subseteq> P"
  unfolding writes_def by (metis snd_conv)

lemma changes_trans:
  assumes "changes f g \<subseteq> P" and "changes g h \<subseteq> P"
  shows "changes f h \<subseteq> P"
proof
  fix p
  assume "p \<in> changes f h"
  then have "p \<in> changes f g \<or> p \<in> changes g h" by (simp add: changes_def, cases "f p = g p") simp_all
  then show "p \<in> P" using assms by blast
qed

lemma writes_and_then [write_rules]:
  assumes "writes P m" and "\<And>x. writes P (f x)"
  shows "writes P (and_then m f)"
  unfolding writes_def
proof
  fix s
  obtain r s1 where m: "m s = (r, s1)" by fastforce
  note c = writesD [OF assms(1) m]
  show "changes (files s) (files (snd (and_then m f s))) \<subseteq> P"
  proof (cases r)
    case (Ret x)
    then show ?thesis using changes_trans [OF c] assms(2) [of x] by (simp add: and_then_def m writes_def)
  qed (use c in \<open>simp_all add: and_then_def m\<close>)
qed

lemma writes_nothing [write_rules]:
  "writes P (produce x)" "writes P (fails msg)" "writes P (print_lines ls)" "writes P (println l)"
  "writes P (or_fail shown r)"
  by (simp_all add: writes_def changes_def produce_def fails_def print_lines_def println_def
      or_fail_def split: sum.split)

lemma writes_copy [write_rules]: "dst \<in> P \<Longrightarrow> writes P (fs_copy B src dst)"
  by (auto simp: writes_def changes_def fs_copy_def split: option.splits if_splits)

lemma writes_write [write_rules]: "path \<in> P \<Longrightarrow> writes P (fs_write B path content)"
  by (auto simp: writes_def changes_def fs_write_def split: option.splits if_splits)

lemma writes_compile [write_rules]: "bin \<in> P \<Longrightarrow> writes P (compile_check B inc c bin)"
  by (auto simp: writes_def changes_def compile_check_def fails_def split: sum.splits option.splits if_splits)

lemma writes_look [write_rules]:
  "writes P (\<lambda>s. (Ret (f s), s))" "writes P (run_bindgen B options)"
  by (simp_all add: writes_def changes_def run_bindgen_def split: prod.split)

lemma writes_gate [write_rules]: "writes P (version_gate out)"
  by (auto simp: version_gate_def Let_def write_rules split: option.split)

lemma writes_discover [write_rules]: "writes P (discover B)"
  by (simp add: discover_def write_rules)

lemma writes_generate [write_rules]: "out \<in> P \<Longrightarrow> writes P (generate_bindings B inc out)"
  unfolding generate_bindings_def
  by (intro writes_and_then) (auto intro!: write_rules split: sum.split prod.split)

lemma writes_check [write_rules]:
  "path_join (temp_dir B) ''ucx_version_check.c'' \<in> P \<Longrightarrow>
   path_join (temp_dir B) ''ucx_version_check'' \<in> P \<Longrightarrow> writes P (check_version B inc)"
  unfolding check_version_def Let_def by (auto intro!: write_rules)

text \<open>C37: The build script leaves the sources alone.  Unless bindings are to be generated the only
  file it changes is \<^verbatim>\<open>bindings.rs\<close> in \<^verbatim>\<open>OUT_DIR\<close>; generating them it changes, besides, the source
  and the program of its version check in the temporary directory.  Without \<^verbatim>\<open>OUT_DIR\<close> it changes
  nothing.  This holds on every path, panics and failed writes included.\<close>

theorem build_writes_only_out_dir:
  "changes (files s) (files (snd (build_script B s))) \<subseteq>
     (case env_var B ''OUT_DIR'' of
        Inl _ \<Rightarrow> {}
      | Inr d \<Rightarrow> insert (path_join d ''bindings.rs'')
          (if env_var B ''UCX_GENERATE_BINDINGS'' = Inr ''1''
           then {path_join (temp_dir B) ''ucx_version_check.c'', path_join (temp_dir B) ''ucx_version_check''}
           else {}))"
proof -
  have "writes (case env_var B ''OUT_DIR'' of Inl _ \<Rightarrow> {} | Inr d \<Rightarrow> insert (path_join d ''bindings.rs'')
      (if env_var B ''UCX_GENERATE_BINDINGS'' = Inr ''1''
       then {path_join (temp_dir B) ''ucx_version_check.c'', path_join (temp_dir B) ''ucx_version_check''}
       else {})) (build_script B)"
    unfolding build_script_def Let_def
    by (cases "env_var B ''OUT_DIR''") (auto intro!: write_rules split: prod.split)
  then show ?thesis by (auto simp: writes_def)
qed

subsection \<open>What a build leaves\<close>

lemma and_then_Ret:
  assumes "and_then m f s = (Ret y, s1)"
  obtains x s2 where "m s = (Ret x, s2)" "f x s2 = (Ret y, s1)"
  using assms by (auto simp: and_then_def split: prod.splits outcome.splits)

lemma simple_Ret [simp]:
  "produce x s = (Ret y, s1) \<longleftrightarrow> y = x \<and> s1 = s"
  "fails msg s = (Ret y, s1) \<longleftrightarrow> False"
  "print_lines ls s = (Ret u, s1) \<longleftrightarrow> s1 = s\<lparr>stdout := stdout s @ ls\<rparr>"
  "println l s = (Ret u, s1) \<longleftrightarrow> s1 = s\<lparr>stdout := stdout s @ [l]\<rparr>"
  "or_fail shown r s = (Ret z, s1) \<longleftrightarrow> r = Inr z \<and> s1 = s"
  by (auto simp: produce_def fails_def print_lines_def println_def or_fail_def split: sum.splits)

lemma copy_Ret:
  "fs_copy B src dst s = (Ret (Inr u), s1) \<Longrightarrow> src \<noteq> dst \<Longrightarrow>
     files s src \<noteq> None \<and> files s1 dst = files s src"
  by (auto simp: fs_copy_def split: option.splits)

lemma write_Ret:
  "fs_write B path content s = (Ret (Inr u), s1) \<Longrightarrow> files s1 path = Some content"
  by (auto simp: fs_write_def split: option.splits)

lemma last_path_join: "p \<noteq> [] \<Longrightarrow> last (path_join d p) = last p"
  by (simp add: path_join_def)

lemma temp_files_differ [simp]:
  "path_join d ''bindings.rs'' \<noteq> path_join t ''ucx_version_check.c''"
  "path_join d ''bindings.rs'' \<noteq> path_join t ''ucx_version_check''"
proof -
  have l: "last (path_join d ''bindings.rs'') = CHR ''s''" "last (path_join t ''ucx_version_check.c'') = CHR ''c''"
    "last (path_join t ''ucx_version_check'') = CHR ''k''"
    by (simp_all add: last_path_join)
  show "path_join d ''bindings.rs'' \<noteq> path_join t ''ucx_version_check.c''"
    by (rule notI, drule arg_cong [of _ _ last]) (simp add: l)
  show "path_join d ''bindings.rs'' \<noteq> path_join t ''ucx_version_check''"
    by (rule notI, drule arg_cong [of _ _ last]) (simp add: l)
qed

definition bindings_for :: "build_env \<Rightarrow> files \<Rightarrow> bytes option" where
  "bindings_for B f =
     (if env_var B ''UCX_GENERATE_BINDINGS'' \<noteq> Inr ''1'' then f src_bindings
      else (case snd (bindgen B (builder (clang_args B (fst (discover_ucx (var_ok B) (path_exists B))))) f) of
          Inl _ \<Rightarrow> f src_bindings
        | Inr b \<Rightarrow> Some b))"

lemma generate_leaves:
  assumes "generate_bindings B inc out s = (Ret u, s1)" and "src_bindings \<noteq> out"
  shows "files s1 out = (case snd (bindgen B (builder (clang_args B inc)) (files s)) of
      Inl _ \<Rightarrow> files s src_bindings | Inr b \<Rightarrow> Some b) \<and> files s1 out \<noteq> None"
  using assms(1) unfolding generate_bindings_def
proof (rule and_then_Ret)
  fix r s2
  assume a: "run_bindgen B (builder (clang_args B inc)) s = (Ret r, s2)"
    and b: "(case r of
       Inr bindings \<Rightarrow>
         and_then (println (''cargo:warning=bindgen succeeded'' @ dash @
           ''fresh bindings written to OUT_DIR only'')) (\<lambda>_.
         and_then (fs_write B out bindings)
           (io_expect ''Failed to write bindings to OUT_DIR''))
     | Inl e \<Rightarrow>
         and_then (println (''cargo:warning=bindgen failed ('' @ e @ '')'' @ dash @
           ''using pre-generated src/bindings.rs as fallback'')) (\<lambda>_.
         and_then (fs_copy B src_bindings out)
           (io_expect ''Failed to copy fallback bindings to OUT_DIR''))) s2 = (Ret u, s1)"
  have r: "snd (bindgen B (builder (clang_args B inc)) (files s)) = r" "files s2 = files s"
    using a by (auto simp: run_bindgen_def split: prod.splits)
  show ?thesis
  proof (cases r)
    case (Inl e)
    from b obtain r3 where "fs_copy B src_bindings out
        (s2\<lparr>stdout := stdout s2 @ [''cargo:warning=bindgen failed ('' @ e @ '')'' @ dash @
           ''using pre-generated src/bindings.rs as fallback'']\<rparr>) = (Ret (Inr r3), s1)"
      by (auto simp: Inl elim!: and_then_Ret)
    from copy_Ret [OF this assms(2)] show ?thesis by (simp add: Inl r)
  next
    case (Inr c)
    from b obtain s3 r3 where "fs_write B out c s3 = (Ret (Inr r3), s1)"
      by (auto simp: Inr elim!: and_then_Ret)
    from write_Ret [OF this] show ?thesis by (simp add: Inr r)
  qed
qed

lemma check_keeps_bindings:
  assumes "check_version B inc s = (r, s1)"
  shows "files s1 (path_join d ''bindings.rs'') = files s (path_join d ''bindings.rs'')"
proof -
  have "writes {path_join (temp_dir B) ''ucx_version_check.c'', path_join (temp_dir B) ''ucx_version_check''}
      (check_version B inc)"
    by (rule writes_check) simp_all
  from writesD [OF this assms]
  have "path_join d ''bindings.rs'' \<notin> changes (files s) (files s1)"
    using temp_files_differ [of d "temp_dir B"] by blast
  then show ?thesis by (simp add: changes_def)
qed


text \<open>A build from a source tree whose bindings are the byte 65, with bindgen asked for but failing.\<close>

definition sample_env :: build_env where
  "sample_env = \<lparr>env_var = \<lambda>v. if v = ''OUT_DIR'' then Inr ''/out''
       else if v = ''UCX_GENERATE_BINDINGS'' then Inr ''1'' else Inl NotPresent,
     path_exists = \<lambda>_. False, temp_dir = ''/tmp'',
     copy_fails = \<lambda>_ _ _. None, write_fails = \<lambda>_ _ _. None, bindgen = \<lambda>_ _. ([], Inl ''no clang''),
     run_cc = \<lambda>_ _. Inr (False, None), run_program = \<lambda>_ _. Inl not_found\<rparr>"

definition sample_state :: build_state where
  "sample_state = \<lparr>files = (\<lambda>_. None)(src_bindings \<mapsto> [65]), stdout = []\<rparr>"

lemma sample_run:
  "fst (build_script sample_env sample_state) = Ret ()"
  "files (snd (build_script sample_env sample_state)) ''/out/bindings.rs'' = Some [65]"
  by (simp_all add: build_script_def sample_env_def sample_state_def discover_def and_then_def print_lines_def
      produce_def discover_ucx_def var_ok_def Let_def println_def src_bindings_def path_join_def
      generate_bindings_def run_bindgen_def fs_copy_def or_fail_def check_version_def fs_write_def
      compile_check_def)


text \<open>The script's version gate, with its messages, is the gate of \<open>Build_Check\<close>.\<close>

lemma version_gate_agrees:
  "case version_check out of
     Ret r \<Rightarrow> fst (version_gate out s) = Ret () \<and> length (stdout (snd (version_gate out s))) = Suc (length (stdout s))
   | _ \<Rightarrow> (\<exists>m. version_gate out s = (Panic m, s))"
  by (auto simp: version_check_def version_gate_def Let_def println_def print_lines_def fails_def
      split: option.split)

end
