(* ===== verification/Thread_Safety.thy ===== *)
theory Thread_Safety
  imports Prelude
begin

text \<open>
  The auto traits: which of the crate's types Rust lets move to another thread (\<^verbatim>\<open>Send\<close>) or be
  shared with one (\<^verbatim>\<open>Sync\<close>).  A type is the tree of its fields; the traits follow the compiler's
  structural rules and the standard library's impls, and an \<^verbatim>\<open>unsafe impl\<close> of the crate overrides
  them.  The assertions of \<^verbatim>\<open>src/threading_assert.rs\<close> are then statements that can be evaluated.
\<close>

subsection \<open>Types\<close>

datatype auto_trait = Send | Sync

text \<open>
  \<open>Plain\<close> is owned data without a pointer (integers, \<^verbatim>\<open>String\<close>, \<^verbatim>\<open>CString\<close>, C-like enums, atomics) or
  a function pointer; \<open>Raw\<close> is \<^verbatim>\<open>*const T\<close>, \<^verbatim>\<open>*mut T\<close> and \<^verbatim>\<open>NonNull<T>\<close>; \<open>Owned\<close> is \<^verbatim>\<open>Box\<close>, \<^verbatim>\<open>Vec\<close>,
  \<^verbatim>\<open>Option\<close> or an array; \<open>Dyn_fn\<close> is a closure object with the auto traits its bound names.
\<close>

datatype rust_type =
    Plain
  | Raw
  | Ref rust_type
  | Mut_ref rust_type
  | Owned rust_type
  | Phantom_data rust_type
  | Arc rust_type
  | Mutex rust_type
  | Dyn_fn "auto_trait list"
  | Struct (unsafe_impls: "auto_trait list") (fields_of: "rust_type list")

fun has :: "auto_trait \<Rightarrow> rust_type \<Rightarrow> bool" where
  "has a Plain = True"
| "has a Raw = False"
| "has a (Ref t) = has Sync t"
| "has a (Mut_ref t) = has a t"
| "has a (Owned t) = has a t"
| "has a (Phantom_data t) = has a t"
| "has a (Arc t) = (has Send t \<and> has Sync t)"
| "has a (Mutex t) = has Send t"
| "has a (Dyn_fn bounds) = (a \<in> set bounds)"
| "has a (Struct impls ts) = (a \<in> set impls \<or> list_all (has a) ts)"

text \<open>\<^verbatim>\<open>assert_impl_all!\<close> and \<^verbatim>\<open>assert_not_impl_any!\<close>.\<close>

definition assert_impl_all :: "rust_type \<Rightarrow> auto_trait list \<Rightarrow> bool" where
  "assert_impl_all t traits = list_all (\<lambda>a. has a t) traits"

definition assert_not_impl_any :: "rust_type \<Rightarrow> auto_trait list \<Rightarrow> bool" where
  "assert_not_impl_any t traits = list_all (\<lambda>a. \<not> has a t) traits"

subsection \<open>The crate's types\<close>

text \<open>The UCX handle types are raw pointers.\<close>

definition Config_type :: rust_type where "Config_type = Struct [] [Raw]"

definition Context_type :: rust_type where "Context_type = Struct [Send, Sync] [Raw]"

definition AmCallback_type :: rust_type where "AmCallback_type = Owned (Dyn_fn [Send])"

definition AmHandler_type :: rust_type where "AmHandler_type = Struct [] [Mutex AmCallback_type]"

text \<open>The flag \<^verbatim>\<open>progressing\<close> exists in debug builds only.\<close>

definition Worker_type :: "bool \<Rightarrow> rust_type" where
  "Worker_type debug = Struct []
     ([Raw, Arc Plain, Owned (Arc AmHandler_type)] @ (if debug then [Plain] else []))"

definition MtWorkerInner_type :: "bool \<Rightarrow> rust_type" where
  "MtWorkerInner_type debug = Struct [] [Mutex (Worker_type debug)]"

definition MtWorker_type :: "bool \<Rightarrow> rust_type" where
  "MtWorker_type debug = Struct [Send, Sync] [Arc (MtWorkerInner_type debug)]"

definition WorkerAddress_type :: "bool \<Rightarrow> rust_type" where
  "WorkerAddress_type debug = Struct [] [Raw, Plain, Ref (Worker_type debug)]"

definition RemoteWorkerAddress_type :: rust_type where
  "RemoteWorkerAddress_type = Struct [] [Owned Plain]"

definition Ep_type :: rust_type where "Ep_type = Struct [] [Raw, Arc Plain]"

definition EpHandle_type :: rust_type where "EpHandle_type = Struct [] [Raw]"

definition Request_type :: rust_type where "Request_type = Struct [] [Owned Raw]"

definition RequestState_type :: rust_type where
  "RequestState_type = Struct [] [Struct [] [Plain, Plain]]"

definition RequestAttr_type :: rust_type where "RequestAttr_type = Struct [] [Plain]"

definition TagRequest_type :: "bool \<Rightarrow> rust_type" where
  "TagRequest_type debug = Struct [] [Ref (Worker_type debug), Owned Raw, Phantom_data (Ref (Owned Plain))]"

definition TagInfo_type :: rust_type where "TagInfo_type = Struct [] [Plain, Plain]"

definition MessageHandle_type :: rust_type where
  "MessageHandle_type = Struct [] [Raw, TagInfo_type, Plain]"

definition StreamRequest_type :: "bool \<Rightarrow> rust_type" where
  "StreamRequest_type debug = Struct []
     [Owned Request_type, Ref (Worker_type debug), Plain, Phantom_data (Mut_ref (Owned Plain))]"

definition StreamData_type :: rust_type where "StreamData_type = Struct [] [Ref Ep_type, Raw, Plain]"

definition StreamPollEvent_type :: rust_type where
  "StreamPollEvent_type = Struct [] [EpHandle_type, Raw, Plain]"

definition MemHandle_type :: rust_type where "MemHandle_type = Struct [] [Raw, Raw]"

definition MemHandleGuard_type :: rust_type where
  "MemHandleGuard_type = Struct [] [MemHandle_type, Phantom_data (Mut_ref (Owned Plain))]"

definition PackedMemhBuffer_type :: rust_type where "PackedMemhBuffer_type = Struct [] [Raw, Plain]"

definition PackedRkeyBuffer_type :: rust_type where
  "PackedRkeyBuffer_type = Struct [] [Raw, Plain, Owned Plain]"

definition RemoteKey_type :: rust_type where "RemoteKey_type = Struct [] [Raw, Arc Plain]"

definition FetchAmoRequest_type :: "bool \<Rightarrow> rust_type \<Rightarrow> rust_type" where
  "FetchAmoRequest_type debug t = Struct []
     [Owned Request_type, Ref (Worker_type debug), Phantom_data (Mut_ref t)]"

text \<open>The listener's state keeps its handle as an integer, so that no \<^verbatim>\<open>unsafe impl\<close> is needed.\<close>

definition ConnCallback_type :: rust_type where "ConnCallback_type = Owned (Dyn_fn [Send])"

definition ListenerState_type :: rust_type where
  "ListenerState_type = Struct [] [Mutex Plain, Owned (Mutex ConnCallback_type)]"

definition Listener_type :: rust_type where "Listener_type = Struct [] [Arc ListenerState_type]"

definition ConnRequest_type :: rust_type where
  "ConnRequest_type = Struct [] [Raw, Arc ListenerState_type]"

definition ContextAttr_type :: rust_type where
  "ContextAttr_type = Struct [] [Plain, Plain, Plain, Plain]"

definition LibAttr_type :: rust_type where "LibAttr_type = Struct [] [Plain]"

definition DataTypeAttr_type :: rust_type where "DataTypeAttr_type = Struct [] [Plain, Raw, Plain]"

definition crate_types :: "bool \<Rightarrow> rust_type list" where
  "crate_types debug = [Config_type, Context_type, AmHandler_type, Worker_type debug,
     MtWorkerInner_type debug, MtWorker_type debug, WorkerAddress_type debug,
     RemoteWorkerAddress_type, Ep_type, EpHandle_type, Request_type, RequestState_type,
     RequestAttr_type, TagRequest_type debug, TagInfo_type, MessageHandle_type,
     StreamRequest_type debug, StreamData_type, StreamPollEvent_type, MemHandle_type,
     MemHandleGuard_type, PackedMemhBuffer_type, PackedRkeyBuffer_type, RemoteKey_type,
     FetchAmoRequest_type debug Plain, ListenerState_type, Listener_type, ConnRequest_type,
     ContextAttr_type, LibAttr_type, DataTypeAttr_type]"

subsection \<open>The assertions\<close>

definition threading_assert :: "bool \<Rightarrow> bool" where
  "threading_assert debug \<longleftrightarrow>
     assert_impl_all Context_type [Send, Sync] \<and>
     assert_impl_all AmHandler_type [Send, Sync] \<and>
     assert_not_impl_any (Worker_type debug) [Send, Sync] \<and>
     assert_impl_all (MtWorker_type debug) [Send, Sync] \<and>
     assert_not_impl_any Ep_type [Send, Sync] \<and>
     assert_not_impl_any Request_type [Send, Sync] \<and>
     assert_not_impl_any RemoteKey_type [Send, Sync] \<and>
     assert_not_impl_any MemHandle_type [Send, Sync] \<and>
     assert_not_impl_any (FetchAmoRequest_type debug Plain) [Send, Sync] \<and>
     assert_not_impl_any StreamData_type [Send, Sync] \<and>
     assert_not_impl_any MemHandleGuard_type [Send, Sync] \<and>
     assert_not_impl_any (WorkerAddress_type debug) [Send, Sync] \<and>
     assert_impl_all ContextAttr_type [Send, Sync] \<and>
     assert_impl_all LibAttr_type [Send, Sync] \<and>
     assert_impl_all RequestState_type [Send, Sync] \<and>
     assert_impl_all RequestAttr_type [Send, Sync] \<and>
     assert_impl_all Plain [Send, Sync] \<and>
     assert_impl_all (Struct [] [Plain, Plain]) [Send, Sync]"

subsection \<open>What the unsafe impls add\<close>

fun strip :: "rust_type \<Rightarrow> rust_type" where
  "strip (Ref t) = Ref (strip t)"
| "strip (Mut_ref t) = Mut_ref (strip t)"
| "strip (Owned t) = Owned (strip t)"
| "strip (Phantom_data t) = Phantom_data (strip t)"
| "strip (Arc t) = Arc (strip t)"
| "strip (Mutex t) = Mutex (strip t)"
| "strip (Struct impls ts) = Struct [] (map strip ts)"
| "strip t = t"

fun raw_inside :: "rust_type \<Rightarrow> bool" where
  "raw_inside Plain = False"
| "raw_inside Raw = True"
| "raw_inside (Ref t) = raw_inside t"
| "raw_inside (Mut_ref t) = raw_inside t"
| "raw_inside (Owned t) = raw_inside t"
| "raw_inside (Phantom_data t) = raw_inside t"
| "raw_inside (Arc t) = raw_inside t"
| "raw_inside (Mutex t) = raw_inside t"
| "raw_inside (Dyn_fn bounds) = False"
| "raw_inside (Struct impls ts) = list_ex raw_inside ts"

definition vouched_for :: "rust_type \<Rightarrow> bool" where
  "vouched_for t \<longleftrightarrow> (has Send t \<and> \<not> has Send (strip t)) \<or> (has Sync t \<and> \<not> has Sync (strip t))"

lemma strip_has: "has a (strip t) \<Longrightarrow> has a t"
  by (induction t arbitrary: a rule: strip.induct) (auto simp: list_all_iff)

lemma strip_raw: "has a (strip t) \<Longrightarrow> \<not> raw_inside t"
  by (induction t arbitrary: a rule: strip.induct) (auto simp: list_all_iff list_ex_iff)

lemmas type_defs = Config_type_def Context_type_def AmCallback_type_def AmHandler_type_def
  Worker_type_def MtWorkerInner_type_def MtWorker_type_def WorkerAddress_type_def
  RemoteWorkerAddress_type_def Ep_type_def EpHandle_type_def Request_type_def RequestState_type_def
  RequestAttr_type_def TagRequest_type_def TagInfo_type_def MessageHandle_type_def
  StreamRequest_type_def StreamData_type_def StreamPollEvent_type_def MemHandle_type_def
  MemHandleGuard_type_def PackedMemhBuffer_type_def PackedRkeyBuffer_type_def RemoteKey_type_def
  FetchAmoRequest_type_def ConnCallback_type_def ListenerState_type_def Listener_type_def
  ConnRequest_type_def ContextAttr_type_def LibAttr_type_def DataTypeAttr_type_def

lemma threading_asserts: "threading_assert debug"
  by (simp add: threading_assert_def assert_impl_all_def assert_not_impl_any_def type_defs)

lemma vouched_types: "filter vouched_for (crate_types debug) = [Context_type, MtWorker_type debug]"
  by (simp add: crate_types_def vouched_for_def type_defs)

text \<open>What may cross threads.  In both builds every assertion of \<^verbatim>\<open>threading_assert.rs\<close> holds;
  of all the crate's types only contexts and shared workers cross threads against the rules for
  their fields, by their own \<^verbatim>\<open>unsafe impl\<close>s; and every other type that may cross, the listener
  and the message handlers included, holds no raw pointer at any depth.\<close>

theorem threads_share_only_vouched_pointers:
  "threading_assert debug \<and>
   filter vouched_for (crate_types debug) = [Context_type, MtWorker_type debug] \<and>
   filter (\<lambda>t. raw_inside t \<and> (has Send t \<or> has Sync t)) (crate_types debug) =
     [Context_type, MtWorker_type debug] \<and>
   has Send Listener_type \<and> has Sync Listener_type \<and> \<not> has Send ConnRequest_type"
proof (intro conjI)
  show "filter (\<lambda>t. raw_inside t \<and> (has Send t \<or> has Sync t)) (crate_types debug) =
      [Context_type, MtWorker_type debug]"
    by (simp add: crate_types_def type_defs)
qed (rule threading_asserts vouched_types | simp add: type_defs)+

end
