(* ===== verification/Accessors.thy ===== *)
theory Accessors
  imports Ucx_Stream Tag Memh Active_Message Listener Context_Config Dt_Version Layout
begin

text \<open>
  The small public surface of the wrappers: accessors that read a field, the \<^verbatim>\<open>Default\<close> instances
  of the builders, field-mask constants, and the compile-time assertions on the wrappers that stand
  in for a foreign type.
\<close>

subsection \<open>Reading a field\<close>

definition StreamPollEvent_ep_handle :: "StreamPollEvent \<Rightarrow> EpHandle" where
  "StreamPollEvent_ep_handle e = spev_ep e"

definition StreamPollEvent_user_data :: "StreamPollEvent \<Rightarrow> ptr" where
  "StreamPollEvent_user_data e = spev_user_data e"

definition StreamPollEvent_flags :: "StreamPollEvent \<Rightarrow> u32" where
  "StreamPollEvent_flags e = spev_flags e"

definition StreamData_len :: "StreamData \<Rightarrow> usize" where
  "StreamData_len d = sd_length d"

definition TagInfo_len :: "TagInfo \<Rightarrow> usize" where
  "TagInfo_len i = ti_length i"

definition TagInfo_sender_tag :: "TagInfo \<Rightarrow> u64" where
  "TagInfo_sender_tag i = ti_sender_tag i"

definition TagRequest_worker :: "TagRequest \<Rightarrow> Worker" where
  "TagRequest_worker t = tr_worker t"

definition MemHandle_as_raw :: "MemHandle \<Rightarrow> ptr" where
  "MemHandle_as_raw m = memh_handle m"

definition MemAttr_address :: "MemAttr \<Rightarrow> ptr" where
  "MemAttr_address a = mema_address a"

definition MemAttr_length :: "MemAttr \<Rightarrow> usize" where
  "MemAttr_length a = mema_length a"

definition PackedMemhBuffer_as_ptr :: "PackedMemhBuffer \<Rightarrow> ptr" where
  "PackedMemhBuffer_as_ptr b = pmb_buffer b"

definition PackedMemhBuffer_len :: "PackedMemhBuffer \<Rightarrow> usize" where
  "PackedMemhBuffer_len b = pmb_length b"

definition PackedRkeyBuffer_as_ptr :: "PackedRkeyBuffer \<Rightarrow> ptr" where
  "PackedRkeyBuffer_as_ptr b = prb_buffer b"

definition PackedRkeyBuffer_size :: "PackedRkeyBuffer \<Rightarrow> usize" where
  "PackedRkeyBuffer_size b = prb_size b"

definition RequestAttrFields_bits :: "RequestAttrFields \<Rightarrow> u64" where
  "RequestAttrFields_bits f = raf_bits f"

definition EpHandle_from :: "ptr \<Rightarrow> EpHandle" where
  "EpHandle_from handle = EpHandle handle"

definition ucp_ep_h_from :: "EpHandle \<Rightarrow> ptr" where
  "ucp_ep_h_from handle = ep_raw handle"

subsection \<open>\<^verbatim>\<open>Default\<close>\<close>

definition RequestParamBuilder_default :: RequestParamBuilder where
  "RequestParamBuilder_default = RequestParamBuilder_new"

definition MemMapParamsBuilder_default :: MemMapParamsBuilder where
  "MemMapParamsBuilder_default = MemMapParamsBuilder_new"

definition MemAdviseParamsBuilder_default :: MemAdviseParamsBuilder where
  "MemAdviseParamsBuilder_default = MemAdviseParamsBuilder_new"

definition MemhPackParamsBuilder_default :: MemhPackParamsBuilder where
  "MemhPackParamsBuilder_default = MemhPackParamsBuilder_new"

definition HandlerParamsBuilder_default :: HandlerParamsBuilder where
  "HandlerParamsBuilder_default = HandlerParamsBuilder_new"

definition ContextParamsBuilder_default :: ContextParamsBuilder where
  "ContextParamsBuilder_default = ContextParamsBuilder_new"

definition ListenerParamsBuilder_default :: ListenerParamsBuilder where
  "ListenerParamsBuilder_default = ListenerParamsBuilder_new"

definition EpParamsBuilder_default :: EpParamsBuilder where
  "EpParamsBuilder_default = EpParamsBuilder_new"

definition ModifyParamsBuilder_default :: ModifyParamsBuilder where
  "ModifyParamsBuilder_default = ModifyParamsBuilder_new"

definition WorkerParamsBuilder_default :: WorkerParamsBuilder where
  "WorkerParamsBuilder_default = WorkerParamsBuilder_new"

subsection \<open>Constants\<close>

definition UCP_DT_ATTR_FIELD_PACKED_SIZE :: u64 where "UCP_DT_ATTR_FIELD_PACKED_SIZE = 1"
definition UCP_DT_ATTR_FIELD_BUFFER :: u64 where "UCP_DT_ATTR_FIELD_BUFFER = 2"
definition UCP_DT_ATTR_FIELD_COUNT :: u64 where "UCP_DT_ATTR_FIELD_COUNT = 4"

subsection \<open>Compile-time assertions\<close>

text \<open>\<^verbatim>\<open>request.rs\<close> repeats the assertions that \<^verbatim>\<open>status.rs\<close> makes of the decoder's literals.\<close>

definition request_discriminants_pinned :: bool where
  "request_discriminants_pinned \<longleftrightarrow> status_discriminants_pinned"

text \<open>
  A wrapper that UCX reads or writes in place of the foreign type it wraps has that type's size and
  alignment: it is a structure with the one field.
\<close>

definition stands_in_for :: "ctype \<Rightarrow> ctype \<Rightarrow> bool" where
  "stands_in_for wrapper foreign \<longleftrightarrow>
     size_of wrapper = size_of foreign \<and> align_of wrapper = align_of foreign"

definition status_layout_asserted :: bool where
  "status_layout_asserted \<longleftrightarrow> stands_in_for (C_struct [C_scalar C_enum_i8]) (C_scalar C_enum_i8)"

definition am_recv_param_layout_asserted :: bool where
  "am_recv_param_layout_asserted \<longleftrightarrow>
     (let foreign = C_struct (map snd ucp_am_recv_param_fields) in stands_in_for (C_struct [foreign]) foreign)"

definition stream_poll_ep_layout_asserted :: bool where
  "stream_poll_ep_layout_asserted \<longleftrightarrow>
     (let foreign = C_struct (map snd ucp_stream_poll_ep_fields) in stands_in_for (C_struct [foreign]) foreign)"

lemma wrapper_layouts:
  "request_discriminants_pinned \<and> status_layout_asserted \<and> am_recv_param_layout_asserted \<and>
   stream_poll_ep_layout_asserted"
  by (simp add: request_discriminants_pinned_def status_discriminants_pinned status_layout_asserted_def
      am_recv_param_layout_asserted_def stream_poll_ep_layout_asserted_def stands_in_for_def
      ucp_am_recv_param_fields_def ucp_stream_poll_ep_fields_def Let_def max_of_def round_up_def)

end
