(* ===== verification/Spec2Isabelle.thy ===== *)
theory Spec2Isabelle
  imports Layout_Libc Bitfield Teardown Examples Mt_Finish Liveness Am_Dispatch
    Unit_Tests Library_Tests Build_Script Thread_Safety Accessors
begin

text \<open>
  A verification development for \<^verbatim>\<open>ucx-sys\<close>, the Rust bindings for UCX's UCP interface.  The
  crate is a layer of owning wrappers over a C library: its logic is the decoding of statuses,
  the filling of parameter structures under a field mask, the ownership of handles, the bounded
  completion loops, the flags that order teardown, and the trampolines UCX calls back.  That
  logic is modelled here; the paths below are relative to the crate's root.

  \<^bold>\<open>Conventions.\<close>  Machine integers are words of their width (signed reading by \<open>sint\<close>), addresses
  64-bit words with null \<open>0\<close>.  A \<^verbatim>\<open>Result<T, E>\<close> is a sum with the error on the left.  An operation
  that can unwind or abort returns an \<open>outcome\<close>: \<open>Ret\<close>, \<open>Panic\<close> or \<open>Abort\<close>.  State is passed
  explicitly as a \<open>world\<close>: UCX's own state, the memory, the shared \<^verbatim>\<open>AtomicBool\<close> cells, the shared
  listener states, a log of the foreign calls and one of the lines on standard error.  UCX and
  libc are not part of the crate: they are the parameter \<open>lib\<close> of the environment \<open>E\<close>, an
  arbitrary function from a call, UCX's state and the memory to what the call returns and
  leaves; nothing is assumed of it except in \<open>Liveness\<close> and \<open>Mt_Finish\<close>, so the theorems hold for any behaviour of
  UCX the model can express.  The other component of \<open>E\<close> tells debug from release builds.  A borrowed slice is
  an address and a length.  The drop glue of Rust is written out where a value's life ends,
  unwinding included.  Builder types of the modules are told apart by a prefix (\<open>wpb_\<close>,
  \<open>epb_\<close>, \<open>cpb_\<close>, \<open>mmb_\<close>, \<open>mab_\<close>, \<open>mpk_\<close>, \<open>hpb_\<close>, \<open>lpb_\<close>, \<open>rpb_\<close>, \<open>mpb_\<close>) and
  methods by their type (\<open>Worker_flush\<close> is \<^verbatim>\<open>Worker::flush\<close>).

  \<^bold>\<open>Shared theories.\<close>
  \<^item> \<open>Prelude\<close>: outcomes and their sequencing, words and little-endian bytes, and the locale
    \<open>bounded_poll\<close>, the interface of every completion loop (check, progress, repeat), with
    \<open>spin\<close>, the closed description of such a loop.
  \<^item> \<open>Status\<close>: \<^verbatim>\<open>src/status.rs\<close> and the status-pointer helpers of \<^verbatim>\<open>src/request.rs\<close>.
  \<^item> \<open>Native_Enums\<close>: the enums of \<^verbatim>\<open>src/thread_mode.rs\<close>, \<^verbatim>\<open>src/memory_type.rs\<close>,
    \<^verbatim>\<open>src/error_handler_mode.rs\<close> and of atomics and advice, under the locale \<open>enum_conversion\<close>.
  \<^item> \<open>Ffi_Types\<close>, \<open>Ffi\<close>: the structures, masks and functions of \<^verbatim>\<open>src/bindings.rs\<close> the wrappers
    use, and the foreign call itself; \<open>Layout\<close>, \<open>Layout_Libc\<close>: the \<^verbatim>\<open>repr(C)\<close> layout of the
    structures of UCX and of libc, the sizes, alignments and offsets the bindings assert, and
    what a store by one side and a load by the other mean;
    \<open>Bitfield\<close>: the storage unit of C bit fields in the same file.
  \<^item> \<open>Cstr\<close>: \<^verbatim>\<open>CString::new\<close>, \<^verbatim>\<open>CStr::from_ptr\<close> and \<^verbatim>\<open>to_string_lossy\<close> of the standard library.
  \<^item> \<open>Contracts\<close>: the locales \<open>mask_builder\<close> (a chain of setters accumulates a field mask),
    \<open>owned\<close> (a wrapper's handle is released exactly once, last) and \<open>counted\<close> (shared owners,
    the last of which destroys).

  \<^bold>\<open>Components.\<close>
  \<^item> \<open>Request\<close>, \<open>File_Stream\<close>: the owning request of \<^verbatim>\<open>src/request.rs\<close> with its parameter
    builder; the \<^verbatim>\<open>dup\<close>/\<^verbatim>\<open>fdopen\<close> protocol of the printers in \<^verbatim>\<open>src/config.rs\<close>.
  \<^item> \<open>Worker\<close>: \<^verbatim>\<open>src/worker/worker.rs\<close>, \<^verbatim>\<open>params.rs\<close> and \<^verbatim>\<open>address.rs\<close>: the progress guard, waiting,
    querying, and the drop that marks the worker dead, flushes, polls and destroys.
  \<^item> \<open>Mt_Worker\<close>: the shared worker of the same file, an operation under its mutex one step;
    \<open>Mt_Code\<close>: the same methods as the instructions of their code (taking the lock, the foreign
    calls, the debug guard, giving the lock back), which run alone are the whole operations;
    \<open>Mt_Lock\<close>: the steps of threads that run such code side by side, with a history;
    \<open>Mt_Finish\<close>: that threads which do not wait for events come to their end, and the deadlock
    of a waiting thread with the one that would signal it.
  \<^item> \<open>Conn_Request\<close>, \<open>Sockaddr\<close>, \<open>Endpoint\<close>: \<^verbatim>\<open>src/ep/\<close>, with the connection requests and socket
    addresses it takes; an endpoint shares its worker's liveness flag.
  \<^item> \<open>Listener\<close>: \<^verbatim>\<open>src/listener.rs\<close>: reference-counted listener states, the connection trampoline,
    and a step relation over deliveries, rejections and drops.
  \<^item> \<open>Tag\<close>, \<open>Ucx_Stream\<close>, \<open>Active_Message\<close>: \<^verbatim>\<open>src/tag.rs\<close>, \<^verbatim>\<open>src/stream.rs\<close>, \<^verbatim>\<open>src/am.rs\<close>;
    \<open>Completion_Guard\<close> is the loop the stream and atomic guards share; \<open>Am_Dispatch\<close> is progress
    with the messages UCX delivers to the trampoline inside it.
  \<^item> \<open>Context_Config\<close>: \<^verbatim>\<open>src/context.rs\<close> and \<^verbatim>\<open>src/config.rs\<close>.
  \<^item> \<open>Memh\<close>, \<open>Remote_Key\<close>, \<open>Atomics\<close>: \<^verbatim>\<open>src/memh.rs\<close> and \<^verbatim>\<open>src/rma/\<close>; \<open>Dt_Version\<close>:
    \<^verbatim>\<open>src/dt.rs\<close> and \<^verbatim>\<open>src/version.rs\<close>; \<open>Build_Check\<close>: the discovery and version gate of
    \<^verbatim>\<open>build.rs\<close>; \<open>Build_Script\<close>: its whole \<^verbatim>\<open>main\<close>, with what it prints and the files it writes.
  \<^item> \<open>Accessors\<close>: field readers, \<^verbatim>\<open>Default\<close> instances and constants of all the wrappers;
    \<open>Thread_Safety\<close>: the auto traits of the crate's types, from their fields and \<^verbatim>\<open>unsafe impl\<close>s.
  \<^item> \<open>Teardown\<close>: a program that owns a worker and its endpoints and ends them in any order, and
    its refinement of an abstract lifecycle machine.
  \<^item> \<open>Scope\<close>: a program over contexts, configurations, workers, addresses, endpoints, memory
    handles, remote keys and requests as local variables, dropped newest first at its end or while
    a panic unwinds; \<open>Program\<close>: statements over such locals, and a judgement, proved rule by rule,
    that a statement's accounts of created and released handles balance.
  \<^item> \<open>Formatting\<close>: the \<^verbatim>\<open>Debug\<close> and \<^verbatim>\<open>Display\<close> implementations written by hand, and the messages
    of panics; \<open>Examples\<close>: the five programs of \<^verbatim>\<open>examples/\<close>.
  \<^item> \<open>Liveness\<close>: the completion loops of all components, under the assumption about UCX
    that progressing a worker brings a pending request nearer to its end.
  \<^item> \<open>Unit_Tests\<close>: the crate's unit tests that need no UCX, as predicates that hold of the model;
    \<open>Library_Tests\<close>: those that need it, as programs, with the set-up of \<^verbatim>\<open>src/tests.rs\<close>.

  \<^bold>\<open>What the theorems show.\<close>
  \<^item> Decoding: status pointers and request statuses are classified exactly; queries report the
    fields asked for; names are valid UTF-8 whatever UCX wrote.
  \<^item> Parameters: every builder gives UCX the union of the bits of the setters called and the
    last values; chains are refused exactly on interior NULs or conflicting flags.
  \<^item> Ownership: requests, memory handles, listeners and workers are released exactly once, by
    the last owner, on every path; request buffers are not given back before completion, except
    that the debug panic of \<^verbatim>\<open>progress\<close> frees the request of a stream, fetch or close loop while it
    unwinds; a whole program gives back every handle once, in the reverse of the order of creation; so do
    the examples and the tests, whichever step fails.
  \<^item> Order: of an endpoint's methods, \<^verbatim>\<open>destroy\<close>, \<^verbatim>\<open>disconnect_nb\<close> and the drop never reach UCX once
    its worker was destroyed, nor does \<^verbatim>\<open>close\<close> with the worker itself, which must be alive for it;
    \<^verbatim>\<open>flush\<close>, \<^verbatim>\<open>close\<close> with another worker and the data operations do not look (lemmas
    \<open>flush_outlives_worker\<close> and \<open>close_ignores_alive\<close>).  Remote keys of another or dead worker are
    not compared.
  \<^item> Threads that share a worker exclude each other; their operations are serialisable if none is
    \<^verbatim>\<open>wait_request\<close>, whose checks are made without the lock; they all come to their end if none
    waits for an event and the other foreign calls return.  A thread in \<^verbatim>\<open>MtWorker::wait\<close> and one
    in \<^verbatim>\<open>MtWorker::signal\<close> can hang (\<open>wait_beside_signal_hangs\<close>).
  \<^item> Containment: no panic of a closure crosses a trampoline; UCX never calls a freed closure.
  \<^item> Liveness: when progress drains a request, every completion loop ends with it complete.
  \<^item> Auto traits: of the types that may cross threads only contexts and shared workers hold a raw
    pointer, each by its \<^verbatim>\<open>unsafe impl\<close>.
  \<^item> Build: the build script changes no file but its own outputs, leaves bindings there,
    and the gate accepts 1.19 to 1.22, for any output of the check program (which at this commit
    does not compile, so that the gate is skipped).
  \<^item> Layout: for all 79 blocks of layout assertions, what C stores at the asserted offset of a field
    Rust loads from the declared field and the reverse, and no other field of a structure changes.
  \<^item> Round trips: key framing, socket addresses, bit fields, atomic operands; equivalences of the doubled
    interfaces (packing, waiting, fetching and deprecated atomics).

  \<^bold>\<open>Bounds.\<close>  Every loop of the library runs at most 1,000,000 rounds, and the recursion counts the
  rounds left, so no fuel is invented: running out is the behaviour of the code, with its own
  result (\<^verbatim>\<open>Ok(false)\<close>, a time-out, a leak or an abort), and the theorems say which.  The
  loops of an example and of some tests have no bound: there not ending is the value \<open>None\<close>.

  \<^bold>\<open>Not modelled.\<close>
  \<^item> Functions, constants and type aliases of the generated bindings that no wrapper uses.
  \<^item> Callbacks nested inside a foreign call, but for the active messages of \<open>Am_Dispatch\<close>: the
    listener's trampoline runs as a step of its own, between calls, and a closure of \<^verbatim>\<open>with_worker\<close> is a
    sequence of worker methods, and one that enters the shared worker again is left out; weak
    memory and poisoning by a panic outside the crate's own code are absent.
  \<^item> Lifetimes, facts of Rust's borrow checker; of the tests those that only name a signature, call
    a callback through its raw pointer, wrap a worker in \<^verbatim>\<open>MtWorker\<close>, or write a file.
  \<^item> The derived \<^verbatim>\<open>Debug\<close> output of most types, plain re-exports (\<^verbatim>\<open>src/lib.rs\<close>,
    \<^verbatim>\<open>src/ffi.rs\<close>), and what the examples print on standard output.
\<close>

end
